(* ===== verification/Prelude.thy ===== *)
theory Prelude
  imports Main "HOL-Library.Word" "HOL-Library.Multiset"
begin

text \<open>
  What the components share: names for the C integer types, the C operators that differ from
  their HOL namesakes, the two loop shapes the sources use again and again (a scan for the first
  free array slot; a loop that returns 1 at the first call that fails), and their generic lemmas.

  C's \<open>int\<close> is HOL's \<^typ>\<open>int\<close> (the development proves range lemmas for the values that are kept
  in \<open>int\<close> variables), \<open>uint8_t\<close>, \<open>uint16_t\<close> and \<open>uint32_t\<close>/\<open>unsigned\<close> are words of that width;
  \<open>int16_t\<close> is a word of 16 bits, read with \<open>sint\<close>.
\<close>

unbundle bit_operations_syntax

type_synonym u8 = "8 word"
type_synonym u16 = "16 word"
type_synonym u32 = "32 word"
type_synonym i16 = "16 word"

text \<open>A pointer argument, where the code only asks whether it is \<open>NULL\<close>.\<close>

datatype ptr = NULL | Addr

named_theorems shape \<open>frame facts: which fields an operation leaves alone\<close>
named_theorems keeps \<open>invariant preservation, one fact per operation\<close>


subsection \<open>C operators\<close>

text \<open>C divides towards zero; \<open>%\<close> is the matching remainder.\<close>

definition c_div :: "int \<Rightarrow> int \<Rightarrow> int" where
  "c_div a b = sgn a * sgn b * (\<bar>a\<bar> div \<bar>b\<bar>)"

definition c_mod :: "int \<Rightarrow> int \<Rightarrow> int" where
  "c_mod a b = a - b * c_div a b"

lemma c_div_nonneg [simp]: "0 \<le> a \<Longrightarrow> 0 < b \<Longrightarrow> c_div a b = a div b"
  by (cases "a = 0") (simp_all add: c_div_def)

lemma c_mod_nonneg [simp]: "0 \<le> a \<Longrightarrow> 0 < b \<Longrightarrow> c_mod a b = a mod b"
  by (simp add: c_mod_def minus_mult_div_eq_mod)

text \<open>The macro \<open>BIT(n)\<close>, at the width of the operand it is combined with.\<close>

definition BIT :: "nat \<Rightarrow> 'a::len word" where
  "BIT n = push_bit n 1"

lemma and_BIT_eq_0 [simp]: "w AND BIT n = 0 \<longleftrightarrow> \<not> bit w n" for w :: "'a::len word"
proof
  assume "w AND BIT n = 0"
  then have "\<not> bit (w AND BIT n) n" by simp
  then show "\<not> bit w n"
    by (auto simp: BIT_def bit_and_iff bit_exp_iff possible_bit_def dest: bit_imp_le_length)
next
  assume "\<not> bit w n"
  then show "w AND BIT n = 0"
    by (intro bit_word_eqI) (auto simp: BIT_def bit_and_iff bit_exp_iff)
qed

text \<open>Two bytes are equal if their eight bits are.\<close>

lemma u8_eqI:
  fixes v w :: u8
  assumes "bit v 0 = bit w 0" "bit v 1 = bit w 1" "bit v 2 = bit w 2" "bit v 3 = bit w 3"
    "bit v 4 = bit w 4" "bit v 5 = bit w 5" "bit v 6 = bit w 6" "bit v 7 = bit w 7"
  shows "v = w"
proof (rule bit_word_eqI)
  fix n
  assume "n < LENGTH(8)"
  then have "n = 0 \<or> n = 1 \<or> n = 2 \<or> n = 3 \<or> n = 4 \<or> n = 5 \<or> n = 6 \<or> n = 7" by auto
  then show "bit v n = bit w n" using assms by metis
qed

lemma div_round_up: "0 < n \<Longrightarrow> (k * n + n - 1) div n = k" for k n :: nat
proof -
  assume n: "0 < n"
  then have "k * n + n - 1 = (n - 1) + k * n" by simp
  with n show ?thesis by (simp only: div_mult_self1) simp
qed

lemma unat_of_nat32: "n < 2 ^ 32 \<Longrightarrow> unat (of_nat n :: u32) = n"
  by (simp add: unsigned_of_nat take_bit_nat_eq_self)

lemma unat_of_nat16: "n < 2 ^ 16 \<Longrightarrow> unat (of_nat n :: u16) = n"
  by (simp add: unsigned_of_nat take_bit_nat_eq_self)

lemma int_and_255: "x AND 255 = x mod 256" for x :: int
  using take_bit_eq_mask [of 8 x] by (simp add: mask_eq_exp_minus_1 take_bit_eq_mod)


subsection \<open>Loops that stop at the first failing call\<close>

text \<open>
  \<open>for (...) { if (f(i) != 0) return 1; } return 0;\<close> over the values of the loop variable.
\<close>

fun for_fail :: "('a \<Rightarrow> 's \<Rightarrow> int \<times> 's) \<Rightarrow> 'a list \<Rightarrow> 's \<Rightarrow> int \<times> 's" where
  "for_fail f [] s = (0, s)"
| "for_fail f (i # is) s =
     (case f i s of (r, s') \<Rightarrow> if r \<noteq> 0 then (1, s') else for_fail f is s')"

lemma for_fail_result: "fst (for_fail f is s) \<in> {0, 1}"
  by (induction f "is" s rule: for_fail.induct) (auto split: prod.splits)

lemma for_fail_inv:
  assumes "\<And>i s. i \<in> set is \<Longrightarrow> P s \<Longrightarrow> P (snd (f i s))" and "P s"
  shows "P (snd (for_fail f is s))"
  using assms
proof (induction "is" arbitrary: s)
  case (Cons i "is")
  have "P (snd (f i s))" using Cons.prems by simp
  with Cons show ?case by (cases "f i s") auto
qed simp

lemma for_fail_ok:
  assumes "\<And>i s. i \<in> set is \<Longrightarrow> P s \<Longrightarrow> fst (f i s) = 0 \<and> P (snd (f i s))" and "P s"
  shows "fst (for_fail f is s) = 0" and "P (snd (for_fail f is s))"
proof -
  have "fst (for_fail f is s) = 0 \<and> P (snd (for_fail f is s))"
    using assms
  proof (induction "is" arbitrary: s)
    case (Cons i "is")
    have "fst (f i s) = 0 \<and> P (snd (f i s))" using Cons.prems by simp
    with Cons show ?case by (cases "f i s") auto
  qed simp
  then show "fst (for_fail f is s) = 0" "P (snd (for_fail f is s))" by auto
qed

lemma for_fail_stop:
  assumes "i \<in> set is" and "\<And>j s. j \<in> set is \<Longrightarrow> P s \<Longrightarrow> P (snd (f j s))"
    and "\<And>s. P s \<Longrightarrow> fst (f i s) \<noteq> 0" and "P s"
  shows "fst (for_fail f is s) = 1"
  using assms
proof (induction "is" arbitrary: s)
  case (Cons j "is")
  have P': "P (snd (f j s))" using Cons.prems by simp
  show ?case
  proof (cases "fst (f j s) = 0")
    case True
    with Cons.prems have "j \<noteq> i" by auto
    with Cons.prems have "i \<in> set is" by auto
    with True P' Cons show ?thesis by (cases "f j s") auto
  next
    case False
    then show ?thesis by (cases "f j s") auto
  qed
qed simp

lemma for_fail_cong:
  "(\<And>i s. i \<in> set is \<Longrightarrow> f i s = g i s) \<Longrightarrow> for_fail f is s = for_fail g is s"
  by (induction "is" arbitrary: s) (auto split: prod.splits)


subsection \<open>The first array slot with a property\<close>

text \<open>\<open>for (i = 0; i < N; i++) if (p(a[i])) { ...; break; }\<close>\<close>

fun first_idx :: "('a \<Rightarrow> bool) \<Rightarrow> 'a list \<Rightarrow> nat option" where
  "first_idx p [] = None"
| "first_idx p (x # xs) = (if p x then Some 0 else map_option Suc (first_idx p xs))"

lemma first_idx_None [simp]: "first_idx p xs = None \<longleftrightarrow> (\<forall>x \<in> set xs. \<not> p x)"
  by (induction xs) auto

lemma first_idx_SomeD:
  "first_idx p xs = Some i \<Longrightarrow> i < length xs \<and> p (xs ! i) \<and> (\<forall>j < i. \<not> p (xs ! j))"
proof (induction xs arbitrary: i)
  case (Cons x xs)
  show ?case
  proof (cases "p x")
    case False
    with Cons.prems obtain k where "first_idx p xs = Some k" "i = Suc k" by auto
    with Cons.IH False show ?thesis by (auto simp: nth_Cons' less_Suc_eq_0_disj)
  qed (use Cons.prems in auto)
qed simp

lemma first_idx_Some_iff:
  "first_idx p xs = Some i \<longleftrightarrow> i < length xs \<and> p (xs ! i) \<and> (\<forall>j < i. \<not> p (xs ! j))"
proof
  assume *: "i < length xs \<and> p (xs ! i) \<and> (\<forall>j < i. \<not> p (xs ! j))"
  then obtain k where k: "first_idx p xs = Some k"
    by (cases "first_idx p xs") (auto dest: nth_mem)
  from first_idx_SomeD [OF k] * have "k = i" by (metis linorder_neqE_nat)
  with k show "first_idx p xs = Some i" by simp
qed (rule first_idx_SomeD)


subsection \<open>Lists updated in place\<close>

lemma length_filter_update:
  "i < length xs \<Longrightarrow> \<not> p (xs ! i) \<Longrightarrow> p y \<Longrightarrow>
     length (filter p (xs[i := y])) = Suc (length (filter p xs))"
  by (induction xs arbitrary: i) (auto split: nat.splits)

lemma length_filter_update_drop:
  "i < length xs \<Longrightarrow> p (xs ! i) \<Longrightarrow> \<not> p y \<Longrightarrow>
     Suc (length (filter p (xs[i := y]))) = length (filter p xs)"
  by (induction xs arbitrary: i) (auto split: nat.splits)

lemma list_all_updateI: "list_all P xs \<Longrightarrow> P y \<Longrightarrow> list_all P (xs[i := y])"
  by (metis (mono_tags, lifting) list_all_iff set_update_subset_insert insertE subsetD)

lemma list_all_mapI: "list_all P xs \<Longrightarrow> (\<And>x. P x \<Longrightarrow> Q (f x)) \<Longrightarrow> list_all Q (map f xs)"
  by (auto simp: list_all_iff)

text \<open>Overwriting one chunk of a list cut into chunks of the same size.\<close>

lemma chunk_update:
  assumes "length bs = n" and "j * n + n \<le> length xs" and "k * n + n \<le> length xs"
  shows "take n (drop (k * n) (take (j * n) xs @ bs @ drop (j * n + n) xs)) =
           (if k = j then bs else take n (drop (k * n) xs))"
proof -
  consider "k = j" | "Suc k \<le> j" | "Suc j \<le> k" by linarith
  then show ?thesis
  proof cases
    case 1
    with assms show ?thesis by simp
  next
    case 2
    then have "k * n + n \<le> j * n" using mult_le_mono1 [of "Suc k" j n] by simp
    with 2 assms show ?thesis by (simp add: take_drop min_def)
  next
    case 3
    then have "j * n + n \<le> k * n" using mult_le_mono1 [of "Suc j" k n] by simp
    with 3 assms show ?thesis by simp
  qed
qed

lemma length_overwrite:
  "i + length bs \<le> length xs \<Longrightarrow> length (take i xs @ bs @ drop (i + length bs) xs) = length xs"
  by simp

text \<open>Writing a family of values at distinct places.\<close>

lemma fold_upd_other:
  "q \<notin> pt ` set xs \<Longrightarrow> fold (\<lambda>a f. f(pt a := val a)) xs f q = f q"
  by (induction xs arbitrary: f) auto

lemma fold_upd_at:
  assumes "inj_on pt (set xs)" and "a \<in> set xs"
  shows "fold (\<lambda>a f. f(pt a := val a)) xs f (pt a) = val a"
  using assms
proof (induction xs arbitrary: f)
  case (Cons b xs)
  show ?case
  proof (cases "a \<in> set xs")
    case True
    with Cons show ?thesis by simp
  next
    case False
    with Cons.prems have "a = b" "pt a \<notin> pt ` set xs" by (auto simp: inj_on_def)
    then show ?thesis by (simp add: fold_upd_other del: fun_upd_apply) simp
  qed
qed simp

text \<open>A run of 16-bit coordinates stays below a bound iff its last element does, without wrapping.\<close>

lemma u16_run:
  fixes x :: u16 and b :: u16
  shows "(\<forall>i < n. unat (x + of_nat i) < unat b) \<longleftrightarrow> n = 0 \<or> unat x + n \<le> unat b"
proof -
  have b: "unat b < 2 ^ 16" using unsigned_less [of b, where ?'a = nat] by simp
  have plus: "unat (x + of_nat i) = unat x + i" if "unat x + i < 2 ^ 16" for i
  proof -
    have "x + of_nat i = of_nat (unat x + i)" by simp
    with unat_of_nat16 [OF that] show ?thesis by metis
  qed
  show ?thesis
  proof
    assume *: "\<forall>i < n. unat (x + of_nat i) < unat b"
    show "n = 0 \<or> unat x + n \<le> unat b"
    proof (rule ccontr)
      assume "\<not> (n = 0 \<or> unat x + n \<le> unat b)"
      then have n: "0 < n" "unat b < unat x + n" by auto
      show False
      proof (cases "unat x \<le> unat b")
        case True
        define d where "d = unat b - unat x"
        have d: "unat x + d = unat b" using True by (simp add: d_def)
        have "unat (x + of_nat d) = unat b" using plus [of d] b by (simp add: d)
        moreover have "d < n" using n d by linarith
        ultimately show False using * by (metis less_irrefl)
      next
        case False
        from * n(1) have "unat (x + of_nat 0) < unat b" by blast
        with False show False by simp
      qed
    qed
  next
    assume *: "n = 0 \<or> unat x + n \<le> unat b"
    show "\<forall>i < n. unat (x + of_nat i) < unat b"
    proof (intro allI impI)
      fix i assume "i < n"
      with * have "unat x + i < unat b" by linarith
      with plus [of i] b show "unat (x + of_nat i) < unat b" by simp
    qed
  qed
qed

end
