(* ===== verification/Machine.thy ===== *)
theory Machine
  imports Prelude
begin

text \<open>
  The boundary of the program. The Minix kernel calls, the LCF library and the sprite loader are
  not part of the sources: they are the fields of the record \<open>kernel\<close>, which every definition that
  performs such a call takes as an argument, together with a state of type \<open>'h\<close> that stands for
  the hardware and the kernel and is threaded through the calls. Nothing is assumed about them
  here; a theorem that needs documented behaviour of a call has it as a hypothesis.

  The interrupt notifications a driver waits for are modelled as the list of what the successive
  calls of \<open>driver_receive\<close> deliver. The macros of the Minix headers that the sources apply to a
  message (\<open>is_ipc_notify\<close>, \<open>_ENDPOINT_P\<close>) are translated.
\<close>

subsection \<open>Kernel and library calls\<close>

record xpm_image =
  img_width :: u16
  img_height :: u16
  img_colors :: "u32 list"

record vbe_mode_info =
  XResolution :: u16
  YResolution :: u16
  BitsPerPixel :: u8
  MemoryModel :: u8
  RedMaskSize :: u8
  RedFieldPosition :: u8
  GreenMaskSize :: u8
  GreenFieldPosition :: u8
  BlueMaskSize :: u8
  BlueFieldPosition :: u8
  PhysBasePtr :: u32

text \<open>
  A call that returns a status returns C's \<open>int\<close> (0 for success); a call that stores its result
  through a pointer only on success returns an option. \<open>xpm_load\<close> gives \<open>None\<close> for \<open>NULL\<close>;
  \<open>vm_map_phys\<close> and \<open>malloc\<close> give the bytes of the block, or \<open>None\<close> for failure.
\<close>

record 'h kernel =
  sys_inb :: "int \<Rightarrow> 'h \<Rightarrow> u32 option \<times> 'h"
  sys_outb :: "int \<Rightarrow> u32 \<Rightarrow> 'h \<Rightarrow> int \<times> 'h"
  sys_irqsetpolicy :: "int \<Rightarrow> int \<Rightarrow> int \<Rightarrow> 'h \<Rightarrow> int \<times> int \<times> 'h"
  sys_irqrmpolicy :: "int \<Rightarrow> 'h \<Rightarrow> int \<times> 'h"
  tickdelay_us :: "int \<Rightarrow> 'h \<Rightarrow> 'h"
  sys_int86 :: "u16 \<Rightarrow> u16 \<Rightarrow> u8 \<Rightarrow> 'h \<Rightarrow> int \<times> 'h"
  vbe_get_mode_info :: "u16 \<Rightarrow> 'h \<Rightarrow> vbe_mode_info option \<times> 'h"
  sys_privctl_add_mem :: "u32 \<Rightarrow> u32 \<Rightarrow> 'h \<Rightarrow> int \<times> 'h"
  vm_map_phys :: "u32 \<Rightarrow> u32 \<Rightarrow> 'h \<Rightarrow> u8 list option \<times> 'h"
  malloc :: "u32 \<Rightarrow> 'h \<Rightarrow> u8 list option \<times> 'h"
  vg_exit :: "'h \<Rightarrow> int \<times> 'h"
  xpm_load :: "string list \<Rightarrow> xpm_image option"
  lcf_rand :: "'h \<Rightarrow> int \<times> 'h"
  srand_time :: "'h \<Rightarrow> 'h"

text \<open>
  The documented behaviour of a port that answers: every read delivers a byte and every write is
  accepted. \<open>rd\<close> and \<open>wr\<close> are what reading and writing do to the hardware.
\<close>

definition responsive ::
  "'h kernel \<Rightarrow> (int \<Rightarrow> 'h \<Rightarrow> u32) \<Rightarrow> (int \<Rightarrow> 'h \<Rightarrow> 'h) \<Rightarrow> (int \<Rightarrow> u32 \<Rightarrow> 'h \<Rightarrow> 'h) \<Rightarrow> bool" where
  "responsive K inp rd wr \<longleftrightarrow>
     (\<forall>p h. sys_inb K p h = (Some (inp p h), rd p h)) \<and> (\<forall>p v h. sys_outb K p v h = (0, wr p v h))"

text \<open>
  A concrete kernel: reads are answered by a fixed function of the port and of the log of port
  accesses, every access is logged, and the other calls succeed with the values given.
\<close>

type_synonym port_log = "(int \<times> u32) list"

definition log_kernel ::
  "(int \<Rightarrow> port_log \<Rightarrow> u32) \<Rightarrow> vbe_mode_info \<Rightarrow> (string list \<Rightarrow> xpm_image option) \<Rightarrow>
   port_log kernel" where
  "log_kernel inp mode load =
     \<lparr>sys_inb = (\<lambda>p l. (Some (inp p l), l @ [(p, inp p l)])),
      sys_outb = (\<lambda>p v l. (0, l @ [(p, v)])),
      sys_irqsetpolicy = (\<lambda>irq pol hook l. (0, hook, l)),
      sys_irqrmpolicy = (\<lambda>hook l. (0, l)),
      tickdelay_us = (\<lambda>us l. l),
      sys_int86 = (\<lambda>ax bx intno l. (0, l)),
      vbe_get_mode_info = (\<lambda>m l. (Some mode, l)),
      sys_privctl_add_mem = (\<lambda>lo hi l. (0, l)),
      vm_map_phys = (\<lambda>base n l. (Some (replicate (unat n) 0), l)),
      malloc = (\<lambda>n l. (Some (replicate (unat n) 0), l)),
      vg_exit = (\<lambda>l. (0, l)),
      xpm_load = load,
      lcf_rand = (\<lambda>l. (int (length l), l)),
      srand_time = (\<lambda>l. l)\<rparr>"

text \<open>Mode 0x14C: 1152 x 864 with 32 bits per pixel, and an instance of the kernel in that mode.\<close>

definition mode_14c :: vbe_mode_info where
  "mode_14c = \<lparr>XResolution = 1152, YResolution = 864, BitsPerPixel = 32, MemoryModel = 6, RedMaskSize = 8,
     RedFieldPosition = 16, GreenMaskSize = 8, GreenFieldPosition = 8, BlueMaskSize = 8,
     BlueFieldPosition = 0, PhysBasePtr = 0xE0000000\<rparr>"

definition demo_kernel :: "u32 \<Rightarrow> port_log kernel" where
  "demo_kernel byte = log_kernel (\<lambda>p l. byte) mode_14c (\<lambda>xpm. None)"

lemma log_kernel_responsive:
  "responsive (log_kernel inp mode load) inp (\<lambda>p l. l @ [(p, inp p l)]) (\<lambda>p v l. l @ [(p, v)])"
  by (simp add: responsive_def log_kernel_def)

lemma demo_kernel_responsive:
  "responsive (demo_kernel b) (\<lambda>p l. b) (\<lambda>p l. l @ [(p, b)]) (\<lambda>p v l. l @ [(p, v)])"
  by (simp add: demo_kernel_def log_kernel_responsive)


subsection \<open>Messages\<close>

definition IRQ_REENABLE :: int where "IRQ_REENABLE = 1"
definition IRQ_EXCLUSIVE :: int where "IRQ_EXCLUSIVE = 2"
definition HARDWARE :: int where "HARDWARE = -1"
definition NOTIFY :: int where "NOTIFY = 4"

definition MAX_NR_TASKS :: int where "MAX_NR_TASKS = 1023"

definition ENDPOINT_P :: "int \<Rightarrow> int" where
  "ENDPOINT_P e = ((e + MAX_NR_TASKS) AND (2 ^ 15 - 1)) - MAX_NR_TASKS"

definition IPC_STATUS_CALL :: "int \<Rightarrow> int" where
  "IPC_STATUS_CALL status = status AND 0x3F"

definition is_ipc_notify :: "int \<Rightarrow> bool" where
  "is_ipc_notify status \<longleftrightarrow> IPC_STATUS_CALL status = NOTIFY"

text \<open>What one call of \<open>driver_receive(ANY, &msg, &ipc_status)\<close> delivers.\<close>

record recv =
  recv_status :: int
  ipc_status :: int
  m_source :: int
  interrupts :: u32

definition irq_notification :: "recv \<Rightarrow> bool" where
  "irq_notification m \<longleftrightarrow>
     recv_status m = 0 \<and> is_ipc_notify (ipc_status m) \<and> ENDPOINT_P (m_source m) = HARDWARE"

text \<open>A notification from the interrupt handlers, as the kernel sends it.\<close>

definition hw_msg :: "u32 \<Rightarrow> recv" where
  "hw_msg irqs = \<lparr>recv_status = 0, ipc_status = NOTIFY, m_source = HARDWARE, interrupts = irqs\<rparr>"

lemma irq_notification_hw_msg [simp]: "irq_notification (hw_msg irqs)"
  by (simp add: irq_notification_def hw_msg_def is_ipc_notify_def IPC_STATUS_CALL_def NOTIFY_def
      ENDPOINT_P_def HARDWARE_def MAX_NR_TASKS_def)

lemma interrupts_hw_msg [simp]: "interrupts (hw_msg irqs) = irqs"
  by (simp add: hw_msg_def)


subsection \<open>Bounded polling\<close>

text \<open>
  The drivers poll a status register a bounded number of times: an attempt either settles the call
  (with its result) or finds the device busy and waits.
\<close>

datatype ('r, 'h) attempt = Settled 'r 'h | Busy 'h

fun retry :: "nat \<Rightarrow> ('h \<Rightarrow> ('r, 'h) attempt) \<Rightarrow> 'h \<Rightarrow> 'r option \<times> 'h" where
  "retry 0 f h = (None, h)"
| "retry (Suc n) f h =
     (case f h of Settled r h' \<Rightarrow> (Some r, h') | Busy h' \<Rightarrow> retry n f h')"

text \<open>
  What a device promises the polling code: whether an attempt settles depends on the state it is
  made in, and a busy attempt only waits.
\<close>

locale polling =
  fixes attempt :: "'h \<Rightarrow> ('r, 'h) attempt"
    and ready :: "'h \<Rightarrow> bool"
    and wait :: "'h \<Rightarrow> 'h"
    and settle :: "'h \<Rightarrow> 'r \<times> 'h"
  assumes busy_waits: "\<not> ready h \<Longrightarrow> attempt h = Busy (wait h)"
    and ready_settles: "ready h \<Longrightarrow> attempt h = Settled (fst (settle h)) (snd (settle h))"
begin

lemma retry_busy:
  "(\<forall>k < n. \<not> ready ((wait ^^ k) h)) \<Longrightarrow> retry n attempt h = (None, (wait ^^ n) h)"
proof (induction n arbitrary: h)
  case (Suc n)
  have "\<not> ready ((wait ^^ k) (wait h))" if "k < n" for k
    using Suc.prems that by (metis Suc_mono comp_apply funpow_Suc_right)
  moreover have "\<not> ready h" using Suc.prems by (metis funpow_0 zero_less_Suc)
  ultimately show ?case
    using Suc.IH [of "wait h"] by (simp add: busy_waits funpow_swap1)
qed simp

lemma retry_ready:
  assumes "k < n" and "\<forall>j < k. \<not> ready ((wait ^^ j) h)" and "ready ((wait ^^ k) h)"
  shows "retry n attempt h =
           (Some (fst (settle ((wait ^^ k) h))), snd (settle ((wait ^^ k) h)))"
  using assms
proof (induction k arbitrary: n h)
  case 0
  then show ?case by (cases n) (auto simp: ready_settles)
next
  case (Suc k)
  obtain m where m: "n = Suc m" "k < m" using Suc.prems(1) by (cases n) auto
  have "\<not> ready h" using Suc.prems(2) by (metis funpow_0 zero_less_Suc)
  moreover have "\<forall>j < k. \<not> ready ((wait ^^ j) (wait h))"
    using Suc.prems(2) by (metis Suc_mono comp_apply funpow_Suc_right)
  moreover have "ready ((wait ^^ k) (wait h))"
    using Suc.prems(3) by (simp add: funpow_swap1)
  ultimately show ?case
    using Suc.IH [of m "wait h"] m by (simp add: busy_waits funpow_swap1)
qed

end


subsection \<open>The interrupt loop\<close>

text \<open>
  The shape every driver loop of the program has:
  \<open>while (guard) { if (driver_receive(...)) continue; if (is_ipc_notify(...)) switch (...)
  { case HARDWARE: handler; break; default: break; } }\<close>.
  The handler either lets the loop go on or returns from the enclosing function. The outcome says
  where the loop stands when the delivered messages are used up: still waiting, left because the
  guard failed, or left by a return; the last two with the messages not consumed.
\<close>

datatype 's ctl = Continue 's | Return int 's

datatype 's outcome = Waiting 's | Exited 's "recv list" | Returned int 's "recv list"

fun irq_loop :: "('s \<Rightarrow> bool) \<Rightarrow> (u32 \<Rightarrow> 's \<Rightarrow> 's ctl) \<Rightarrow> 's \<Rightarrow> recv list \<Rightarrow> 's outcome" where
  "irq_loop g h s [] = (if g s then Waiting s else Exited s [])"
| "irq_loop g h s (m # ms) =
     (if g s then
        if irq_notification m then
          (case h (interrupts m) s of
             Continue s' \<Rightarrow> irq_loop g h s' ms
           | Return r s' \<Rightarrow> Returned r s' ms)
        else irq_loop g h s ms
      else Exited s (m # ms))"

fun outcome_state :: "'s outcome \<Rightarrow> 's" where
  "outcome_state (Waiting s) = s"
| "outcome_state (Exited s ms) = s"
| "outcome_state (Returned r s ms) = s"

fun outcome_rest :: "'s outcome \<Rightarrow> recv list" where
  "outcome_rest (Waiting s) = []"
| "outcome_rest (Exited s ms) = ms"
| "outcome_rest (Returned r s ms) = ms"

fun ctl_state :: "'s ctl \<Rightarrow> 's" where
  "ctl_state (Continue s) = s"
| "ctl_state (Return r s) = s"

lemma irq_loop_rest_le: "length (outcome_rest (irq_loop g h s ms)) \<le> length ms"
  by (induction g h s ms rule: irq_loop.induct) (auto split: ctl.splits)

lemma irq_loop_exit_guard: "irq_loop g h s ms = Exited s' ms' \<Longrightarrow> \<not> g s'"
  by (induction g h s ms rule: irq_loop.induct) (auto split: if_splits ctl.splits)

lemma irq_loop_wait_guard: "irq_loop g h s ms = Waiting s' \<Longrightarrow> g s'"
  by (induction g h s ms rule: irq_loop.induct) (auto split: if_splits ctl.splits)

text \<open>
  The contract of a handler: an invariant that holds as long as the loop goes on, and a postcondition
  of a return. Then the loop has them, for every sequence of messages.
\<close>

locale irq_session =
  fixes guard :: "'s \<Rightarrow> bool"
    and handler :: "u32 \<Rightarrow> 's \<Rightarrow> 's ctl"
    and inv :: "'s \<Rightarrow> bool"
    and post :: "int \<Rightarrow> 's \<Rightarrow> bool"
  assumes continue_inv: "inv s \<Longrightarrow> guard s \<Longrightarrow> handler irqs s = Continue s' \<Longrightarrow> inv s'"
    and return_post: "inv s \<Longrightarrow> guard s \<Longrightarrow> handler irqs s = Return r s' \<Longrightarrow> post r s'"
begin

lemma loop_result:
  "inv s \<Longrightarrow>
     (case irq_loop guard handler s ms of
        Waiting s' \<Rightarrow> inv s' \<and> guard s'
      | Exited s' rest \<Rightarrow> inv s' \<and> \<not> guard s'
      | Returned r s' rest \<Rightarrow> post r s')"
proof (induction ms arbitrary: s)
  case (Cons m ms)
  show ?case
  proof (cases "guard s \<and> irq_notification m")
    case True
    then show ?thesis
    proof (cases "handler (interrupts m) s")
      case (Continue t)
      with True continue_inv [OF Cons.prems _ Continue] Cons.IH show ?thesis by simp
    next
      case (Return r t)
      with True return_post [OF Cons.prems _ Return] show ?thesis by simp
    qed
  next
    case False
    with Cons show ?thesis by auto
  qed
qed simp

end

text \<open>The stronger contract of a handler that keeps the invariant also when it returns.\<close>

locale irq_handler =
  fixes guard :: "'s \<Rightarrow> bool"
    and handler :: "u32 \<Rightarrow> 's \<Rightarrow> 's ctl"
    and inv :: "'s \<Rightarrow> bool"
  assumes handler_inv: "inv s \<Longrightarrow> guard s \<Longrightarrow> inv (ctl_state (handler irqs s))"

sublocale irq_handler \<subseteq> irq_session guard handler inv "\<lambda>r. inv"
proof
  show "inv s' " if "inv s" "guard s" "handler irqs s = Continue s'" for s irqs s'
    using handler_inv [OF that(1,2), of irqs] that(3) by simp
  show "inv s' " if "inv s" "guard s" "handler irqs s = Return r s'" for s irqs r s'
    using handler_inv [OF that(1,2), of irqs] that(3) by simp
qed

context irq_handler
begin

lemma loop_inv: "inv s \<Longrightarrow> inv (outcome_state (irq_loop guard handler s ms))"
  using loop_result [of s ms] by (cases "irq_loop guard handler s ms") auto

end

text \<open>
  A relation between the state before and after, reflexive and transitive, that every activation
  of the handler respects, relates the state before the loop to the state after it.
\<close>

locale irq_handler_rel =
  fixes guard :: "'s \<Rightarrow> bool"
    and handler :: "u32 \<Rightarrow> 's \<Rightarrow> 's ctl"
    and rel :: "'s \<Rightarrow> 's \<Rightarrow> bool"
  assumes rel_refl: "rel s s"
    and rel_trans: "rel s t \<Longrightarrow> rel t u \<Longrightarrow> rel s u"
    and handler_rel: "guard s \<Longrightarrow> rel s (ctl_state (handler irqs s))"
begin

lemma loop_rel: "rel s (outcome_state (irq_loop guard handler s ms))"
proof (induction ms arbitrary: s)
  case (Cons m ms)
  show ?case
  proof (cases "guard s \<and> irq_notification m")
    case True
    with handler_rel [of s "interrupts m"]
    have *: "rel s (ctl_state (handler (interrupts m) s))" by simp
    from True * show ?thesis
      by (cases "handler (interrupts m) s") (auto intro: rel_trans [OF _ Cons.IH])
  next
    case False
    then show ?thesis by (auto intro: Cons.IH rel_refl)
  qed
qed (simp add: rel_refl)

end

text \<open>
  Progress: some interrupts are ticks, and a variant goes down at every tick and up at none of the
  others. Then the loop is left after as many ticks as the variant allows.
\<close>

definition ticks :: "(u32 \<Rightarrow> bool) \<Rightarrow> recv list \<Rightarrow> nat" where
  "ticks tick ms = length (filter (\<lambda>m. irq_notification m \<and> tick (interrupts m)) ms)"

locale irq_progress = irq_session +
  fixes tick :: "u32 \<Rightarrow> bool"
    and variant :: "'a \<Rightarrow> nat"
  assumes continue_variant: "inv s \<Longrightarrow> guard s \<Longrightarrow> handler irqs s = Continue s' \<Longrightarrow>
      variant s' \<le> variant s \<and> (tick irqs \<longrightarrow> variant s' < variant s)"
begin

lemma loop_left: "inv s \<Longrightarrow> variant s < ticks tick ms \<Longrightarrow> irq_loop guard handler s ms \<noteq> Waiting s'"
proof (induction ms arbitrary: s)
  case Nil
  then show ?case by (simp add: ticks_def)
next
  case (Cons m ms)
  consider "\<not> guard s" | "guard s" "\<not> irq_notification m" | "guard s" "irq_notification m" by blast
  then show ?case
  proof cases
    case 1
    then show ?thesis by simp
  next
    case 2
    with Cons show ?thesis by (simp add: ticks_def)
  next
    case 3
    show ?thesis
    proof (cases "handler (interrupts m) s")
      case (Continue t)
      note * = continue_inv [OF Cons.prems(1) 3(1) Continue]
        continue_variant [OF Cons.prems(1) 3(1) Continue]
      have "ticks tick (m # ms) = (if tick (interrupts m) then Suc (ticks tick ms) else ticks tick ms)"
        using 3(2) by (simp add: ticks_def)
      with * Cons.prems(2) have "variant t < ticks tick ms" by (auto split: if_splits)
      with Cons.IH * 3 Continue show ?thesis by simp
    qed (use 3 in simp)
  qed
qed

end

text \<open>
  Exact progress: on the messages considered (those with \<open>okm\<close>), every tick takes one off what the
  guard still needs and nothing else does. Then the loop is left with exactly that tick.
\<close>

locale irq_countdown =
  fixes guard :: "'s \<Rightarrow> bool"
    and handler :: "u32 \<Rightarrow> 's \<Rightarrow> 's ctl"
    and inv :: "'s \<Rightarrow> bool"
    and okm :: "u32 \<Rightarrow> bool"
    and tick :: "u32 \<Rightarrow> bool"
    and need :: "'s \<Rightarrow> nat"
  assumes guard_need: "inv s \<Longrightarrow> guard s \<longleftrightarrow> 0 < need s"
    and handler_counts: "inv s \<Longrightarrow> guard s \<Longrightarrow> okm irqs \<Longrightarrow>
      \<exists>s'. handler irqs s = Continue s' \<and> inv s' \<and> need s' = need s - (if tick irqs then 1 else 0)"
begin

lemma loop_countdown:
  assumes "inv s" and "\<forall>m \<in> set ms. irq_notification m \<longrightarrow> okm (interrupts m)"
  shows "case irq_loop guard handler s ms of
           Waiting s' \<Rightarrow> inv s' \<and> need s' + ticks tick ms = need s \<and> 0 < need s'
         | Exited s' rest \<Rightarrow> inv s' \<and> need s' = 0 \<and> ticks tick ms = need s + ticks tick rest
         | Returned r s' rest \<Rightarrow> False"
  using assms
proof (induction ms arbitrary: s)
  case Nil
  then show ?case using guard_need [of s] by (simp add: ticks_def)
next
  case (Cons m ms)
  consider "\<not> guard s" | "guard s" "\<not> irq_notification m" | "guard s" "irq_notification m" by blast
  then show ?case
  proof cases
    case 1
    with guard_need [OF Cons.prems(1)] Cons.prems(1) show ?thesis by simp
  next
    case 2
    with Cons.IH [OF Cons.prems(1)] Cons.prems(2) show ?thesis by (simp add: ticks_def split: outcome.splits)
  next
    case 3
    with Cons.prems(2) obtain t where t: "handler (interrupts m) s = Continue t" "inv t"
      "need t = need s - (if tick (interrupts m) then 1 else 0)"
      using handler_counts [OF Cons.prems(1) 3(1), of "interrupts m"] by auto
    have pos: "0 < need s" using guard_need [OF Cons.prems(1)] 3(1) by simp
    have "ticks tick (m # ms) = (if tick (interrupts m) then 1 else 0) + ticks tick ms"
      using 3(2) by (simp add: ticks_def)
    moreover have "irq_loop guard handler s (m # ms) = irq_loop guard handler t ms" using 3 t(1) by simp
    ultimately show ?thesis
      using Cons.IH [OF t(2)] Cons.prems(2) t(3) pos by (auto split: outcome.splits if_splits)
  qed
qed

end

text \<open>
  A budget: the invariant may use up one unit for every message, as long as the limit allows it. Then
  what the loop has used up and what it has left of the messages is never more than it was given.
\<close>

locale irq_budget =
  fixes guard :: "'s \<Rightarrow> bool"
    and handler :: "u32 \<Rightarrow> 's \<Rightarrow> 's ctl"
    and inv :: "nat \<Rightarrow> 's \<Rightarrow> bool"
    and limit :: nat
  assumes handler_uses_one: "inv n s \<Longrightarrow> guard s \<Longrightarrow> n < limit \<Longrightarrow> inv (Suc n) (ctl_state (handler irqs s))"
begin

lemma loop_budget:
  assumes "inv n s" and "n + length ms \<le> limit"
  shows "\<exists>k. inv k (outcome_state (irq_loop guard handler s ms)) \<and>
           k + length (outcome_rest (irq_loop guard handler s ms)) \<le> n + length ms"
  using assms
proof (induction ms arbitrary: n s)
  case Nil
  then show ?case by auto
next
  case (Cons m ms)
  show ?case
  proof (cases "guard s \<and> irq_notification m")
    case True
    note step = handler_uses_one [OF Cons.prems(1), of "interrupts m"]
    show ?thesis
    proof (cases "handler (interrupts m) s")
      case (Continue t)
      with True step Cons.prems(2) Cons.IH [of "Suc n" t] show ?thesis by simp
    next
      case (Return r t)
      with True step Cons.prems(2) show ?thesis by (auto intro: exI [of _ "Suc n"])
    qed
  next
    case False
    have "n + length ms \<le> limit" using Cons.prems(2) by simp
    from Cons.IH [OF Cons.prems(1) this] have
      "\<exists>k. inv k (outcome_state (irq_loop guard handler s ms)) \<and>
         k + length (outcome_rest (irq_loop guard handler s ms)) \<le> n + length (m # ms)"
      by (auto intro: le_SucI)
    with False Cons.prems(1) show ?thesis by (cases "guard s") auto
  qed
qed

end

end
