(* ===== verification/Timer.thy ===== *)
theory Timer
  imports Machine
begin

text \<open>
  The i8254 driver: \<open>controllers/timer/utils.c\<close> and \<open>controllers/timer/timer.c\<close> with the constants
  of \<open>i8254.h\<close>. A function that stores its result through a pointer returns \<open>Some\<close> of the value
  for the C result 0, and \<open>None\<close> for 1.

  The lemmas show what reaches the ports: the control word keeps the counting mode and base of the
  timer and asks for LSB then MSB, and the two bytes written are the divisor of the frequency.
\<close>

subsection \<open>Constants of i8254.h\<close>

definition TIMER_FREQ :: u32 where "TIMER_FREQ = 1193182"
definition TIMER0_IRQ :: int where "TIMER0_IRQ = 0"
definition TIMER_0 :: int where "TIMER_0 = 0x40"
definition TIMER_1 :: int where "TIMER_1 = 0x41"
definition TIMER_2 :: int where "TIMER_2 = 0x42"
definition TIMER_CTRL :: int where "TIMER_CTRL = 0x43"
definition TIMER_SEL0 :: u8 where "TIMER_SEL0 = 0"
definition TIMER_SEL1 :: u8 where "TIMER_SEL1 = BIT 6"
definition TIMER_SEL2 :: u8 where "TIMER_SEL2 = BIT 7"
definition TIMER_RB_CMD :: u8 where "TIMER_RB_CMD = BIT 7 OR BIT 6"
definition TIMER_LSB :: u8 where "TIMER_LSB = BIT 4"
definition TIMER_MSB :: u8 where "TIMER_MSB = BIT 5"
definition TIMER_LSB_MSB :: u8 where "TIMER_LSB_MSB = TIMER_LSB OR TIMER_MSB"
definition TIMER_BCD :: u8 where "TIMER_BCD = 1"
definition TIMER_RB_COUNT :: u8 where "TIMER_RB_COUNT = BIT 5"

definition TIMER_RB_SEL :: "u8 \<Rightarrow> u8" where
  "TIMER_RB_SEL n = BIT (unat n + 1)"

lemmas timer_consts = TIMER_FREQ_def TIMER0_IRQ_def TIMER_0_def TIMER_1_def TIMER_2_def
  TIMER_CTRL_def TIMER_SEL0_def TIMER_SEL1_def TIMER_SEL2_def TIMER_RB_CMD_def TIMER_LSB_def
  TIMER_MSB_def TIMER_LSB_MSB_def TIMER_BCD_def TIMER_RB_COUNT_def TIMER_RB_SEL_def BIT_def


subsection \<open>utils.c\<close>

definition util_get_LSB :: "u16 \<Rightarrow> ptr \<Rightarrow> u8 option" where
  "util_get_LSB val lsb = (if lsb = NULL then None else Some (ucast (val AND 0xff)))"

definition util_get_MSB :: "u16 \<Rightarrow> ptr \<Rightarrow> u8 option" where
  "util_get_MSB val msb = (if msb = NULL then None else Some (ucast (drop_bit 8 val)))"

definition util_sys_inb :: "'h kernel \<Rightarrow> int \<Rightarrow> ptr \<Rightarrow> 'h \<Rightarrow> u8 option \<times> 'h" where
  "util_sys_inb K port value h =
     (if value = NULL then (None, h)
      else case sys_inb K port h of
        (None, h') \<Rightarrow> (None, h')
      | (Some val, h') \<Rightarrow> (Some (ucast (val AND 0xff)), h'))"


subsection \<open>timer.c\<close>

record timer_st =
  hook_id :: int
  timer_counter :: int

definition timer_init_st :: timer_st where
  "timer_init_st = \<lparr>hook_id = 0, timer_counter = 0\<rparr>"

definition timer_get_conf :: "'h kernel \<Rightarrow> u8 \<Rightarrow> ptr \<Rightarrow> 'h \<Rightarrow> u8 option \<times> 'h" where
  "timer_get_conf K timer st h =
     (if st = NULL then (None, h)
      else if timer > 2 then (None, h)
      else
        let rbc = TIMER_RB_CMD OR TIMER_RB_COUNT OR TIMER_RB_SEL timer in
        case sys_outb K TIMER_CTRL (ucast rbc) h of (r, h1) \<Rightarrow>
          if r \<noteq> 0 then (None, h1) else util_sys_inb K (TIMER_0 + uint timer) st h1)"

text \<open>The two halves of \<open>timer_set_frequency\<close>: the control word, then the divisor.\<close>

definition timer_select :: "u8 \<Rightarrow> (u8 \<times> int) option" where
  "timer_select timer =
     (if timer = 0 then Some (TIMER_SEL0, TIMER_0)
      else if timer = 1 then Some (TIMER_SEL1, TIMER_1)
      else if timer = 2 then Some (TIMER_SEL2, TIMER_2)
      else None)"

definition timer_write_divisor :: "'h kernel \<Rightarrow> int \<Rightarrow> u32 \<Rightarrow> 'h \<Rightarrow> int \<times> 'h" where
  "timer_write_divisor K selected_timer freq h =
     (let initial_value = TIMER_FREQ div freq in
      case (util_get_MSB (ucast initial_value) Addr, util_get_LSB (ucast initial_value) Addr) of
        (Some msb, Some lsb) \<Rightarrow>
          (case sys_outb K selected_timer (ucast lsb) h of (r, h1) \<Rightarrow>
             if r \<noteq> 0 then (1, h1)
             else case sys_outb K selected_timer (ucast msb) h1 of (r', h2) \<Rightarrow>
               if r' \<noteq> 0 then (1, h2) else (0, h2))
      | _ \<Rightarrow> (1, h))"

definition timer_set_frequency :: "'h kernel \<Rightarrow> u8 \<Rightarrow> u32 \<Rightarrow> 'h \<Rightarrow> int \<times> 'h" where
  "timer_set_frequency K timer freq h =
     (if timer > 2 then (1, h)
      else if freq > TIMER_FREQ \<or> freq < 19 then (1, h)
      else case timer_get_conf K timer Addr h of
        (None, h1) \<Rightarrow> (1, h1)
      | (Some st, h1) \<Rightarrow>
          let control_word = (st AND 0x0F) OR TIMER_LSB_MSB in
          (case timer_select timer of
             None \<Rightarrow> (1, h1)
           | Some (sel, selected_timer) \<Rightarrow>
               (case sys_outb K TIMER_CTRL (ucast (control_word OR sel)) h1 of (r, h2) \<Rightarrow>
                  if r \<noteq> 0 then (1, h2)
                  else timer_write_divisor K selected_timer freq h2)))"

text \<open>
  \<open>bit_no\<close> gets the hook number before the kernel call replaces it; \<open>None\<close> where it is not written.
\<close>

definition timer_subscribe_int ::
  "'h kernel \<Rightarrow> ptr \<Rightarrow> timer_st \<Rightarrow> 'h \<Rightarrow> int \<times> u8 option \<times> timer_st \<times> 'h" where
  "timer_subscribe_int K bit_no t h =
     (if bit_no = NULL then (1, None, t, h)
      else case sys_irqsetpolicy K TIMER0_IRQ IRQ_REENABLE (hook_id t) h of (r, hook, h') \<Rightarrow>
        (if r \<noteq> 0 then 1 else 0, Some (word_of_int (hook_id t)), t\<lparr>hook_id := hook\<rparr>, h'))"

definition timer_unsubscribe_int :: "'h kernel \<Rightarrow> timer_st \<Rightarrow> 'h \<Rightarrow> int \<times> 'h" where
  "timer_unsubscribe_int K t h =
     (case sys_irqrmpolicy K (hook_id t) h of (r, h') \<Rightarrow> (if r \<noteq> 0 then 1 else 0, h'))"

definition timer_int_handler :: "timer_st \<Rightarrow> timer_st" where
  "timer_int_handler t = t\<lparr>timer_counter := timer_counter t + 1\<rparr>"

datatype timer_init_mode = INVAL_val | LSB_only | MSB_only | MSB_after_LSB

datatype timer_status_field = tsf_all | tsf_initial | tsf_mode | tsf_base

datatype timer_status_field_val =
  Byte u8 | In_mode timer_init_mode | Count_mode u8 | Bcd bool

text \<open>The value \<open>timer_display_conf\<close> hands to \<open>timer_print_config\<close>.\<close>

fun timer_conf_field :: "u8 \<Rightarrow> timer_status_field \<Rightarrow> timer_status_field_val" where
  "timer_conf_field st tsf_all = Byte st"
| "timer_conf_field st tsf_initial =
     (let st = drop_bit 4 st AND 0x03 in
      In_mode (if st = 1 then LSB_only else if st = 2 then MSB_only
               else if st = 3 then MSB_after_LSB else INVAL_val))"
| "timer_conf_field st tsf_mode =
     (let st = drop_bit 1 st AND 0x07 in
      Count_mode (if st = 6 then 2 else if st = 7 then 3 else st))"
| "timer_conf_field st tsf_base = Bcd (st AND TIMER_BCD \<noteq> 0)"

definition timer_display_conf ::
  "(u8 \<Rightarrow> timer_status_field \<Rightarrow> timer_status_field_val \<Rightarrow> int) \<Rightarrow>
   u8 \<Rightarrow> u8 \<Rightarrow> timer_status_field \<Rightarrow> int" where
  "timer_display_conf timer_print_config timer st field =
     (if timer_print_config timer field (timer_conf_field st field) \<noteq> 0 then 1 else 0)"


subsection \<open>What reaches the ports\<close>

lemma divisor_bytes:
  fixes freq :: u32
  assumes "19 \<le> freq"
  shows "uint (ucast (TIMER_FREQ div freq) :: u16) = 1193182 div uint freq"
proof -
  have f: "19 \<le> uint freq" using assms by (simp add: word_le_def)
  then have "1193182 div uint freq \<le> 1193182 div 19"
    by (intro zdiv_mono2) auto
  then have "1193182 div uint freq < 2 ^ 16" by simp
  moreover have "0 \<le> 1193182 div uint freq" using f by (intro pos_imp_zdiv_nonneg_iff [THEN iffD2]) auto
  ultimately show ?thesis
    by (simp add: TIMER_FREQ_def unsigned_ucast_eq uint_div take_bit_eq_mod)
qed

lemma LSB_MSB_value:
  "util_get_LSB v Addr = Some lsb \<Longrightarrow> util_get_MSB v Addr = Some msb \<Longrightarrow>
     uint lsb + 256 * uint msb = uint v"
proof -
  assume "util_get_LSB v Addr = Some lsb" "util_get_MSB v Addr = Some msb"
  then have l: "lsb = ucast (v AND 0xff)" and m: "msb = ucast (drop_bit 8 v)"
    by (simp_all add: util_get_LSB_def util_get_MSB_def)
  have vb: "0 \<le> uint v" "uint v < 65536" using uint_bounded [of v] by simp_all
  have "uint lsb = uint v AND 255"
    by (simp add: l unsigned_ucast_eq unsigned_and_eq int_and_255 take_bit_eq_mod)
  also have "\<dots> = uint v mod 256" by (rule int_and_255)
  finally have "uint lsb = uint v mod 256" .
  moreover have "uint msb = uint v div 256"
  proof -
    from vb have "uint v div 256 < 256" by linarith
    with vb show ?thesis
      by (simp add: m unsigned_ucast_eq drop_bit_eq_div uint_div take_bit_eq_mod pos_imp_zdiv_nonneg_iff)
  qed
  ultimately show ?thesis by simp
qed

text \<open>
  The read-back command: bits 7 and 6 set, bit 5 set (the count is not latched), bit 4 clear (the
  status is), and the select bit of the timer.
\<close>

definition readback_cmd :: "u8 \<Rightarrow> u8" where
  "readback_cmd timer = TIMER_RB_CMD OR TIMER_RB_COUNT OR TIMER_RB_SEL timer"

definition control_word :: "u8 \<Rightarrow> u8 \<Rightarrow> u8" where
  "control_word timer st = ((st AND 0x0F) OR TIMER_LSB_MSB) OR push_bit 6 timer"

lemma timer_cases3:
  fixes timer :: u8
  assumes "timer \<le> 2"
  obtains "timer = 0" | "timer = 1" | "timer = 2"
proof -
  have "unat timer \<le> 2" using assms by (simp add: word_le_nat_alt)
  then have "unat timer = 0 \<or> unat timer = 1 \<or> unat timer = 2" by linarith
  then have "timer = 0 \<or> timer = 1 \<or> timer = 2" by (auto simp: word_unat_eq_iff)
  then show ?thesis using that by blast
qed

lemma timer_select_in_range:
  "timer \<le> 2 \<Longrightarrow> timer_select timer = Some (push_bit 6 timer, TIMER_0 + uint timer)"
  by (erule timer_cases3) (simp_all add: timer_select_def timer_consts)

lemma write_divisor_responsive:
  assumes "responsive K inp rd wr" and "19 \<le> freq"
  obtains lsb msb where
    "timer_write_divisor K p freq h = (0, wr p (ucast msb) (wr p (ucast lsb) h))"
    and "uint (lsb :: u8) + 256 * uint (msb :: u8) = 1193182 div uint freq"
proof -
  let ?v = "ucast (TIMER_FREQ div freq) :: u16"
  obtain lsb msb where l: "util_get_LSB ?v Addr = Some lsb" and m: "util_get_MSB ?v Addr = Some msb"
    by (simp add: util_get_LSB_def util_get_MSB_def)
  have "timer_write_divisor K p freq h = (0, wr p (ucast msb) (wr p (ucast lsb) h))"
    using assms(1) l m by (simp add: timer_write_divisor_def responsive_def)
  moreover have "uint lsb + 256 * uint msb = 1193182 div uint freq"
    using LSB_MSB_value [OF l m] divisor_bytes [OF assms(2)] by simp
  ultimately show ?thesis by (rule that)
qed


subsection \<open>Properties\<close>

text \<open>A valid request reprograms the timer with exactly five port accesses, in this order: the
  read-back command to the control register, the status read from the timer's own register, the
  control word, the low byte and the high byte of the divisor, both to the timer's register; and the
  two bytes are the quotient of the input clock and the requested frequency.\<close>

theorem timer_set_frequency_ports:
  assumes "responsive K inp rd wr" and "timer \<le> 2" and "19 \<le> freq" and "freq \<le> TIMER_FREQ"
  shows "\<exists>(lsb::u8) (msb::u8).
    (let reg = 0x40 + uint timer;
         h1 = wr 0x43 (ucast (readback_cmd timer)) h;
         h2 = wr 0x43 (ucast (control_word timer (ucast (inp reg h1 AND 0xff)))) (rd reg h1)
     in timer_set_frequency K timer freq h = (0, wr reg (ucast msb) (wr reg (ucast lsb) h2)))
    \<and> uint lsb + 256 * uint msb = 1193182 div uint freq"
proof -
  let ?reg = "TIMER_0 + uint timer"
  let ?h1 = "wr TIMER_CTRL (ucast (readback_cmd timer)) h"
  let ?st = "ucast (inp ?reg ?h1 AND 0xff) :: u8"
  let ?h2 = "wr TIMER_CTRL (ucast (control_word timer ?st)) (rd ?reg ?h1)"
  have conf: "timer_get_conf K timer Addr h = (Some ?st, rd ?reg ?h1)"
    using assms by (simp add: timer_get_conf_def util_sys_inb_def responsive_def readback_cmd_def
        not_less Let_def)
  obtain lsb msb where w:
      "timer_write_divisor K ?reg freq ?h2 = (0, wr ?reg (ucast msb) (wr ?reg (ucast lsb) ?h2))"
    and v: "uint (lsb :: u8) + 256 * uint (msb :: u8) = 1193182 div uint freq"
    using write_divisor_responsive [OF assms(1) assms(3)] by blast
  have "timer_set_frequency K timer freq h = (0, wr ?reg (ucast msb) (wr ?reg (ucast lsb) ?h2))"
    using assms w
    by (simp add: timer_set_frequency_def conf timer_select_in_range responsive_def
        control_word_def not_less Let_def)
  with v show ?thesis by (auto simp: Let_def TIMER_0_def TIMER_CTRL_def)
qed

text \<open>At 60 Hz, the frequency the game asks for, the divisor is 19886.\<close>

lemma timer_set_frequency_ports_witness:
  "\<exists>lsb msb. uint (lsb :: u8) + 256 * uint (msb :: u8) = (19886 :: int) \<and>
     timer_set_frequency (demo_kernel 0x34) 0 60 [] =
       (0, [(0x43, 0xE2), (0x40, 0x34), (0x43, 0x34), (0x40, ucast lsb), (0x40, ucast msb)])"
  using timer_set_frequency_ports [where timer = 0 and freq = 60 and h = "[]", OF demo_kernel_responsive [of "0x34"]]
  by (simp add: timer_consts readback_cmd_def control_word_def Let_def) (metis add.commute)

text \<open>A timer number above 2 or a frequency outside 19 .. 1193182 is rejected with the result 1 and
  without a single port access; so is a failing status read or control-word write, before any byte
  of the divisor is written.\<close>

theorem timer_set_frequency_rejects:
  "2 < timer \<or> freq < 19 \<or> TIMER_FREQ < freq \<Longrightarrow> timer_set_frequency K timer freq h = (1, h)"
  by (auto simp: timer_set_frequency_def)

lemma timer_set_frequency_rejects_witness:
  "timer_set_frequency (demo_kernel 0) 0 18 [] = (1, [])"
  by (rule timer_set_frequency_rejects) simp

text \<open>The control word that \<open>timer_set_frequency\<close> writes keeps what the status said of the counting
  mode and the counting base, decodes as "LSB then MSB", and selects the timer in its top two bits.\<close>

theorem control_word_fields:
  assumes "timer \<le> 2"
  shows "timer_conf_field (control_word timer st) tsf_initial = In_mode MSB_after_LSB \<and>
         timer_conf_field (control_word timer st) tsf_mode = timer_conf_field st tsf_mode \<and>
         timer_conf_field (control_word timer st) tsf_base = timer_conf_field st tsf_base \<and>
         drop_bit 6 (control_word timer st) = timer"
proof -
  have i: "drop_bit 4 (control_word timer st) AND 3 = 3"
    and m: "drop_bit 1 (control_word timer st) AND 7 = drop_bit 1 st AND 7"
    and b: "control_word timer st AND 1 = st AND 1"
    and t: "drop_bit 6 (control_word timer st) = timer"
    using assms
    by (cases rule: timer_cases3; intro u8_eqI; simp add: control_word_def timer_consts bit_simps)+
  show ?thesis by (simp add: i m [simplified] b t TIMER_BCD_def)
qed

lemma control_word_fields_witness:
  "drop_bit 6 (control_word 2 0xFF) = (2 :: u8) \<and>
   timer_conf_field (control_word 2 0xB6) tsf_mode = Count_mode 3"
  using control_word_fields [of 2 "0xFF"] control_word_fields [of 2 "0xB6"] by simp

end
