(* ===== verification/Keyboard.thy ===== *)
theory Keyboard
  imports Timer
begin

text \<open>
  The i8042 driver as the keyboard uses it: \<open>controllers/keyboard/kb_controller.c\<close> and
  \<open>kb_interrupts.c\<close> with the constants of \<open>i8042.h\<close>. The lemmas show that both polling loops give
  up after ten busy attempts, that a command is written only when the input buffer is empty, when a
  read succeeds and what it leaves in the scancode when it does not.
\<close>

subsection \<open>Constants of i8042.h\<close>

definition KEYBOARD_IRQ :: int where "KEYBOARD_IRQ = 1"
definition KEYBOARD_STATUS :: int where "KEYBOARD_STATUS = 0x64"
definition KEYBOARD_IN_CMD :: int where "KEYBOARD_IN_CMD = 0x64"
definition KEYBOARD_OUT_CMD :: int where "KEYBOARD_OUT_CMD = 0x60"
definition KEYBOARD_READ_CMD :: u8 where "KEYBOARD_READ_CMD = 0x20"
definition KEYBOARD_WRITE_CMD :: u8 where "KEYBOARD_WRITE_CMD = 0x60"
definition KB_A :: u8 where "KB_A = 0x1E"
definition KB_D :: u8 where "KB_D = 0x20"
definition KB_SPACE :: u8 where "KB_SPACE = 0x39"
definition KB_ENTER :: u8 where "KB_ENTER = 0x1C"
definition KB_UP_ARROW :: u8 where "KB_UP_ARROW = 0x48"
definition KB_DOWN_ARROW :: u8 where "KB_DOWN_ARROW = 0x50"
definition KB_BREAK_ESC :: u8 where "KB_BREAK_ESC = 0x81"
definition KB_BREAK_CODE :: u8 where "KB_BREAK_CODE = BIT 7"
definition IN_BUFFER_FULL :: u8 where "IN_BUFFER_FULL = BIT 1"

lemmas key_codes = KB_A_def KB_D_def KB_SPACE_def KB_ENTER_def KB_UP_ARROW_def KB_DOWN_ARROW_def
  KB_BREAK_ESC_def KB_BREAK_CODE_def

lemmas kbc_consts = KEYBOARD_IRQ_def KEYBOARD_STATUS_def KEYBOARD_IN_CMD_def KEYBOARD_OUT_CMD_def
  KEYBOARD_READ_CMD_def KEYBOARD_WRITE_CMD_def IN_BUFFER_FULL_def


subsection \<open>kb_controller.c\<close>

text \<open>
  One pass of the loop of \<open>read_keyboard_output\<close>. \<open>out\<close> is what \<open>*output\<close> holds before; a pass that
  settles gives the C result and what \<open>*output\<close> holds then. The data byte is stored before the
  parity, timeout and device bits of the status are looked at.
\<close>

definition read_attempt ::
  "'h kernel \<Rightarrow> int \<Rightarrow> ptr \<Rightarrow> u8 \<Rightarrow> u8 \<Rightarrow> 'h \<Rightarrow> (int \<times> u8, 'h) attempt" where
  "read_attempt K port outp mouse out h =
     (case util_sys_inb K KEYBOARD_STATUS Addr h of
        (None, h1) \<Rightarrow> Settled (1, out) h1
      | (Some status, h1) \<Rightarrow>
          if status AND BIT 0 \<noteq> 0 then
            (case util_sys_inb K port outp h1 of
               (None, h2) \<Rightarrow> Settled (1, out) h2
             | (Some v, h2) \<Rightarrow>
                 if status AND BIT 7 \<noteq> 0 then Settled (1, v) h2
                 else if status AND BIT 6 \<noteq> 0 then Settled (1, v) h2
                 else
                   let is_keyboard_output = (status AND BIT 5 = 0) in
                   if (mouse \<noteq> 0 \<and> is_keyboard_output) \<or> (mouse = 0 \<and> \<not> is_keyboard_output)
                   then Settled (1, v) h2
                   else Settled (0, v) h2)
          else Busy (tickdelay_us K 20000 h1))"

definition read_keyboard_output ::
  "'h kernel \<Rightarrow> int \<Rightarrow> ptr \<Rightarrow> u8 \<Rightarrow> u8 \<Rightarrow> 'h \<Rightarrow> int \<times> u8 \<times> 'h" where
  "read_keyboard_output K port outp mouse out h =
     (case retry 10 (read_attempt K port outp mouse out) h of
        (Some (r, v), h') \<Rightarrow> (r, v, h')
      | (None, h') \<Rightarrow> (1, out, h'))"

definition write_attempt :: "'h kernel \<Rightarrow> int \<Rightarrow> u8 \<Rightarrow> 'h \<Rightarrow> (int, 'h) attempt" where
  "write_attempt K port command h =
     (case util_sys_inb K KEYBOARD_STATUS Addr h of
        (None, h1) \<Rightarrow> Settled 1 h1
      | (Some status, h1) \<Rightarrow>
          if status AND IN_BUFFER_FULL = 0 then
            (case sys_outb K port (ucast command) h1 of (r, h2) \<Rightarrow>
               Settled (if r \<noteq> 0 then 1 else 0) h2)
          else Busy (tickdelay_us K 20000 h1))"

definition write_keyboard_command :: "'h kernel \<Rightarrow> int \<Rightarrow> u8 \<Rightarrow> 'h \<Rightarrow> int \<times> 'h" where
  "write_keyboard_command K port command h =
     (case retry 10 (write_attempt K port command) h of
        (Some r, h') \<Rightarrow> (r, h')
      | (None, h') \<Rightarrow> (1, h'))"


subsection \<open>kb_interrupts.c\<close>

record kb_st =
  scancode :: u8
  kb_hook_id :: int

definition kb_init_st :: kb_st where
  "kb_init_st = \<lparr>scancode = 0, kb_hook_id = 1\<rparr>"

definition kbc_ih :: "'h kernel \<Rightarrow> kb_st \<Rightarrow> 'h \<Rightarrow> kb_st \<times> 'h" where
  "kbc_ih K k h =
     (case read_keyboard_output K KEYBOARD_OUT_CMD Addr 0 (scancode k) h of
        (r, v, h') \<Rightarrow> (k\<lparr>scancode := v\<rparr>, h'))"

definition kb_subscribe_int ::
  "'h kernel \<Rightarrow> ptr \<Rightarrow> kb_st \<Rightarrow> 'h \<Rightarrow> int \<times> u8 option \<times> kb_st \<times> 'h" where
  "kb_subscribe_int K bit_no k h =
     (if bit_no = NULL then (1, None, k, h)
      else case sys_irqsetpolicy K KEYBOARD_IRQ (IRQ_REENABLE OR IRQ_EXCLUSIVE) (kb_hook_id k) h of
        (r, hook, h') \<Rightarrow>
          (if r \<noteq> 0 then 1 else 0, Some (word_of_int (kb_hook_id k)), k\<lparr>kb_hook_id := hook\<rparr>, h'))"

definition kb_unsubscribe_int :: "'h kernel \<Rightarrow> kb_st \<Rightarrow> 'h \<Rightarrow> int \<times> 'h" where
  "kb_unsubscribe_int K k h =
     (case sys_irqrmpolicy K (kb_hook_id k) h of (r, h') \<Rightarrow> (if r \<noteq> 0 then 1 else 0, h'))"

text \<open>\<open>junk\<close> is the value of the uninitialised local \<open>config_byte\<close>.\<close>

definition kb_restore_settings :: "'h kernel \<Rightarrow> u8 \<Rightarrow> 'h \<Rightarrow> int \<times> 'h" where
  "kb_restore_settings K junk h =
     (case write_keyboard_command K KEYBOARD_IN_CMD KEYBOARD_READ_CMD h of (r1, h1) \<Rightarrow>
        if r1 \<noteq> 0 then (1, h1)
        else case read_keyboard_output K KEYBOARD_OUT_CMD Addr 0 junk h1 of (r2, config_byte, h2) \<Rightarrow>
          if r2 \<noteq> 0 then (1, h2)
          else
            let config_byte = config_byte OR BIT 0 in
            case write_keyboard_command K KEYBOARD_IN_CMD KEYBOARD_WRITE_CMD h2 of (r3, h3) \<Rightarrow>
              if r3 \<noteq> 0 then (1, h3)
              else case sys_outb K (uint KEYBOARD_WRITE_CMD) (ucast config_byte) h3 of (r4, h4) \<Rightarrow>
                (if r4 \<noteq> 0 then 1 else 0, h4))"


subsection \<open>Polling\<close>

definition read_ready :: "'h kernel \<Rightarrow> 'h \<Rightarrow> bool" where
  "read_ready K h =
     (case fst (util_sys_inb K KEYBOARD_STATUS Addr h) of None \<Rightarrow> True | Some st \<Rightarrow> bit st 0)"

definition write_ready :: "'h kernel \<Rightarrow> 'h \<Rightarrow> bool" where
  "write_ready K h =
     (case fst (util_sys_inb K KEYBOARD_STATUS Addr h) of None \<Rightarrow> True | Some st \<Rightarrow> \<not> bit st 1)"

text \<open>A busy attempt: one status read and a delay of 20 ms; no other port is touched.\<close>

definition status_wait :: "'h kernel \<Rightarrow> 'h \<Rightarrow> 'h" where
  "status_wait K h = tickdelay_us K 20000 (snd (util_sys_inb K KEYBOARD_STATUS Addr h))"

definition attempt_result :: "('h \<Rightarrow> ('r, 'h) attempt) \<Rightarrow> 'h \<Rightarrow> 'r \<times> 'h" where
  "attempt_result f h = (case f h of Settled r h' \<Rightarrow> (r, h') | Busy h' \<Rightarrow> (undefined, h'))"

interpretation kb_read: polling "read_attempt K port outp mouse out" "read_ready K" "status_wait K"
    "attempt_result (read_attempt K port outp mouse out)"
  for K port outp mouse out
proof unfold_locales
  fix h
  show "\<not> read_ready K h \<Longrightarrow> read_attempt K port outp mouse out h = Busy (status_wait K h)"
    by (cases "util_sys_inb K KEYBOARD_STATUS Addr h")
      (auto simp: read_ready_def read_attempt_def status_wait_def split: option.splits)
  show "read_ready K h \<Longrightarrow> read_attempt K port outp mouse out h =
      Settled (fst (attempt_result (read_attempt K port outp mouse out) h))
        (snd (attempt_result (read_attempt K port outp mouse out) h))"
    by (cases "util_sys_inb K KEYBOARD_STATUS Addr h")
      (auto simp: read_ready_def read_attempt_def attempt_result_def Let_def
        split: option.splits prod.splits)
qed

interpretation kb_write: polling "write_attempt K port command" "write_ready K" "status_wait K"
    "attempt_result (write_attempt K port command)"
  for K port command
proof unfold_locales
  fix h
  show "\<not> write_ready K h \<Longrightarrow> write_attempt K port command h = Busy (status_wait K h)"
    by (cases "util_sys_inb K KEYBOARD_STATUS Addr h")
      (auto simp: write_ready_def write_attempt_def status_wait_def IN_BUFFER_FULL_def
        split: option.splits)
  show "write_ready K h \<Longrightarrow> write_attempt K port command h =
      Settled (fst (attempt_result (write_attempt K port command) h))
        (snd (attempt_result (write_attempt K port command) h))"
    by (cases "util_sys_inb K KEYBOARD_STATUS Addr h")
      (auto simp: write_ready_def write_attempt_def attempt_result_def IN_BUFFER_FULL_def
        split: option.splits prod.splits)
qed

lemma funpow_wait_id: "(\<And>h. w h = h) \<Longrightarrow> (w ^^ k) h = h"
  by (induction k) auto


subsection \<open>Properties\<close>

text \<open>A controller whose input buffer stays full through ten status reads never gets the command:
  \<open>write_keyboard_command\<close> returns 1 and its only effect is those ten status reads and delays.\<close>

theorem write_keyboard_command_gives_up:
  assumes "\<forall>k < 10. \<not> write_ready K ((status_wait K ^^ k) h)"
  shows "write_keyboard_command K port command h = (1, (status_wait K ^^ 10) h)"
  using kb_write.retry_busy [OF assms] by (simp add: write_keyboard_command_def)

lemma demo_status_wait: "status_wait (demo_kernel b) l = l @ [(0x64, b)]"
  by (simp add: status_wait_def demo_kernel_def log_kernel_def util_sys_inb_def kbc_consts)

lemma demo_write_ready: "write_ready (demo_kernel b) l = (\<not> bit b 1)"
  by (simp add: write_ready_def demo_kernel_def log_kernel_def util_sys_inb_def bit_simps)

lemma write_keyboard_command_gives_up_witness:
  "write_keyboard_command (demo_kernel 2) 0x64 0x20 [] = (1, replicate 10 (0x64, 2))"
  using write_keyboard_command_gives_up [of "demo_kernel 2" "[]"]
  by (simp add: demo_write_ready demo_status_wait eval_nat_numeral bit_simps)

text \<open>The command is written at the first of the ten status reads that finds the input buffer
  empty, exactly once, right after that read, and the result is 0 exactly when the kernel accepts
  the write.\<close>

theorem write_keyboard_command_writes:
  assumes "k < 10" and "\<forall>j < k. \<not> write_ready K ((status_wait K ^^ j) h)"
    and "util_sys_inb K KEYBOARD_STATUS Addr ((status_wait K ^^ k) h) = (Some st, h1)"
    and "\<not> bit st 1"
  shows "write_keyboard_command K port command h =
           (case sys_outb K port (ucast command) h1 of (r, h2) \<Rightarrow> (if r \<noteq> 0 then 1 else 0, h2))"
proof -
  have "write_ready K ((status_wait K ^^ k) h)" using assms(3,4) by (simp add: write_ready_def)
  from kb_write.retry_ready [OF assms(1,2) this, of port command] assms(3,4) show ?thesis
    by (simp add: write_keyboard_command_def attempt_result_def write_attempt_def IN_BUFFER_FULL_def
        split: prod.splits)
qed

lemma write_keyboard_command_writes_witness:
  "write_keyboard_command (demo_kernel 1) 0x64 0x20 [] = (0, [(0x64, 1), (0x64, 0x20)])"
  using write_keyboard_command_writes [of 0 "demo_kernel 1" "[]" 1 "[(0x64, 1)]" "0x64" "0x20"]
  by (simp add: demo_kernel_def log_kernel_def util_sys_inb_def kbc_consts)

text \<open>A read settles at the first of the ten status reads that finds the output buffer full. It
  takes exactly one data byte from the port, and it succeeds exactly when that status shows no parity
  error, no timeout, and data from the device that was asked for. The byte is stored even when the
  read fails for one of these reasons.\<close>

theorem read_keyboard_output_settles:
  assumes "k < 10" and "\<forall>j < k. \<not> read_ready K ((status_wait K ^^ j) h)"
    and "util_sys_inb K KEYBOARD_STATUS Addr ((status_wait K ^^ k) h) = (Some st, h1)"
    and "bit st 0"
    and "util_sys_inb K port Addr h1 = (Some v, h2)"
  shows "read_keyboard_output K port Addr mouse out h =
           ((if bit st 7 \<or> bit st 6 \<or> (bit st 5 \<longleftrightarrow> mouse = 0) then 1 else 0), v, h2)"
proof -
  have "read_ready K ((status_wait K ^^ k) h)" using assms(3,4) by (simp add: read_ready_def)
  from kb_read.retry_ready [OF assms(1,2) this, of port Addr mouse out] assms(3,4,5) show ?thesis
    by (auto simp: read_keyboard_output_def attempt_result_def read_attempt_def Let_def
        split: if_splits)
qed

lemma read_keyboard_output_settles_witness:
  "read_keyboard_output (demo_kernel 0x1F) 0x60 Addr 0 0xAA [] = (0, 0x1F, [(0x64, 0x1F), (0x60, 0x1F)])
   \<and> read_keyboard_output (demo_kernel 0x3F) 0x60 Addr 0 0xAA [] = (1, 0x3F, [(0x64, 0x3F), (0x60, 0x3F)])"
  using read_keyboard_output_settles [of 0 "demo_kernel 0x1F" "[]" "0x1F" "[(0x64, 0x1F)]" "0x60"
      "0x1F" "[(0x64, 0x1F), (0x60, 0x1F)]" 0 "0xAA"]
    read_keyboard_output_settles [of 0 "demo_kernel 0x3F" "[]" "0x3F" "[(0x64, 0x3F)]" "0x60"
      "0x3F" "[(0x64, 0x3F), (0x60, 0x3F)]" 0 "0xAA"]
  by (simp add: demo_kernel_def log_kernel_def util_sys_inb_def kbc_consts bit_simps)

text \<open>The keyboard handler acts on a byte the driver has rejected: a byte that arrives with a
  parity error, with a timeout, or from the mouse, becomes the scancode.\<close>

theorem kbc_ih_takes_rejected_byte:
  assumes "util_sys_inb K KEYBOARD_STATUS Addr h = (Some st, h1)" and "bit st 0"
    and "bit st 7 \<or> bit st 6 \<or> bit st 5"
    and "util_sys_inb K KEYBOARD_OUT_CMD Addr h1 = (Some v, h2)"
  shows "fst (read_keyboard_output K KEYBOARD_OUT_CMD Addr 0 (scancode k) h) = 1 \<and>
         kbc_ih K k h = (k\<lparr>scancode := v\<rparr>, h2)"
proof -
  have "retry 10 (read_attempt K KEYBOARD_OUT_CMD Addr 0 (scancode k)) h = (Some (1, v), h2)"
    using assms by (auto simp: eval_nat_numeral read_attempt_def Let_def)
  then show ?thesis by (simp add: kbc_ih_def read_keyboard_output_def)
qed

lemma kbc_ih_takes_rejected_byte_witness:
  "scancode (fst (kbc_ih (demo_kernel 0x81) \<lparr>scancode = 0, kb_hook_id = 1\<rparr> [])) = KB_BREAK_ESC"
  using kbc_ih_takes_rejected_byte [of "demo_kernel 0x81" "[]" "0x81" "[(0x64, 0x81)]" "0x81"
      "[(0x64, 0x81), (0x60, 0x81)]" "\<lparr>scancode = 0, kb_hook_id = 1\<rparr>"]
  by (simp add: demo_kernel_def log_kernel_def util_sys_inb_def kbc_consts key_codes bit_simps)

end
