(* ===== verification/Graphics.thy ===== *)
theory Graphics
  imports Machine
begin

text \<open>
  \<open>controllers/graphics/graphic.c\<close>: the VBE mode, the mapped video memory, the back buffer, and the
  drawing primitives up to \<open>print_xpm\<close>. A buffer is the list of its bytes; a store outside of it, a
  load outside of a sprite, or a use of a null pointer sets the sticky flag \<open>gfx_fault\<close>, which stands
  for C's undefined behaviour and which the lemmas show is never set. \<open>panic\<close> ends the process: the
  result \<open>None\<close> of \<open>set_frame_buffer\<close>.

  The abstract screen is a map from coordinates to the bytes of a pixel; the lemmas show that every
  primitive refines the evident operation on it, and when each of them reports failure.
\<close>

subsection \<open>State\<close>

record gfx_st =
  mode_info :: vbe_mode_info
  vram_size :: u32
  video_mem :: "u8 list"
  back_buf :: "u8 list option"
  gfx_fault :: bool

definition zero_mode_info :: vbe_mode_info where
  "zero_mode_info = \<lparr>XResolution = 0, YResolution = 0, BitsPerPixel = 0, MemoryModel = 0, RedMaskSize = 0,
     RedFieldPosition = 0, GreenMaskSize = 0, GreenFieldPosition = 0, BlueMaskSize = 0,
     BlueFieldPosition = 0, PhysBasePtr = 0\<rparr>"

definition gfx_init_st :: gfx_st where
  "gfx_init_st = \<lparr>mode_info = zero_mode_info, vram_size = 0, video_mem = [], back_buf = None,
     gfx_fault = False\<rparr>"

definition MODE :: u16 where "MODE = 0x14c"

definition VBE :: u8 where "VBE = 0x10"

abbreviation xres :: "gfx_st \<Rightarrow> nat" where "xres g \<equiv> unat (XResolution (mode_info g))"
abbreviation yres :: "gfx_st \<Rightarrow> nat" where "yres g \<equiv> unat (YResolution (mode_info g))"

definition bytes_per_pixel :: "vbe_mode_info \<Rightarrow> nat" where
  "bytes_per_pixel m = (unat (BitsPerPixel m) + 7) div 8"

abbreviation bpp :: "gfx_st \<Rightarrow> nat" where "bpp g \<equiv> bytes_per_pixel (mode_info g)"


subsection \<open>Setting the mode\<close>

definition set_graphical_mode :: "'h kernel \<Rightarrow> u16 \<Rightarrow> 'h \<Rightarrow> int \<times> 'h" where
  "set_graphical_mode K mode h =
     (case sys_int86 K 0x4F02 (BIT 14 OR mode) VBE h of (r, h') \<Rightarrow> (if r \<noteq> 0 then 1 else 0, h'))"

definition set_frame_buffer ::
  "'h kernel \<Rightarrow> u16 \<Rightarrow> gfx_st \<Rightarrow> 'h \<Rightarrow> (int \<times> gfx_st \<times> 'h) option" where
  "set_frame_buffer K mode g h =
     (case vbe_get_mode_info K mode h of
        (None, h1) \<Rightarrow> Some (1, g\<lparr>mode_info := zero_mode_info\<rparr>, h1)
      | (Some m, h1) \<Rightarrow>
          let size = word_of_int (uint (XResolution m) * uint (YResolution m))
                     * of_nat (bytes_per_pixel m);
              g1 = g\<lparr>mode_info := m, vram_size := size\<rparr>;
              mr_base = PhysBasePtr m;
              mr_limit = mr_base + size
          in case sys_privctl_add_mem K mr_base mr_limit h1 of (r, h2) \<Rightarrow>
            if r \<noteq> 0 then Some (1, g1, h2)
            else case vm_map_phys K mr_base size h2 of
              (None, h3) \<Rightarrow> None
            | (Some vm, h3) \<Rightarrow>
                (case malloc K size h3 of
                   (None, h4) \<Rightarrow> Some (1, g1\<lparr>video_mem := vm, back_buf := None\<rparr>, h4)
                 | (Some bb, h4) \<Rightarrow> Some (0, g1\<lparr>video_mem := vm, back_buf := Some bb\<rparr>, h4)))"

definition cleanup_buffers :: "gfx_st \<Rightarrow> gfx_st" where
  "cleanup_buffers g = (case back_buf g of None \<Rightarrow> g | Some b \<Rightarrow> g\<lparr>back_buf := None\<rparr>)"


subsection \<open>Stores into the back buffer\<close>

text \<open>The bytes of a \<open>uint32_t\<close> in memory order.\<close>

definition color_bytes :: "u32 \<Rightarrow> u8 list" where
  "color_bytes c = [ucast c, ucast (drop_bit 8 c), ucast (drop_bit 16 c), ucast (drop_bit 24 c)]"

definition set_fault :: "gfx_st \<Rightarrow> gfx_st" where
  "set_fault g = g\<lparr>gfx_fault := True\<rparr>"

text \<open>\<open>memcpy(&back_buf[idx], &color, n)\<close>.\<close>

definition memcpy_color :: "nat \<Rightarrow> u32 \<Rightarrow> nat \<Rightarrow> gfx_st \<Rightarrow> gfx_st" where
  "memcpy_color idx color n g =
     (case back_buf g of
        None \<Rightarrow> set_fault g
      | Some buf \<Rightarrow>
          if n \<le> 4 \<and> idx + n \<le> length buf
          then g\<lparr>back_buf := Some (take idx buf @ take n (color_bytes color) @ drop (idx + n) buf)\<rparr>
          else set_fault g)"

definition norm_color :: "vbe_mode_info \<Rightarrow> u32 \<Rightarrow> u32" where
  "norm_color m color =
     (if BitsPerPixel m = 32 then color else color AND (BIT (unat (BitsPerPixel m)) - 1))"

definition clear_back_buf :: "u32 \<Rightarrow> gfx_st \<Rightarrow> gfx_st" where
  "clear_back_buf color g =
     (let n = bpp g; normalized_color = norm_color (mode_info g) color in
      fold (\<lambda>k. memcpy_color (k * n) normalized_color n)
        [0..<(unat (vram_size g) + n - 1) div n] g)"

definition swap_buffers :: "gfx_st \<Rightarrow> gfx_st" where
  "swap_buffers g =
     (let n = unat (vram_size g) in
      case back_buf g of
        None \<Rightarrow> set_fault g
      | Some buf \<Rightarrow>
          if n \<le> length buf \<and> n \<le> length (video_mem g)
          then g\<lparr>video_mem := take n buf @ drop n (video_mem g)\<rparr>
          else set_fault g)"


subsection \<open>Drawing\<close>

definition vg_draw_pixel :: "u16 \<Rightarrow> u16 \<Rightarrow> u32 \<Rightarrow> gfx_st \<Rightarrow> int \<times> gfx_st" where
  "vg_draw_pixel x y color g =
     (if x \<ge> XResolution (mode_info g) \<or> y \<ge> YResolution (mode_info g) then (1, g)
      else
        let n = bpp g;
            idx = word_of_int (uint (XResolution (mode_info g)) * uint y + uint x) * of_nat n :: u32
        in (0, memcpy_color (unat idx) color n g))"

definition vg_draw_hline :: "u16 \<Rightarrow> u16 \<Rightarrow> u16 \<Rightarrow> u32 \<Rightarrow> gfx_st \<Rightarrow> int \<times> gfx_st" where
  "vg_draw_hline x y len color =
     for_fail (\<lambda>i. vg_draw_pixel (x + of_nat i) y color) [0..<unat len]"

definition vg_draw_rectangle ::
  "u16 \<Rightarrow> u16 \<Rightarrow> u16 \<Rightarrow> u16 \<Rightarrow> u32 \<Rightarrow> gfx_st \<Rightarrow> int \<times> gfx_st" where
  "vg_draw_rectangle x y width height color =
     for_fail (\<lambda>i. vg_draw_hline x (y + of_nat i) width color) [0..<unat height]"

text \<open>
  The loop variables of \<open>clear_area\<close> are 16 bits wide and compared with an \<open>int\<close> bound. Past 65535
  they wrap to 0, but a pixel of column or row 65535 is outside every screen, so the function has
  returned before, unless the width is 0: then the outer loop never ends (\<open>None\<close>).
\<close>

definition clear_area ::
  "u16 \<Rightarrow> u16 \<Rightarrow> u16 \<Rightarrow> u16 \<Rightarrow> u32 \<Rightarrow> gfx_st \<Rightarrow> (int \<times> gfx_st) option" where
  "clear_area x y width height color g =
     (if width = 0 \<and> unat y + unat height \<ge> 2 ^ 16 then None
      else
        let normalized_color = norm_color (mode_info g) color in
        Some (for_fail
          (\<lambda>i. for_fail (\<lambda>j. vg_draw_pixel (of_nat j) (of_nat i) normalized_color)
                 [unat x..<unat x + unat width])
          [unat y..<unat y + unat height] g))"

text \<open>\<open>dir_mode\<close> and \<open>idx_mode\<close> compute in 32-bit unsigned arithmetic.\<close>

definition dir_field :: "u8 \<Rightarrow> u8 \<Rightarrow> u32 \<Rightarrow> u32 \<Rightarrow> u32" where
  "dir_field mask_size position first delta =
     (((BIT (unat mask_size) - 1) AND drop_bit (unat position) first) + delta)
       mod BIT (unat mask_size)"

definition dir_mode :: "vbe_mode_info \<Rightarrow> u32 \<Rightarrow> u32 \<Rightarrow> u8 \<Rightarrow> u32 \<Rightarrow> u32" where
  "dir_mode m col row step first =
     (let r = dir_field (RedMaskSize m) (RedFieldPosition m) first (col * ucast step);
          g = dir_field (GreenMaskSize m) (GreenFieldPosition m) first (row * ucast step);
          b = dir_field (BlueMaskSize m) (BlueFieldPosition m) first ((col + row) * ucast step)
      in push_bit (unat (RedFieldPosition m)) r OR push_bit (unat (GreenFieldPosition m)) g
         OR push_bit (unat (BlueFieldPosition m)) b)"

definition idx_mode :: "vbe_mode_info \<Rightarrow> u32 \<Rightarrow> u32 \<Rightarrow> u8 \<Rightarrow> u32 \<Rightarrow> u8 \<Rightarrow> u32" where
  "idx_mode m col row step first no_rectangles =
     (first + (row * ucast no_rectangles + col) * ucast step) mod BIT (unat (BitsPerPixel m))"

definition print_xpm_pixel :: "xpm_image \<Rightarrow> u16 \<Rightarrow> u16 \<Rightarrow> nat \<times> nat \<Rightarrow> gfx_st \<Rightarrow> int \<times> gfx_st" where
  "print_xpm_pixel img x y = (\<lambda>(h, w) g.
     if h * unat (img_width img) + w < length (img_colors img)
     then vg_draw_pixel (of_nat w + x) (of_nat h + y)
            (img_colors img ! (h * unat (img_width img) + w)) g
     else (1, set_fault g))"

definition print_xpm :: "'h kernel \<Rightarrow> string list \<Rightarrow> u16 \<Rightarrow> u16 \<Rightarrow> gfx_st \<Rightarrow> int \<times> gfx_st" where
  "print_xpm K xpm x y g =
     (case xpm_load K xpm of
        None \<Rightarrow> (1, set_fault g)
      | Some img \<Rightarrow>
          for_fail (print_xpm_pixel img x y)
            (List.product [0..<unat (img_height img)] [0..<unat (img_width img)]) g)"


subsection \<open>Well-formed graphics state\<close>

definition wf_gfx :: "gfx_st \<Rightarrow> bool" where
  "wf_gfx g \<longleftrightarrow>
     \<not> gfx_fault g \<and> 1 \<le> bpp g \<and> bpp g \<le> 4 \<and>
     unat (vram_size g) = xres g * yres g * bpp g \<and>
     (case back_buf g of None \<Rightarrow> False | Some buf \<Rightarrow> length buf = unat (vram_size g)) \<and>
     length (video_mem g) = unat (vram_size g)"

text \<open>Nothing but the contents of the back buffer differs.\<close>

definition same_screen :: "gfx_st \<Rightarrow> gfx_st \<Rightarrow> bool" where
  "same_screen g g' \<longleftrightarrow> (\<exists>b. g' = g\<lparr>back_buf := b\<rparr>)"

definition pixel_at :: "gfx_st \<Rightarrow> nat \<times> nat \<Rightarrow> u8 list" where
  "pixel_at g = (\<lambda>(x, y).
     if x < xres g \<and> y < yres g
     then take (bpp g) (drop ((xres g * y + x) * bpp g) (the (back_buf g))) else [])"

definition pixel_bytes :: "gfx_st \<Rightarrow> u32 \<Rightarrow> u8 list" where
  "pixel_bytes g c = take (bpp g) (color_bytes c)"

lemma wf_gfx_bufE:
  assumes "wf_gfx g"
  obtains buf where "back_buf g = Some buf" "length buf = xres g * yres g * bpp g"
  using assms by (auto simp: wf_gfx_def split: option.splits)

lemma same_screen_refl [simp, intro!]: "same_screen g g"
  unfolding same_screen_def by (rule exI [of _ "back_buf g"]) simp

lemma same_screen_fields:
  assumes "same_screen g g'"
  shows "mode_info g' = mode_info g" "vram_size g' = vram_size g" "video_mem g' = video_mem g"
    "gfx_fault g' = gfx_fault g"
  using assms by (auto simp: same_screen_def)

lemma same_screen_trans: "same_screen g g' \<Longrightarrow> same_screen g' g'' \<Longrightarrow> same_screen g g''"
  by (auto simp: same_screen_def)

lemma pixel_index_less:
  fixes x y w h :: nat
  assumes "x < w" and "y < h"
  shows "w * y + x < w * h"
proof -
  have "w * y + x < w * Suc y" using assms by simp
  also have "\<dots> \<le> w * h" using assms by (intro mult_le_mono2) simp
  finally show ?thesis .
qed

lemma pixel_index_inj:
  fixes x y w :: nat
  assumes "w * y + x = w * y' + x'" "x < w" "x' < w"
  shows "x = x' \<and> y = y'"
proof -
  have "(w * y + x) div w = (w * y' + x') div w" "(w * y + x) mod w = (w * y' + x') mod w"
    using assms(1) by simp_all
  with assms(2,3) show ?thesis by simp
qed

lemma pixel_offset:
  assumes "wf_gfx g" and "unat x < xres g" and "unat y < yres g"
  shows "unat (word_of_int (uint (XResolution (mode_info g)) * uint y + uint x)
               * of_nat (bpp g) :: u32) = (xres g * unat y + unat x) * bpp g"
proof -
  have "(xres g * unat y + unat x) * bpp g < xres g * yres g * bpp g"
    using pixel_index_less [OF assms(2,3)] assms(1) by (simp add: wf_gfx_def)
  also have "\<dots> < 2 ^ 32" using assms(1) unsigned_less [of "vram_size g", where ?'a = nat] by (simp add: wf_gfx_def)
  finally have "(xres g * unat y + unat x) * bpp g < 2 ^ 32" .
  moreover have "uint (XResolution (mode_info g)) * uint y + uint x
      = int (xres g * unat y + unat x)" by simp
  then have "word_of_int (uint (XResolution (mode_info g)) * uint y + uint x) * of_nat (bpp g)
      = (of_nat ((xres g * unat y + unat x) * bpp g) :: u32)"
    by (simp only: of_int_of_nat_eq of_nat_mult)
  ultimately show ?thesis by (simp only: unat_of_nat32)
qed

lemma wf_gfx_buf_update:
  "wf_gfx g \<Longrightarrow> length b = unat (vram_size g) \<Longrightarrow> wf_gfx (g\<lparr>back_buf := Some b\<rparr>)"
  by (simp add: wf_gfx_def)

lemma memcpy_color_ok:
  assumes "wf_gfx g" and "k < xres g * yres g"
  shows "wf_gfx (memcpy_color (k * bpp g) c (bpp g) g)"
    and "same_screen g (memcpy_color (k * bpp g) c (bpp g) g)"
    and "x < xres g \<Longrightarrow> y < yres g \<Longrightarrow>
         pixel_at (memcpy_color (k * bpp g) c (bpp g) g) (x, y) =
           (if xres g * y + x = k then pixel_bytes g c else pixel_at g (x, y))"
proof -
  from assms(1) obtain buf where buf: "back_buf g = Some buf"
    and len: "length buf = xres g * yres g * bpp g" by (rule wf_gfx_bufE)
  have n: "1 \<le> bpp g" "bpp g \<le> 4" using assms(1) by (auto simp: wf_gfx_def)
  have chunk: "j * bpp g + bpp g \<le> length buf" if "j < xres g * yres g" for j
    using mult_le_mono1 [of "Suc j" "xres g * yres g" "bpp g"] that by (simp add: len)
  have lc: "length (take (bpp g) (color_bytes c)) = bpp g" using n by (simp add: color_bytes_def)
  have m: "memcpy_color (k * bpp g) c (bpp g) g = g\<lparr>back_buf := Some (take (k * bpp g) buf @
      take (bpp g) (color_bytes c) @ drop (k * bpp g + bpp g) buf)\<rparr>"
    using chunk [OF assms(2)] n by (simp add: memcpy_color_def buf)
  show "same_screen g (memcpy_color (k * bpp g) c (bpp g) g)"
    unfolding m same_screen_def by (rule exI, rule refl)
  show "wf_gfx (memcpy_color (k * bpp g) c (bpp g) g)"
    unfolding m
  proof (rule wf_gfx_buf_update [OF assms(1)])
    have "unat (vram_size g) = xres g * yres g * bpp g" using assms(1) by (simp add: wf_gfx_def)
    then show "length (take (k * bpp g) buf @ take (bpp g) (color_bytes c) @
        drop (k * bpp g + bpp g) buf) = unat (vram_size g)"
      using length_overwrite [of "k * bpp g" "take (bpp g) (color_bytes c)" buf, unfolded lc,
          OF chunk [OF assms(2)]] len by simp
  qed
  show "pixel_at (memcpy_color (k * bpp g) c (bpp g) g) (x, y) =
      (if xres g * y + x = k then pixel_bytes g c else pixel_at g (x, y))"
    if "x < xres g" "y < yres g"
    using chunk_update [OF lc chunk [OF assms(2)] chunk [OF pixel_index_less [OF that]]] that
    by (simp add: m pixel_at_def pixel_bytes_def buf)
qed

text \<open>
  One pixel: it fails exactly outside the screen, where it changes nothing; inside it stores the
  bytes of the colour at its place and nowhere else.
\<close>

lemma vg_draw_pixel_outside:
  "xres g \<le> unat x \<or> yres g \<le> unat y \<Longrightarrow> vg_draw_pixel x y c g = (1, g)"
  by (auto simp: vg_draw_pixel_def word_le_nat_alt)

lemma vg_draw_pixel_inside:
  assumes "wf_gfx g" and "unat x < xres g" and "unat y < yres g"
  shows "vg_draw_pixel x y c g =
           (0, memcpy_color ((xres g * unat y + unat x) * bpp g) c (bpp g) g)"
  using assms pixel_offset [OF assms] by (simp add: vg_draw_pixel_def word_le_nat_alt Let_def)

lemma vg_draw_pixel_result:
  "wf_gfx g \<Longrightarrow> fst (vg_draw_pixel x y c g) = (if unat x < xres g \<and> unat y < yres g then 0 else 1)"
  by (auto simp: vg_draw_pixel_inside vg_draw_pixel_outside not_less)

lemma vg_draw_pixel_wf:
  "wf_gfx g \<Longrightarrow> wf_gfx (snd (vg_draw_pixel x y c g)) \<and> same_screen g (snd (vg_draw_pixel x y c g))"
  by (cases "unat x < xres g \<and> unat y < yres g")
    (auto simp: vg_draw_pixel_inside vg_draw_pixel_outside not_less pixel_index_less memcpy_color_ok)

lemma vg_draw_pixel_pixels:
  assumes "wf_gfx g" and "unat x < xres g" and "unat y < yres g"
  shows "pixel_at (snd (vg_draw_pixel x y c g)) =
           (pixel_at g)((unat x, unat y) := pixel_bytes g c)"
proof
  fix q :: "nat \<times> nat"
  obtain x' y' where q: "q = (x', y')" by fastforce
  let ?g = "snd (vg_draw_pixel x y c g)"
  have s: "same_screen g ?g" using vg_draw_pixel_wf [OF assms(1)] by blast
  show "pixel_at ?g q = ((pixel_at g)((unat x, unat y) := pixel_bytes g c)) q"
  proof (cases "x' < xres g \<and> y' < yres g")
    case True
    then show ?thesis
      using assms memcpy_color_ok(3) [OF assms(1) pixel_index_less [OF assms(2,3)], of x' y' c]
        pixel_index_inj [of "xres g" y' x' "unat y" "unat x"]
      by (auto simp: q vg_draw_pixel_inside)
  next
    case False
    then show ?thesis using assms same_screen_fields [OF s] by (auto simp: q pixel_at_def)
  qed
qed


subsection \<open>Painters\<close>

text \<open>
  The contract of a family of drawing calls: a well-formed state stays well-formed, only the back
  buffer changes, and the call fails exactly when what it draws does not fit the mode. Loops over
  such calls (\<open>for_fail\<close>) satisfy the same contract.
\<close>

locale painter =
  fixes draw :: "'a \<Rightarrow> gfx_st \<Rightarrow> int \<times> gfx_st"
    and fits :: "'a \<Rightarrow> vbe_mode_info \<Rightarrow> bool"
  assumes draw_wf: "wf_gfx g \<Longrightarrow> wf_gfx (snd (draw a g))"
    and draw_screen: "wf_gfx g \<Longrightarrow> same_screen g (snd (draw a g))"
    and draw_result: "wf_gfx g \<Longrightarrow> fst (draw a g) = (if fits a (mode_info g) then 0 else 1)"
begin

lemma draw_all_wf:
  assumes "wf_gfx g"
  shows "wf_gfx (snd (for_fail draw xs g)) \<and> same_screen g (snd (for_fail draw xs g))"
proof (rule for_fail_inv)
  fix a s
  assume "wf_gfx s \<and> same_screen g s"
  then show "wf_gfx (snd (draw a s)) \<and> same_screen g (snd (draw a s))"
    using draw_wf draw_screen same_screen_trans by blast
qed (simp add: assms)

lemma draw_all_result:
  assumes "wf_gfx g"
  shows "fst (for_fail draw xs g) = (if \<forall>a \<in> set xs. fits a (mode_info g) then 0 else 1)"
proof (cases "\<forall>a \<in> set xs. fits a (mode_info g)")
  case True
  have "fst (for_fail draw xs g) = 0"
  proof (rule for_fail_ok(1) [where P = "\<lambda>s. wf_gfx s \<and> same_screen g s"])
    fix a s
    assume "a \<in> set xs" "wf_gfx s \<and> same_screen g s"
    then show "fst (draw a s) = 0 \<and> wf_gfx (snd (draw a s)) \<and> same_screen g (snd (draw a s))"
      using True draw_wf draw_screen draw_result same_screen_trans same_screen_fields(1)
      by (metis (full_types))
  qed (simp add: assms)
  with True show ?thesis by simp
next
  case False
  then obtain a where a: "a \<in> set xs" "\<not> fits a (mode_info g)" by blast
  have "fst (for_fail draw xs g) = 1"
  proof (rule for_fail_stop [OF a(1), where P = "\<lambda>s. wf_gfx s \<and> same_screen g s"])
    fix b s
    assume "wf_gfx s \<and> same_screen g s"
    then show "wf_gfx (snd (draw b s)) \<and> same_screen g (snd (draw b s))"
      using draw_wf draw_screen same_screen_trans by blast
  next
    fix s
    assume "wf_gfx s \<and> same_screen g s"
    then show "fst (draw a s) \<noteq> 0" using a(2) draw_result same_screen_fields(1) by fastforce
  qed (simp add: assms)
  with False show ?thesis by simp
qed

end

interpretation px: painter "\<lambda>(x, y, c). vg_draw_pixel x y c"
    "\<lambda>(x, y, c) m. unat x < unat (XResolution m) \<and> unat y < unat (YResolution m)"
  by unfold_locales (auto simp: vg_draw_pixel_wf vg_draw_pixel_result split: if_splits)

interpretation row: painter "\<lambda>i. vg_draw_pixel (x + of_nat i) y c"
    "\<lambda>i m. unat (x + of_nat i) < unat (XResolution m) \<and> unat y < unat (YResolution m)"
  for x y c
  by unfold_locales (auto simp: vg_draw_pixel_wf vg_draw_pixel_result split: if_splits)

text \<open>A rectangle fits when it is empty or its last column and row are on the screen.\<close>

definition fits_hline :: "u16 \<Rightarrow> u16 \<Rightarrow> nat \<Rightarrow> vbe_mode_info \<Rightarrow> bool" where
  "fits_hline x y len m \<longleftrightarrow> len = 0 \<or>
     unat x + len \<le> unat (XResolution m) \<and> unat y < unat (YResolution m)"

definition fits_rect :: "u16 \<Rightarrow> u16 \<Rightarrow> nat \<Rightarrow> nat \<Rightarrow> vbe_mode_info \<Rightarrow> bool" where
  "fits_rect x y w h m \<longleftrightarrow> w = 0 \<or> h = 0 \<or>
     unat x + w \<le> unat (XResolution m) \<and> unat y + h \<le> unat (YResolution m)"

interpretation hline: painter "\<lambda>i. vg_draw_hline x (y + of_nat i) len c"
    "\<lambda>i. fits_hline x (y + of_nat i) (unat len)"
  for x y len c
proof unfold_locales
  fix g :: gfx_st and i :: nat
  assume wf: "wf_gfx g"
  show "wf_gfx (snd (vg_draw_hline x (y + of_nat i) len c g))"
    and "same_screen g (snd (vg_draw_hline x (y + of_nat i) len c g))"
    using row.draw_all_wf [OF wf] by (auto simp: vg_draw_hline_def)
  have "(\<forall>j \<in> set [0..<unat len]. unat (x + of_nat j) < xres g \<and> unat (y + of_nat i) < yres g)
      \<longleftrightarrow> fits_hline x (y + of_nat i) (unat len) (mode_info g)"
    using u16_run [of "unat len" x "XResolution (mode_info g)"]
    by (auto simp: fits_hline_def)
  then show "fst (vg_draw_hline x (y + of_nat i) len c g) =
      (if fits_hline x (y + of_nat i) (unat len) (mode_info g) then 0 else 1)"
    unfolding vg_draw_hline_def row.draw_all_result [OF wf] by (rule arg_cong)
qed

interpretation rect: painter "\<lambda>(x, y, w, h, c). vg_draw_rectangle x y w h c"
    "\<lambda>(x, y, w, h, c). fits_rect x y (unat w) (unat h)"
proof unfold_locales
  fix g :: gfx_st and a :: "u16 \<times> u16 \<times> u16 \<times> u16 \<times> u32"
  assume wf: "wf_gfx g"
  obtain x y w h c where a: "a = (x, y, w, h, c)" by (cases a)
  show "wf_gfx (snd ((case a of (x, y, w, h, c) \<Rightarrow> vg_draw_rectangle x y w h c) g))"
    and "same_screen g (snd ((case a of (x, y, w, h, c) \<Rightarrow> vg_draw_rectangle x y w h c) g))"
    using hline.draw_all_wf [OF wf] by (auto simp: a vg_draw_rectangle_def)
  have "(\<forall>i \<in> set [0..<unat h]. fits_hline x (y + of_nat i) (unat w) (mode_info g))
      \<longleftrightarrow> fits_rect x y (unat w) (unat h) (mode_info g)"
    using u16_run [of "unat h" y "YResolution (mode_info g)"]
    by (auto simp: fits_hline_def fits_rect_def)
  then show "fst ((case a of (x, y, w, h, c) \<Rightarrow> vg_draw_rectangle x y w h c) g) =
      (if (case a of (x, y, w, h, c) \<Rightarrow> fits_rect x y (unat w) (unat h)) (mode_info g) then 0 else 1)"
    unfolding a prod.case vg_draw_rectangle_def hline.draw_all_result [OF wf] by (rule arg_cong)
qed

subsection \<open>Sprites\<close>

text \<open>What the loader documents: as many colours as the image has pixels.\<close>

definition img_ok :: "xpm_image \<Rightarrow> bool" where
  "img_ok img \<longleftrightarrow> length (img_colors img) = unat (img_height img) * unat (img_width img)"

definition fits_img :: "xpm_image \<Rightarrow> u16 \<Rightarrow> u16 \<Rightarrow> vbe_mode_info \<Rightarrow> bool" where
  "fits_img img x y = fits_rect x y (unat (img_width img)) (unat (img_height img))"

definition img_color :: "xpm_image \<Rightarrow> nat \<times> nat \<Rightarrow> u32" where
  "img_color img = (\<lambda>(h, w). img_colors img ! (h * unat (img_width img) + w))"

abbreviation img_points :: "xpm_image \<Rightarrow> (nat \<times> nat) list" where
  "img_points img \<equiv> List.product [0..<unat (img_height img)] [0..<unat (img_width img)]"

lemma img_index:
  fixes h w H W :: nat
  assumes "h < H" and "w < W"
  shows "h * W + w < H * W"
proof -
  have "h * W + w < Suc h * W" using assms by simp
  also have "\<dots> \<le> H * W" using assms by (intro mult_le_mono1) simp
  finally show ?thesis .
qed

abbreviation put_img_pixel :: "xpm_image \<Rightarrow> u16 \<Rightarrow> u16 \<Rightarrow> nat \<times> nat \<Rightarrow> gfx_st \<Rightarrow> int \<times> gfx_st" where
  "put_img_pixel img x y a \<equiv>
     vg_draw_pixel (x + of_nat (snd a)) (y + of_nat (fst a)) (img_color img a)"

lemma print_xpm_eq:
  assumes "xpm_load K xpm = Some img" and "img_ok img"
  shows "print_xpm K xpm x y g = for_fail (put_img_pixel img x y) (img_points img) g"
proof -
  have "print_xpm_pixel img x y a s = put_img_pixel img x y a s" if "a \<in> set (img_points img)" for a s
    using that assms(2) img_index [of "fst a" "unat (img_height img)" "snd a" "unat (img_width img)"]
    by (auto simp: print_xpm_pixel_def img_ok_def img_color_def add.commute split: prod.splits)
  then show ?thesis
    unfolding print_xpm_def assms(1) option.case by (intro for_fail_cong) blast
qed

interpretation sprite: painter "put_img_pixel img x y"
    "\<lambda>a m. unat (x + of_nat (snd a)) < unat (XResolution m) \<and>
           unat (y + of_nat (fst a)) < unat (YResolution m)"
  for img x y
  by unfold_locales (auto simp: vg_draw_pixel_wf vg_draw_pixel_result split: if_splits)

lemma fits_img_points:
  "(\<forall>a \<in> set (img_points img). unat (x + of_nat (snd a)) < unat (XResolution m) \<and>
       unat (y + of_nat (fst a)) < unat (YResolution m)) \<longleftrightarrow> fits_img img x y m"
proof -
  have "(\<forall>a \<in> set (img_points img). unat (x + of_nat (snd a)) < unat (XResolution m) \<and>
       unat (y + of_nat (fst a)) < unat (YResolution m)) \<longleftrightarrow>
     (\<forall>h < unat (img_height img). \<forall>w < unat (img_width img).
       unat (x + of_nat w) < unat (XResolution m) \<and> unat (y + of_nat h) < unat (YResolution m))"
    by auto
  also have "\<dots> \<longleftrightarrow> unat (img_height img) = 0 \<or> unat (img_width img) = 0 \<or>
     (\<forall>w < unat (img_width img). unat (x + of_nat w) < unat (XResolution m)) \<and>
     (\<forall>h < unat (img_height img). unat (y + of_nat h) < unat (YResolution m))"
    by (metis gr0I less_zeroE)
  also have "\<dots> \<longleftrightarrow> fits_img img x y m"
    unfolding u16_run fits_img_def fits_rect_def by blast
  finally show ?thesis .
qed

lemma print_xpm_safe:
  assumes "xpm_load K xpm = Some img" and "img_ok img" and "wf_gfx g"
  shows "wf_gfx (snd (print_xpm K xpm x y g)) \<and> same_screen g (snd (print_xpm K xpm x y g))"
  unfolding print_xpm_eq [OF assms(1,2)] by (rule sprite.draw_all_wf [OF assms(3)])

lemma print_xpm_result:
  assumes "xpm_load K xpm = Some img" and "img_ok img" and "wf_gfx g"
  shows "fst (print_xpm K xpm x y g) = (if fits_img img x y (mode_info g) then 0 else 1)"
  unfolding print_xpm_eq [OF assms(1,2)] sprite.draw_all_result [OF assms(3)] fits_img_points ..

text \<open>Pixels drawn one after the other update the abstract screen one after the other.\<close>

lemma pixels_paint:
  assumes "wf_gfx g" and "\<forall>a \<in> set xs. unat (px a) < xres g \<and> unat (py a) < yres g"
  shows "pixel_at (snd (for_fail (\<lambda>a. vg_draw_pixel (px a) (py a) (col a)) xs g)) =
           fold (\<lambda>a f. f((unat (px a), unat (py a)) := pixel_bytes g (col a))) xs (pixel_at g)"
  using assms
proof (induction xs arbitrary: g)
  case (Cons a xs)
  let ?g = "snd (vg_draw_pixel (px a) (py a) (col a) g)"
  from Cons.prems have a: "unat (px a) < xres g" "unat (py a) < yres g" by auto
  have wf: "wf_gfx ?g" and s: "same_screen g ?g" using vg_draw_pixel_wf [OF Cons.prems(1)] by auto
  have r: "fst (vg_draw_pixel (px a) (py a) (col a) g) = 0"
    using a by (simp add: vg_draw_pixel_result [OF Cons.prems(1)])
  have "pixel_at (snd (for_fail (\<lambda>a. vg_draw_pixel (px a) (py a) (col a)) xs ?g)) =
     fold (\<lambda>a f. f((unat (px a), unat (py a)) := pixel_bytes g (col a))) xs (pixel_at ?g)"
    using Cons.IH [OF wf] Cons.prems(2) same_screen_fields(1) [OF s]
    by (simp add: pixel_bytes_def del: fun_upd_apply)
  with r vg_draw_pixel_pixels [OF Cons.prems(1) a] show ?case
    by (simp add: case_prod_beta del: fun_upd_apply)
qed simp

lemma unat_plus_of_nat16:
  "unat x + n < 2 ^ 16 \<Longrightarrow> unat (x + of_nat n :: u16) = unat x + n"
  by (metis of_nat_add of_nat_unat ucast_id unat_of_nat16)

lemma print_xpm_paints_sprite:
  assumes "xpm_load K xpm = Some img" and "img_ok img" and "wf_gfx g"
    and "fits_img img x y (mode_info g)"
  shows "pixel_at (snd (print_xpm K xpm x y g)) (p, q) =
           (if unat x \<le> p \<and> p < unat x + unat (img_width img) \<and>
               unat y \<le> q \<and> q < unat y + unat (img_height img)
            then pixel_bytes g (img_color img (q - unat y, p - unat x)) else pixel_at g (p, q))"
proof (cases "img_points img = []")
  case True
  then have "unat (img_height img) = 0 \<or> unat (img_width img) = 0"
    by (metis length_0_conv length_product length_upt minus_nat.diff_0 mult_is_0)
  with True show ?thesis
    unfolding print_xpm_eq [OF assms(1,2)] by auto
next
  case False
  then have "length (img_points img) \<noteq> 0" by blast
  then have ne: "unat (img_height img) \<noteq> 0" "unat (img_width img) \<noteq> 0" by simp_all
  let ?pt = "\<lambda>a :: nat \<times> nat. (unat (x + of_nat (snd a)), unat (y + of_nat (fst a)))"
  let ?W = "unat (img_width img)" and ?H = "unat (img_height img)"
  have b: "xres g < 2 ^ 16" "yres g < 2 ^ 16"
    using unsigned_less [of "XResolution (mode_info g)", where ?'a = nat]
      unsigned_less [of "YResolution (mode_info g)", where ?'a = nat] by simp_all
  have lim: "unat x + ?W \<le> xres g" "unat y + ?H \<le> yres g"
    using assms(4) ne by (auto simp: fits_img_def fits_rect_def)
  have pt: "?pt a = (unat x + snd a, unat y + fst a)" if "a \<in> set (img_points img)" for a
    using that lim b by (auto intro!: unat_plus_of_nat16)
  have inj: "inj_on ?pt (set (img_points img))"
  proof (rule inj_onI)
    fix a c assume "a \<in> set (img_points img)" "c \<in> set (img_points img)" "?pt a = ?pt c"
    then show "a = c" using pt by (metis add_left_cancel prod.collapse prod.inject)
  qed
  have fit: "\<forall>a \<in> set (img_points img). unat (x + of_nat (snd a)) < xres g \<and>
      unat (y + of_nat (fst a)) < yres g" using assms(4) fits_img_points by blast
  have fold: "pixel_at (snd (print_xpm K xpm x y g)) =
      fold (\<lambda>a f. f(?pt a := pixel_bytes g (img_color img a))) (img_points img) (pixel_at g)"
    unfolding print_xpm_eq [OF assms(1,2)] by (rule pixels_paint [OF assms(3) fit])
  show ?thesis
  proof (cases "unat x \<le> p \<and> p < unat x + ?W \<and> unat y \<le> q \<and> q < unat y + ?H")
    case True
    then have in_img: "(q - unat y, p - unat x) \<in> set (img_points img)" by auto
    with pt [OF in_img] True have "?pt (q - unat y, p - unat x) = (p, q)" by simp
    with fold_upd_at [OF inj in_img, of "\<lambda>a. pixel_bytes g (img_color img a)" "pixel_at g"] True
    show ?thesis unfolding fold by simp
  next
    case False
    have notin: "(p, q) \<notin> ?pt ` set (img_points img)"
    proof
      assume "(p, q) \<in> ?pt ` set (img_points img)"
      then obtain a where "a \<in> set (img_points img)" "(p, q) = ?pt a" by blast
      with pt [OF this(1)] False show False by auto
    qed
    show ?thesis unfolding fold fold_upd_other [OF notin] if_not_P [OF False] ..
  qed
qed


subsection \<open>Clearing and swapping\<close>

lemma clear_prefix:
  assumes "wf_gfx g" and "m \<le> xres g * yres g"
  shows "wf_gfx (fold (\<lambda>k. memcpy_color (k * bpp g) c (bpp g)) [0..<m] g) \<and>
         same_screen g (fold (\<lambda>k. memcpy_color (k * bpp g) c (bpp g)) [0..<m] g) \<and>
         (\<forall>x < xres g. \<forall>y < yres g.
            pixel_at (fold (\<lambda>k. memcpy_color (k * bpp g) c (bpp g)) [0..<m] g) (x, y) =
              (if xres g * y + x < m then pixel_bytes g c else pixel_at g (x, y)))"
  using assms(2)
proof (induction m)
  case (Suc m)
  let ?g = "fold (\<lambda>k. memcpy_color (k * bpp g) c (bpp g)) [0..<m] g"
  have wf: "wf_gfx ?g" and s: "same_screen g ?g" using Suc by auto
  have m: "m < xres ?g * yres ?g" using Suc.prems same_screen_fields(1) [OF s] by simp
  note step = memcpy_color_ok [OF wf m, where c = c, unfolded same_screen_fields(1) [OF s]]
  show ?case
    using step(1) same_screen_trans [OF s step(2)] step(3) Suc
    by (auto simp: less_Suc_eq pixel_bytes_def same_screen_fields(1) [OF s])
qed (use assms(1) in simp)

lemma clear_back_buf_ok:
  assumes "wf_gfx g"
  shows "wf_gfx (clear_back_buf c g)" and "same_screen g (clear_back_buf c g)"
    and "x < xres g \<Longrightarrow> y < yres g \<Longrightarrow>
         pixel_at (clear_back_buf c g) (x, y) = pixel_bytes g (norm_color (mode_info g) c)"
proof -
  have "unat (vram_size g) = xres g * yres g * bpp g" "1 \<le> bpp g"
    using assms by (auto simp: wf_gfx_def)
  then have "(unat (vram_size g) + bpp g - 1) div bpp g = xres g * yres g"
    using div_round_up [of "bpp g" "xres g * yres g"] by simp
  then have eq: "clear_back_buf c g = fold (\<lambda>k. memcpy_color (k * bpp g)
      (norm_color (mode_info g) c) (bpp g)) [0..<xres g * yres g] g"
    by (simp add: clear_back_buf_def Let_def)
  note * = clear_prefix [OF assms order_refl, of "norm_color (mode_info g) c", folded eq]
  from * show "wf_gfx (clear_back_buf c g)" "same_screen g (clear_back_buf c g)" by auto
  from * pixel_index_less show "x < xres g \<Longrightarrow> y < yres g \<Longrightarrow>
      pixel_at (clear_back_buf c g) (x, y) = pixel_bytes g (norm_color (mode_info g) c)" by auto
qed

lemma swap_buffers_ok:
  assumes "wf_gfx g"
  shows "swap_buffers g = g\<lparr>video_mem := the (back_buf g)\<rparr>" and "wf_gfx (swap_buffers g)"
proof -
  from assms obtain buf where b: "back_buf g = Some buf" "length buf = unat (vram_size g)"
    and v: "length (video_mem g) = unat (vram_size g)"
    by (auto simp: wf_gfx_def split: option.splits)
  then show "swap_buffers g = g\<lparr>video_mem := the (back_buf g)\<rparr>"
    by (simp add: swap_buffers_def Let_def)
  with assms b show "wf_gfx (swap_buffers g)" by (simp add: wf_gfx_def)
qed

lemma clear_area_safe:
  assumes "wf_gfx g" and "clear_area x y w h c g = Some r"
  shows "wf_gfx (snd r) \<and> same_screen g (snd r)"
proof -
  let ?row = "\<lambda>i. for_fail (\<lambda>j. vg_draw_pixel (of_nat j) (of_nat i) (norm_color (mode_info g) c))
      [unat x..<unat x + unat w]"
  have row: "wf_gfx (snd (?row i s)) \<and> same_screen g (snd (?row i s))"
    if "wf_gfx s \<and> same_screen g s" for i s
  proof (rule for_fail_inv [where P = "\<lambda>t. wf_gfx t \<and> same_screen g t", OF _ that])
    fix j t
    assume "wf_gfx t \<and> same_screen g t"
    then show "wf_gfx (snd (vg_draw_pixel (of_nat j) (of_nat i) (norm_color (mode_info g) c) t)) \<and>
        same_screen g (snd (vg_draw_pixel (of_nat j) (of_nat i) (norm_color (mode_info g) c) t))"
      using vg_draw_pixel_wf same_screen_trans by blast
  qed
  have "wf_gfx (snd (for_fail ?row is g)) \<and> same_screen g (snd (for_fail ?row is g))" for "is"
    by (rule for_fail_inv [where P = "\<lambda>t. wf_gfx t \<and> same_screen g t"]) (use row assms(1) in auto)
  with assms(2) show ?thesis by (auto simp: clear_area_def Let_def split: if_splits)
qed

lemma set_frame_buffer_success:
  assumes "set_frame_buffer K mode g h = Some (0, g', h')"
  obtains m h1 h2 h3 vm bb where
    "vbe_get_mode_info K mode h = (Some m, h1)"
    "vm_map_phys K (PhysBasePtr m) (vram_size g') h2 = (Some vm, h3)"
    "malloc K (vram_size g') h3 = (Some bb, h')"
    "vram_size g' = word_of_int (uint (XResolution m) * uint (YResolution m)) * of_nat (bytes_per_pixel m)"
    "g' = g\<lparr>mode_info := m, vram_size := vram_size g', video_mem := vm, back_buf := Some bb\<rparr>"
proof -
  from assms obtain m h1 where m: "vbe_get_mode_info K mode h = (Some m, h1)"
    by (cases "vbe_get_mode_info K mode h") (auto simp: set_frame_buffer_def split: option.splits)
  let ?n = "word_of_int (uint (XResolution m) * uint (YResolution m)) * of_nat (bytes_per_pixel m) :: u32"
  obtain r h2 where p: "sys_privctl_add_mem K (PhysBasePtr m) (PhysBasePtr m + ?n) h1 = (r, h2)"
    by fastforce
  from assms m p obtain vm h3 where v: "vm_map_phys K (PhysBasePtr m) ?n h2 = (Some vm, h3)"
    by (cases "vm_map_phys K (PhysBasePtr m) ?n h2")
      (auto simp: set_frame_buffer_def Let_def split: option.splits if_splits)
  from assms m p v obtain bb where b: "malloc K ?n h3 = (Some bb, h')"
    by (cases "malloc K ?n h3")
      (auto simp: set_frame_buffer_def Let_def split: option.splits if_splits)
  from assms m p v b
  have "g' = g\<lparr>mode_info := m, vram_size := ?n, video_mem := vm, back_buf := Some bb\<rparr>"
    by (auto simp: set_frame_buffer_def Let_def split: if_splits)
  then show ?thesis using that m v b by simp
qed

lemma vram_size_value:
  assumes "unat (XResolution m) * unat (YResolution m) * bytes_per_pixel m < 2 ^ 32"
  shows "unat (word_of_int (uint (XResolution m) * uint (YResolution m))
            * of_nat (bytes_per_pixel m) :: u32)
         = unat (XResolution m) * unat (YResolution m) * bytes_per_pixel m"
proof -
  have "uint (XResolution m) * uint (YResolution m)
      = int (unat (XResolution m) * unat (YResolution m))" by simp
  then have "word_of_int (uint (XResolution m) * uint (YResolution m)) * of_nat (bytes_per_pixel m)
      = (of_nat (unat (XResolution m) * unat (YResolution m) * bytes_per_pixel m) :: u32)"
    by (simp only: of_int_of_nat_eq of_nat_mult of_int_mult)
  then show ?thesis using unat_of_nat32 [OF assms] by (simp only:)
qed

text \<open>A small screen for the concrete instances: 4 x 3 pixels of one byte.\<close>

definition tiny_mode :: vbe_mode_info where
  "tiny_mode = mode_14c\<lparr>XResolution := 4, YResolution := 3, BitsPerPixel := 8\<rparr>"

definition tiny_gfx :: gfx_st where
  "tiny_gfx = \<lparr>mode_info = tiny_mode, vram_size = 12, video_mem = replicate 12 0,
     back_buf = Some (replicate 12 7), gfx_fault = False\<rparr>"

definition tiny_img :: xpm_image where
  "tiny_img = \<lparr>img_width = 2, img_height = 1, img_colors = [0x11, 0x22]\<rparr>"

lemma tiny_gfx_wf: "wf_gfx tiny_gfx"
  by (simp add: wf_gfx_def tiny_gfx_def tiny_mode_def bytes_per_pixel_def)


subsection \<open>Properties\<close>

text \<open>After \<open>set_frame_buffer\<close> has returned 0 the graphics state is well-formed: video memory and
  back buffer both hold exactly one byte group per pixel of the mode, so every store the primitives
  make is inside. It needs what is documented of the calls it makes: a mode whose pixels have one to
  four bytes and whose frame fits 32 bits, and blocks of the size that was asked for.\<close>

theorem set_frame_buffer_wf:
  assumes "set_frame_buffer K mode g h = Some (0, g', h')" and "\<not> gfx_fault g"
    and mode: "\<And>m h1. vbe_get_mode_info K mode h = (Some m, h1) \<Longrightarrow>
      1 \<le> bytes_per_pixel m \<and> bytes_per_pixel m \<le> 4 \<and>
      unat (XResolution m) * unat (YResolution m) * bytes_per_pixel m < 2 ^ 32"
    and map_size: "\<And>base n h vm h'. vm_map_phys K base n h = (Some vm, h') \<Longrightarrow> length vm = unat n"
    and malloc_size: "\<And>n h b h'. malloc K n h = (Some b, h') \<Longrightarrow> length b = unat n"
  shows "wf_gfx g'"
proof -
  from assms(1) obtain m h1 h2 h3 vm bb where m: "vbe_get_mode_info K mode h = (Some m, h1)"
    and v: "vm_map_phys K (PhysBasePtr m) (vram_size g') h2 = (Some vm, h3)"
    and b: "malloc K (vram_size g') h3 = (Some bb, h')"
    and n: "vram_size g' = word_of_int (uint (XResolution m) * uint (YResolution m)) * of_nat (bytes_per_pixel m)"
    and g': "g' = g\<lparr>mode_info := m, vram_size := vram_size g', video_mem := vm, back_buf := Some bb\<rparr>"
    by (rule set_frame_buffer_success)
  from mode [OF m] have "unat (vram_size g') =
      unat (XResolution m) * unat (YResolution m) * bytes_per_pixel m"
    unfolding n by (intro vram_size_value) simp
  with mode [OF m] map_size [OF v] malloc_size [OF b] assms(2) show ?thesis
    by (subst g') (simp add: wf_gfx_def)
qed

lemma set_frame_buffer_wf_witness:
  "wf_gfx (fst (snd (the (set_frame_buffer (log_kernel (\<lambda>p l. 0) tiny_mode (\<lambda>x. None)) MODE gfx_init_st []))))"
proof -
  let ?K = "log_kernel (\<lambda>p l. 0) tiny_mode (\<lambda>x. None)"
  obtain g' h' where r: "set_frame_buffer ?K MODE gfx_init_st [] = Some (0, g', h')"
    by (simp add: set_frame_buffer_def log_kernel_def Let_def)
  have "wf_gfx g'"
    by (rule set_frame_buffer_wf [OF r])
      (auto simp: log_kernel_def gfx_init_st_def tiny_mode_def bytes_per_pixel_def)
  with r show ?thesis by simp
qed

text \<open>C19. \<open>print_xpm\<close> is memory-safe at every position: it stays inside the back buffer and the sprite,
  and touches neither video memory nor the mode. It returns 0 exactly when the sprite lies on the
  screen. Then each pixel of the sprite has its colour at the sprite's place, and every pixel outside
  is as before.\<close>

theorem print_xpm_correct:
  assumes "xpm_load K xpm = Some img" and "img_ok img" and "wf_gfx g"
  shows "wf_gfx (snd (print_xpm K xpm x y g)) \<and> same_screen g (snd (print_xpm K xpm x y g)) \<and>
         fst (print_xpm K xpm x y g) = (if fits_img img x y (mode_info g) then 0 else 1) \<and>
         (fst (print_xpm K xpm x y g) = 0 \<longrightarrow>
            (\<forall>p q. pixel_at (snd (print_xpm K xpm x y g)) (p, q) =
               (if unat x \<le> p \<and> p < unat x + unat (img_width img) \<and>
                   unat y \<le> q \<and> q < unat y + unat (img_height img)
                then pixel_bytes g (img_color img (q - unat y, p - unat x))
                else pixel_at g (p, q))))"
  using print_xpm_safe [OF assms, of x y] print_xpm_result [OF assms, of x y]
    print_xpm_paints_sprite [OF assms, of x y]
  by (auto split: if_splits)

lemma print_xpm_correct_witness:
  "pixel_at (snd (print_xpm (log_kernel (\<lambda>p l. 0) tiny_mode (\<lambda>x. Some tiny_img)) [] 2 1 tiny_gfx)) (3, 1) = [0x22]
   \<and> fst (print_xpm (log_kernel (\<lambda>p l. 0) tiny_mode (\<lambda>x. Some tiny_img)) [] 3 1 tiny_gfx) = 1"
proof -
  let ?K = "log_kernel (\<lambda>p l. 0) tiny_mode (\<lambda>x. Some tiny_img)"
  have load: "xpm_load ?K [] = Some tiny_img" by (simp add: log_kernel_def)
  have ok: "img_ok tiny_img" by (simp add: img_ok_def tiny_img_def)
  have f: "fits_img tiny_img 2 1 (mode_info tiny_gfx)" "\<not> fits_img tiny_img 3 1 (mode_info tiny_gfx)"
    by (simp_all add: fits_img_def fits_rect_def tiny_img_def tiny_gfx_def tiny_mode_def)
  note p = print_xpm_correct [OF load ok tiny_gfx_wf]
  from p [of 2 1] f have "pixel_at (snd (print_xpm ?K [] 2 1 tiny_gfx)) (3, 1) =
      pixel_bytes tiny_gfx (img_color tiny_img (0, 1))" by (simp add: tiny_img_def)
  moreover have "pixel_bytes tiny_gfx (img_color tiny_img (0, 1)) = [0x22]"
    by (simp add: pixel_bytes_def tiny_gfx_def tiny_mode_def bytes_per_pixel_def img_color_def
        tiny_img_def color_bytes_def)
  ultimately show ?thesis using p [of 3 1] f by simp
qed

text \<open>\<open>clear_back_buf\<close> gives every pixel of the back buffer the normalised colour, byte by byte, with
  no store outside of it, whatever the pixel size.\<close>

theorem clear_back_buf_fills:
  assumes "wf_gfx g"
  shows "wf_gfx (clear_back_buf c g) \<and> same_screen g (clear_back_buf c g) \<and>
         (\<forall>x < xres g. \<forall>y < yres g. pixel_at (clear_back_buf c g) (x, y) =
            pixel_bytes g (norm_color (mode_info g) c))"
  using clear_back_buf_ok [OF assms] by blast

lemma clear_back_buf_fills_witness: "pixel_at (clear_back_buf 0x1FF tiny_gfx) (3, 2) = [0xFF]"
proof -
  have "3 < xres tiny_gfx" "2 < yres tiny_gfx" by (simp_all add: tiny_gfx_def tiny_mode_def)
  with clear_back_buf_fills [OF tiny_gfx_wf, of "0x1FF"]
  have "pixel_at (clear_back_buf 0x1FF tiny_gfx) (3, 2) =
      pixel_bytes tiny_gfx (norm_color (mode_info tiny_gfx) 0x1FF)" by blast
  then show ?thesis
    by (simp add: pixel_bytes_def tiny_gfx_def tiny_mode_def bytes_per_pixel_def norm_color_def
        color_bytes_def BIT_def)
qed

text \<open>A filled rectangle is drawn without a store outside the back buffer; the call returns 0
  exactly when the rectangle is empty or lies on the screen.\<close>

theorem vg_draw_rectangle_correct:
  assumes "wf_gfx g"
  shows "wf_gfx (snd (vg_draw_rectangle x y w h c g)) \<and>
         same_screen g (snd (vg_draw_rectangle x y w h c g)) \<and>
         fst (vg_draw_rectangle x y w h c g) =
           (if w = 0 \<or> h = 0 \<or> unat x + unat w \<le> xres g \<and> unat y + unat h \<le> yres g then 0 else 1)"
  using rect.draw_wf [OF assms, of "(x, y, w, h, c)"] rect.draw_screen [OF assms, of "(x, y, w, h, c)"]
    rect.draw_result [OF assms, of "(x, y, w, h, c)"]
  by (simp add: fits_rect_def unat_eq_0)

lemma vg_draw_rectangle_correct_witness:
  "fst (vg_draw_rectangle 0 0 4 3 0 tiny_gfx) = 0 \<and> fst (vg_draw_rectangle 1 0 4 3 0 tiny_gfx) = 1"
  using vg_draw_rectangle_correct [OF tiny_gfx_wf, of 0 0 4 3 0]
    vg_draw_rectangle_correct [OF tiny_gfx_wf, of 1 0 4 3 0]
  by (simp add: tiny_gfx_def tiny_mode_def)

end
