(* ===== verification/Enemies.thy ===== *)
theory Enemies
  imports Graphics Sprites_Game
begin

text \<open>
  \<open>game/enemies/enemies.c\<close>: the 3 x 6 formation of aliens, its march and its drawing. The lemmas show
  that the formation is rigid (every alien that is still alive keeps its place in the grid), that it
  turns at the edges of the screen before any alien leaves it, and what one call of \<open>move_enemies\<close>
  does in each of its three cases.
\<close>

subsection \<open>State\<close>

definition MAX_ENEMIES :: nat where "MAX_ENEMIES = 18"
definition ENEMY_ROWS :: nat where "ENEMY_ROWS = 3"
definition ENEMY_COLS :: nat where "ENEMY_COLS = 6"
definition ENEMY_WIDTH :: int where "ENEMY_WIDTH = 40"
definition ENEMY_HEIGHT :: int where "ENEMY_HEIGHT = 40"
definition ENEMY_SPACING_X :: int where "ENEMY_SPACING_X = 100"
definition ENEMY_SPACING_Y :: int where "ENEMY_SPACING_Y = 80"
definition ENEMY_START_X :: int where "ENEMY_START_X = 100"
definition ENEMY_START_Y :: int where "ENEMY_START_Y = 50"

lemmas enemy_consts = MAX_ENEMIES_def ENEMY_ROWS_def ENEMY_COLS_def ENEMY_WIDTH_def
  ENEMY_HEIGHT_def ENEMY_SPACING_X_def ENEMY_SPACING_Y_def ENEMY_START_X_def ENEMY_START_Y_def

record Enemy =
  e_x :: int
  e_y :: int
  e_active :: bool
  e_type :: int

record enemies_st =
  enemies :: "Enemy list"
  enemy_direction :: int
  enemy_move_timer :: int
  enemy_drop_timer :: int
  should_drop :: bool

definition enemies_init_st :: enemies_st where
  "enemies_init_st =
     \<lparr>enemies = replicate MAX_ENEMIES \<lparr>e_x = 0, e_y = 0, e_active = False, e_type = 0\<rparr>,
      enemy_direction = 1, enemy_move_timer = 0, enemy_drop_timer = 0, should_drop = False\<rparr>"


subsection \<open>Operations\<close>

definition place_enemy :: "nat \<times> nat \<Rightarrow> Enemy list \<times> nat \<Rightarrow> Enemy list \<times> nat" where
  "place_enemy = (\<lambda>(row, col) (es, enemy_index).
     if enemy_index < MAX_ENEMIES then
       (es[enemy_index :=
          \<lparr>e_x = ENEMY_START_X + int col * ENEMY_SPACING_X,
           e_y = ENEMY_START_Y + int row * ENEMY_SPACING_Y,
           e_active = True, e_type = int row\<rparr>], enemy_index + 1)
     else (es, enemy_index))"

definition init_enemies :: "enemies_st \<Rightarrow> int \<times> enemies_st" where
  "init_enemies s =
     (0, s\<lparr>enemies := fst (fold place_enemy (List.product [0..<ENEMY_ROWS] [0..<ENEMY_COLS])
                             (enemies s, 0))\<rparr>)"

definition enemy_xpm :: "int \<Rightarrow> string list" where
  "enemy_xpm type =
     (if type = 0 then Alien1_xpm else if type = 1 then Alien2_xpm
      else if type = 2 then Alien3_xpm else Alien1_xpm)"

definition draw_enemy :: "'h kernel \<Rightarrow> Enemy \<Rightarrow> gfx_st \<Rightarrow> int \<times> gfx_st" where
  "draw_enemy K enemy g =
     (if \<not> e_active enemy then (0, g)
      else print_xpm K (enemy_xpm (e_type enemy)) (word_of_int (e_x enemy))
             (word_of_int (e_y enemy)) g)"

definition draw_all_enemies :: "'h kernel \<Rightarrow> Enemy list \<Rightarrow> gfx_st \<Rightarrow> int \<times> gfx_st" where
  "draw_all_enemies K =
     for_fail (\<lambda>enemy g. if e_active enemy then draw_enemy K enemy g else (0, g))"

text \<open>\<open>clear_area\<close> is called with the constant size 40 x 40, so it always returns.\<close>

definition clear_enemy :: "Enemy \<Rightarrow> gfx_st \<Rightarrow> int \<times> gfx_st" where
  "clear_enemy enemy g =
     (if \<not> e_active enemy then (0, g)
      else case clear_area (word_of_int (e_x enemy)) (word_of_int (e_y enemy))
             (word_of_int ENEMY_WIDTH) (word_of_int ENEMY_HEIGHT) 0 g of
        None \<Rightarrow> (0, g)
      | Some (r, g') \<Rightarrow> (0, g'))"

definition clear_all_enemies :: "Enemy list \<Rightarrow> gfx_st \<Rightarrow> int \<times> gfx_st" where
  "clear_all_enemies =
     for_fail (\<lambda>enemy g. if e_active enemy then clear_enemy enemy g else (0, g))"

definition at_edge :: "int \<Rightarrow> int \<Rightarrow> Enemy \<Rightarrow> bool" where
  "at_edge screen_width direction e \<longleftrightarrow>
     (direction > 0 \<and> e_x e + ENEMY_WIDTH \<ge> screen_width - 20) \<or> (direction < 0 \<and> e_x e \<le> 20)"

definition march :: "bool \<Rightarrow> int \<Rightarrow> Enemy \<Rightarrow> Enemy" where
  "march dropping direction e =
     (if e_active e then
        if dropping then e\<lparr>e_y := e_y e + 40\<rparr> else e\<lparr>e_x := e_x e + direction * 20\<rparr>
      else e)"

definition move_enemies :: "vbe_mode_info \<Rightarrow> enemies_st \<Rightarrow> int \<times> enemies_st" where
  "move_enemies m s =
     (let hit_edge = (\<exists>e \<in> set (enemies s). e_active e \<and>
                        at_edge (uint (XResolution m)) (enemy_direction s) e)
      in if hit_edge then
           (0, s\<lparr>enemy_direction := enemy_direction s * -1, should_drop := True\<rparr>)
         else
           (0, s\<lparr>enemies := map (march (should_drop s) (enemy_direction s)) (enemies s),
                should_drop := False\<rparr>))"

definition count_active_enemies :: "Enemy list \<Rightarrow> nat" where
  "count_active_enemies es = length (filter e_active es)"

text \<open>From \<open>game_state.c\<close>: the formation moves on every 30th call.\<close>

definition enemies_moving :: "vbe_mode_info \<Rightarrow> enemies_st \<Rightarrow> enemies_st" where
  "enemies_moving m s =
     (let s1 = s\<lparr>enemy_move_timer := enemy_move_timer s + 1\<rparr>
      in if enemy_move_timer s1 \<ge> 30 then (snd (move_enemies m s1))\<lparr>enemy_move_timer := 0\<rparr>
         else s1)"


subsection \<open>The formation\<close>

abbreviation move_enemies_st :: "vbe_mode_info \<Rightarrow> enemies_st \<Rightarrow> enemies_st" where
  "move_enemies_st m s \<equiv> snd (move_enemies m s)"

definition home_x :: "nat \<Rightarrow> int" where "home_x i = 100 + 100 * int (i mod 6)"
definition home_y :: "nat \<Rightarrow> int" where "home_y i = 50 + 80 * int (i div 6)"

text \<open>Every alien that is alive stands at its home place moved by one common vector.\<close>

definition in_formation :: "int \<Rightarrow> int \<Rightarrow> Enemy list \<Rightarrow> bool" where
  "in_formation dx dy es \<longleftrightarrow> length es = 18 \<and>
     (\<forall>i < 18. e_type (es ! i) = int (i div 6) \<and>
        (e_active (es ! i) \<longrightarrow> e_x (es ! i) = home_x i + dx \<and> e_y (es ! i) = home_y i + dy))"

definition wf_enemies :: "int \<Rightarrow> enemies_st \<Rightarrow> bool" where
  "wf_enemies w s \<longleftrightarrow>
     (enemy_direction s = 1 \<or> enemy_direction s = -1) \<and>
     (\<exists>dx dy. in_formation dx dy (enemies s) \<and> dx mod 20 = 0 \<and> dy mod 40 = 0 \<and> 0 \<le> dy) \<and>
     (\<forall>e \<in> set (enemies s). e_active e \<longrightarrow> 0 < e_x e \<and> e_x e + 40 < w)"

lemma less18_cases:
  "(\<forall>i < 18. P i) \<longleftrightarrow> P 0 \<and> P 1 \<and> P 2 \<and> P 3 \<and> P 4 \<and> P 5 \<and> P 6 \<and> P 7 \<and> P 8 \<and> P 9 \<and>
     P 10 \<and> P 11 \<and> P 12 \<and> P 13 \<and> P 14 \<and> P 15 \<and> P 16 \<and> P (17 :: nat)"
  by (simp add: eval_nat_numeral less_Suc_eq all_conj_distrib) 

lemma init_enemies_list:
  assumes "length (enemies s) = 18"
  shows "enemies (snd (init_enemies s)) =
    map (\<lambda>i. \<lparr>e_x = home_x i, e_y = home_y i, e_active = True, e_type = int (i div 6)\<rparr>) [0..<18]"
proof -
  obtain a0 a1 a2 a3 a4 a5 a6 a7 a8 a9 a10 a11 a12 a13 a14 a15 a16 a17 where
    "enemies s = [a0, a1, a2, a3, a4, a5, a6, a7, a8, a9, a10, a11, a12, a13, a14, a15, a16, a17]"
    using assms by (auto simp: eval_nat_numeral length_Suc_conv)
  then show ?thesis
    by (simp add: init_enemies_def place_enemy_def enemy_consts upt_rec home_x_def home_y_def)
qed

lemma in_formation_active:
  "in_formation dx dy es \<Longrightarrow> e \<in> set es \<Longrightarrow> e_active e \<Longrightarrow>
     \<exists>i < 18. e = es ! i \<and> e_x e = home_x i + dx \<and> e_y e = home_y i + dy"
  by (auto simp: in_formation_def in_set_conv_nth)

lemma init_enemies_formation:
  "length (enemies s) = 18 \<Longrightarrow> in_formation 0 0 (enemies (snd (init_enemies s)))"
  by (simp add: in_formation_def init_enemies_list)

lemma init_enemies_wf:
  assumes "length (enemies s) = 18" and "enemy_direction s = 1 \<or> enemy_direction s = -1" and "640 < w"
  shows "wf_enemies w (snd (init_enemies s))"
proof -
  have "0 < e_x e \<and> e_x e + 40 < w"
    if e: "e \<in> set (enemies (snd (init_enemies s)))" "e_active e" for e
  proof -
    obtain i where "i < 18" "e_x e = home_x i"
      using in_formation_active [OF init_enemies_formation, OF assms(1) e] by auto
    moreover have "int (i mod 6) \<le> 5" by (simp add: less_Suc_eq_le [symmetric])
    ultimately show ?thesis using assms(3) by (simp add: home_x_def)
  qed
  moreover have "enemy_direction (snd (init_enemies s)) = enemy_direction s"
    by (simp add: init_enemies_def)
  moreover have "\<exists>dx dy. in_formation dx dy (enemies (snd (init_enemies s))) \<and> dx mod 20 = 0 \<and>
      dy mod 40 = 0 \<and> 0 \<le> dy"
    using init_enemies_formation [OF assms(1)] by (intro exI [of _ 0]) simp
  ultimately show ?thesis using assms(2) unfolding wf_enemies_def by simp
qed

lemma march_simps [simp]:
  "e_active (march dr d e) = e_active e" "e_type (march dr d e) = e_type e"
  by (simp_all add: march_def)

lemma count_march [simp]: "count_active_enemies (map (march dr d) es) = count_active_enemies es"
  by (simp add: count_active_enemies_def filter_map comp_def)

lemma march_formation:
  assumes "in_formation dx dy es"
  shows "in_formation (if dr then dx else dx + d * 20) (if dr then dy + 40 else dy)
           (map (march dr d) es)"
  using assms by (auto simp: in_formation_def march_def)

text \<open>The three cases of one call: turn, drop, march.\<close>

definition hits_edge :: "vbe_mode_info \<Rightarrow> enemies_st \<Rightarrow> bool" where
  "hits_edge m s \<longleftrightarrow> (\<exists>e \<in> set (enemies s). e_active e \<and>
     at_edge (uint (XResolution m)) (enemy_direction s) e)"

lemma move_enemies_turn:
  "hits_edge m s \<Longrightarrow> move_enemies m s =
     (0, s\<lparr>enemy_direction := - enemy_direction s, should_drop := True\<rparr>)"
  by (simp add: move_enemies_def hits_edge_def Let_def)

lemma move_enemies_go:
  "\<not> hits_edge m s \<Longrightarrow> move_enemies m s =
     (0, s\<lparr>enemies := map (march (should_drop s) (enemy_direction s)) (enemies s),
          should_drop := False\<rparr>)"
  by (auto simp: move_enemies_def hits_edge_def Let_def)

lemma move_enemies_wf:
  assumes "wf_enemies (uint (XResolution m)) s"
  shows "wf_enemies (uint (XResolution m)) (move_enemies_st m s)"
proof (cases "hits_edge m s")
  case True
  then show ?thesis using assms by (auto simp: wf_enemies_def move_enemies_turn)
next
  case False
  let ?w = "uint (XResolution m)" and ?d = "enemy_direction s"
  from assms obtain dx dy where f: "in_formation dx dy (enemies s)"
    and dx: "dx mod 20 = 0" and dy: "dy mod 40 = 0" "0 \<le> dy" and d: "?d = 1 \<or> ?d = -1"
    and on: "\<And>e. e \<in> set (enemies s) \<Longrightarrow> e_active e \<Longrightarrow> 0 < e_x e \<and> e_x e + 40 < ?w"
    by (auto simp: wf_enemies_def)
  have free: "\<not> at_edge ?w ?d e" if "e \<in> set (enemies s)" "e_active e" for e
    using False that by (auto simp: hits_edge_def)
  let ?dx = "if should_drop s then dx else dx + ?d * 20"
  let ?dy = "if should_drop s then dy + 40 else dy"
  have "?dx mod 20 = 0" "?dy mod 40 = 0" "0 \<le> ?dy" using dx dy by (auto simp: mod_simps)
  with march_formation [OF f, of "should_drop s" ?d]
  have grid: "\<exists>dx dy. in_formation dx dy (map (march (should_drop s) ?d) (enemies s)) \<and>
      dx mod 20 = 0 \<and> dy mod 40 = 0 \<and> 0 \<le> dy" by (intro exI conjI)
  have "0 < e_x e \<and> e_x e + 40 < ?w"
    if e: "e \<in> march (should_drop s) ?d ` set (enemies s)" "e_active e" for e
  proof -
    obtain e0 where e0: "e0 \<in> set (enemies s)" "e = march (should_drop s) ?d e0" using e by blast
    with e have "e_active e0" by simp
    with on [OF e0(1)] free [OF e0(1)] d show ?thesis
      by (auto simp: e0(2) march_def at_edge_def enemy_consts)
  qed
  with grid d show ?thesis unfolding wf_enemies_def move_enemies_go [OF False] by simp
qed

lemma enemies_moving_wf:
  assumes "wf_enemies (uint (XResolution m)) s"
  shows "wf_enemies (uint (XResolution m)) (enemies_moving m s)"
proof -
  let ?s1 = "s\<lparr>enemy_move_timer := enemy_move_timer s + 1\<rparr>"
  have 1: "wf_enemies (uint (XResolution m)) ?s1" using assms by (simp add: wf_enemies_def)
  from move_enemies_wf [OF 1] 1 show ?thesis by (simp add: enemies_moving_def Let_def wf_enemies_def)
qed

lemma count_enemies_moving [simp]:
  "count_active_enemies (enemies (enemies_moving m s)) = count_active_enemies (enemies s)"
  by (simp add: enemies_moving_def Let_def move_enemies_def)


subsection \<open>Descent\<close>

text \<open>
  From a state that still has an alien, the formation comes down by one row step of 40 pixels within
  \<open>w div 20 + 2\<close> moves, where \<open>w\<close> is the width of the screen: it marches to the edge, turns, and
  drops. \<open>room\<close> counts the moves the march has left.
\<close>

definition room :: "int \<Rightarrow> enemies_st \<Rightarrow> nat \<Rightarrow> nat" where
  "room w s i = nat (if enemy_direction s > 0 then w - e_x (enemies s ! i) else e_x (enemies s ! i))"

lemma iterate_Suc: "(f ^^ n) (f s) = (f ^^ Suc n) s"
  by (simp add: funpow_swap1)

lemma in_formation_not_both_edges:
  assumes "in_formation dx dy es" and "700 \<le> w" and "e \<in> set es" "e_active e" "f \<in> set es" "e_active f"
    and "e_x e + 60 \<ge> w"
  shows "20 < e_x f"
proof -
  obtain i j where "i < 18" "e_x e = home_x i + dx" "j < 18" "e_x f = home_x j + dx"
    using in_formation_active [OF assms(1,3,4)] in_formation_active [OF assms(1,5,6)] by blast
  moreover have "int (i mod 6) \<le> 5" "0 \<le> int (j mod 6)" by (simp_all add: less_Suc_eq_le [symmetric])
  ultimately show ?thesis using assms(2,7) by (simp add: home_x_def)
qed

lemma turn_then_clear:
  assumes "wf_enemies (uint (XResolution m)) s" and "700 \<le> uint (XResolution m)" and "hits_edge m s"
  shows "\<not> hits_edge m (move_enemies_st m s)"
proof
  assume "hits_edge m (move_enemies_st m s)"
  then obtain f where f: "f \<in> set (enemies s)" "e_active f"
    and fe: "at_edge (uint (XResolution m)) (- enemy_direction s) f"
    by (auto simp: move_enemies_turn [OF assms(3)] hits_edge_def)
  from assms(3) obtain e where e: "e \<in> set (enemies s)" "e_active e"
    and ee: "at_edge (uint (XResolution m)) (enemy_direction s) e" by (auto simp: hits_edge_def)
  from assms(1) obtain dx dy where fm: "in_formation dx dy (enemies s)"
    and d: "enemy_direction s = 1 \<or> enemy_direction s = -1" by (auto simp: wf_enemies_def)
  from d show False
  proof
    assume "enemy_direction s = 1"
    with ee fe have "e_x e + 60 \<ge> uint (XResolution m)" "e_x f \<le> 20"
      by (auto simp: at_edge_def enemy_consts)
    with in_formation_not_both_edges [OF fm assms(2) e f] show False by simp
  next
    assume "enemy_direction s = -1"
    with ee fe have "e_x f + 60 \<ge> uint (XResolution m)" "e_x e \<le> 20"
      by (auto simp: at_edge_def enemy_consts)
    with in_formation_not_both_edges [OF fm assms(2) f e] show False by simp
  qed
qed

lemma drop_now:
  assumes "in_formation dx dy (enemies s)" and "\<not> hits_edge m s" and "should_drop s"
  shows "in_formation dx (dy + 40) (enemies (move_enemies_st m s))"
  using march_formation [OF assms(1), of True "enemy_direction s"] assms(2,3)
  by (simp add: move_enemies_go)

lemma in_formation_unique:
  "in_formation dx dy es \<Longrightarrow> in_formation dx' dy' es \<Longrightarrow> i < 18 \<Longrightarrow> e_active (es ! i) \<Longrightarrow>
     dx' = dx \<and> dy' = dy"
  by (auto simp: in_formation_def)

text \<open>A move without a turn or a drop takes 20 pixels off the room of every alien that is alive.\<close>

lemma march_step:
  assumes "wf_enemies (uint (XResolution m)) s" and "i < 18" and "e_active (enemies s ! i)"
    and "in_formation dx dy (enemies s)" and "\<not> hits_edge m s" and "\<not> should_drop s"
  defines "t \<equiv> move_enemies_st m s"
  shows "room (uint (XResolution m)) s i = room (uint (XResolution m)) t i + 20"
    and "in_formation (dx + enemy_direction s * 20) dy (enemies t)" and "e_active (enemies t ! i)"
proof -
  let ?w = "uint (XResolution m)"
  have d: "enemy_direction s = 1 \<or> enemy_direction s = -1" and len: "length (enemies s) = 18"
    using assms(1,4) by (auto simp: wf_enemies_def in_formation_def)
  have mem: "enemies s ! i \<in> set (enemies s)" using assms(2) len by simp
  have on: "0 < e_x (enemies s ! i)" "e_x (enemies s ! i) + 40 < ?w"
    using assms(1,3) mem by (auto simp: wf_enemies_def)
  have t: "enemies t ! i = march False (enemy_direction s) (enemies s ! i)" "enemy_direction t = enemy_direction s"
    using assms(2,6) len by (simp_all add: t_def move_enemies_go [OF assms(5)])
  have free: "\<not> at_edge ?w (enemy_direction s) (enemies s ! i)"
    using assms(3,5) mem by (auto simp: hits_edge_def)
  show "room ?w s i = room ?w t i + 20"
    using d on free assms(3) by (auto simp: room_def t march_def at_edge_def enemy_consts)
  show "in_formation (dx + enemy_direction s * 20) dy (enemies t)"
    using march_formation [OF assms(4), of False "enemy_direction s"] assms(6)
    by (simp add: t_def move_enemies_go [OF assms(5)])
  show "e_active (enemies t ! i)" using assms(3) by (simp add: t)
qed

lemma formation_descends:
  assumes "wf_enemies (uint (XResolution m)) s" and "700 \<le> uint (XResolution m)"
    and "i < 18" and "e_active (enemies s ! i)" and "in_formation dx dy (enemies s)"
  shows "\<exists>n dx'. 0 < n \<and> n \<le> room (uint (XResolution m)) s i div 20 + 3 \<and>
     in_formation dx' (dy + 40) (enemies ((move_enemies_st m ^^ n) s))"
  using assms
proof (induction "room (uint (XResolution m)) s i" arbitrary: s dx rule: less_induct)
  case less
  let ?w = "uint (XResolution m)" and ?t = "move_enemies_st m s"
  have wf: "wf_enemies ?w ?t" using move_enemies_wf [OF less.prems(1)] .
  show ?case
  proof (cases "hits_edge m s")
    case True
    have "in_formation dx (dy + 40) (enemies (move_enemies_st m ?t))"
      using drop_now [of dx dy ?t m] turn_then_clear [OF less.prems(1,2) True] less.prems(5)
      by (simp add: move_enemies_turn [OF True])
    then have "in_formation dx (dy + 40) (enemies ((move_enemies_st m ^^ 2) s))"
      by (simp add: numeral_2_eq_2)
    then show ?thesis by (intro exI [of _ 2] exI [of _ dx]) simp
  next
    case False
    show ?thesis
    proof (cases "should_drop s")
      case True
      from drop_now [OF less.prems(5) False True] show ?thesis
        by (intro exI [of _ 1] exI [of _ dx]) simp
    next
      case nd: False
      note step = march_step [OF less.prems(1,3,4,5) False nd]
      have r: "room ?w s i = room ?w ?t i + 20" by (rule step(1))
      have f: "in_formation (dx + enemy_direction s * 20) dy (enemies ?t)" by (rule step(2))
      have a: "e_active (enemies ?t ! i)" by (rule step(3))
      have "room ?w ?t i < room ?w s i" using r by simp
      from less.hyps [OF this wf less.prems(2,3) a f] obtain n dx' where
        n: "n \<le> room ?w ?t i div 20 + 3"
        and g: "in_formation dx' (dy + 40) (enemies ((move_enemies_st m ^^ n) ?t))" by blast
      have "room ?w s i div 20 = Suc (room ?w ?t i div 20)" unfolding r by simp
      then have "room ?w s i div 20 + 3 = Suc (room ?w ?t i div 20 + 3)" by (simp only: add_Suc)
      with n have le: "Suc n \<le> room ?w s i div 20 + 3" by (simp only: Suc_le_mono)
      from g have "in_formation dx' (dy + 40) (enemies ((move_enemies_st m ^^ Suc n) s))"
        using iterate_Suc [where f = "\<lambda>s. snd (move_enemies m s)" and n = n and s = s] by simp
      with le show ?thesis by (intro exI [of _ "Suc n"] exI [of _ dx'] conjI zero_less_Suc)
    qed
  qed
qed


subsection \<open>Properties\<close>

text \<open>\<open>init_enemies\<close> fills the array row by row: alien \<open>6 r + c\<close> is alive, of type \<open>r\<close>, at column \<open>c\<close>
  and row \<open>r\<close> of a grid with steps of 100 and 80 pixels that starts at (100, 50).\<close>

theorem init_enemies_grid:
  assumes "length (enemies s) = MAX_ENEMIES" and "r < ENEMY_ROWS" and "c < ENEMY_COLS"
  shows "enemies (snd (init_enemies s)) ! (6 * r + c) =
    \<lparr>e_x = 100 + 100 * int c, e_y = 50 + 80 * int r, e_active = True, e_type = int r\<rparr>"
proof -
  have "6 * r + c < 18" using assms(2,3) by (simp add: enemy_consts)
  with assms show ?thesis
    by (simp add: init_enemies_list enemy_consts home_x_def home_y_def)
qed

lemma init_enemies_grid_witness:
  "e_x (enemies (snd (init_enemies enemies_init_st)) ! 17) = 600"
  using init_enemies_grid [of enemies_init_st 2 5] by (simp add: enemies_init_st_def enemy_consts)

text \<open>C20. The march is rigid and stays on the screen: the aliens that are alive keep their places in the
  grid, the grid moves in steps of 20 pixels sideways and 40 down and never up, the direction is 1 or
  -1, and every living alien's 40-pixel box is strictly between the two borders. Every call of
  \<open>move_enemies\<close> and of \<open>enemies_moving\<close> keeps this, in each of its branches, and neither changes how
  many aliens live.\<close>

theorem march_invariant:
  assumes "wf_enemies (uint (XResolution m)) s"
  shows "wf_enemies (uint (XResolution m)) (snd (move_enemies m s)) \<and>
         wf_enemies (uint (XResolution m)) (enemies_moving m s) \<and>
         count_active_enemies (enemies (enemies_moving m s)) = count_active_enemies (enemies s)"
  using move_enemies_wf [OF assms] enemies_moving_wf [OF assms] by simp

lemma march_invariant_witness:
  "wf_enemies 1152 (snd (move_enemies mode_14c (snd (init_enemies enemies_init_st))))"
proof -
  have "wf_enemies 1152 (snd (init_enemies enemies_init_st))"
    by (rule init_enemies_wf) (simp_all add: enemies_init_st_def enemy_consts)
  with march_invariant [of mode_14c] show ?thesis by (simp add: mode_14c_def)
qed

text \<open>In mode 0x14C (1152 pixels wide) the alien sprites, which are up to 51 pixels wide, never reach
  past the right border, although the code turns by a box of 40 pixels: a marching alien is never to
  the right of 1100.\<close>

theorem marching_alien_fits_width:
  assumes "wf_enemies 1152 s" and "e \<in> set (enemies s)" and "e_active e"
  shows "20 \<le> e_x e \<and> e_x e \<le> 1100 \<and> e_x e + 51 \<le> 1152"
proof -
  from assms(1) obtain dx dy where f: "in_formation dx dy (enemies s)" and "dx mod 20 = 0"
    and on: "0 < e_x e" "e_x e + 40 < 1152"
    using assms(2,3) by (auto simp: wf_enemies_def)
  obtain i where "e_x e = home_x i + dx" using in_formation_active [OF f assms(2,3)] by blast
  with \<open>dx mod 20 = 0\<close> have "e_x e mod 20 = 0" unfolding home_x_def by presburger
  with on show ?thesis by presburger
qed

lemma marching_alien_fits_width_witness:
  "e_x (hd (enemies (snd (init_enemies enemies_init_st)))) + 51 \<le> 1152"
proof -
  have wf: "wf_enemies 1152 (snd (init_enemies enemies_init_st))"
    by (rule init_enemies_wf) (simp_all add: enemies_init_st_def enemy_consts)
  have l: "enemies (snd (init_enemies enemies_init_st)) =
      map (\<lambda>i. \<lparr>e_x = home_x i, e_y = home_y i, e_active = True, e_type = int (i div 6)\<rparr>) [0..<18]"
    by (rule init_enemies_list) (simp add: enemies_init_st_def enemy_consts)
  then have "hd (enemies (snd (init_enemies enemies_init_st))) \<in> set (enemies (snd (init_enemies enemies_init_st)))"
    "e_active (hd (enemies (snd (init_enemies enemies_init_st))))" by (simp_all add: upt_rec)
  from marching_alien_fits_width [OF wf this] show ?thesis by blast
qed

text \<open>The invasion always advances: as long as one alien lives, the whole formation is 40 pixels
  lower after at most \<open>w div 20 + 3\<close> moves, on every screen at least 700 pixels wide.\<close>

theorem formation_comes_down:
  assumes "wf_enemies (uint (XResolution m)) s" and "700 \<le> uint (XResolution m)"
    and "i < MAX_ENEMIES" and "e_active (enemies s ! i)"
  shows "\<exists>n. 0 < n \<and> n \<le> nat (uint (XResolution m)) div 20 + 3 \<and>
     e_y (enemies (((\<lambda>s. snd (move_enemies m s)) ^^ n) s) ! i) = e_y (enemies s ! i) + 40"
proof -
  let ?w = "uint (XResolution m)"
  from assms(1) obtain dx dy where f: "in_formation dx dy (enemies s)" by (auto simp: wf_enemies_def)
  have i: "i < 18" using assms(3) by (simp add: enemy_consts)
  from formation_descends [OF assms(1,2) i assms(4) f] obtain n dx' where
    n: "0 < n" "n \<le> room ?w s i div 20 + 3"
    and g: "in_formation dx' (dy + 40) (enemies ((move_enemies_st m ^^ n) s))" by blast
  have "enemies s ! i \<in> set (enemies s)" using f i by (simp add: in_formation_def)
  with assms(1,4) have on: "0 < e_x (enemies s ! i)" "e_x (enemies s ! i) + 40 < ?w"
    by (auto simp: wf_enemies_def)
  have "room ?w s i \<le> nat ?w" unfolding room_def
    by (rule nat_mono) (use on in simp)
  then have "room ?w s i div 20 \<le> nat ?w div 20" by (rule div_le_mono)
  with n have "n \<le> nat ?w div 20 + 3" by linarith
  moreover have "e_active (enemies ((move_enemies_st m ^^ n) s) ! i)"
    using assms(4) i f
  proof (induction n arbitrary: s dx dy)
    case (Suc n)
    have a: "e_active (enemies (move_enemies_st m s) ! i)"
      using Suc.prems by (cases "hits_edge m s")
        (auto simp: move_enemies_turn move_enemies_go in_formation_def)
    have "\<exists>dx' dy'. in_formation dx' dy' (enemies (move_enemies_st m s))"
      using Suc.prems(3) march_formation [OF Suc.prems(3)]
      by (cases "hits_edge m s") (auto simp: move_enemies_turn move_enemies_go)
    then show ?case
      using Suc.IH [OF a Suc.prems(2)] iterate_Suc [where f = "\<lambda>s. snd (move_enemies m s)" and n = n and s = s]
      by fastforce
  qed simp
  ultimately show ?thesis
    using n(1) g f i assms(4) by (intro exI [of _ n]) (simp add: in_formation_def)
qed

lemma formation_comes_down_witness:
  "\<exists>n. 0 < n \<and> n \<le> 60 \<and> e_y (enemies (((\<lambda>s. snd (move_enemies mode_14c s)) ^^ n)
     (snd (init_enemies enemies_init_st))) ! 0) = 90"
proof -
  let ?s = "snd (init_enemies enemies_init_st)"
  have wf: "wf_enemies (uint (XResolution mode_14c)) ?s"
    by (rule init_enemies_wf) (simp_all add: enemies_init_st_def enemy_consts mode_14c_def)
  have l: "enemies ?s =
      map (\<lambda>i. \<lparr>e_x = home_x i, e_y = home_y i, e_active = True, e_type = int (i div 6)\<rparr>) [0..<18]"
    by (rule init_enemies_list) (simp add: enemies_init_st_def enemy_consts)
  have "\<exists>n. 0 < n \<and> n \<le> nat (uint (XResolution mode_14c)) div 20 + 3 \<and>
      e_y (enemies (((\<lambda>s. snd (move_enemies mode_14c s)) ^^ n) ?s) ! 0) = e_y (enemies ?s ! 0) + 40"
    by (rule formation_comes_down [OF wf]) (simp_all add: mode_14c_def enemy_consts l)
  then show ?thesis by (simp add: mode_14c_def l home_y_def)
qed

end
