(* ===== verification/Score.thy ===== *)
theory Score
  imports Machine
begin

text \<open>
  The scoring half of \<open>game/scores/score.c\<close>: the counters of the running game and the final score.
  The lemmas show the exact value and the range of the score, that it is computed once per game, and
  that the score shown while playing is the score the game would end with.
\<close>

subsection \<open>State\<close>

definition MAX_NAME_LENGTH :: nat where "MAX_NAME_LENGTH = 20"
definition MAX_HIGHSCORES :: nat where "MAX_HIGHSCORES = 100"

record GameScore =
  bullets_fired :: int
  game_time_seconds :: int
  final_score :: int

text \<open>The array \<open>name\<close> of 20 characters is the string up to its terminating NUL.\<close>

record HighScoreEntry =
  hs_name :: string
  hs_score :: int
  hs_bullets_fired :: int
  hs_game_time_seconds :: int

text \<open>\<open>seeded\<close> is the static local of \<open>get_random_anime_name\<close>.\<close>

record score_st =
  current_score :: GameScore
  game_start_time :: int
  game_active :: bool
  highscore_saved_this_game :: bool
  highscores :: "HighScoreEntry list"
  highscore_count :: nat
  seeded :: bool

definition zero_score :: GameScore where
  "zero_score = \<lparr>bullets_fired = 0, game_time_seconds = 0, final_score = 0\<rparr>"

definition score_init_st :: score_st where
  "score_init_st = \<lparr>current_score = zero_score, game_start_time = 0, game_active = False,
     highscore_saved_this_game = False,
     highscores = replicate MAX_HIGHSCORES \<lparr>hs_name = [], hs_score = 0, hs_bullets_fired = 0,
                                             hs_game_time_seconds = 0\<rparr>,
     highscore_count = 0, seeded = False\<rparr>"


subsection \<open>Operations\<close>

definition score_init :: "int \<Rightarrow> score_st \<Rightarrow> score_st" where
  "score_init timer_counter s =
     s\<lparr>current_score := zero_score, game_start_time := timer_counter, game_active := True,
       highscore_saved_this_game := False\<rparr>"

definition score_add_bullet :: "score_st \<Rightarrow> score_st" where
  "score_add_bullet s =
     (if game_active s
      then s\<lparr>current_score := (current_score s)
               \<lparr>bullets_fired := bullets_fired (current_score s) + 1\<rparr>\<rparr>
      else s)"

definition score_update_time :: "int \<Rightarrow> score_st \<Rightarrow> score_st" where
  "score_update_time timer_ticks s =
     (if game_active s
      then s\<lparr>current_score := (current_score s)
               \<lparr>game_time_seconds := c_div (timer_ticks - game_start_time s) 60\<rparr>\<rparr>
      else s)"

definition score_calculate_final :: "score_st \<Rightarrow> int \<times> score_st" where
  "score_calculate_final s =
     (if \<not> game_active s then (final_score (current_score s), s)
      else
        let base_score = 10000;
            bullet_penalty = bullets_fired (current_score s) * 50;
            time_penalty = game_time_seconds (current_score s) * 10;
            score = base_score - bullet_penalty - time_penalty;
            score = (if score < 100 then 100 else score)
        in (score, s\<lparr>current_score := (current_score s)\<lparr>final_score := score\<rparr>,
                     game_active := False\<rparr>))"

definition score_reset :: "score_st \<Rightarrow> score_st" where
  "score_reset s =
     s\<lparr>current_score := zero_score, game_start_time := 0, game_active := False,
       highscore_saved_this_game := False\<rparr>"

text \<open>The value \<open>draw_live_score\<close> shows.\<close>

definition live_score :: "GameScore \<Rightarrow> int" where
  "live_score c =
     (let base_score = 10000;
          bullet_penalty = bullets_fired c * 50;
          time_penalty = game_time_seconds c * 10;
          score = base_score - bullet_penalty - time_penalty
      in if score < 100 then 100 else score)"


subsection \<open>Lemmas\<close>

lemmas score_ops = score_init_def score_add_bullet_def score_update_time_def
  score_calculate_final_def score_reset_def zero_score_def

definition wf_score :: "score_st \<Rightarrow> bool" where
  "wf_score s \<longleftrightarrow> 0 \<le> bullets_fired (current_score s) \<and> 0 \<le> game_time_seconds (current_score s) \<and>
     length (highscores s) = MAX_HIGHSCORES \<and> highscore_count s \<le> MAX_HIGHSCORES"

lemma score_init_wf [keeps]: "wf_score s \<Longrightarrow> wf_score (score_init t s)"
  and score_reset_wf [keeps]: "wf_score s \<Longrightarrow> wf_score (score_reset s)"
  and score_add_bullet_wf [keeps]: "wf_score s \<Longrightarrow> wf_score (score_add_bullet s)"
  and score_calculate_final_wf [keeps]: "wf_score s \<Longrightarrow> wf_score (snd (score_calculate_final s))"
  by (auto simp: wf_score_def score_ops Let_def)

lemma score_update_time_wf [keeps]:
  "wf_score s \<Longrightarrow> game_start_time s \<le> t \<Longrightarrow> wf_score (score_update_time t s)"
  by (auto simp: wf_score_def score_update_time_def pos_imp_zdiv_nonneg_iff)

lemma score_init_st_wf: "wf_score score_init_st"
  by (simp add: wf_score_def score_init_st_def zero_score_def)


subsection \<open>Properties\<close>

text \<open>C25. The final score of a running game is 10000 minus 50 per bullet and 10 per second, but at least
  100; it always lies between 100 and 10000. It is computed once: the game is no longer active
  afterwards, and further calls, further bullets and further clock ticks change nothing.\<close>

theorem final_score_value:
  assumes "game_active s" and "wf_score s"
  shows "fst (score_calculate_final s) =
           max 100 (10000 - 50 * bullets_fired (current_score s) - 10 * game_time_seconds (current_score s)) \<and>
         100 \<le> fst (score_calculate_final s) \<and> fst (score_calculate_final s) \<le> 10000 \<and>
         final_score (current_score (snd (score_calculate_final s))) = fst (score_calculate_final s) \<and>
         score_calculate_final (snd (score_calculate_final s)) = score_calculate_final s \<and>
         score_add_bullet (snd (score_calculate_final s)) = snd (score_calculate_final s) \<and>
         score_update_time t (snd (score_calculate_final s)) = snd (score_calculate_final s)"
  using assms
  by (auto simp: wf_score_def score_ops Let_def max_def)

lemma final_score_value_witness:
  "fst (score_calculate_final (score_add_bullet (score_init 60 score_init_st))) = 9950"
  using final_score_value [of "score_add_bullet (score_init 60 score_init_st)" 0]
    score_add_bullet_wf [OF score_init_wf [OF score_init_st_wf]]
  by (simp add: score_ops)

text \<open>The score shown while playing is the score that ending the game at that moment would give.\<close>

theorem live_score_is_final:
  assumes "game_active s"
  shows "live_score (current_score s) = fst (score_calculate_final s)"
  using assms by (simp add: live_score_def score_calculate_final_def Let_def)

lemma live_score_is_final_witness:
  "live_score (current_score (score_init 7 score_init_st)) = 10000"
  using live_score_is_final [of "score_init 7 score_init_st"]
  by (simp add: score_ops Let_def)

text \<open>The clock of the game: \<open>n\<close> timer interrupts after the start of an active game, \<open>n div 60\<close>
  seconds are counted.\<close>

theorem score_time_counts_seconds:
  assumes "game_active s" and "0 \<le> n"
  shows "game_time_seconds (current_score (score_update_time (game_start_time s + n) s)) = n div 60"
  using assms by (simp add: score_update_time_def)

lemma score_time_counts_seconds_witness:
  "game_time_seconds (current_score (score_update_time 130 (score_init 10 score_init_st))) = 2"
  using score_time_counts_seconds [of "score_init 10 score_init_st" 120] by (simp add: score_init_def)

end
