(* ===== verification/Highscores.thy ===== *)
theory Highscores
  imports Score
begin

text \<open>
  The high-score table of \<open>game/scores/score.c\<close>: the CSV file, its loading and saving, and the sorting
  of the table. The C library calls of this part are modelled for the formats the code uses:
  \<open>fgets\<close> with a buffer of 256, \<open>sscanf\<close> with \<open>%19[^,],%d,%d,%d\<close>, \<open>fprintf\<close> with \<open>%s,%d,%d,%d\<close>, and
  \<open>fopen\<close> in the three modes, each of which may fail.

  The lemmas show that the exchange sort is the stable sort by descending score, that a line that was
  written is read back as it was, that loading any file respects the bounds of the arrays, and that
  loading a file that was saved gives the sorted table of what was saved.
\<close>

subsection \<open>The file\<close>

text \<open>\<open>csv\<close> is the contents of \<open>highscores.csv\<close> (\<open>None\<close>: no such file); the flags say which accesses the
  file system grants.\<close>

record file_st =
  csv :: "string option"
  can_read :: bool
  can_append :: bool
  can_create :: bool
  can_print :: bool

definition newline :: char where "newline = CHR 0x0A"
definition nul :: char where "nul = CHR 0x00"
definition comma :: char where "comma = CHR 0x2C"
definition minus_sign :: char where "minus_sign = CHR 0x2D"
definition plus_sign :: char where "plus_sign = CHR 0x2B"

lemmas char_consts = newline_def nul_def comma_def minus_sign_def plus_sign_def


subsection \<open>Numbers in decimal\<close>

definition digit_char :: "nat \<Rightarrow> char" where
  "digit_char d = char_of (48 + d)"

definition is_digit :: "char \<Rightarrow> bool" where
  "is_digit c \<longleftrightarrow> 48 \<le> (of_char c :: nat) \<and> (of_char c :: nat) \<le> 57"

definition digit_value :: "char \<Rightarrow> nat" where
  "digit_value c = of_char c - 48"

fun show_nat :: "nat \<Rightarrow> string" where
  "show_nat n = (if n < 10 then [digit_char n] else show_nat (n div 10) @ [digit_char (n mod 10)])"

text \<open>\<open>%d\<close> of \<open>printf\<close>.\<close>

definition show_int :: "int \<Rightarrow> string" where
  "show_int i = (if i < 0 then minus_sign # show_nat (nat (- i)) else show_nat (nat i))"

definition is_space :: "char \<Rightarrow> bool" where
  "is_space c \<longleftrightarrow> c = CHR 0x20 \<or> (9 \<le> (of_char c :: nat) \<and> (of_char c :: nat) \<le> 13)"

definition digits_value :: "string \<Rightarrow> nat" where
  "digits_value = foldl (\<lambda>n c. 10 * n + digit_value c) 0"

text \<open>\<open>%d\<close> of \<open>scanf\<close>: white space, an optional sign, and at least one digit.\<close>

definition scan_int :: "string \<Rightarrow> (int \<times> string) option" where
  "scan_int s =
     (let s = dropWhile is_space s;
          neg = (s \<noteq> [] \<and> hd s = minus_sign);
          s = (if s \<noteq> [] \<and> (hd s = minus_sign \<or> hd s = plus_sign) then tl s else s);
          ds = takeWhile is_digit s
      in if ds = [] then None
         else Some ((if neg then - int (digits_value ds) else int (digits_value ds)),
                    dropWhile is_digit s))"

fun scan_char :: "char \<Rightarrow> string \<Rightarrow> string option" where
  "scan_char c [] = None"
| "scan_char c (x # xs) = (if x = c then Some xs else None)"

text \<open>\<open>%19[^,]\<close>: between 1 and 19 characters other than a comma.\<close>

definition scan_name :: "string \<Rightarrow> (string \<times> string) option" where
  "scan_name s =
     (let name = take (MAX_NAME_LENGTH - 1) (takeWhile (\<lambda>c. c \<noteq> comma) s)
      in if name = [] then None else Some (name, drop (length name) s))"

text \<open>\<open>sscanf(line, "%19[^,],%d,%d,%d", ...) == 4\<close>.\<close>

definition scan_comma_int :: "string \<Rightarrow> (int \<times> string) option" where
  "scan_comma_int s = (case scan_char comma s of None \<Rightarrow> None | Some s1 \<Rightarrow> scan_int s1)"

definition scan_line :: "string \<Rightarrow> HighScoreEntry option" where
  "scan_line line =
     (case scan_name (takeWhile (\<lambda>c. c \<noteq> nul) line) of None \<Rightarrow> None | Some (name, s1) \<Rightarrow>
        (case scan_comma_int s1 of None \<Rightarrow> None | Some (score, s2) \<Rightarrow>
           (case scan_comma_int s2 of None \<Rightarrow> None | Some (bullets, s3) \<Rightarrow>
              (case scan_comma_int s3 of None \<Rightarrow> None | Some (time, s4) \<Rightarrow>
                 Some \<lparr>hs_name = name, hs_score = score, hs_bullets_fired = bullets,
                       hs_game_time_seconds = time\<rparr>))))"

text \<open>\<open>fgets(line, 256, file)\<close>: up to 255 characters, through the first newline; \<open>None\<close> at the end.\<close>

definition fgets :: "string \<Rightarrow> (string \<times> string) option" where
  "fgets s =
     (if s = [] then None
      else
        let body = takeWhile (\<lambda>c. c \<noteq> newline) s;
            n = min 255 (length body + (if length body < length s then 1 else 0))
        in Some (take n s, drop n s))"


subsection \<open>Sorting\<close>

definition sort_step :: "nat \<Rightarrow> HighScoreEntry list \<Rightarrow> HighScoreEntry list" where
  "sort_step j hs =
     (if hs_score (hs ! j) < hs_score (hs ! (j + 1))
      then hs[j := hs ! (j + 1), j + 1 := hs ! j] else hs)"

definition sort_pass :: "nat \<Rightarrow> HighScoreEntry list \<Rightarrow> HighScoreEntry list" where
  "sort_pass m hs = fold sort_step [0..<m] hs"

definition sort_highscores :: "score_st \<Rightarrow> score_st" where
  "sort_highscores s =
     (let n = highscore_count s in
      if n \<le> 1 then s
      else s\<lparr>highscores := fold (\<lambda>i. sort_pass (n - i - 1)) [0..<n - 1] (highscores s)\<rparr>)"


subsection \<open>Loading and saving\<close>

lemma fgets_shorter: "fgets s = Some (line, rest) \<Longrightarrow> length rest < length s"
  using length_takeWhile_le [of "\<lambda>c. c \<noteq> newline" s]
  by (cases s) (auto simp: fgets_def Let_def split: if_splits)

definition store_entry :: "HighScoreEntry \<Rightarrow> score_st \<Rightarrow> score_st" where
  "store_entry e s =
     s\<lparr>highscores := (highscores s)[highscore_count s := e], highscore_count := highscore_count s + 1\<rparr>"

function load_lines :: "string \<Rightarrow> score_st \<Rightarrow> score_st" where
  "load_lines file s =
     (case fgets file of
        None \<Rightarrow> s
      | Some (line, rest) \<Rightarrow>
          if highscore_count s < MAX_HIGHSCORES then
            load_lines rest (case scan_line line of None \<Rightarrow> s | Some e \<Rightarrow> store_entry e s)
          else s)"
  by pat_completeness auto
termination
  by (relation "measure (\<lambda>(file, s). length file)") (auto dest: fgets_shorter)

declare load_lines.simps [simp del]

definition load_highscores_from_csv :: "file_st \<Rightarrow> score_st \<Rightarrow> int \<times> score_st" where
  "load_highscores_from_csv f s =
     (if csv f = None \<or> \<not> can_read f then (0, s\<lparr>highscore_count := 0\<rparr>)
      else
        let s1 = s\<lparr>highscore_count := 0\<rparr> in
        case fgets (the (csv f)) of
          None \<Rightarrow> (0, s1)
        | Some (line, rest) \<Rightarrow>
            let s2 = sort_highscores (load_lines rest s1) in (int (highscore_count s2), s2))"

definition csv_header :: string where
  "csv_header = ''Name,Score,Bullets_Fired,Game_Time_Seconds'' @ [newline]"

definition csv_line :: "HighScoreEntry \<Rightarrow> string" where
  "csv_line e =
     hs_name e @ [comma] @ show_int (hs_score e) @ [comma] @ show_int (hs_bullets_fired e) @ [comma]
     @ show_int (hs_game_time_seconds e) @ [newline]"

definition fprintf :: "string \<Rightarrow> file_st \<Rightarrow> bool \<times> file_st" where
  "fprintf text f =
     (if can_print f then (True, f\<lparr>csv := Some ((case csv f of None \<Rightarrow> [] | Some c \<Rightarrow> c) @ text)\<rparr>)
      else (False, f))"

text \<open>The two attempts to open the file for writing: append, then create. \<open>None\<close> if both fail; else the
  file and whether it is taken to exist already.\<close>

definition open_for_saving :: "file_st \<Rightarrow> (bool \<times> file_st) option" where
  "open_for_saving f =
     (let file_exists = (csv f \<noteq> None \<and> can_read f) in
      if can_append f then
        Some (file_exists, f\<lparr>csv := Some (case csv f of None \<Rightarrow> [] | Some c \<Rightarrow> c)\<rparr>)
      else if can_create f then Some (False, f\<lparr>csv := Some []\<rparr>)
      else None)"

definition save_highscore_to_csv ::
  "string \<Rightarrow> int \<Rightarrow> int \<Rightarrow> int \<Rightarrow> file_st \<Rightarrow> score_st \<Rightarrow> int \<times> file_st \<times> score_st" where
  "save_highscore_to_csv name score bullets time f s =
     (case open_for_saving f of
        None \<Rightarrow> (-1, f, s)
      | Some (file_exists, f1) \<Rightarrow>
          let f2 = (if \<not> file_exists then snd (fprintf csv_header f1) else f1);
              e = \<lparr>hs_name = name, hs_score = score, hs_bullets_fired = bullets,
                   hs_game_time_seconds = time\<rparr>
          in case fprintf (csv_line e) f2 of (ok, f3) \<Rightarrow>
            if \<not> ok then (-1, f3, s)
            else if highscore_count s < MAX_HIGHSCORES
              then (0, f3, sort_highscores (store_entry e s))
              else (0, f3, s))"

definition anime_names :: "string list" where
  "anime_names = [''MUGEN'', ''JIN'', ''FUU'', ''SARA'', ''SHIREN'', ''YUKIMARU'', ''KOZA'',
     ''UMANOSUKE'', ''KARIYA'', ''OKURU'', ''SPIKE'', ''JET'', ''FAYE'', ''EDWARD'', ''VICIOUS'',
     ''JULIA'', ''GREN'', ''PIERCE'', ''RHINT'', ''ASIMOV'', ''KATERINA'', ''ROCO'', ''MILES'',
     ''ZEBRA'', ''RASHID'', ''UDAI'']"

text \<open>\<open>rand() % NUM_ANIME_NAMES\<close> is computed in \<open>size_t\<close>, 32 bits wide.\<close>

definition get_random_anime_name :: "'h kernel \<Rightarrow> score_st \<Rightarrow> 'h \<Rightarrow> string \<times> score_st \<times> 'h" where
  "get_random_anime_name K s h =
     (let h1 = (if \<not> seeded s then srand_time K h else h);
          s1 = s\<lparr>seeded := True\<rparr>
      in case lcf_rand K h1 of (r, h2) \<Rightarrow>
        let index = unat ((word_of_int r :: u32) mod of_nat (length anime_names))
        in (anime_names ! index, s1, h2))"

definition save_win_highscore ::
  "'h kernel \<Rightarrow> file_st \<Rightarrow> score_st \<Rightarrow> 'h \<Rightarrow> file_st \<times> score_st \<times> 'h" where
  "save_win_highscore K f s h =
     (if \<not> highscore_saved_this_game s then
        (case get_random_anime_name K s h of (winner_name, s1, h1) \<Rightarrow>
           (case save_highscore_to_csv winner_name (final_score (current_score s1))
                   (bullets_fired (current_score s1)) (game_time_seconds (current_score s1)) f s1 of
              (r, f2, s2) \<Rightarrow> (f2, s2\<lparr>highscore_saved_this_game := True\<rparr>, h1)))
      else (f, s, h))"


subsection \<open>Printing and scanning numbers\<close>

lemma digit_char_props:
  assumes "d < 10"
  shows "is_digit (digit_char d)" and "digit_value (digit_char d) = d"
    and "\<not> is_space (digit_char d)" and "digit_char d \<notin> {newline, nul, comma, minus_sign, plus_sign}"
proof -
  have *: "(of_char (digit_char d) :: nat) = 48 + d" using assms by (simp add: digit_char_def)
  show "is_digit (digit_char d)" "digit_value (digit_char d) = d"
    using assms by (simp_all add: is_digit_def digit_value_def *)
  have "digit_char d \<noteq> c" if "(of_char c :: nat) < 48" for c
    using * that by auto
  then show "\<not> is_space (digit_char d)"
    and "digit_char d \<notin> {newline, nul, comma, minus_sign, plus_sign}"
    using assms by (auto simp: is_space_def * char_consts)
qed

declare show_nat.simps [simp del]

lemma show_nat_nonempty: "show_nat n \<noteq> []"
  by (subst show_nat.simps) simp

lemma show_nat_digits:
  "c \<in> set (show_nat n) \<Longrightarrow> \<exists>d < 10. c = digit_char d"
proof (induction n rule: show_nat.induct)
  case (1 n)
  then show ?case
    by (cases "n < 10") (auto simp: show_nat.simps [of n] intro: exI [of _ "n mod 10"])
qed

lemma show_nat_chars:
  assumes "c \<in> set (show_nat n)"
  shows "is_digit c" and "\<not> is_space c" and "c \<notin> {newline, nul, comma, minus_sign, plus_sign}"
  using show_nat_digits [OF assms] digit_char_props by auto

lemma digits_value_show_nat: "digits_value (show_nat n) = n"
proof (induction n rule: show_nat.induct)
  case (1 n)
  then show ?case
    by (cases "n < 10") (auto simp: show_nat.simps [of n] digits_value_def digit_char_props)
qed

lemma length_show_nat: "n < 10 ^ Suc k \<Longrightarrow> length (show_nat n) \<le> Suc k"
proof (induction k arbitrary: n)
  case 0
  then show ?case by (simp add: show_nat.simps)
next
  case (Suc k)
  then have "n div 10 < 10 ^ Suc k" by (simp add: div_less_iff_less_mult mult.commute)
  with Suc.IH [OF this] show ?case by (simp add: show_nat.simps [of n])
qed

lemma show_int_chars: "c \<in> set (show_int i) \<Longrightarrow> c \<notin> {newline, nul, comma}"
  using show_nat_chars(3) by (fastforce simp: show_int_def char_consts split: if_splits)

lemma length_show_int: "\<bar>i\<bar> < 10 ^ 10 \<Longrightarrow> length (show_int i) \<le> 11"
proof -
  assume "\<bar>i\<bar> < 10 ^ 10"
  then have "nat (- i) < 10 ^ Suc 9" "nat i < 10 ^ Suc 9" by auto
  from this [THEN length_show_nat] show ?thesis by (auto simp: show_int_def)
qed

lemma scan_int_show_nat:
  assumes "rest = [] \<or> \<not> is_digit (hd rest)"
  shows "scan_int (show_nat n @ rest) = Some (int n, rest)"
    and "scan_int (minus_sign # show_nat n @ rest) = Some (- int n, rest)"
proof -
  have w: "dropWhile is_space (show_nat n @ rest) = show_nat n @ rest"
    using show_nat_nonempty [of n] show_nat_chars(2)
    by (metis append_is_Nil_conv dropWhile_eq_self_iff hd_append2 hd_in_set)
  have h: "hd (show_nat n @ rest) \<noteq> minus_sign" "hd (show_nat n @ rest) \<noteq> plus_sign"
    using show_nat_nonempty [of n] show_nat_chars(3) hd_in_set by (auto simp: hd_append)
  have t: "takeWhile is_digit (show_nat n @ rest) = show_nat n"
    using assms show_nat_chars(1) by (cases rest) (auto simp: takeWhile_append)
  have d: "dropWhile is_digit (show_nat n @ rest) = rest"
    using assms show_nat_chars(1) by (cases rest) (auto simp: dropWhile_append)
  show "scan_int (show_nat n @ rest) = Some (int n, rest)"
    using h show_nat_nonempty by (simp add: scan_int_def w t d Let_def digits_value_show_nat)
  have "\<not> is_space minus_sign" by (simp add: is_space_def char_consts)
  then show "scan_int (minus_sign # show_nat n @ rest) = Some (- int n, rest)"
    using show_nat_nonempty by (simp add: scan_int_def t d Let_def digits_value_show_nat)
qed

lemma scan_int_show_int:
  "rest = [] \<or> \<not> is_digit (hd rest) \<Longrightarrow> scan_int (show_int i @ rest) = Some (i, rest)"
  by (simp add: show_int_def scan_int_show_nat)


subsection \<open>A line written is a line read\<close>

text \<open>
  Names that fit the array and hold neither a comma nor a line end, and values in the range of a
  32-bit \<open>int\<close>.
\<close>

definition valid_name :: "string \<Rightarrow> bool" where
  "valid_name n \<longleftrightarrow> 1 \<le> length n \<and> length n < MAX_NAME_LENGTH \<and>
     comma \<notin> set n \<and> newline \<notin> set n \<and> nul \<notin> set n"

definition int32 :: "int \<Rightarrow> bool" where
  "int32 i \<longleftrightarrow> - (2 ^ 31) \<le> i \<and> i < 2 ^ 31"

definition valid_entry :: "HighScoreEntry \<Rightarrow> bool" where
  "valid_entry e \<longleftrightarrow> valid_name (hs_name e) \<and> int32 (hs_score e) \<and> int32 (hs_bullets_fired e) \<and>
     int32 (hs_game_time_seconds e)"

lemma scan_name_valid:
  assumes "valid_name n"
  shows "scan_name (n @ comma # rest) = Some (n, comma # rest)"
proof -
  have "takeWhile (\<lambda>c. c \<noteq> comma) (n @ comma # rest) = n"
    using assms by (simp add: valid_name_def takeWhile_append)
  then show ?thesis using assms by (auto simp: scan_name_def valid_name_def Let_def)
qed

lemma not_digit_consts: "\<not> is_digit comma" "\<not> is_digit newline"
  by (simp_all add: is_digit_def char_consts)

lemma csv_line_chars:
  assumes "valid_entry e"
  shows "nul \<notin> set (csv_line e)" and "newline \<notin> set (butlast (csv_line e))"
    and "last (csv_line e) = newline" and "length (csv_line e) \<le> 255" and "csv_line e \<noteq> []"
proof -
  have n: "nul \<notin> set (show_int i)" "newline \<notin> set (show_int i)" for i using show_int_chars by auto
  let ?body = "hs_name e @ [comma] @ show_int (hs_score e) @ [comma] @
      show_int (hs_bullets_fired e) @ [comma] @ show_int (hs_game_time_seconds e)"
  have body: "csv_line e = ?body @ [newline]" by (simp add: csv_line_def)
  have "newline \<notin> set ?body" "nul \<notin> set ?body"
    using assms n by (simp_all add: valid_entry_def valid_name_def char_consts)
  then show "nul \<notin> set (csv_line e)" "newline \<notin> set (butlast (csv_line e))"
    unfolding body butlast_snoc by (simp_all add: char_consts)
  show "last (csv_line e) = newline" "csv_line e \<noteq> []" unfolding body by (simp_all only: last_snoc snoc_eq_iff_butlast) simp
  have "length (show_int i) \<le> 11" if "int32 i" for i
    using that by (intro length_show_int) (auto simp: int32_def)
  with assms have "length (show_int (hs_score e)) \<le> 11" "length (show_int (hs_bullets_fired e)) \<le> 11"
    "length (show_int (hs_game_time_seconds e)) \<le> 11" "length (hs_name e) < 20"
    by (auto simp: valid_entry_def valid_name_def MAX_NAME_LENGTH_def)
  then show "length (csv_line e) \<le> 255" by (simp add: csv_line_def)
qed

lemma scan_csv_line:
  assumes "valid_entry e"
  shows "scan_line (csv_line e) = Some e"
proof -
  have "takeWhile (\<lambda>c. c \<noteq> nul) (csv_line e) = csv_line e"
    using csv_line_chars(1) [OF assms] by (auto simp: takeWhile_eq_all_conv)
  then show ?thesis
    using assms
    by (simp add: scan_line_def csv_line_def scan_name_valid valid_entry_def scan_comma_int_def
        scan_int_show_int not_digit_consts)
qed

lemma fgets_line:
  assumes "last l = newline" and "l \<noteq> []" and "newline \<notin> set (butlast l)" and "length l \<le> 255"
  shows "fgets (l @ rest) = Some (l, rest)"
proof -
  obtain b where l: "l = b @ [newline]" and b: "newline \<notin> set b"
    using assms(1-3) by (metis append_butlast_last_id)
  have "takeWhile (\<lambda>c. c \<noteq> newline) (l @ rest) = b"
    using b by (simp add: l takeWhile_append)
  with assms(4) show ?thesis by (simp add: fgets_def Let_def l min_def)
qed

lemma fgets_csv_line: "valid_entry e \<Longrightarrow> fgets (csv_line e @ rest) = Some (csv_line e, rest)"
  by (intro fgets_line csv_line_chars)


subsection \<open>The sort\<close>

text \<open>On the entries in use a step exchanges two neighbours, if they are in the wrong order.\<close>

lemma sort_step_split:
  "sort_step (length us) (us @ a # b # vs) =
     us @ (if hs_score a < hs_score b then b # a # vs else a # b # vs)"
  by (simp add: sort_step_def nth_append list_update_append)

lemma split_at_pair:
  assumes "Suc j < length xs"
  obtains us a b vs where "xs = us @ a # b # vs" "length us = j"
proof -
  have "xs = take j xs @ xs ! j # xs ! Suc j # drop (Suc (Suc j)) xs"
    using assms by (metis Cons_nth_drop_Suc Suc_lessD append_take_drop_id)
  moreover have "length (take j xs) = j" using assms by simp
  ultimately show ?thesis by (rule that)
qed

lemma sort_step_append:
  assumes "Suc j < length xs"
  shows "sort_step j (xs @ ys) = sort_step j xs @ ys"
  using assms by (simp add: sort_step_def nth_append list_update_append)

lemma sort_step_perm:
  assumes "Suc j < length xs"
  shows "mset (sort_step j xs) = mset xs"
    and "filter (\<lambda>e. hs_score e = k) (sort_step j xs) = filter (\<lambda>e. hs_score e = k) xs"
proof -
  obtain us a b vs where "xs = us @ a # b # vs" "length us = j" by (rule split_at_pair [OF assms])
  then show "mset (sort_step j xs) = mset xs"
    and "filter (\<lambda>e. hs_score e = k) (sort_step j xs) = filter (\<lambda>e. hs_score e = k) xs"
    using sort_step_split [of us a b vs] by auto
qed

lemma length_sort_step [simp]: "length (sort_step j xs) = length xs"
  by (simp add: sort_step_def)

lemma length_sort_pass [simp]: "length (sort_pass m xs) = length xs"
  by (induction m arbitrary: xs) (simp_all add: sort_pass_def)

lemma sort_pass_Suc: "sort_pass (Suc m) xs = sort_step m (sort_pass m xs)"
  by (simp add: sort_pass_def)

lemma sort_pass_append: "m < length xs \<Longrightarrow> sort_pass m (xs @ ys) = sort_pass m xs @ ys"
proof (induction m)
  case 0
  then show ?case by (simp add: sort_pass_def)
next
  case (Suc m)
  then show ?case by (simp add: sort_pass_Suc sort_step_append)
qed

lemma sort_pass_perm:
  "m < length xs \<Longrightarrow> mset (sort_pass m xs) = mset xs \<and>
     filter (\<lambda>e. hs_score e = k) (sort_pass m xs) = filter (\<lambda>e. hs_score e = k) xs"
proof (induction m)
  case 0
  then show ?case by (simp add: sort_pass_def)
next
  case (Suc m)
  then show ?case by (simp add: sort_pass_Suc sort_step_perm)
qed

text \<open>
  A pass of \<open>m\<close> steps leaves a least score at position \<open>m\<close> among the first \<open>m + 1\<close> entries, which are
  those that were there, and does not touch the rest.
\<close>

lemma sort_step_nth_above: "Suc j < k \<Longrightarrow> sort_step j xs ! k = xs ! k"
  by (simp add: sort_step_def)

lemma sort_pass_nth_above: "m < k \<Longrightarrow> sort_pass m xs ! k = xs ! k"
  by (induction m) (simp_all add: sort_pass_Suc sort_step_nth_above, simp add: sort_pass_def)

lemma sort_pass_least:
  "m < length xs \<Longrightarrow> p \<le> m \<Longrightarrow> hs_score (sort_pass m xs ! m) \<le> hs_score (sort_pass m xs ! p)"
proof (induction m arbitrary: p)
  case (Suc m)
  let ?ys = "sort_pass m xs"
  have IH: "hs_score (?ys ! m) \<le> hs_score (?ys ! q)" if "q \<le> m" for q using Suc that by simp
  have len: "Suc m < length ?ys" using Suc.prems by simp
  show ?case
  proof (cases "p = Suc m")
    case False
    then have "p \<le> m" using Suc.prems by simp
    with IH [of p] IH [of m] len show ?thesis
      by (auto simp: sort_pass_Suc sort_step_def nth_list_update)
  qed simp
qed simp

lemma sort_pass_take_set:
  assumes "m < length xs"
  shows "set (take (Suc m) (sort_pass m xs)) = set (take (Suc m) xs)"
proof -
  have "sort_pass m (take (Suc m) xs @ drop (Suc m) xs) =
      sort_pass m (take (Suc m) xs) @ drop (Suc m) xs"
    using assms by (intro sort_pass_append) simp
  then have "take (Suc m) (sort_pass m xs) = sort_pass m (take (Suc m) xs)"
    using assms by simp
  moreover have "mset (sort_pass m (take (Suc m) xs)) = mset (take (Suc m) xs)"
    using assms by (simp add: sort_pass_perm)
  ultimately show ?thesis by (metis mset_eq_setD)
qed

definition sort_passes :: "nat \<Rightarrow> nat \<Rightarrow> HighScoreEntry list \<Rightarrow> HighScoreEntry list" where
  "sort_passes n i xs = fold (\<lambda>i. sort_pass (n - i - 1)) [0..<i] xs"

lemma sort_passes_Suc: "sort_passes n (Suc i) xs = sort_pass (n - i - 1) (sort_passes n i xs)"
  by (simp add: sort_passes_def)

lemma length_sort_passes [simp]: "length (sort_passes n i xs) = length xs"
  by (induction i) (simp_all add: sort_passes_Suc, simp add: sort_passes_def)

lemma sort_passes_append:
  "xs \<noteq> [] \<Longrightarrow> n = length xs \<Longrightarrow> sort_passes n i (xs @ ys) = sort_passes n i xs @ ys"
  by (induction i) (simp_all add: sort_passes_Suc sort_pass_append, simp add: sort_passes_def)

lemma sort_passes_perm:
  "xs \<noteq> [] \<Longrightarrow> n = length xs \<Longrightarrow> mset (sort_passes n i xs) = mset xs \<and>
     filter (\<lambda>e. hs_score e = k) (sort_passes n i xs) = filter (\<lambda>e. hs_score e = k) xs"
  by (induction i) (simp_all add: sort_passes_Suc sort_pass_perm, simp add: sort_passes_def)

lemma sort_passes_sorted:
  assumes "n = length xs" and "i < n"
  shows "n - i \<le> q \<Longrightarrow> q < n \<Longrightarrow> p < q \<Longrightarrow>
    hs_score (sort_passes n i xs ! q) \<le> hs_score (sort_passes n i xs ! p)"
  using assms(2)
proof (induction i arbitrary: p q)
  case (Suc i)
  let ?ys = "sort_passes n i xs" and ?m = "n - i - 1"
  have m: "?m < length ?ys" using Suc.prems assms(1) by simp
  have eq: "sort_passes n (Suc i) xs = sort_pass ?m ?ys" by (rule sort_passes_Suc)
  show ?case
  proof (cases "q = ?m")
    case True
    then show ?thesis using sort_pass_least [OF m, of p] Suc.prems unfolding eq by simp
  next
    case False
    with Suc.prems have q: "n - i \<le> q" "?m < q" by auto
    have le: "hs_score (?ys ! q) \<le> hs_score (?ys ! r)" if "r < q" for r
      using Suc.IH [OF q(1) Suc.prems(2) that] Suc.prems by simp
    have "hs_score (?ys ! q) \<le> hs_score (sort_pass ?m ?ys ! p)"
    proof (cases "p \<le> ?m")
      case True
      then have "sort_pass ?m ?ys ! p \<in> set (take (Suc ?m) (sort_pass ?m ?ys))"
        using m by (auto simp: in_set_conv_nth intro!: exI [of _ p])
      then have "sort_pass ?m ?ys ! p \<in> set (take (Suc ?m) ?ys)"
        unfolding sort_pass_take_set [OF m] .
      then obtain r where r: "r < length (take (Suc ?m) ?ys)"
        "take (Suc ?m) ?ys ! r = sort_pass ?m ?ys ! p"
        unfolding in_set_conv_nth by blast
      then have "r < q" "?ys ! r = sort_pass ?m ?ys ! p" using q(2) by auto
      with le [of r] show ?thesis by simp
    next
      case False
      with le [OF Suc.prems(3)] show ?thesis by (simp add: sort_pass_nth_above)
    qed
    with q(2) show ?thesis unfolding eq by (simp add: sort_pass_nth_above)
  qed
qed simp

lemma sort_passes_is_sort:
  assumes "2 \<le> length xs"
  shows "sort_passes (length xs) (length xs - 1) xs = sort_key (\<lambda>e. - hs_score e) xs"
proof (rule properties_for_sort_key [symmetric])
  let ?n = "length xs"
  let ?ys = "sort_passes ?n (?n - 1) xs"
  have ne: "xs \<noteq> []" using assms by auto
  note perm = sort_passes_perm [OF ne refl]
  show "mset ?ys = mset xs" using perm by blast
  show "filter (\<lambda>x. - hs_score k = - hs_score x) ?ys = filter (\<lambda>x. - hs_score k = - hs_score x) xs" for k
    using perm [of "?n - 1" "hs_score k"] by (simp add: eq_commute)
  show "sorted (map (\<lambda>e. - hs_score e) ?ys)"
    unfolding sorted_iff_nth_mono_less
  proof (intro allI impI)
    fix p q assume pq: "p < q" "q < length (map (\<lambda>e. - hs_score e) ?ys)"
    have "hs_score (?ys ! q) \<le> hs_score (?ys ! p)"
      by (rule sort_passes_sorted [OF refl]) (use pq assms in auto)
    with pq show "map (\<lambda>e. - hs_score e) ?ys ! p \<le> map (\<lambda>e. - hs_score e) ?ys ! q" by simp
  qed
qed

text \<open>The table in use, and what sorting does to it.\<close>

definition entries :: "score_st \<Rightarrow> HighScoreEntry list" where
  "entries s = take (highscore_count s) (highscores s)"

lemma sort_highscores_entries:
  assumes "wf_score s"
  shows "entries (sort_highscores s) = sort_key (\<lambda>e. - hs_score e) (entries s)"
    and "highscore_count (sort_highscores s) = highscore_count s"
    and "drop (highscore_count s) (highscores (sort_highscores s)) =
         drop (highscore_count s) (highscores s)"
    and "wf_score (sort_highscores s)"
proof -
  let ?n = "highscore_count s" and ?hs = "highscores s"
  have len: "length (entries s) = ?n" using assms by (simp add: entries_def wf_score_def)
  show c: "highscore_count (sort_highscores s) = ?n"
    by (simp add: sort_highscores_def Let_def)
  have hs: "highscores (sort_highscores s) =
      sort_key (\<lambda>e. - hs_score e) (entries s) @ drop ?n ?hs"
  proof (cases "?n \<le> 1")
    case True
    with len consider "entries s = []" | e where "entries s = [e]"
      by (metis One_nat_def le_SucE le_zero_eq length_0_conv length_Suc_conv)
    then have "sort_key (\<lambda>e. - hs_score e) (entries s) = entries s" by cases auto
    with True show ?thesis by (simp add: sort_highscores_def entries_def)
  next
    case False
    then have ne: "entries s \<noteq> []" using len by auto
    have "highscores (sort_highscores s) = sort_passes ?n (?n - 1) (entries s @ drop ?n ?hs)"
      using False by (simp add: sort_highscores_def Let_def sort_passes_def entries_def)
    also have "\<dots> = sort_passes ?n (?n - 1) (entries s) @ drop ?n ?hs"
      by (rule sort_passes_append [OF ne len [symmetric]])
    also have "sort_passes ?n (?n - 1) (entries s) = sort_key (\<lambda>e. - hs_score e) (entries s)"
      using sort_passes_is_sort [of "entries s"] len False by simp
    finally show ?thesis .
  qed
  show "entries (sort_highscores s) = sort_key (\<lambda>e. - hs_score e) (entries s)"
    using len by (simp add: entries_def [of "sort_highscores s"] c hs)
  show "drop ?n (highscores (sort_highscores s)) = drop ?n ?hs" using len by (simp add: hs)
  have cs: "current_score (sort_highscores s) = current_score s"
    by (simp add: sort_highscores_def Let_def)
  show "wf_score (sort_highscores s)"
    using assms len by (simp add: wf_score_def hs c cs) 
qed


subsection \<open>Loading\<close>

lemma scan_line_name: "scan_line l = Some e \<Longrightarrow> length (hs_name e) < MAX_NAME_LENGTH"
  by (auto simp: scan_line_def scan_name_def Let_def MAX_NAME_LENGTH_def
      split: option.splits prod.splits if_splits)

text \<open>The entries in use fit their arrays.\<close>

definition names_fit :: "score_st \<Rightarrow> bool" where
  "names_fit s \<longleftrightarrow> list_all (\<lambda>e. length (hs_name e) < MAX_NAME_LENGTH) (entries s)"

lemma store_entry_entries:
  assumes "wf_score s" and "highscore_count s < MAX_HIGHSCORES"
  shows "entries (store_entry e s) = entries s @ [e]" and "wf_score (store_entry e s)"
    and "highscore_count (store_entry e s) = Suc (highscore_count s)"
  using assms by (auto simp: entries_def store_entry_def wf_score_def take_Suc_conv_app_nth)

lemma load_lines_fit:
  "wf_score s \<Longrightarrow> names_fit s \<Longrightarrow> wf_score (load_lines str s) \<and> names_fit (load_lines str s)"
proof (induction str s rule: load_lines.induct)
  case (1 str s)
  show ?case
  proof (cases "fgets str")
    case None
    with 1 show ?thesis by (simp add: load_lines.simps [of str s])
  next
    case (Some p)
    obtain line rest where p: "p = (line, rest)" by (cases p)
    let ?s' = "case scan_line line of None \<Rightarrow> s | Some e \<Rightarrow> store_entry e s"
    show ?thesis
    proof (cases "highscore_count s < MAX_HIGHSCORES")
      case True
      have "wf_score ?s' \<and> names_fit ?s'"
        using 1(2,3) True scan_line_name [of line]
        by (auto simp: names_fit_def store_entry_entries split: option.split)
      with 1(1) [OF Some p [symmetric] True] Some p True show ?thesis
        by (simp add: load_lines.simps [of str s])
    next
      case False
      with 1 Some p show ?thesis by (simp add: load_lines.simps [of str s])
    qed
  qed
qed

lemma load_lines_saved:
  assumes "\<forall>e \<in> set es. valid_entry e" and "wf_score s"
  shows "entries (load_lines (concat (map csv_line es)) s) =
           entries s @ take (MAX_HIGHSCORES - highscore_count s) es"
    and "wf_score (load_lines (concat (map csv_line es)) s)"
proof -
  have "entries (load_lines (concat (map csv_line es)) s) =
           entries s @ take (MAX_HIGHSCORES - highscore_count s) es \<and>
        wf_score (load_lines (concat (map csv_line es)) s)"
    using assms
  proof (induction es arbitrary: s)
    case Nil
    then show ?case by (simp add: load_lines.simps fgets_def)
  next
    case (Cons e es)
    then have v: "valid_entry e" by simp
    show ?case
    proof (cases "highscore_count s < MAX_HIGHSCORES")
      case True
      note st = store_entry_entries [OF Cons.prems(2) True, of e]
      have "load_lines (concat (map csv_line (e # es))) s =
          load_lines (concat (map csv_line es)) (store_entry e s)"
        using True v by (simp add: load_lines.simps [of "_ @ _"] fgets_csv_line scan_csv_line)
      moreover have "MAX_HIGHSCORES - highscore_count s = Suc (MAX_HIGHSCORES - Suc (highscore_count s))"
        using True by simp
      ultimately show ?thesis using Cons.IH [of "store_entry e s"] Cons.prems st by simp
    next
      case False
      with v Cons.prems(2) show ?thesis
        by (simp add: load_lines.simps [of "_ @ _"] fgets_csv_line)
    qed
  qed
  then show "entries (load_lines (concat (map csv_line es)) s) =
           entries s @ take (MAX_HIGHSCORES - highscore_count s) es"
    and "wf_score (load_lines (concat (map csv_line es)) s)" by auto
qed

text \<open>A file as the program writes it.\<close>

definition csv_file :: "HighScoreEntry list \<Rightarrow> string" where
  "csv_file es = csv_header @ concat (map csv_line es)"

lemma fgets_header: "fgets (csv_header @ rest) = Some (csv_header, rest)"
  by (rule fgets_line) (simp_all add: csv_header_def char_consts)

lemma wf_score_count: "wf_score s \<Longrightarrow> n \<le> MAX_HIGHSCORES \<Longrightarrow> wf_score (s\<lparr>highscore_count := n\<rparr>)"
  by (simp add: wf_score_def)

lemma length_entries: "wf_score s \<Longrightarrow> length (entries s) = highscore_count s"
  by (simp add: entries_def wf_score_def)

lemma load_saved:
  assumes "csv f = Some (csv_file es)" and "can_read f" and "\<forall>e \<in> set es. valid_entry e"
    and "wf_score s"
  shows "entries (snd (load_highscores_from_csv f s)) =
           sort_key (\<lambda>e. - hs_score e) (take MAX_HIGHSCORES es)"
    and "wf_score (snd (load_highscores_from_csv f s))"
    and "fst (load_highscores_from_csv f s) = int (min MAX_HIGHSCORES (length es))"
proof -
  let ?s1 = "s\<lparr>highscore_count := 0\<rparr>"
  let ?s2 = "load_lines (concat (map csv_line es)) ?s1"
  have wf1: "wf_score ?s1" using assms(4) by (simp add: wf_score_count)
  have "entries ?s1 = []" by (simp add: entries_def)
  with load_lines_saved [OF assms(3) wf1]
  have s2: "entries ?s2 = take MAX_HIGHSCORES es" "wf_score ?s2" by simp_all
  note st = sort_highscores_entries [OF s2(2)]
  have l: "load_highscores_from_csv f s =
      (int (highscore_count (sort_highscores ?s2)), sort_highscores ?s2)"
    using assms(1,2) by (simp add: load_highscores_from_csv_def csv_file_def fgets_header Let_def)
  show "entries (snd (load_highscores_from_csv f s)) =
           sort_key (\<lambda>e. - hs_score e) (take MAX_HIGHSCORES es)"
    and "wf_score (snd (load_highscores_from_csv f s))"
    unfolding l using st s2 by simp_all
  have "highscore_count (sort_highscores ?s2) = length (take MAX_HIGHSCORES es)"
    using length_entries [OF s2(2)] s2(1) st(2) by simp
  then show "fst (load_highscores_from_csv f s) = int (min MAX_HIGHSCORES (length es))"
    unfolding l by (simp add: min.commute)
qed


subsection \<open>Saving\<close>

definition mk_entry :: "string \<Rightarrow> int \<Rightarrow> int \<Rightarrow> int \<Rightarrow> HighScoreEntry" where
  "mk_entry name score bullets time =
     \<lparr>hs_name = name, hs_score = score, hs_bullets_fired = bullets, hs_game_time_seconds = time\<rparr>"

text \<open>Sorting what is already sorted, with one entry added behind it.\<close>

lemma sort_key_snoc_sorted:
  fixes f :: "'a \<Rightarrow> 'b::linorder"
  shows "sort_key f (sort_key f xs @ [x]) = sort_key f (xs @ [x])"
proof (rule properties_for_sort_key [symmetric])
  show "mset (sort_key f (sort_key f xs @ [x])) = mset (xs @ [x])" by simp
  show "filter (\<lambda>y. f k = f y) (sort_key f (sort_key f xs @ [x])) = filter (\<lambda>y. f k = f y) (xs @ [x])" for k
    by (simp only: eq_commute [of "f k"] sort_key_stable filter_append)
  show "sorted (map f (sort_key f (sort_key f xs @ [x])))" by (rule sorted_sort_key)
qed

lemma save_to_file:
  assumes "can_append f" and "can_print f"
    and "csv f = None \<and> es = [] \<or> csv f = Some (csv_file es) \<and> can_read f"
  shows "save_highscore_to_csv name score bullets time f s =
    (0, f\<lparr>csv := Some (csv_file (es @ [mk_entry name score bullets time]))\<rparr>,
     if highscore_count s < MAX_HIGHSCORES
     then sort_highscores (store_entry (mk_entry name score bullets time) s) else s)"
  using assms
  by (auto simp: save_highscore_to_csv_def open_for_saving_def fprintf_def csv_file_def
      mk_entry_def Let_def)

lemma anime_names_valid: "n \<in> set anime_names \<Longrightarrow> valid_name n"
  by (auto simp: anime_names_def valid_name_def MAX_NAME_LENGTH_def char_consts)

lemma anime_index:
  "unat ((word_of_int r :: u32) mod of_nat (length anime_names)) < length anime_names"
proof -
  have "unat ((word_of_int r :: u32) mod 26) = unat (word_of_int r :: u32) mod 26"
    by (simp add: unat_mod_distrib)
  then show ?thesis by (simp add: anime_names_def)
qed

lemma random_name_valid: "fst (get_random_anime_name K s h) \<in> set anime_names"
  using anime_index by (auto simp: get_random_anime_name_def Let_def split: prod.split)


subsection \<open>Concrete tables\<close>

definition new_file :: file_st where
  "new_file = \<lparr>csv = None, can_read = True, can_append = True, can_create = True, can_print = True\<rparr>"

definition jet :: HighScoreEntry where "jet = mk_entry ''JET'' 9000 12 40"
definition faye :: HighScoreEntry where "faye = mk_entry ''FAYE'' 9500 6 20"

lemmas demo_entries = jet_def faye_def mk_entry_def

lemma demo_entries_valid: "valid_entry jet" "valid_entry faye"
  by (simp_all add: demo_entries valid_entry_def valid_name_def MAX_NAME_LENGTH_def int32_def char_consts)

definition two_scores :: score_st where
  "two_scores = store_entry faye (store_entry jet score_init_st)"

lemma two_scores_wf: "wf_score two_scores" "entries two_scores = [jet, faye]"
proof -
  have *: "entries score_init_st = []" "highscore_count score_init_st = 0"
    by (simp_all add: entries_def score_init_st_def)
  have m: "0 < MAX_HIGHSCORES" "1 < MAX_HIGHSCORES" by (simp_all add: MAX_HIGHSCORES_def)
  note s1 = store_entry_entries [OF score_init_st_wf, of jet, unfolded *, OF m(1)]
  note s2 = store_entry_entries [OF s1(2), of faye, unfolded s1(3)]
  show "wf_score two_scores" "entries two_scores = [jet, faye]"
    using s1 s2 m by (simp_all add: two_scores_def)
qed


subsection \<open>Properties\<close>

text \<open>C18. \<open>sort_highscores\<close> is the stable sort of the table by descending score: the entries in use
  are exactly the library's \<open>sort_key\<close> of those before (so the best score is first, none is lost or
  duplicated and equal scores keep their order); the count and the unused slots are untouched.\<close>

theorem sort_highscores_stable:
  assumes "wf_score s"
  shows "entries (sort_highscores s) = sort_key (\<lambda>e. - hs_score e) (entries s) \<and>
         mset (entries (sort_highscores s)) = mset (entries s) \<and>
         highscore_count (sort_highscores s) = highscore_count s \<and>
         drop (highscore_count s) (highscores (sort_highscores s)) =
           drop (highscore_count s) (highscores s)"
  using sort_highscores_entries [OF assms] by simp

lemma sort_highscores_stable_witness: "entries (sort_highscores two_scores) = [faye, jet]"
  using sort_highscores_stable [OF two_scores_wf(1)] by (simp add: two_scores_wf demo_entries)

text \<open>A line that \<open>save_highscore_to_csv\<close> writes for a name without comma or line end and 32-bit
  values is one line for \<open>fgets\<close> (the buffer of 256 is long enough), and the format
  \<open>%19[^,],%d,%d,%d\<close> reads all four values back, negative numbers included.\<close>

theorem csv_line_roundtrip:
  assumes "valid_entry e"
  shows "fgets (csv_line e @ rest) = Some (csv_line e, rest) \<and> scan_line (csv_line e) = Some e"
  using fgets_csv_line [OF assms] scan_csv_line [OF assms] by simp

lemma csv_line_roundtrip_witness: "scan_line (csv_line jet) = Some jet"
  using csv_line_roundtrip [OF demo_entries_valid(1), of "[]"] by simp

text \<open>C17. Whatever the file holds (any bytes, long lines, missing fields, thousands of lines), loading
  it keeps the table within its arrays: at most 100 entries, every name shorter than 20 characters;
  the result is the number of entries, or 0 with an empty table if the file cannot be opened, and the
  table is in descending order of score.\<close>

theorem load_highscores_bounds:
  assumes "wf_score s"
  shows "wf_score (snd (load_highscores_from_csv f s)) \<and>
         fst (load_highscores_from_csv f s) = int (length (entries (snd (load_highscores_from_csv f s)))) \<and>
         fst (load_highscores_from_csv f s) \<le> 100 \<and>
         list_all (\<lambda>e. length (hs_name e) < 20) (entries (snd (load_highscores_from_csv f s))) \<and>
         sorted (map (\<lambda>e. - hs_score e) (entries (snd (load_highscores_from_csv f s)))) \<and>
         (csv f = None \<or> \<not> can_read f \<longrightarrow> entries (snd (load_highscores_from_csv f s)) = [])"
proof -
  let ?s1 = "s\<lparr>highscore_count := 0\<rparr>"
  have wf1: "wf_score ?s1" and e1: "entries ?s1 = []"
    using assms by (simp_all add: wf_score_count entries_def)
  have fit1: "names_fit ?s1" using e1 by (simp add: names_fit_def)
  consider "load_highscores_from_csv f s = (0, ?s1)"
    | r where "load_highscores_from_csv f s =
        (int (highscore_count (sort_highscores (load_lines r ?s1))), sort_highscores (load_lines r ?s1))"
      "csv f \<noteq> None" "can_read f"
    by (cases "csv f = None \<or> \<not> can_read f"; cases "fgets (the (csv f))")
      (auto simp: load_highscores_from_csv_def Let_def)
  then show ?thesis
  proof cases
    case 1
    with wf1 e1 show ?thesis by simp
  next
    case (2 r)
    note fit = load_lines_fit [OF wf1 fit1, of r]
    then have wf2: "wf_score (load_lines r ?s1)" ..
    note st = sort_highscores_entries [OF wf2]
    have "set (entries (sort_highscores (load_lines r ?s1))) = set (entries (load_lines r ?s1))"
      using st(1) by simp
    then have "list_all (\<lambda>e. length (hs_name e) < 20) (entries (sort_highscores (load_lines r ?s1)))"
      using fit by (simp add: names_fit_def list_all_iff MAX_NAME_LENGTH_def)
    moreover have "highscore_count (sort_highscores (load_lines r ?s1)) \<le> 100"
      using st(4) by (simp add: wf_score_def MAX_HIGHSCORES_def)
    ultimately show ?thesis using 2 st length_entries [OF st(4)] by auto
  qed
qed

lemma load_highscores_bounds_witness:
  "fst (load_highscores_from_csv (new_file\<lparr>csv := Some ''no table at all''\<rparr>) score_init_st) \<le> 100"
  using load_highscores_bounds [OF score_init_st_wf] by blast

text \<open>C16. The table survives the program: loading a file that the program wrote gives the first 100
  games of the file in descending order of score. Games behind the first 100 lines are not loaded,
  however good their score.\<close>

theorem load_after_saving:
  assumes "csv f = Some (csv_file es)" and "can_read f" and "\<forall>e \<in> set es. valid_entry e"
    and "wf_score s"
  shows "entries (snd (load_highscores_from_csv f s)) =
           sort_key (\<lambda>e. - hs_score e) (take 100 es) \<and>
         fst (load_highscores_from_csv f s) = int (min 100 (length es))"
  using load_saved [OF assms] by (simp add: MAX_HIGHSCORES_def)

lemma load_after_saving_witness:
  "entries (snd (load_highscores_from_csv (new_file\<lparr>csv := Some (csv_file [jet, faye])\<rparr>) score_init_st))
     = [faye, jet]"
  using load_after_saving [of "new_file\<lparr>csv := Some (csv_file [jet, faye])\<rparr>" "[jet, faye]" score_init_st]
    demo_entries_valid score_init_st_wf
  by (simp add: new_file_def demo_entries)



text \<open>A won game is recorded once: after \<open>save_win_highscore\<close> a second call changes nothing. The
  name it records is one of the 26 of the table, whatever \<open>rand\<close> returns, and fits both the array and
  the file format.\<close>

theorem save_win_once:
  "(case save_win_highscore K f s h of (f', s', h') \<Rightarrow>
      save_win_highscore K f' s' h' = (f', s', h')) \<and>
   fst (get_random_anime_name K s h) \<in> set anime_names \<and>
   valid_name (fst (get_random_anime_name K s h))"
proof -
  have "case save_win_highscore K f s h of (f', s', h') \<Rightarrow>
      save_win_highscore K f' s' h' = (f', s', h')"
    by (auto simp: save_win_highscore_def split: prod.splits)
  then show ?thesis using random_name_valid [of K s h] anime_names_valid by blast
qed

end
