(* ===== verification/Sprites_Digits.thy ===== *)
theory Sprites_Digits
  imports Prelude
begin

text \<open>
  The glyphs of the digits, \<open>xpm/characters/number_char.h\<close>, row by row; \<open>n0\<close> is \<open>n0_xpm\<close>, and so on.
  The four punctuation marks of \<open>xpm/characters/special_char.h\<close> follow; \<open>main.c\<close> includes them, and nothing
  draws them.
\<close>

definition n0_xpm :: "string list" where
  "n0_xpm = [
     ''20 35 48 1 '',
     ''  c #000000'',
     ''. c #050505'',
     ''X c #080808'',
     ''o c #0C0C0C'',
     ''O c #121212'',
     ''+ c #161616'',
     ''@ c #191919'',
     ''# c #242424'',
     ''$ c #2E2E2E'',
     ''% c #343434'',
     ''& c #3D3D3D'',
     ''* c #434343'',
     ''= c #454545'',
     ''- c #4A4A4A'',
     ''; c #4C4C4C'',
     '': c #525252'',
     ''> c #555555'',
     '', c #5B5B5B'',
     ''< c #5F5F5F'',
     ''1 c #636363'',
     ''2 c #6A6A6A'',
     ''3 c #777777'',
     ''4 c #7B7B7B'',
     ''5 c #7C7C7C'',
     ''6 c #818181'',
     ''7 c #848484'',
     ''8 c #898989'',
     ''9 c #8B8B8B'',
     ''0 c #909090'',
     ''q c #989898'',
     ''w c #9B9B9B'',
     ''e c #9D9D9D'',
     ''r c #ABABAB'',
     ''t c #B3B3B3'',
     ''y c #B6B6B6'',
     ''u c #B9B9B9'',
     ''i c #BCBCBC'',
     ''p c #C3C3C3'',
     ''a c #C9C9C9'',
     ''s c #D3D3D3'',
     ''d c #D5D5D5'',
     ''f c #DFDFDF'',
     ''g c #E8E8E8'',
     ''h c #EDEDED'',
     ''j c #F0F0F0'',
     ''k c #F6F6F6'',
     ''l c #FBFBFB'',
     ''z c #FFFFFF'',
     ''                    '',
     ''                    '',
     ''                    '',
     ''                    '',
     ''                    '',
     ''                    '',
     ''                    '',
     ''                    '',
     ''                    '',
     ''      o6dkhi;       '',
     ''     oszhypzz5      '',
     ''     ezrX  #fz&     '',
     ''    +lho    -zu     '',
     ''    <zw      glO    '',
     ''    0z1      tz=    '',
     ''    tz*      0z2    '',
     ''    pz%      6z4    '',
     ''    az$      4z7    '',
     ''    pz%      6z5    '',
     ''    rz*      0z2    '',
     ''    8z1      tz-    '',
     ''    >zw      gz@    '',
     ''    okho    -za     '',
     ''     8zrX  #fz:     '',
     ''     Xpzhyizzw      '',
     ''      .3skjp,       '',
     ''                    '',
     ''                    '',
     ''                    '',
     ''                    '',
     ''                    '',
     ''                    '',
     ''                    '',
     ''                    '',
     ''                    '']"

definition n1_xpm :: "string list" where
  "n1_xpm = [
     ''20 35 17 1 '',
     ''  c #000000'',
     ''. c #050505'',
     ''X c #151515'',
     ''o c #191919'',
     ''O c #1F1F1F'',
     ''+ c #494949'',
     ''@ c #606060'',
     ''# c #797979'',
     ''$ c #828282'',
     ''% c #868686'',
     ''& c #8A8A8A'',
     ''* c #999999'',
     ''= c #C1C1C1'',
     ''- c #CBCBCB'',
     ''; c #E0E0E0'',
     '': c #EDEDED'',
     ''> c #FFFFFF'',
     ''                    '',
     ''                    '',
     ''                    '',
     ''                    '',
     ''                    '',
     ''                    '',
     ''                    '',
     ''                    '',
     ''                    '',
     ''        O->@        '',
     ''       +:>>@        '',
     ''      $>;*>@        '',
     ''     &>=X#>@        '',
     ''     o%. $>@        '',
     ''         $>@        '',
     ''         %>@        '',
     ''         $>@        '',
     ''         %>@        '',
     ''         %>@        '',
     ''         $>@        '',
     ''         $>@        '',
     ''         %>@        '',
     ''         $>@        '',
     ''         %>@        '',
     ''         %>@        '',
     ''         %>@        '',
     ''                    '',
     ''                    '',
     ''                    '',
     ''                    '',
     ''                    '',
     ''                    '',
     ''                    '',
     ''                    '',
     ''                    '']"

definition n2_xpm :: "string list" where
  "n2_xpm = [
     ''20 35 38 1 '',
     ''  c #000000'',
     ''. c #121212'',
     ''X c #151515'',
     ''o c #181818'',
     ''O c #1E1E1E'',
     ''+ c #282828'',
     ''@ c #353535'',
     ''# c #3A3A3A'',
     ''$ c #434343'',
     ''% c #464646'',
     ''& c #515151'',
     ''* c #555555'',
     ''= c #5E5E5E'',
     ''- c #606060'',
     ''; c #646464'',
     '': c #696969'',
     ''> c #707070'',
     '', c #747474'',
     ''< c #808080'',
     ''1 c #888888'',
     ''2 c #8D8D8D'',
     ''3 c #919191'',
     ''4 c #969696'',
     ''5 c #AFAFAF'',
     ''6 c #B3B3B3'',
     ''7 c #BBBBBB'',
     ''8 c #C5C5C5'',
     ''9 c #CCCCCC'',
     ''0 c #D1D1D1'',
     ''q c #D5D5D5'',
     ''w c #D8D8D8'',
     ''e c #DCDCDC'',
     ''r c #E6E6E6'',
     ''t c #EDEDED'',
     ''y c #F3F3F3'',
     ''u c #F4F4F4'',
     ''i c #F9F9F9'',
     ''p c #FFFFFF'',
     ''                    '',
     ''                    '',
     ''                    '',
     ''                    '',
     ''                    '',
     ''                    '',
     ''                    '',
     ''                    '',
     ''                    '',
     ''      *6rit7&       '',
     ''    +9pi859pp3      '',
     ''    @u1.   #yp$     '',
     ''     .      <p4     '',
     ''            &p5     '',
     ''            ;p2     '',
     ''            6p%     '',
     ''           #p0      '',
     ''          Ori@      '',
     ''         Xqp=       '',
     ''        X0p,        '',
     ''       X0p>         '',
     ''      oqp:          '',
     ''     Oqp-           '',
     ''    Oei*            '',
     ''    8pywwwwwwww=    '',
     ''    qpppppppppp>    '',
     ''                    '',
     ''                    '',
     ''                    '',
     ''                    '',
     ''                    '',
     ''                    '',
     ''                    '',
     ''                    '',
     ''                    '']"

definition n3_xpm :: "string list" where
  "n3_xpm = [
     ''20 35 47 1 '',
     ''  c #000000'',
     ''. c #040404'',
     ''X c #0A0A0A'',
     ''o c #0C0C0C'',
     ''O c #131313'',
     ''+ c #141414'',
     ''@ c #191919'',
     ''# c #1D1D1D'',
     ''$ c #202020'',
     ''% c #252525'',
     ''& c #313131'',
     ''* c #353535'',
     ''= c #3B3B3B'',
     ''- c #3F3F3F'',
     ''; c #404040'',
     '': c #494949'',
     ''> c #4E4E4E'',
     '', c #515151'',
     ''< c #575757'',
     ''1 c #5E5E5E'',
     ''2 c #6C6C6C'',
     ''3 c #707070'',
     ''4 c #767676'',
     ''5 c #808080'',
     ''6 c #858585'',
     ''7 c #8D8D8D'',
     ''8 c #979797'',
     ''9 c #9D9D9D'',
     ''0 c #AAAAAA'',
     ''q c #ADADAD'',
     ''w c #B3B3B3'',
     ''e c #B5B5B5'',
     ''r c #BBBBBB'',
     ''t c #BCBCBC'',
     ''y c #C2C2C2'',
     ''u c #C6C6C6'',
     ''i c #CACACA'',
     ''p c #CECECE'',
     ''a c #D8D8D8'',
     ''s c #DEDEDE'',
     ''d c #E1E1E1'',
     ''f c #E4E4E4'',
     ''g c #EEEEEE'',
     ''h c #F0F0F0'',
     ''j c #F4F4F4'',
     ''k c #FBFBFB'',
     ''l c #FFFFFF'',
     ''                    '',
     ''                    '',
     ''                    '',
     ''                    '',
     ''                    '',
     ''                    '',
     ''                    '',
     ''                    '',
     ''                    '',
     ''     O4tgkhu3.      '',
     ''    1jlhtquklio     '',
     ''    *t:    $al5     '',
     ''            <ly     '',
     ''            :le     '',
     ''            ql2     '',
     ''        .#,yl0      '',
     ''      :llllp:       '',
     ''      &qqrdlg6.     '',
     ''           &il7     '',
     ''            +hl+    '',
     ''             tl-    '',
     ''             yl;    '',
     ''            @klO    '',
     ''    7:     %ul9     '',
     ''    flgy00pllwX     '',
     ''    =8pfkks0>       '',
     ''                    '',
     ''                    '',
     ''                    '',
     ''                    '',
     ''                    '',
     ''                    '',
     ''                    '',
     ''                    '',
     ''                    '']"

definition n4_xpm :: "string list" where
  "n4_xpm = [
     ''20 35 33 1 '',
     ''  c #000000'',
     ''. c #080808'',
     ''X c #0A0A0A'',
     ''o c #0E0E0E'',
     ''O c #141414'',
     ''+ c #1D1D1D'',
     ''@ c #272727'',
     ''# c #282828'',
     ''$ c #2D2D2D'',
     ''% c #303030'',
     ''& c #383838'',
     ''* c #404040'',
     ''= c #4E4E4E'',
     ''- c #525252'',
     ''; c #6C6C6C'',
     '': c #717171'',
     ''> c #777777'',
     '', c #7C7C7C'',
     ''< c #808080'',
     ''1 c #959595'',
     ''2 c #9A9A9A'',
     ''3 c #A5A5A5'',
     ''4 c #B3B3B3'',
     ''5 c #B7B7B7'',
     ''6 c #C4C4C4'',
     ''7 c #CDCDCD'',
     ''8 c #D7D7D7'',
     ''9 c #E4E4E4'',
     ''0 c #EBEBEB'',
     ''q c #EEEEEE'',
     ''w c #F7F7F7'',
     ''e c #F8F8F8'',
     ''r c #FFFFFF'',
     ''                    '',
     ''                    '',
     ''                    '',
     ''                    '',
     ''                    '',
     ''                    '',
     ''                    '',
     ''                    '',
     ''                    '',
     ''           5r4      '',
     ''          :rr4      '',
     ''         %e3r5      '',
     ''        X80$r4      '',
     ''        2r=@r5      '',
     ''       -r1 @r4      '',
     ''      +q8X #r4      '',
     ''      6w$  #r4      '',
     ''     ,r;   #r5      '',
     ''    &e4    #r4      '',
     ''   o99O    #r4      '',
     ''   >r9666667rq66%   '',
     ''   <rrrrrrrrrrrr*   '',
     ''           #r4      '',
     ''           #r5      '',
     ''           #r5      '',
     ''           #r4      '',
     ''                    '',
     ''                    '',
     ''                    '',
     ''                    '',
     ''                    '',
     ''                    '',
     ''                    '',
     ''                    '',
     ''                    '']"

definition n5_xpm :: "string list" where
  "n5_xpm = [
     ''20 35 42 1 '',
     ''  c #000000'',
     ''. c #060606'',
     ''X c #080808'',
     ''o c #171717'',
     ''O c #191919'',
     ''+ c #1F1F1F'',
     ''@ c #242424'',
     ''# c #282828'',
     ''$ c #363636'',
     ''% c #393939'',
     ''& c #3D3D3D'',
     ''* c #414141'',
     ''= c #444444'',
     ''- c #4C4C4C'',
     ''; c #515151'',
     '': c #585858'',
     ''> c #666666'',
     '', c #6F6F6F'',
     ''< c #707070'',
     ''1 c #767676'',
     ''2 c #787878'',
     ''3 c #7E7E7E'',
     ''4 c #848484'',
     ''5 c #929292'',
     ''6 c #969696'',
     ''7 c #999999'',
     ''8 c #A0A0A0'',
     ''9 c #AFAFAF'',
     ''0 c #B3B3B3'',
     ''q c #BCBCBC'',
     ''w c #C4C4C4'',
     ''e c #C8C8C8'',
     ''r c #CDCDCD'',
     ''t c #D7D7D7'',
     ''y c #D9D9D9'',
     ''u c #DFDFDF'',
     ''i c #EBEBEB'',
     ''p c #EFEFEF'',
     ''a c #F1F1F1'',
     ''s c #F7F7F7'',
     ''d c #FBFBFB'',
     ''f c #FFFFFF'',
     ''                    '',
     ''                    '',
     ''                    '',
     ''                    '',
     ''                    '',
     ''                    '',
     ''                    '',
     ''                    '',
     ''                    '',
     ''     ,ffffffff@     '',
     ''     4fteeeeee+     '',
     ''     7f$            '',
     ''     9f+            '',
     ''     wfX            '',
     ''     ya             '',
     ''     pi2685>o       '',
     ''     pffffffd2      '',
     ''     O=+XX#2sf2     '',
     ''            *fsX    '',
     ''             rf*    '',
     ''             9f;    '',
     ''             wf%    '',
     ''            @fa.    '',
     ''    -:X    *yf1     '',
     ''    <fsr0quff5      '',
     ''    o3widsu8&       '',
     ''                    '',
     ''                    '',
     ''                    '',
     ''                    '',
     ''                    '',
     ''                    '',
     ''                    '',
     ''                    '',
     ''                    '']"

definition n6_xpm :: "string list" where
  "n6_xpm = [
     ''20 35 44 1 '',
     ''  c #000000'',
     ''. c #060606'',
     ''X c #090909'',
     ''o c #121212'',
     ''O c #1E1E1E'',
     ''+ c #212121'',
     ''@ c #303030'',
     ''# c #323232'',
     ''$ c #3C3C3C'',
     ''% c #494949'',
     ''& c #515151'',
     ''* c #575757'',
     ''= c #5B5B5B'',
     ''- c #6B6B6B'',
     ''; c #6D6D6D'',
     '': c #727272'',
     ''> c #7D7D7D'',
     '', c #858585'',
     ''< c #898989'',
     ''1 c #8E8E8E'',
     ''2 c #929292'',
     ''3 c #949494'',
     ''4 c #9B9B9B'',
     ''5 c #9C9C9C'',
     ''6 c #A5A5A5'',
     ''7 c #A9A9A9'',
     ''8 c #AEAEAE'',
     ''9 c #B3B3B3'',
     ''0 c #BCBCBC'',
     ''q c #BDBDBD'',
     ''w c #C1C1C1'',
     ''e c #C5C5C5'',
     ''r c #CACACA'',
     ''t c #CDCDCD'',
     ''y c #D2D2D2'',
     ''u c #D9D9D9'',
     ''i c #E1E1E1'',
     ''p c #E2E2E2'',
     ''a c #E9E9E9'',
     ''s c #EDEDED'',
     ''d c #F1F1F1'',
     ''f c #F6F6F6'',
     ''g c #FAFAFA'',
     ''h c #FDFDFD'',
     ''                    '',
     ''                    '',
     ''                    '',
     ''                    '',
     ''                    '',
     ''                    '',
     ''                    '',
     ''                    '',
     ''                    '',
     ''        $4udga@     '',
     ''      .6hht76e@     '',
     ''      8h9+          '',
     ''     *h9            '',
     ''     rhO            '',
     ''    +hq             '',
     ''    *h,O5pga8@      '',
     ''    ,h1sp42ehg%     '',
     ''    1hh<.   =haX    '',
     ''    5hq      9h&    '',
     ''    3h-      >h>    '',
     ''    >h;      ;h,    '',
     ''    %h6      <h:    '',
     ''    Xsf+    .uh@    '',
     ''     :hy+   1he     '',
     ''      6hgq7phpO     '',
     ''       =edgu,o      '',
     ''                    '',
     ''                    '',
     ''                    '',
     ''                    '',
     ''                    '',
     ''                    '',
     ''                    '',
     ''                    '',
     ''                    '']"

definition n7_xpm :: "string list" where
  "n7_xpm = [
     ''20 35 37 1 '',
     ''  c #000000'',
     ''. c #040404'',
     ''X c #090909'',
     ''o c #0D0D0D'',
     ''O c #121212'',
     ''+ c #181818'',
     ''@ c #1D1D1D'',
     ''# c #2A2A2A'',
     ''$ c #2E2E2E'',
     ''% c #3A3A3A'',
     ''& c #414141'',
     ''* c #4C4C4C'',
     ''= c #595959'',
     ''- c #5D5D5D'',
     ''; c #6C6C6C'',
     '': c #737373'',
     ''> c #7E7E7E'',
     '', c #808080'',
     ''< c #898989'',
     ''1 c #8F8F8F'',
     ''2 c #9D9D9D'',
     ''3 c #A1A1A1'',
     ''4 c #B2B2B2'',
     ''5 c #B5B5B5'',
     ''6 c #B9B9B9'',
     ''7 c #C3C3C3'',
     ''8 c #C8C8C8'',
     ''9 c #CDCDCD'',
     ''0 c #D3D3D3'',
     ''q c #E1E1E1'',
     ''w c #E4E4E4'',
     ''e c #EAEAEA'',
     ''r c #EBEBEB'',
     ''t c #F0F0F0'',
     ''y c #F4F4F4'',
     ''u c #F8F8F8'',
     ''i c #FFFFFF'',
     ''                    '',
     ''                    '',
     ''                    '',
     ''                    '',
     ''                    '',
     ''                    '',
     ''                    '',
     ''                    '',
     ''                    '',
     ''    wiiiiiiiiii,    '',
     ''    488888888ei:    '',
     ''            .qu+    '',
     ''            -i2     '',
     ''            0i#     '',
     ''           *i5      '',
     ''           7i&      '',
     ''          %i9       '',
     ''          4i=       '',
     ''         #i0.       '',
     ''         3i:        '',
     ''        @uto        '',
     ''        1i<         '',
     ''       Oyu@         '',
     ''       >i3          '',
     ''      Xei$          '',
     ''      ;i6           '',
     ''                    '',
     ''                    '',
     ''                    '',
     ''                    '',
     ''                    '',
     ''                    '',
     ''                    '',
     ''                    '',
     ''                    '']"

definition n8_xpm :: "string list" where
  "n8_xpm = [
     ''20 35 49 1 '',
     ''  c #000000'',
     ''. c #050505'',
     ''X c #090909'',
     ''o c #0E0E0E'',
     ''O c #111111'',
     ''+ c #191919'',
     ''@ c #1D1D1D'',
     ''# c #222222'',
     ''$ c #242424'',
     ''% c #292929'',
     ''& c #2C2C2C'',
     ''* c #313131'',
     ''= c #464646'',
     ''- c #494949'',
     ''; c #4F4F4F'',
     '': c #515151'',
     ''> c #5A5A5A'',
     '', c #5F5F5F'',
     ''< c #606060'',
     ''1 c #737373'',
     ''2 c #787878'',
     ''3 c #7D7D7D'',
     ''4 c #858585'',
     ''5 c #8A8A8A'',
     ''6 c #949494'',
     ''7 c #9F9F9F'',
     ''8 c #A0A0A0'',
     ''9 c #A4A4A4'',
     ''0 c #AAAAAA'',
     ''q c #ADADAD'',
     ''w c #B1B1B1'',
     ''e c #B7B7B7'',
     ''r c #B8B8B8'',
     ''t c #BFBFBF'',
     ''y c #C3C3C3'',
     ''u c #C4C4C4'',
     ''i c #C9C9C9'',
     ''p c #CCCCCC'',
     ''a c #D2D2D2'',
     ''s c #D7D7D7'',
     ''d c #D8D8D8'',
     ''f c #DEDEDE'',
     ''g c #E0E0E0'',
     ''h c #E4E4E4'',
     ''j c #ECECEC'',
     ''k c #EEEEEE'',
     ''l c #F5F5F5'',
     ''z c #FBFBFB'',
     ''x c #FFFFFF'',
     ''                    '',
     ''                    '',
     ''                    '',
     ''                    '',
     ''                    '',
     ''                    '',
     ''                    '',
     ''                    '',
     ''                    '',
     ''      %7fzla4O      '',
     ''     -zxp80hxg@     '',
     ''     hx,   X9x9     '',
     ''    &xp     +xh     '',
     ''    $xu     Oxs     '',
     ''     fz*    2x4     '',
     ''     =zj< o4xyo     '',
     ''      =gxfjz4X      '',
     ''      $exzxl5o      '',
     ''     :zj<X:ixf%     '',
     ''    %zg@    3xd.    '',
     ''    6x,      rx;    '',
     ''    tx&      3x1    '',
     ''    qx>      0x>    '',
     ''    >xg%    <xjO    '',
     ''     9xxy79sxl-     '',
     ''      :whzzd6#      '',
     ''                    '',
     ''                    '',
     ''                    '',
     ''                    '',
     ''                    '',
     ''                    '',
     ''                    '',
     ''                    '',
     ''                    '']"

definition n9_xpm :: "string list" where
  "n9_xpm = [
     ''20 35 46 1 '',
     ''  c #000000'',
     ''. c #050505'',
     ''X c #090909'',
     ''o c #121212'',
     ''O c #161616'',
     ''+ c #1B1B1B'',
     ''@ c #232323'',
     ''# c #292929'',
     ''$ c #2C2C2C'',
     ''% c #333333'',
     ''& c #353535'',
     ''* c #3A3A3A'',
     ''= c #484848'',
     ''- c #4F4F4F'',
     ''; c #505050'',
     '': c #585858'',
     ''> c #5E5E5E'',
     '', c #616161'',
     ''< c #696969'',
     ''1 c #6F6F6F'',
     ''2 c #727272'',
     ''3 c #7E7E7E'',
     ''4 c #838383'',
     ''5 c #8F8F8F'',
     ''6 c #949494'',
     ''7 c #9B9B9B'',
     ''8 c #9C9C9C'',
     ''9 c #A0A0A0'',
     ''0 c #A5A5A5'',
     ''q c #A9A9A9'',
     ''w c #ACACAC'',
     ''e c #BBBBBB'',
     ''r c #BEBEBE'',
     ''t c #C5C5C5'',
     ''y c #C8C8C8'',
     ''u c #D5D5D5'',
     ''i c #D8D8D8'',
     ''p c #DEDEDE'',
     ''a c #E1E1E1'',
     ''s c #E6E6E6'',
     ''d c #E8E8E8'',
     ''f c #ECECEC'',
     ''g c #F3F3F3'',
     ''h c #F7F7F7'',
     ''j c #F9F9F9'',
     ''k c #FFFFFF'',
     ''                    '',
     ''                    '',
     ''                    '',
     ''                    '',
     ''                    '',
     ''                    '',
     ''                    '',
     ''                    '',
     ''                    '',
     ''      @8ajaw&       '',
     ''     =gkuwykk<      '',
     ''    Xfk:   %ak&     '',
     ''    1k9     *kr     '',
     ''    qk;      tko    '',
     ''    ek&      6k=    '',
     ''    wk-      9k>    '',
     ''    2kw     #hk<    '',
     ''    odk7#X+1fak>    '',
     ''     %pkkkkh10k-    '',
     ''      .-34,O tk@    '',
     ''            Xhf     '',
     ''            ,k7     '',
     ''           Osj$     '',
     ''          *ik4      '',
     ''     <w8qikj4       '',
     ''     <fkfu5#        '',
     ''                    '',
     ''                    '',
     ''                    '',
     ''                    '',
     ''                    '',
     ''                    '',
     ''                    '',
     ''                    '',
     ''                    '']"

definition points_xpm :: "string list" where
  "points_xpm = [
     ''20 35 15 1 '',
     ''  c #000000'',
     ''. c #080808'',
     ''X c #0D0D0D'',
     ''o c #131313'',
     ''O c #161616'',
     ''+ c #2F2F2F'',
     ''@ c #3F3F3F'',
     ''# c #444444'',
     ''$ c #525252'',
     ''% c #555555'',
     ''& c #929292'',
     ''* c #CBCBCB'',
     ''= c #E6E6E6'',
     ''- c #ECECEC'',
     ''; c #FFFFFF'',
     ''                    '',
     ''                    '',
     ''                    '',
     ''                    '',
     ''                    '',
     ''                    '',
     ''                    '',
     ''                    '',
     ''                    '',
     ''                    '',
     ''                    '',
     ''                    '',
     ''                    '',
     ''        .*-#        '',
     ''        +;;&        '',
     ''        X=;$        '',
     ''         .o         '',
     ''                    '',
     ''                    '',
     ''                    '',
     ''                    '',
     ''                    '',
     ''         .O         '',
     ''        X=;%        '',
     ''        +;;&        '',
     ''        .*-@        '',
     ''                    '',
     ''                    '',
     ''                    '',
     ''                    '',
     ''                    '',
     ''                    '',
     ''                    '',
     ''                    '',
     ''                    '']"

definition bar_xpm :: "string list" where
  "bar_xpm = [
     ''20 35 26 1 '',
     ''  c #000000'',
     ''. c #050505'',
     ''X c #0B0B0B'',
     ''o c #161616'',
     ''O c #171717'',
     ''+ c #212121'',
     ''@ c #323232'',
     ''# c #343434'',
     ''$ c #3F3F3F'',
     ''% c #515151'',
     ''& c #5F5F5F'',
     ''* c #727272'',
     ''= c #808080'',
     ''- c #919191'',
     ''; c #949494'',
     '': c #9F9F9F'',
     ''> c #B1B1B1'',
     '', c #BFBFBF'',
     ''< c #D1D1D1'',
     ''1 c #D3D3D3'',
     ''2 c #DEDEDE'',
     ''3 c #EBEBEB'',
     ''4 c #ECECEC'',
     ''5 c #F3F3F3'',
     ''6 c #FAFAFA'',
     ''7 c #FFFFFF'',
     ''                    '',
     ''                    '',
     ''                    '',
     ''                    '',
     ''                    '',
     ''                    '',
     ''                    '',
     ''                    '',
     ''                    '',
     ''           -7&      '',
     ''          .35X      '',
     ''          %7:       '',
     ''          >7$       '',
     ''         o62        '',
     ''         *7=        '',
     ''         <7+        '',
     ''        @7,         '',
     ''        -7&         '',
     ''       .45X         '',
     ''       %7:          '',
     ''       >7%          '',
     ''      O72           '',
     ''      *7=           '',
     ''      <7+           '',
     ''     #7,            '',
     ''     ;7&            '',
     ''                    '',
     ''                    '',
     ''                    '',
     ''                    '',
     ''                    '',
     ''                    '',
     ''                    '',
     ''                    '',
     ''                    '']"

definition point_xpm :: "string list" where
  "point_xpm = [
     ''20 35 12 1 '',
     ''  c #000000'',
     ''. c #080808'',
     ''X c #0D0D0D'',
     ''o c #161616'',
     ''O c #2F2F2F'',
     ''+ c #3F3F3F'',
     ''@ c #555555'',
     ''# c #929292'',
     ''$ c #CACACA'',
     ''% c #E6E6E6'',
     ''& c #ECECEC'',
     ''* c #FFFFFF'',
     ''                    '',
     ''                    '',
     ''                    '',
     ''                    '',
     ''                    '',
     ''                    '',
     ''                    '',
     ''                    '',
     ''                    '',
     ''                    '',
     ''                    '',
     ''                    '',
     ''                    '',
     ''                    '',
     ''                    '',
     ''                    '',
     ''                    '',
     ''                    '',
     ''                    '',
     ''                    '',
     ''                    '',
     ''                    '',
     ''         .o         '',
     ''        X%*@        '',
     ''        O**#        '',
     ''        .$&+        '',
     ''                    '',
     ''                    '',
     ''                    '',
     ''                    '',
     ''                    '',
     ''                    '',
     ''                    '',
     ''                    '',
     ''                    '']"

definition sub_xpm :: "string list" where
  "sub_xpm = [
     ''20 35 6 1 '',
     ''  c #000000'',
     ''. c #040404'',
     ''X c #8F8F8F'',
     ''o c #BCBCBC'',
     ''O c #C4C4C4'',
     ''+ c #FFFFFF'',
     ''                    '',
     ''                    '',
     ''                    '',
     ''                    '',
     ''                    '',
     ''                    '',
     ''                    '',
     ''                    '',
     ''                    '',
     ''                    '',
     ''                    '',
     ''                    '',
     ''                    '',
     ''                    '',
     ''                    '',
     ''                    '',
     ''                    '',
     ''                    '',
     ''       OOOOOX       '',
     ''      .+++++o       '',
     ''                    '',
     ''                    '',
     ''                    '',
     ''                    '',
     ''                    '',
     ''                    '',
     ''                    '',
     ''                    '',
     ''                    '',
     ''                    '',
     ''                    '',
     ''                    '',
     ''                    '',
     ''                    '',
     ''                    '']"

end
