(* ===== verification/Text_Display.thy ===== *)
theory Text_Display
  imports Highscores Graphics Sprites_Letters Sprites_Digits
begin

text \<open>
  The drawing half of \<open>game/scores/score.c\<close>: letters, text and numbers as sequences of sprites, the
  line of live counters, the final score and the scoreboard.

  The drawing functions are void: a glyph that does not fit the screen is cut off and the error is
  dropped. The lemmas show that nothing that is drawn can reach outside the back buffer, where each
  glyph of a text lies, and that a text changes no pixel outside its box.
\<close>

subsection \<open>Glyphs\<close>

definition CHAR_HEIGHT :: int where "CHAR_HEIGHT = 25"
definition CHAR_SPACING :: int where "CHAR_SPACING = 22"

definition letters :: "string list list" where
  "letters = [A_xpm, B_xpm, C_xpm, D_xpm, E_xpm, F_xpm, G_xpm, H_xpm, I_xpm, J_xpm, K_xpm, L_xpm,
     M_xpm, N_xpm, O_xpm, P_xpm, Q_xpm, R_xpm, S_xpm, T_xpm, U_xpm, V_xpm, W_xpm, X_xpm, Y_xpm, Z_xpm]"

definition numbers :: "string list list" where
  "numbers = [n0_xpm, n1_xpm, n2_xpm, n3_xpm, n4_xpm, n5_xpm, n6_xpm, n7_xpm, n8_xpm, n9_xpm]"

definition draw_letter :: "'h kernel \<Rightarrow> char \<Rightarrow> int \<Rightarrow> int \<Rightarrow> gfx_st \<Rightarrow> gfx_st" where
  "draw_letter K letter x y g =
     (let c = of_char letter :: nat in
      if 65 \<le> c \<and> c \<le> 90
      then snd (print_xpm K (letters ! (c - 65)) (word_of_int x) (word_of_int y) g)
      else if 97 \<le> c \<and> c \<le> 122
      then snd (print_xpm K (letters ! (c - 97)) (word_of_int x) (word_of_int y) g)
      else g)"

definition space :: char where "space = CHR 0x20"

text \<open>The arguments are the characters before the terminating NUL.\<close>

primrec draw_text :: "'h kernel \<Rightarrow> string \<Rightarrow> int \<Rightarrow> int \<Rightarrow> gfx_st \<Rightarrow> gfx_st" where
  "draw_text K [] current_x y g = g"
| "draw_text K (c # cs) current_x y g =
     (if c = space then draw_text K cs (current_x + CHAR_SPACING) y g
      else draw_text K cs (current_x + CHAR_SPACING) y (draw_letter K c current_x y g))"

definition calculate_text_width :: "string \<Rightarrow> int" where
  "calculate_text_width text = int (length text) * CHAR_SPACING"

definition draw_text_centered :: "'h kernel \<Rightarrow> string \<Rightarrow> int \<Rightarrow> int \<Rightarrow> gfx_st \<Rightarrow> gfx_st" where
  "draw_text_centered K text center_x y =
     (let start_x = center_x - c_div (calculate_text_width text) 2 in draw_text K text start_x y)"

definition draw_digit :: "'h kernel \<Rightarrow> int \<Rightarrow> int \<Rightarrow> int \<Rightarrow> gfx_st \<Rightarrow> gfx_st" where
  "draw_digit K digit x y g =
     (if 0 \<le> digit \<and> digit \<le> 9
      then snd (print_xpm K (numbers ! nat digit) (word_of_int x) (word_of_int y) g) else g)"

primrec draw_digits :: "'h kernel \<Rightarrow> string \<Rightarrow> int \<Rightarrow> int \<Rightarrow> gfx_st \<Rightarrow> int \<times> gfx_st" where
  "draw_digits K [] current_x y g = (current_x, g)"
| "draw_digits K (c # cs) current_x y g =
     draw_digits K cs (current_x + CHAR_SPACING) y (draw_digit K (int (of_char c) - 48) current_x y g)"

definition draw_number :: "'h kernel \<Rightarrow> int \<Rightarrow> int \<Rightarrow> int \<Rightarrow> gfx_st \<Rightarrow> int \<times> gfx_st" where
  "draw_number K number x y g =
     (if number = 0 then (x + CHAR_SPACING, draw_digit K 0 x y g)
      else draw_digits K (show_int number) x y g)"

definition draw_label_and_number ::
  "'h kernel \<Rightarrow> string \<Rightarrow> int \<Rightarrow> int \<Rightarrow> int \<Rightarrow> gfx_st \<Rightarrow> gfx_st" where
  "draw_label_and_number K label number x y g =
     snd (draw_number K number (x + calculate_text_width label) y (draw_text K label x y g))"

definition draw_label_and_number_centered ::
  "'h kernel \<Rightarrow> string \<Rightarrow> int \<Rightarrow> int \<Rightarrow> int \<Rightarrow> gfx_st \<Rightarrow> gfx_st" where
  "draw_label_and_number_centered K label number center_x y g =
     (let num_width = int (length (show_int number)) * CHAR_SPACING;
          label_width = calculate_text_width label;
          total_width = label_width + num_width;
          start_x = center_x - c_div total_width 2
      in snd (draw_number K number (start_x + label_width) y (draw_text K label start_x y g)))"


subsection \<open>Screens\<close>

definition draw_live_score :: "'h kernel \<Rightarrow> GameScore \<Rightarrow> gfx_st \<Rightarrow> gfx_st" where
  "draw_live_score K c g =
     (let margin = 20; top_y = margin;
          center_x = int (xres g) div 2;
          shots_text = ''SHOTS '';
          shots_total_width = calculate_text_width shots_text
            + int (length (show_int (bullets_fired c))) * CHAR_SPACING;
          shots_x = int (xres g) - shots_total_width - margin;
          g = draw_label_and_number K ''SCORE '' (live_score c) margin top_y g;
          g = draw_label_and_number_centered K ''TIME '' (game_time_seconds c) center_x top_y g
      in draw_label_and_number K shots_text (bullets_fired c) shots_x top_y g)"

text \<open>The static buffer \<open>assigned_name\<close> is filled here and nowhere else: it is always \<open>UNKNOWN\<close>.\<close>

definition assigned_name :: string where "assigned_name = ''UNKNOWN''"

definition draw_final_score_display :: "'h kernel \<Rightarrow> GameScore \<Rightarrow> gfx_st \<Rightarrow> gfx_st" where
  "draw_final_score_display K c g =
     (let center_x = int (xres g) div 2;
          center_y = int (yres g) div 2;
          line_spacing = CHAR_HEIGHT + 15;
          start_y = center_y - line_spacing * 3;
          g = draw_text_centered K ''YOU WON'' center_x start_y g;
          g = draw_text_centered K ''PILOT'' (center_x - 60) (start_y + line_spacing) g;
          g = draw_text_centered K assigned_name (center_x + 60) (start_y + line_spacing) g;
          g = draw_label_and_number_centered K ''FINAL SCORE '' (final_score c) center_x
                (start_y + line_spacing * 2) g;
          g = draw_label_and_number_centered K ''TIME '' (game_time_seconds c) center_x
                (start_y + line_spacing * 3) g;
          g = draw_label_and_number_centered K ''SHOTS FIRED '' (bullets_fired c) center_x
                (start_y + line_spacing * 4) g;
          g = (if bullets_fired c > 0
               then
                 let efficiency = c_div (final_score c * 100) 10000;
                     efficiency = (if efficiency > 100 then 100 else efficiency)
                 in draw_label_and_number_centered K ''EFFICIENCY '' efficiency center_x
                      (start_y + line_spacing * 5) g
               else g)
      in draw_text_centered K ''PRESS ENTER'' center_x (start_y + line_spacing * 6) g)"

definition rank_str :: "nat \<Rightarrow> string" where
  "rank_str i =
     (if i = 0 then ''1ST'' else if i = 1 then ''2ND'' else if i = 2 then ''3RD''
      else show_int (int i + 1) @ ''TH'')"

definition draw_score_row ::
  "'h kernel \<Rightarrow> HighScoreEntry list \<Rightarrow> int \<Rightarrow> int \<Rightarrow> nat \<Rightarrow> gfx_st \<Rightarrow> gfx_st" where
  "draw_score_row K hs title_y line_height i g =
     (let row_y = title_y + (int i + 1) * line_height;
          e = hs ! i;
          g = draw_text K (rank_str i) 80 row_y g;
          g = draw_text K (hs_name e) 200 row_y g;
          g = snd (draw_number K (hs_score e) 400 row_y g);
          g = snd (draw_number K (hs_bullets_fired e) 550 row_y g);
          g = snd (draw_number K (hs_game_time_seconds e) 700 row_y g)
      in draw_text K ''S'' (700 + calculate_text_width ''999'') row_y g)"

definition draw_scoreboard_menu :: "'h kernel \<Rightarrow> score_st \<Rightarrow> gfx_st \<Rightarrow> gfx_st" where
  "draw_scoreboard_menu K s g =
     (let center_x = int (xres g) div 2;
          start_y = 80;
          line_height = 40;
          g = draw_text_centered K ''HIGH SCORES'' center_x start_y g;
          title_y = start_y + 50;
          display_count = (if highscore_count s < 8 then highscore_count s else 8);
          g = (if display_count = 0 then
                 let g = draw_text_centered K ''NO HIGH SCORES YET'' center_x (title_y + line_height * 2) g
                 in draw_text_centered K ''PLAY A GAME TO SET YOUR FIRST SCORE'' center_x
                      (title_y + line_height * 3) g
               else
                 let g = draw_text K ''RANK'' 80 title_y g;
                     g = draw_text K ''PILOT'' 200 title_y g;
                     g = draw_text K ''SCORE'' 400 title_y g;
                     g = draw_text K ''SHOTS'' 550 title_y g;
                     g = draw_text K ''TIME'' 700 title_y g
                 in fold (draw_score_row K (highscores s) title_y line_height) [0..<display_count] g);
          instruction_y = int (yres g) - 80
      in draw_text_centered K ''PRESS ESC TO RETURN TO MENU'' center_x instruction_y g)"


subsection \<open>What the loader documents\<close>

text \<open>The columns and rows of a sprite, from its header row.\<close>

definition header_size :: "string \<Rightarrow> int \<times> int" where
  "header_size header =
     (case scan_int header of
        None \<Rightarrow> (0, 0)
      | Some (columns, r) \<Rightarrow> (case scan_int r of None \<Rightarrow> (0, 0) | Some (rows, r') \<Rightarrow> (columns, rows)))"

definition xpm_size :: "string list \<Rightarrow> int \<times> int" where
  "xpm_size xpm = header_size (hd xpm)"

text \<open>\<open>xpm_load\<close> gives an image of the size the header states, with a colour for each pixel.\<close>

definition loads :: "'h kernel \<Rightarrow> string list \<Rightarrow> bool" where
  "loads K xpm \<longleftrightarrow>
     (case xpm_load K xpm of
        None \<Rightarrow> False
      | Some img \<Rightarrow> img_ok img \<and> (uint (img_width img), uint (img_height img)) = xpm_size xpm)"

definition glyphs_load :: "'h kernel \<Rightarrow> bool" where
  "glyphs_load K \<longleftrightarrow> list_all (loads K) (letters @ numbers)"

text \<open>A loader that behaves so: an image of one colour, of the size in the header.\<close>

definition blank_load :: "string list \<Rightarrow> xpm_image option" where
  "blank_load xpm =
     (case xpm_size xpm of (w, h) \<Rightarrow>
        Some \<lparr>img_width = word_of_int w, img_height = word_of_int h,
              img_colors = replicate (nat h * nat w) 0\<rparr>)"

lemma blank_load_loads:
  assumes "xpm_load K = blank_load" and "0 \<le> fst (xpm_size xpm)" "fst (xpm_size xpm) < 2 ^ 16"
    and "0 \<le> snd (xpm_size xpm)" "snd (xpm_size xpm) < 2 ^ 16"
  shows "loads K xpm"
proof -
  obtain w h where wh: "xpm_size xpm = (w, h)" by fastforce
  with assms(2-5) have "uint (word_of_int w :: u16) = w" "uint (word_of_int h :: u16) = h"
    by (simp_all add: uint_word_of_int_eq take_bit_int_eq_self)
  moreover from this have "unat (word_of_int w :: u16) = nat w" "unat (word_of_int h :: u16) = nat h"
    by (metis unat_eq_nat_uint)+
  ultimately show ?thesis
    by (simp add: loads_def assms(1) blank_load_def wh img_ok_def)
qed


lemma xpm_sizeI: "xpm = h # t \<Longrightarrow> header_size h = wh \<Longrightarrow> xpm_size xpm = wh"
  by (simp add: xpm_size_def)

lemmas header_eval = header_size_def scan_int_def is_space_def is_digit_def char_consts
  digits_value_def digit_value_def

lemmas glyph_defs =
  A_xpm_def B_xpm_def C_xpm_def D_xpm_def E_xpm_def F_xpm_def G_xpm_def H_xpm_def
  I_xpm_def J_xpm_def K_xpm_def L_xpm_def M_xpm_def N_xpm_def O_xpm_def P_xpm_def
  Q_xpm_def R_xpm_def S_xpm_def T_xpm_def U_xpm_def V_xpm_def W_xpm_def X_xpm_def
  Y_xpm_def Z_xpm_def n0_xpm_def n1_xpm_def n2_xpm_def n3_xpm_def n4_xpm_def n5_xpm_def
  n6_xpm_def n7_xpm_def n8_xpm_def n9_xpm_def

lemma glyph_sizes: "list_all (\<lambda>xpm. xpm_size xpm = (20, 35)) (letters @ numbers)"
  unfolding letters_def numbers_def list_all_append list.pred_inject
  by (intro conjI list.pred_inject(1); rule xpm_sizeI, rule glyph_defs, simp add: header_eval)

text \<open>The punctuation marks, which the program includes and does not draw, are of the same size.\<close>

lemma special_sizes: "list_all (\<lambda>xpm. xpm_size xpm = (20, 35)) [points_xpm, bar_xpm, point_xpm, sub_xpm]"
  unfolding list.pred_inject
  by (intro conjI list.pred_inject(1); rule xpm_sizeI,
      rule points_xpm_def bar_xpm_def point_xpm_def sub_xpm_def, simp add: header_eval)

lemma length_glyphs: "length letters = 26" "length numbers = 10"
  by (simp_all add: letters_def numbers_def)

lemma blank_glyphs_load: "xpm_load K = blank_load \<Longrightarrow> glyphs_load K"
  using glyph_sizes unfolding glyphs_load_def list_all_iff by (auto intro!: blank_load_loads)


subsection \<open>Drawing that stays in the back buffer\<close>

definition safe_draw :: "(gfx_st \<Rightarrow> gfx_st) \<Rightarrow> bool" where
  "safe_draw d \<longleftrightarrow> (\<forall>g. wf_gfx g \<longrightarrow> wf_gfx (d g) \<and> same_screen g (d g))"

named_theorems safe \<open>drawing operations that are safe\<close>

lemma safe_drawD: "safe_draw d \<Longrightarrow> wf_gfx g \<Longrightarrow> wf_gfx (d g) \<and> same_screen g (d g)"
  by (simp add: safe_draw_def)

lemma safe_id [safe]: "safe_draw (\<lambda>g. g)"
  by (simp add: safe_draw_def)

lemma safe_comp [safe]: "safe_draw e \<Longrightarrow> safe_draw d \<Longrightarrow> safe_draw (\<lambda>g. e (d g))"
  unfolding safe_draw_def by (blast intro: same_screen_trans)

lemma safe_if [safe]: "safe_draw d \<Longrightarrow> safe_draw e \<Longrightarrow> safe_draw (\<lambda>g. if P then d g else e g)"
  by (simp add: safe_draw_def)

lemma safe_fold [safe]: "(\<And>x. x \<in> set xs \<Longrightarrow> safe_draw (f x)) \<Longrightarrow> safe_draw (fold f xs)"
proof (induction xs)
  case Nil
  then show ?case by (simp add: safe_draw_def id_def)
next
  case (Cons x xs)
  then have "safe_draw (f x)" "safe_draw (fold f xs)" by auto
  then show ?case by (simp add: comp_def safe_comp)
qed

lemma print_xpm_safe_draw [safe]: "loads K xpm \<Longrightarrow> safe_draw (\<lambda>g. snd (print_xpm K xpm x y g))"
  by (cases "xpm_load K xpm") (simp_all add: safe_draw_def loads_def print_xpm_safe)

lemma clear_back_buf_safe [safe]: "safe_draw (clear_back_buf c)"
  using clear_back_buf_ok by (simp add: safe_draw_def)

lemma glyph_loads:
  assumes "glyphs_load K"
  shows "n < 26 \<Longrightarrow> loads K (letters ! n)" and "n < 10 \<Longrightarrow> loads K (numbers ! n)"
  using assms length_glyphs by (auto simp: glyphs_load_def list_all_iff)

lemma draw_letter_safe [safe]: "glyphs_load K \<Longrightarrow> safe_draw (draw_letter K c x y)"
proof -
  assume *: "glyphs_load K"
  let ?c = "of_char c :: nat"
  consider "65 \<le> ?c \<and> ?c \<le> 90" | "97 \<le> ?c \<and> ?c \<le> 122"
    | "\<not> (65 \<le> ?c \<and> ?c \<le> 90)" "\<not> (97 \<le> ?c \<and> ?c \<le> 122)" by blast
  then show ?thesis
  proof cases
    case 1
    then have "loads K (letters ! (?c - 65))" by (intro glyph_loads [OF *]) linarith
    from print_xpm_safe_draw [OF this] 1 show ?thesis by (simp add: safe_draw_def draw_letter_def Let_def)
  next
    case 2
    then have "loads K (letters ! (?c - 97))" by (intro glyph_loads [OF *]) linarith
    from print_xpm_safe_draw [OF this] 2 show ?thesis by (simp add: safe_draw_def draw_letter_def Let_def)
  next
    case 3
    then show ?thesis by (simp only: safe_draw_def draw_letter_def Let_def if_False) simp
  qed
qed

lemma draw_digit_safe [safe]: "glyphs_load K \<Longrightarrow> safe_draw (draw_digit K d x y)"
proof -
  assume *: "glyphs_load K"
  show ?thesis
  proof (cases "0 \<le> d \<and> d \<le> 9")
    case True
    then have "loads K (numbers ! nat d)" by (intro glyph_loads [OF *]) linarith
    from print_xpm_safe_draw [OF this] True show ?thesis by (simp add: safe_draw_def draw_digit_def)
  qed (auto simp: safe_draw_def draw_digit_def)
qed

lemma draw_text_safe [safe]: "glyphs_load K \<Longrightarrow> safe_draw (draw_text K s x y)"
proof (induction s arbitrary: x)
  case (Cons c s)
  then have s: "safe_draw (draw_text K s (x + CHAR_SPACING) y)" by blast
  with safe_comp [OF s draw_letter_safe [OF Cons.prems]] show ?case by (simp add: safe_draw_def)
qed (simp add: safe_draw_def)

lemma draw_digits_safe: "glyphs_load K \<Longrightarrow> safe_draw (\<lambda>g. snd (draw_digits K s x y g))"
proof (induction s arbitrary: x)
  case (Cons c s)
  then have s: "safe_draw (\<lambda>g. snd (draw_digits K s (x + CHAR_SPACING) y g))" by blast
  with safe_comp [OF s draw_digit_safe [OF Cons.prems]] show ?case by (simp add: safe_draw_def)
qed (simp add: safe_draw_def)

lemma draw_number_safe [safe]: "glyphs_load K \<Longrightarrow> safe_draw (\<lambda>g. snd (draw_number K n x y g))"
  using draw_digits_safe [of K "show_int n" x y] draw_digit_safe [of K 0 x y]
  by (cases "n = 0") (simp_all add: draw_number_def safe_draw_def)

lemma draw_text_centered_safe [safe]: "glyphs_load K \<Longrightarrow> safe_draw (draw_text_centered K s x y)"
  using draw_text_safe by (simp add: draw_text_centered_def safe_draw_def Let_def)

lemma draw_label_safe [safe]:
  assumes "glyphs_load K"
  shows "safe_draw (draw_label_and_number K s n x y)"
    and "safe_draw (draw_label_and_number_centered K s n x y)"
  using safe_comp [OF draw_number_safe draw_text_safe, OF assms assms]
  by (simp_all add: draw_label_and_number_def draw_label_and_number_centered_def safe_draw_def Let_def)


lemma same_screen_xres: "same_screen g g' \<Longrightarrow> xres g' = xres g" "same_screen g g' \<Longrightarrow> yres g' = yres g"
  by (simp_all add: same_screen_fields)

text \<open>The screens are sequences of such operations, whose places depend on the mode only.\<close>

definition safe_step :: "gfx_st \<Rightarrow> gfx_st \<Rightarrow> bool" where
  "safe_step g g' \<longleftrightarrow> wf_gfx g' \<and> same_screen g g'"

lemma safe_step_refl: "wf_gfx g \<Longrightarrow> safe_step g g"
  by (simp add: safe_step_def)

lemma safe_stepI: "safe_draw d \<Longrightarrow> safe_step g h \<Longrightarrow> safe_step g (d h)"
  unfolding safe_step_def by (blast dest: safe_drawD intro: same_screen_trans)

lemma safe_draw_stepI: "(\<And>g. wf_gfx g \<Longrightarrow> safe_step g (d g)) \<Longrightarrow> safe_draw d"
  by (simp add: safe_draw_def safe_step_def)

lemma screens_safe [safe]:
  assumes "glyphs_load K"
  shows "safe_draw (draw_live_score K c)" and "safe_draw (draw_final_score_display K c)"
    and "safe_draw (draw_score_row K hs ty lh i)" and "safe_draw (draw_scoreboard_menu K s)"
proof -
  note steps = draw_label_safe [OF assms, THEN safe_stepI]
    draw_text_centered_safe [OF assms, THEN safe_stepI]
    draw_text_safe [OF assms, THEN safe_stepI] draw_number_safe [OF assms, THEN safe_stepI]
  have steps_if: "safe_step g a \<Longrightarrow> safe_step g b \<Longrightarrow> safe_step g (if P then a else b)" for g a b P
    by simp
  show "safe_draw (draw_live_score K c)"
    by (rule safe_draw_stepI) (simp only: draw_live_score_def Let_def, intro steps safe_step_refl)
  show "safe_draw (draw_final_score_display K c)"
    by (rule safe_draw_stepI, simp only: draw_final_score_display_def Let_def)
      (intro steps steps_if safe_step_refl)
  show row: "safe_draw (draw_score_row K hs ty lh i)" for hs ty lh i
    by (rule safe_draw_stepI) (simp only: draw_score_row_def Let_def, intro steps safe_step_refl)
  have rows: "safe_draw (fold (draw_score_row K hs ty lh) is)" for hs ty lh "is"
    by (intro safe_fold row)
  show "safe_draw (draw_scoreboard_menu K s)"
    by (rule safe_draw_stepI, simp only: draw_scoreboard_menu_def Let_def)
      (intro steps steps_if rows [THEN safe_stepI] safe_step_refl)
qed


subsection \<open>Where a text lies\<close>

text \<open>\<open>g'\<close> differs from \<open>g\<close> in pixels inside the region only.\<close>

definition changed_within :: "(int \<Rightarrow> int \<Rightarrow> bool) \<Rightarrow> gfx_st \<Rightarrow> gfx_st \<Rightarrow> bool" where
  "changed_within R g g' \<longleftrightarrow> safe_step g g' \<and>
     (\<forall>p q. \<not> R (int p) (int q) \<longrightarrow> pixel_at g' (p, q) = pixel_at g (p, q))"

definition box :: "int \<Rightarrow> int \<Rightarrow> int \<Rightarrow> int \<Rightarrow> int \<Rightarrow> int \<Rightarrow> bool" where
  "box x y w h = (\<lambda>p q. x \<le> p \<and> p < x + w \<and> y \<le> q \<and> q < y + h)"

definition on_screen :: "gfx_st \<Rightarrow> int \<Rightarrow> int \<Rightarrow> int \<Rightarrow> int \<Rightarrow> bool" where
  "on_screen g x y w h \<longleftrightarrow> 0 \<le> x \<and> x + w \<le> int (xres g) \<and> 0 \<le> y \<and> y + h \<le> int (yres g)"

lemma changed_within_refl: "wf_gfx g \<Longrightarrow> changed_within R g g"
  by (simp add: changed_within_def safe_step_refl)

lemma changed_within_trans:
  assumes "changed_within R g h" and "changed_within R' h g'"
    and "\<And>p q. R p q \<Longrightarrow> S p q" and "\<And>p q. R' p q \<Longrightarrow> S p q"
  shows "changed_within S g g'"
proof -
  have "safe_step g g'"
    using assms(1,2) unfolding changed_within_def safe_step_def by (blast intro: same_screen_trans)
  moreover have "pixel_at g' (p, q) = pixel_at g (p, q)" if "\<not> S (int p) (int q)" for p q
    using that assms by (metis changed_within_def)
  ultimately show ?thesis by (simp add: changed_within_def)
qed

lemma changed_within_mono:
  "changed_within R g g' \<Longrightarrow> (\<And>p q. R p q \<Longrightarrow> S p q) \<Longrightarrow> changed_within S g g'"
  by (auto simp: changed_within_def)

lemma changed_within_screen:
  "changed_within R g g' \<Longrightarrow> wf_gfx g' \<and> xres g' = xres g \<and> yres g' = yres g"
  by (auto simp: changed_within_def safe_step_def dest: same_screen_fields(1))

lemma unat_word_of_int16: "0 \<le> x \<Longrightarrow> x < 2 ^ 16 \<Longrightarrow> unat (word_of_int x :: u16) = nat x"
  by (metis int_nat_eq nat_int of_nat_less_iff of_nat_numeral of_nat_power unat_of_nat16
      word_of_int_nat)

lemma glyph_changes:
  assumes "loads K xpm" and "xpm_size xpm = (w, h)" and "0 \<le> w" and "0 \<le> h" and "wf_gfx g"
    and "on_screen g x y w h" and "x < 2 ^ 16" and "y < 2 ^ 16"
  shows "fst (print_xpm K xpm (word_of_int x) (word_of_int y) g) = 0"
    and "changed_within (box x y w h) g (snd (print_xpm K xpm (word_of_int x) (word_of_int y) g))"
proof -
  from assms(1,2) obtain img where img: "xpm_load K xpm = Some img" "img_ok img"
    and size: "uint (img_width img) = w" "uint (img_height img) = h"
    by (auto simp: loads_def split: option.splits)
  let ?x = "word_of_int x :: u16" and ?y = "word_of_int y :: u16"
  have b: "0 \<le> x" "0 \<le> y" "x + w \<le> int (xres g)" "y + h \<le> int (yres g)"
    using assms(6) by (auto simp: on_screen_def)
  have xy: "int (unat ?x) = x" "int (unat ?y) = y"
    using b assms(7,8) by (simp_all add: unat_word_of_int16)
  have wh: "int (unat (img_width img)) = w" "int (unat (img_height img)) = h" using size by simp_all
  have fits: "fits_img img ?x ?y (mode_info g)"
    unfolding fits_img_def fits_rect_def using b xy wh by linarith
  show "fst (print_xpm K xpm ?x ?y g) = 0"
    using print_xpm_result [OF img assms(5)] fits by simp
  have "pixel_at (snd (print_xpm K xpm ?x ?y g)) (p, q) = pixel_at g (p, q)"
    if "\<not> box x y w h (int p) (int q)" for p q
  proof -
    have "\<not> (unat ?x \<le> p \<and> p < unat ?x + unat (img_width img) \<and>
        unat ?y \<le> q \<and> q < unat ?y + unat (img_height img))"
      using that xy wh unfolding box_def by linarith
    then show ?thesis unfolding print_xpm_paints_sprite [OF img assms(5) fits] by (rule if_not_P)
  qed
  then show "changed_within (box x y w h) g (snd (print_xpm K xpm ?x ?y g))"
    using print_xpm_safe [OF img assms(5)] by (simp add: changed_within_def safe_step_def)
qed

lemma glyph_char_changes:
  assumes "glyphs_load K" and "wf_gfx g" and "on_screen g x y 22 35"
  shows "changed_within (box x y 22 35) g (draw_letter K c x y g)"
    and "changed_within (box x y 22 35) g (draw_digit K d x y g)"
proof -
  have lim: "int (xres g) < 2 ^ 16" "int (yres g) < 2 ^ 16"
    using unsigned_less [of "XResolution (mode_info g)", where ?'a = int]
      unsigned_less [of "YResolution (mode_info g)", where ?'a = int] by simp_all
  have xy: "x < 2 ^ 16" "y < 2 ^ 16"
    using assms(3) lim unfolding on_screen_def by linarith+
  have on: "on_screen g x y 20 35" using assms(3) by (simp add: on_screen_def)
  have glyph: "changed_within (box x y 22 35) g (snd (print_xpm K xpm (word_of_int x) (word_of_int y) g))"
    if "xpm \<in> set (letters @ numbers)" for xpm
  proof -
    have l: "loads K xpm" "xpm_size xpm = (20, 35)"
      using that assms(1) glyph_sizes by (auto simp: glyphs_load_def list_all_iff)
    have "changed_within (box x y 20 35) g (snd (print_xpm K xpm (word_of_int x) (word_of_int y) g))"
      by (rule glyph_changes(2) [OF l _ _ assms(2) on xy]) simp_all
    then show ?thesis by (rule changed_within_mono) (auto simp: box_def)
  qed
  have idx: "letters ! n \<in> set (letters @ numbers)" if "n < 26" for n
    using that by (simp add: length_glyphs)
  have idx': "numbers ! n \<in> set (letters @ numbers)" if "n < 10" for n
    using that by (simp add: length_glyphs)
  note same = changed_within_refl [OF assms(2)]
  show "changed_within (box x y 22 35) g (draw_letter K c x y g)"
    unfolding draw_letter_def Let_def
    by (split if_split, intro conjI impI glyph idx, linarith)
      (split if_split, intro conjI impI glyph idx same, linarith)
  show "changed_within (box x y 22 35) g (draw_digit K d x y g)"
    unfolding draw_digit_def by (split if_split, intro conjI impI glyph idx' same, linarith)
qed

lemma changed_within_on_screen:
  "changed_within R g g' \<Longrightarrow> on_screen g' x y w h = on_screen g x y w h"
  by (simp add: on_screen_def changed_within_screen)

lemma box_mono:
  "x \<le> x' \<Longrightarrow> x' + w' \<le> x + w \<Longrightarrow> box x' y w' h p q \<Longrightarrow> box x y w h p q"
  by (auto simp: box_def)

lemma draw_text_changes:
  assumes "glyphs_load K" and "wf_gfx g" and "on_screen g x y (calculate_text_width s) 35"
  shows "changed_within (box x y (calculate_text_width s) 35) g (draw_text K s x y g)"
  using assms(2,3)
proof (induction s arbitrary: g x)
  case Nil
  then show ?case by (simp add: changed_within_refl)
next
  case (Cons c s)
  define W where "W = calculate_text_width s"
  have W: "calculate_text_width (c # s) = W + 22" "0 \<le> W"
    by (simp_all add: W_def calculate_text_width_def CHAR_SPACING_def algebra_simps)
  let ?g = "if c = space then g else draw_letter K c x y g"
  have on: "on_screen g x y 22 35" "on_screen g (x + 22) y W 35"
    using Cons.prems(2) W by (auto simp: on_screen_def)
  have first: "changed_within (box x y 22 35) g ?g"
    using glyph_char_changes(1) [OF assms(1) Cons.prems(1) on(1)] changed_within_refl [OF Cons.prems(1)]
    by simp
  have wf: "wf_gfx ?g" using changed_within_screen [OF first] by blast
  have "changed_within (box (x + 22) y W 35) ?g (draw_text K s (x + 22) y ?g)"
    using Cons.IH [OF wf, of "x + 22"] on(2) changed_within_on_screen [OF first] W_def by simp
  then have "changed_within (box x y (W + 22) 35) g (draw_text K s (x + 22) y ?g)"
    by (rule changed_within_trans [OF first]) (erule box_mono [rotated 2], use W(2) in simp_all)+
  then show ?case unfolding W(1) by (cases "c = space") (simp_all add: CHAR_SPACING_def)
qed

lemma draw_digits_changes:
  assumes "glyphs_load K" and "wf_gfx g" and "on_screen g x y (22 * int (length s)) 35"
  shows "changed_within (box x y (22 * int (length s)) 35) g (snd (draw_digits K s x y g))"
    and "fst (draw_digits K s x y g) = x + 22 * int (length s)"
proof -
  have "changed_within (box x y (22 * int (length s)) 35) g (snd (draw_digits K s x y g)) \<and>
      fst (draw_digits K s x y g) = x + 22 * int (length s)"
    using assms(2,3)
  proof (induction s arbitrary: g x)
    case Nil
    then show ?case by (simp add: changed_within_refl)
  next
    case (Cons c s)
    define W where "W = 22 * int (length s)"
    have W: "22 * int (length (c # s)) = W + 22" "0 \<le> W" by (simp_all add: W_def)
    let ?g = "draw_digit K (int (of_char c) - 48) x y g"
    have on: "on_screen g x y 22 35" "on_screen g (x + 22) y W 35"
      using Cons.prems(2) W by (auto simp: on_screen_def)
    note first = glyph_char_changes(2) [OF assms(1) Cons.prems(1) on(1), of "int (of_char c) - 48"]
    have wf: "wf_gfx ?g" using changed_within_screen [OF first] by blast
    have IH: "changed_within (box (x + 22) y W 35) ?g (snd (draw_digits K s (x + 22) y ?g))"
      "fst (draw_digits K s (x + 22) y ?g) = x + 22 + W"
      using Cons.IH [OF wf, of "x + 22"] on(2) changed_within_on_screen [OF first] W_def by auto
    have "changed_within (box x y (W + 22) 35) g (snd (draw_digits K s (x + 22) y ?g))"
      using IH(1)
      by (rule changed_within_trans [OF first]) (erule box_mono [rotated 2], use W(2) in simp_all)+
    then show ?case using IH(2) unfolding W(1) by (simp add: CHAR_SPACING_def)
  qed
  then show "changed_within (box x y (22 * int (length s)) 35) g (snd (draw_digits K s x y g))"
    and "fst (draw_digits K s x y g) = x + 22 * int (length s)" by auto
qed

text \<open>The width of a number on the screen.\<close>

definition number_width :: "int \<Rightarrow> int" where
  "number_width n = int (length (show_int n)) * CHAR_SPACING"

lemma show_int_0: "length (show_int 0) = 1"
  by (simp add: show_int_def show_nat.simps)

lemma draw_number_changes:
  assumes "glyphs_load K" and "wf_gfx g" and "on_screen g x y (number_width n) 35"
  shows "changed_within (box x y (number_width n) 35) g (snd (draw_number K n x y g))"
    and "fst (draw_number K n x y g) = x + number_width n"
proof -
  have w: "number_width n = 22 * int (length (show_int n))"
    by (simp add: number_width_def CHAR_SPACING_def)
  show "changed_within (box x y (number_width n) 35) g (snd (draw_number K n x y g))"
    and "fst (draw_number K n x y g) = x + number_width n"
  proof (atomize (full), cases "n = 0")
    case True
    then have "number_width n = 22" unfolding w by (simp only: show_int_0)
    with True assms(3) glyph_char_changes(2) [OF assms(1,2), of x y 0]
    show "changed_within (box x y (number_width n) 35) g (snd (draw_number K n x y g)) \<and>
        fst (draw_number K n x y g) = x + number_width n"
      by (simp add: draw_number_def CHAR_SPACING_def)
  next
    case False
    with assms(3) draw_digits_changes [OF assms(1,2), of x y "show_int n"]
    show "changed_within (box x y (number_width n) 35) g (snd (draw_number K n x y g)) \<and>
        fst (draw_number K n x y g) = x + number_width n"
      by (simp add: draw_number_def w)
  qed
qed

lemma draw_label_changes:
  assumes "glyphs_load K" and "wf_gfx g"
    and "on_screen g x y (calculate_text_width s + number_width n) 35"
  shows "changed_within (box x y (calculate_text_width s + number_width n) 35) g
           (draw_label_and_number K s n x y g)"
proof -
  define W where "W = calculate_text_width s"
  define V where "V = number_width n"
  have WV: "0 \<le> W" "0 \<le> V"
    by (simp_all add: W_def V_def calculate_text_width_def number_width_def CHAR_SPACING_def)
  have on: "on_screen g x y W 35" "on_screen g (x + W) y V 35"
    using assms(3) WV by (auto simp: on_screen_def W_def V_def)
  note t = draw_text_changes [OF assms(1,2), of x y s, folded W_def, OF on(1)]
  note t' = changed_within_screen [OF t]
  have "changed_within (box (x + W) y V 35) (draw_text K s x y g)
      (snd (draw_number K n (x + W) y (draw_text K s x y g)))"
    using draw_number_changes(1) [OF assms(1), of "draw_text K s x y g" "x + W" y n, folded V_def]
      t' on(2) changed_within_on_screen [OF t] by blast
  then have "changed_within (box x y (W + V) 35) g
      (snd (draw_number K n (x + W) y (draw_text K s x y g)))"
    by (rule changed_within_trans [OF t]) (erule box_mono [rotated 2], use WV in simp_all)+
  then show ?thesis by (simp add: draw_label_and_number_def W_def V_def)
qed

lemma draw_label_centered_eq:
  "draw_label_and_number_centered K s n cx y =
     draw_label_and_number K s n (cx - c_div (calculate_text_width s + number_width n) 2) y"
  by (intro ext) (simp add: draw_label_and_number_centered_def draw_label_and_number_def
      number_width_def Let_def)


text \<open>The number of decimal digits.\<close>

lemma show_int_length: "0 \<le> n \<Longrightarrow> n < 10 ^ Suc k \<Longrightarrow> length (show_int n) \<le> Suc k"
proof -
  assume n: "0 \<le> n" "n < 10 ^ Suc k"
  then have "nat n < nat (10 ^ Suc k)" by linarith
  also have "\<dots> = 10 ^ Suc k" by (metis nat_int of_nat_numeral of_nat_power)
  finally have "length (show_nat (nat n)) \<le> Suc k" by (rule length_show_nat)
  with n show ?thesis by (simp add: show_int_def)
qed

lemma number_width_bound: "0 \<le> n \<Longrightarrow> n < 10 ^ Suc k \<Longrightarrow> number_width n \<le> 22 * int (Suc k)"
  using show_int_length [of n k] by (simp add: number_width_def CHAR_SPACING_def)

lemma number_width_nonneg [simp]: "0 \<le> number_width n"
  by (simp add: number_width_def CHAR_SPACING_def)

lemma live_score_range:
  "0 \<le> bullets_fired c \<Longrightarrow> 0 \<le> game_time_seconds c \<Longrightarrow> 0 \<le> live_score c \<and> live_score c \<le> 10000"
  by (simp add: live_score_def Let_def)

definition hud_region :: "int \<Rightarrow> int \<Rightarrow> bool" where
  "hud_region p q \<longleftrightarrow> 20 \<le> q \<and> q < 55 \<and>
     (20 \<le> p \<and> p < 262 \<or> 466 \<le> p \<and> p < 686 \<or> 890 \<le> p \<and> p < 1132)"


subsection \<open>Properties\<close>

text \<open>C26. A text whose box lies on the screen is drawn without touching a pixel outside the box, 22
  columns per character and 35 rows, and without any store outside the back buffer; the same holds
  for a number with its label.\<close>

theorem text_stays_in_its_box:
  assumes "glyphs_load K" and "wf_gfx g"
    and "on_screen g x y (calculate_text_width s + number_width n) 35"
  shows "changed_within (box x y (calculate_text_width s) 35) g (draw_text K s x y g) \<and>
         changed_within (box x y (calculate_text_width s + number_width n) 35) g
           (draw_label_and_number K s n x y g)"
proof -
  have "on_screen g x y (calculate_text_width s) 35"
    using assms(3) number_width_nonneg [of n] unfolding on_screen_def by linarith
  then show ?thesis using draw_text_changes draw_label_changes assms by blast
qed

text \<open>A kernel that loads every sprite, and its screen.\<close>

definition blank_kernel :: "port_log kernel" where
  "blank_kernel = log_kernel (\<lambda>p l. 0) mode_14c blank_load"

definition screen_14c :: gfx_st where
  "screen_14c = \<lparr>mode_info = mode_14c, vram_size = 3981312, video_mem = replicate 3981312 0,
     back_buf = Some (replicate 3981312 0), gfx_fault = False\<rparr>"

lemma screen_14c_wf: "wf_gfx screen_14c" "xres screen_14c = 1152" "yres screen_14c = 864"
  by (simp_all add: wf_gfx_def screen_14c_def mode_14c_def bytes_per_pixel_def)

lemma blank_kernel_load: "xpm_load blank_kernel = blank_load"
  by (simp add: blank_kernel_def log_kernel_def)

lemma text_stays_in_its_box_witness:
  "changed_within (box 20 20 132 35) screen_14c (draw_text blank_kernel ''SCORE '' 20 20 screen_14c)"
proof -
  have "number_width 7 \<le> 22" using number_width_bound [of 7 0] by simp
  then have on: "on_screen screen_14c 20 20 (calculate_text_width ''SCORE '' + number_width 7) 35"
    using screen_14c_wf(2,3)
    by (simp add: on_screen_def calculate_text_width_def CHAR_SPACING_def)
  from text_stays_in_its_box [OF blank_glyphs_load [OF blank_kernel_load] screen_14c_wf(1) on]
  show ?thesis by (simp add: calculate_text_width_def CHAR_SPACING_def)
qed

text \<open>On a screen of 1152 columns the three counters of the running game are drawn in three disjoint
  boxes of the rows 20 to 54, and the rest of the frame is not touched, for every game of less than
  100000 seconds and shots.\<close>

theorem live_score_line:
  assumes "glyphs_load K" and "wf_gfx g" and "xres g = 1152" and "55 \<le> yres g"
    and "0 \<le> bullets_fired c" "bullets_fired c < 100000"
    and "0 \<le> game_time_seconds c" "game_time_seconds c < 100000"
  shows "changed_within hud_region g (draw_live_score K c g)"
proof -
  define B where "B = number_width (bullets_fired c)"
  define T where "T = number_width (game_time_seconds c)"
  define L where "L = number_width (live_score c)"
  have w: "0 \<le> B" "B \<le> 110" "0 \<le> T" "T \<le> 110" "0 \<le> L" "L \<le> 110"
    using number_width_bound [of "bullets_fired c" 4] number_width_bound [of "game_time_seconds c" 4]
      number_width_bound [of "live_score c" 4] live_score_range [OF assms(5,7)] assms(5-8)
    by (simp_all add: B_def T_def L_def)
  define tx where "tx = 576 - (110 + T) div 2"
  define sx where "sx = 1152 - (132 + B) - 20"
  let ?g1 = "draw_label_and_number K ''SCORE '' (live_score c) 20 20 g"
  let ?g2 = "draw_label_and_number K ''TIME '' (game_time_seconds c) tx 20 ?g1"
  let ?g3 = "draw_label_and_number K ''SHOTS '' (bullets_fired c) sx 20 ?g2"
  have tw: "calculate_text_width ''SCORE '' = 132" "calculate_text_width ''TIME '' = 110"
    "calculate_text_width ''SHOTS '' = 132" by (simp_all add: calculate_text_width_def CHAR_SPACING_def)
  have tb: "466 \<le> tx" "tx + (110 + T) \<le> 686" using w unfolding tx_def by presburger+
  have "on_screen g 20 20 (132 + L) 35" using assms(3,4) w unfolding on_screen_def by linarith
  then have 1: "changed_within (box 20 20 (132 + L) 35) g ?g1"
    using draw_label_changes [OF assms(1,2), of 20 20 "''SCORE ''" "live_score c", unfolded tw]
    by (simp add: L_def)
  note g1 = changed_within_screen [OF 1]
  have on2: "on_screen ?g1 tx 20 (110 + T) 35" "on_screen ?g1 sx 20 (132 + B) 35"
    using g1 assms(3,4) w tb unfolding on_screen_def sx_def by linarith+
  have 2: "changed_within (box tx 20 (110 + T) 35) ?g1 ?g2"
    using draw_label_changes [OF assms(1), of ?g1 tx 20 "''TIME ''" "game_time_seconds c", unfolded tw]
      g1 on2(1) by (simp add: T_def)
  note g2 = changed_within_screen [OF 2]
  have 3: "changed_within (box sx 20 (132 + B) 35) ?g2 ?g3"
    using draw_label_changes [OF assms(1), of ?g2 sx 20 "''SHOTS ''" "bullets_fired c", unfolded tw]
      g2 on2(2) changed_within_on_screen [OF 2] by (simp add: B_def)
  have "changed_within hud_region g ?g2"
    using tb w by (intro changed_within_trans [OF 1 2]) (auto simp: box_def hud_region_def)
  then have "changed_within hud_region g ?g3"
    by (rule changed_within_trans [OF _ 3]) (use w in \<open>auto simp: box_def hud_region_def sx_def\<close>)
  moreover have "draw_live_score K c g = ?g3"
    using w assms(3) g1 by (simp add: draw_live_score_def Let_def draw_label_centered_eq tw tx_def sx_def B_def T_def
        number_width_def)
  ultimately show ?thesis by simp
qed

lemma live_score_line_witness:
  "changed_within hud_region screen_14c (draw_live_score blank_kernel zero_score screen_14c)"
  by (rule live_score_line [OF blank_glyphs_load [OF blank_kernel_load] screen_14c_wf(1,2)])
    (simp_all add: screen_14c_wf zero_score_def)

text \<open>C27. The rank column of the scoreboard shows no digit: \<open>draw_letter\<close> draws letters only, so the
  ranks \<open>1ST\<close>, \<open>2ND\<close>, \<open>3RD\<close>, \<open>4TH\<close>, ... appear as \<open>ST\<close>, \<open>ND\<close>, \<open>RD\<close>, \<open>TH\<close> behind a gap, and the fourth and
  all later rows look the same.\<close>

theorem ranks_have_no_digits:
  "draw_text K (rank_str i) x y g =
     (if i = 0 then draw_text K '' ST'' x y g else if i = 1 then draw_text K '' ND'' x y g
      else if i = 2 then draw_text K '' RD'' x y g
      else draw_text K ''TH'' (x + number_width (int i + 1)) y g)"
proof -
  have digit: "draw_letter K c x y g = g" "c \<noteq> space" if "is_digit c" for c x y g
    using that by (auto simp: draw_letter_def is_digit_def space_def)
  have digits: "draw_text K (ds @ s) x y g = draw_text K s (x + 22 * int (length ds)) y g"
    if "\<forall>c \<in> set ds. is_digit c" for ds s x
    using that by (induction ds arbitrary: x) (simp_all add: digit CHAR_SPACING_def algebra_simps)
  have one: "draw_text K (c # s) x y g = draw_text K (space # s) x y g" if "is_digit c" for c s
    using that by (simp add: digit)
  have "\<forall>c \<in> set (show_int (int i + 1)). is_digit c"
    using show_nat_chars(1) by (auto simp: show_int_def)
  from digits [OF this, of "''TH''"] show ?thesis
    using one [of "CHR ''1''" "''ST''"] one [of "CHR ''2''" "''ND''"] one [of "CHR ''3''" "''RD''"]
    by (simp add: rank_str_def number_width_def CHAR_SPACING_def is_digit_def space_def mult.commute)
qed

end
