(* ===== verification/Ship.thy ===== *)
theory Ship
  imports Keyboard Enemies Text_Display
begin

text \<open>
  \<open>game/ship/ship.c\<close>: the player's ship, the shots of both sides and the shields.

  Both kinds of shots live in arrays of ten slots, where a new shot takes the first inactive slot and
  every frame moves the active ones; the locale \<open>pool\<close> states this contract once and is interpreted
  for both. The lemmas show that the ship stays on the screen for every sequence of keys, when
  exactly a shot is fired and that it is counted, and that no shot lives for ever.
\<close>

subsection \<open>State\<close>

definition MAX_BULLETS :: nat where "MAX_BULLETS = 10"
definition MAX_ENEMY_BULLETS :: nat where "MAX_ENEMY_BULLETS = 10"
definition BULLET_WIDTH :: int where "BULLET_WIDTH = 8"
definition BULLET_HEIGHT :: int where "BULLET_HEIGHT = 30"
definition ENEMY_BULLET_WIDTH :: int where "ENEMY_BULLET_WIDTH = 5"
definition ENEMY_BULLET_HEIGHT :: int where "ENEMY_BULLET_HEIGHT = 17"
definition NUM_SHIELDS :: nat where "NUM_SHIELDS = 4"
definition SHIELD_WIDTH :: int where "SHIELD_WIDTH = 47"
definition SHIELD_HEIGHT :: int where "SHIELD_HEIGHT = 34"
definition ship_width :: int where "ship_width = 50"
definition ship_height :: int where "ship_height = 50"

lemmas ship_consts = MAX_BULLETS_def MAX_ENEMY_BULLETS_def BULLET_WIDTH_def BULLET_HEIGHT_def
  ENEMY_BULLET_WIDTH_def ENEMY_BULLET_HEIGHT_def NUM_SHIELDS_def SHIELD_WIDTH_def
  SHIELD_HEIGHT_def ship_width_def ship_height_def

record Bullet =
  b_x :: int
  b_y :: int
  b_active :: bool

record EnemyBullet =
  eb_x :: int
  eb_y :: int
  eb_active :: bool

datatype ShieldState = SHIELD_FULL | SHIELD_BROKEN | SHIELD_NONE

record Shield =
  sh_x :: int
  sh_y :: int
  sh_state :: ShieldState

record ship_st =
  ship_x :: u16
  fire_delay_counter :: int
  bullets :: "Bullet list"
  enemy_bullets :: "EnemyBullet list"
  shields :: "Shield list"

definition ship_init_st :: ship_st where
  "ship_init_st =
     \<lparr>ship_x = 350, fire_delay_counter = 150,
      bullets = replicate MAX_BULLETS \<lparr>b_x = 0, b_y = 0, b_active = False\<rparr>,
      enemy_bullets = replicate MAX_ENEMY_BULLETS \<lparr>eb_x = 0, eb_y = 0, eb_active = False\<rparr>,
      shields = replicate NUM_SHIELDS \<lparr>sh_x = 0, sh_y = 0, sh_state = SHIELD_FULL\<rparr>\<rparr>"


subsection \<open>Operations\<close>

definition draw_ship :: "'h kernel \<Rightarrow> u16 \<Rightarrow> gfx_st \<Rightarrow> int \<times> gfx_st" where
  "draw_ship K x g =
     (case print_xpm K ship_xpm x 700 g of (r, g') \<Rightarrow> (if r \<noteq> 0 then 1 else 0, g'))"

definition init_bullets :: "ship_st \<Rightarrow> ship_st" where
  "init_bullets s = s\<lparr>bullets := map (\<lambda>b. b\<lparr>b_active := False\<rparr>) (bullets s)\<rparr>"

definition init_enemy_bullets :: "ship_st \<Rightarrow> ship_st" where
  "init_enemy_bullets s =
     s\<lparr>enemy_bullets := map (\<lambda>b. b\<lparr>eb_active := False\<rparr>) (enemy_bullets s)\<rparr>"

definition init_shields :: "vbe_mode_info \<Rightarrow> ship_st \<Rightarrow> ship_st" where
  "init_shields m s =
     (let spacing = 200;
          start_x = c_div (uint (XResolution m)
                      - (int NUM_SHIELDS * SHIELD_WIDTH + (int NUM_SHIELDS - 1) * spacing)) 2;
          shield_y = uint (YResolution m) - 250
      in s\<lparr>shields := map (\<lambda>i. \<lparr>sh_x = start_x + int i * (SHIELD_WIDTH + spacing),
                               sh_y = shield_y, sh_state = SHIELD_FULL\<rparr>) [0..<NUM_SHIELDS]\<rparr>)"

text \<open>The loop that puts a new shot into the first inactive slot.\<close>

definition spawn :: "('b \<Rightarrow> bool) \<Rightarrow> 'b \<Rightarrow> 'b list \<Rightarrow> 'b list option" where
  "spawn active b bs = map_option (\<lambda>i. bs[i := b]) (first_idx (\<lambda>b. \<not> active b) bs)"

definition ship_action ::
  "vbe_mode_info \<Rightarrow> u8 \<Rightarrow> ship_st \<Rightarrow> score_st \<Rightarrow> ship_st \<times> score_st" where
  "ship_action m code s c =
     (if code = KB_A then
        (if uint (ship_x s) > ship_width then (s\<lparr>ship_x := ship_x s - 30\<rparr>, c) else (s, c))
      else if code = KB_D then
        (let s1 = s\<lparr>ship_x := ship_x s + 30\<rparr> in
         if uint (ship_x s1) > uint (XResolution m) - ship_width
         then (s1\<lparr>ship_x := word_of_int (uint (XResolution m) - ship_width)\<rparr>, c)
         else (s1, c))
      else if code = KB_SPACE then
        (if fire_delay_counter s \<ge> 30 then
           (case spawn b_active \<lparr>b_x = uint (ship_x s) + c_div ship_width 2 - 2,
                                 b_y = 700 - BULLET_HEIGHT, b_active = True\<rparr> (bullets s) of
              Some bs \<Rightarrow> (s\<lparr>bullets := bs, fire_delay_counter := 0\<rparr>, score_add_bullet c)
            | None \<Rightarrow> (s\<lparr>fire_delay_counter := 0\<rparr>, c))
         else (s, c))
      else (s, c))"

text \<open>The search for the active alien with the random number.\<close>

fun find_shooter :: "int \<Rightarrow> int \<Rightarrow> Enemy list \<Rightarrow> Enemy option" where
  "find_shooter random_enemy_index active_enemy_count [] = None"
| "find_shooter random_enemy_index active_enemy_count (e # es) =
     (if e_active e then
        if active_enemy_count = random_enemy_index then Some e
        else find_shooter random_enemy_index (active_enemy_count + 1) es
      else find_shooter random_enemy_index active_enemy_count es)"

definition fire_enemy_bullet ::
  "'h kernel \<Rightarrow> Enemy list \<Rightarrow> ship_st \<Rightarrow> 'h \<Rightarrow> ship_st \<times> 'h" where
  "fire_enemy_bullet K es s h =
     (let active_enemies = int (count_active_enemies es) in
      if active_enemies = 0 then (s, h)
      else case lcf_rand K h of (r, h') \<Rightarrow>
        (case find_shooter (c_mod r active_enemies) 0 es of
           None \<Rightarrow> (s, h')
         | Some e \<Rightarrow>
             (case spawn eb_active \<lparr>eb_x = e_x e + c_div ENEMY_WIDTH 2, eb_y = e_y e + ENEMY_HEIGHT,
                                    eb_active = True\<rparr> (enemy_bullets s) of
                None \<Rightarrow> (s, h')
              | Some bs \<Rightarrow> (s\<lparr>enemy_bullets := bs\<rparr>, h'))))"

definition draw_shield :: "'h kernel \<Rightarrow> Shield \<Rightarrow> gfx_st \<Rightarrow> gfx_st" where
  "draw_shield K sh g =
     (case sh_state sh of
        SHIELD_FULL \<Rightarrow> snd (print_xpm K shield_xpm (word_of_int (sh_x sh)) (word_of_int (sh_y sh)) g)
      | SHIELD_BROKEN \<Rightarrow>
          snd (print_xpm K break_shield_xpm (word_of_int (sh_x sh)) (word_of_int (sh_y sh)) g)
      | SHIELD_NONE \<Rightarrow> g)"

definition draw_shields :: "'h kernel \<Rightarrow> Shield list \<Rightarrow> gfx_st \<Rightarrow> gfx_st" where
  "draw_shields K = fold (draw_shield K)"

definition draw_bullet :: "'h kernel \<Rightarrow> Bullet \<Rightarrow> gfx_st \<Rightarrow> int \<times> gfx_st" where
  "draw_bullet K b g =
     (if \<not> b_active b then (0, g)
      else case print_xpm K bullet_xpm (word_of_int (b_x b)) (word_of_int (b_y b)) g of
        (r, g') \<Rightarrow> (if r \<noteq> 0 then 1 else 0, g'))"

definition draw_enemy_bullets :: "'h kernel \<Rightarrow> EnemyBullet list \<Rightarrow> gfx_st \<Rightarrow> gfx_st" where
  "draw_enemy_bullets K =
     fold (\<lambda>b g. if eb_active b
                 then snd (print_xpm K enemy_bullet_xpm (word_of_int (eb_x b)) (word_of_int (eb_y b)) g)
                 else g)"

definition draw_all_bullets :: "'h kernel \<Rightarrow> Bullet list \<Rightarrow> gfx_st \<Rightarrow> int \<times> gfx_st" where
  "draw_all_bullets K =
     for_fail (\<lambda>b g. if b_active b then draw_bullet K b g else (0, g))"

definition move_bullet :: "Bullet \<Rightarrow> Bullet" where
  "move_bullet b =
     (if b_active b then
        let b1 = b\<lparr>b_y := b_y b - 20\<rparr> in if b_y b1 < 0 then b1\<lparr>b_active := False\<rparr> else b1
      else b)"

definition update_bullets :: "ship_st \<Rightarrow> ship_st" where
  "update_bullets s = s\<lparr>bullets := map move_bullet (bullets s)\<rparr>"

definition move_enemy_bullet :: "vbe_mode_info \<Rightarrow> EnemyBullet \<Rightarrow> EnemyBullet" where
  "move_enemy_bullet m b =
     (if eb_active b then
        let b1 = b\<lparr>eb_y := eb_y b + 20\<rparr>
        in if eb_y b1 > uint (YResolution m) then b1\<lparr>eb_active := False\<rparr> else b1
      else b)"

definition update_enemy_bullets :: "vbe_mode_info \<Rightarrow> ship_st \<Rightarrow> ship_st" where
  "update_enemy_bullets m s = s\<lparr>enemy_bullets := map (move_enemy_bullet m) (enemy_bullets s)\<rparr>"


subsection \<open>Pools of shots\<close>

text \<open>
  What a kind of shot promises: an inactive shot does not move, and an active one that is alive
  (\<open>live\<close>, a range of positions) stays so until it is switched off, which happens when its time is up
  at the latest.
\<close>

locale pool =
  fixes active :: "'b \<Rightarrow> bool"
    and move :: "'b \<Rightarrow> 'b"
    and live :: "'b \<Rightarrow> bool"
    and ttl :: "'b \<Rightarrow> nat"
  assumes move_dead: "\<not> active b \<Longrightarrow> move b = b"
    and move_live: "active b \<Longrightarrow> live b \<Longrightarrow> active (move b) \<Longrightarrow> live (move b) \<and> ttl (move b) < ttl b"
begin

definition good :: "'b list \<Rightarrow> bool" where
  "good bs \<longleftrightarrow> list_all (\<lambda>b. active b \<longrightarrow> live b) bs"

definition shots :: "'b list \<Rightarrow> nat" where
  "shots bs = length (filter active bs)"

lemma active_move: "active (move b) \<Longrightarrow> active b"
  using move_dead by metis

lemma good_move: "good bs \<Longrightarrow> good (map move bs)"
  using active_move move_live by (auto simp: good_def list_all_iff)

lemma shots_move: "shots (map move bs) \<le> shots bs"
  using active_move by (induction bs) (auto simp: shots_def)

lemma spawn_None: "spawn active b bs = None \<longleftrightarrow> shots bs = length bs"
proof -
  have "spawn active b bs = None \<longleftrightarrow> (\<forall>x \<in> set bs. active x)" by (simp add: spawn_def)
  also have "\<dots> \<longleftrightarrow> filter active bs = bs" by (simp add: filter_id_conv)
  also have "\<dots> \<longleftrightarrow> shots bs = length bs"
    unfolding shots_def by (metis filter_True length_filter_less less_irrefl)
  finally show ?thesis .
qed

lemma spawn_Some:
  assumes "spawn active b bs = Some bs'" and "active b"
  shows "shots bs' = Suc (shots bs)" and "length bs' = length bs" and "b \<in> set bs'"
    and "good bs \<Longrightarrow> live b \<Longrightarrow> good bs'"
    and "\<And>c. c \<in> set bs \<Longrightarrow> active c \<Longrightarrow> c \<in> set bs'"
proof -
  obtain i where i: "first_idx (\<lambda>b. \<not> active b) bs = Some i" and bs': "bs' = bs[i := b]"
    using assms(1) by (auto simp: spawn_def)
  note * = first_idx_SomeD [OF i]
  show "shots bs' = Suc (shots bs)" "length bs' = length bs" "b \<in> set bs'"
    using * assms(2) by (simp_all add: bs' shots_def length_filter_update set_update_memI)
  show "good bs \<Longrightarrow> live b \<Longrightarrow> good bs'" by (simp add: bs' good_def list_all_updateI)
  show "c \<in> set bs'" if "c \<in> set bs" "active c" for c
  proof -
    obtain j where "j < length bs" "bs ! j = c" using \<open>c \<in> set bs\<close> by (auto simp: in_set_conv_nth)
    moreover from this * that(2) have "j \<noteq> i" by auto
    ultimately have "bs' ! j = c" "j < length bs'" by (simp_all add: bs')
    then show ?thesis by (metis nth_mem)
  qed
qed

lemma ttl_iterate:
  "good bs \<Longrightarrow> list_all (\<lambda>b. active b \<longrightarrow> ttl b < k + n) bs \<Longrightarrow>
     good ((map move ^^ n) bs) \<and> list_all (\<lambda>b. active b \<longrightarrow> ttl b < k) ((map move ^^ n) bs)"
proof (induction n arbitrary: k)
  case (Suc n)
  let ?bs = "(map move ^^ n) bs"
  have *: "good ?bs" "list_all (\<lambda>b. active b \<longrightarrow> ttl b < Suc k) ?bs"
    using Suc.IH [of "Suc k"] Suc.prems by simp_all
  have "ttl (move b) < k" if "b \<in> set ?bs" "active (move b)" for b
  proof -
    have "active b" using active_move that(2) .
    with * that move_live [of b] show ?thesis by (fastforce simp: good_def list_all_iff)
  qed
  with good_move [OF *(1)] show ?case by (simp add: list_all_iff)
qed simp

text \<open>Every shot is gone after as many frames as its time to live.\<close>

lemma all_gone:
  assumes "good bs" and "\<And>b. active b \<Longrightarrow> live b \<Longrightarrow> ttl b < n"
  shows "shots ((map move ^^ n) bs) = 0"
proof -
  have "list_all (\<lambda>b. active b \<longrightarrow> ttl b < 0 + n) bs"
    using assms by (auto simp: good_def list_all_iff)
  from ttl_iterate [OF assms(1) this] show ?thesis by (simp add: shots_def list_all_iff)
qed

end

definition bullet_live :: "vbe_mode_info \<Rightarrow> Bullet \<Rightarrow> bool" where
  "bullet_live m b \<longleftrightarrow> 0 \<le> b_y b \<and> b_y b \<le> 670 \<and> 0 \<le> b_x b \<and> b_x b + 8 \<le> uint (XResolution m)"

definition enemy_bullet_live :: "EnemyBullet \<Rightarrow> bool" where
  "enemy_bullet_live b \<longleftrightarrow> 0 \<le> eb_y b"

interpretation own: pool b_active move_bullet "bullet_live m" "\<lambda>b. nat (b_y b) div 20" for m
proof
  fix b
  show "\<not> b_active b \<Longrightarrow> move_bullet b = b" by (simp add: move_bullet_def)
  assume *: "b_active b" "bullet_live m b" "b_active (move_bullet b)"
  then have "20 \<le> b_y b" "b_y (move_bullet b) = b_y b - 20" "b_x (move_bullet b) = b_x b"
    by (auto simp: move_bullet_def Let_def split: if_splits)
  moreover from this have "nat (b_y b) = nat (b_y b - 20) + 20" by simp
  ultimately show "bullet_live m (move_bullet b) \<and> nat (b_y (move_bullet b)) div 20 < nat (b_y b) div 20"
    using * by (simp add: bullet_live_def)
qed

interpretation foe: pool eb_active "move_enemy_bullet m" enemy_bullet_live
    "\<lambda>b. nat (uint (YResolution m) - eb_y b) div 20" for m
proof
  fix b
  let ?h = "uint (YResolution m)"
  show "\<not> eb_active b \<Longrightarrow> move_enemy_bullet m b = b" by (simp add: move_enemy_bullet_def)
  assume *: "eb_active b" "enemy_bullet_live b" "eb_active (move_enemy_bullet m b)"
  then have y: "eb_y b + 20 \<le> ?h" "eb_y (move_enemy_bullet m b) = eb_y b + 20"
    by (auto simp: move_enemy_bullet_def Let_def split: if_splits)
  then have "nat (?h - eb_y b) = nat (?h - (eb_y b + 20)) + 20" by simp
  with y * show "enemy_bullet_live (move_enemy_bullet m b) \<and>
      nat (?h - eb_y (move_enemy_bullet m b)) div 20 < nat (?h - eb_y b) div 20"
    by (simp add: enemy_bullet_live_def)
qed


subsection \<open>Well-formed states\<close>

definition wf_ship :: "vbe_mode_info \<Rightarrow> ship_st \<Rightarrow> bool" where
  "wf_ship m s \<longleftrightarrow>
     21 \<le> uint (ship_x s) \<and> uint (ship_x s) \<le> uint (XResolution m) - 50 \<and>
     length (bullets s) = 10 \<and> list_all (\<lambda>b. b_active b \<longrightarrow> bullet_live m b) (bullets s) \<and>
     length (enemy_bullets s) = 10 \<and>
     list_all (\<lambda>b. eb_active b \<longrightarrow> enemy_bullet_live b) (enemy_bullets s) \<and>
     length (shields s) = 4"

lemma ship_init_st_wf: "400 \<le> uint (XResolution m) \<Longrightarrow> wf_ship m ship_init_st"
  by (simp add: wf_ship_def ship_init_st_def ship_consts list_all_iff)

lemma ship_wf_keeps [keeps]:
  assumes "wf_ship m s"
  shows "wf_ship m (init_bullets s)" and "wf_ship m (init_enemy_bullets s)"
    and "wf_ship m (init_shields m s)" and "wf_ship m (update_bullets s)"
    and "wf_ship m (update_enemy_bullets m s)"
  using assms own.good_move [where bs = "bullets s" and m = m]
    foe.good_move [where bs = "enemy_bullets s" and m = m]
  by (simp_all add: wf_ship_def init_bullets_def init_enemy_bullets_def init_shields_def
      update_bullets_def update_enemy_bullets_def list_all_iff own.good_def foe.good_def
      NUM_SHIELDS_def Let_def)

lemma uint16_shift:
  fixes x :: u16
  shows "30 \<le> uint x \<Longrightarrow> uint (x - 30) = uint x - 30"
    and "uint x + 30 < 65536 \<Longrightarrow> uint (x + 30) = uint x + 30"
  using uint_sub_lem [of "30 :: u16" x] uint_add_lem [of x "30 :: u16"] by simp_all

lemma uint_word_of_int16: "0 \<le> n \<Longrightarrow> n < 65536 \<Longrightarrow> uint (word_of_int n :: u16) = n"
  by (simp add: uint_word_of_int_eq take_bit_int_eq_self)

text \<open>The shot of the ship, and the four effects a key can have.\<close>

definition own_shot :: "ship_st \<Rightarrow> Bullet" where
  "own_shot s = \<lparr>b_x = uint (ship_x s) + 23, b_y = 670, b_active = True\<rparr>"

lemma ship_action_cases:
  obtains (left) "code = KB_A" "uint (ship_x s) > 50"
      "ship_action m code s c = (s\<lparr>ship_x := ship_x s - 30\<rparr>, c)"
  | (right) x' where "code = KB_D" "ship_action m code s c = (s\<lparr>ship_x := x'\<rparr>, c)"
      "x' = (if uint (ship_x s + 30) > uint (XResolution m) - 50
             then word_of_int (uint (XResolution m) - 50) else ship_x s + 30)"
  | (shot) bs where "code = KB_SPACE" "fire_delay_counter s \<ge> 30"
      "spawn b_active (own_shot s) (bullets s) = Some bs"
      "ship_action m code s c = (s\<lparr>bullets := bs, fire_delay_counter := 0\<rparr>, score_add_bullet c)"
  | (full) "code = KB_SPACE" "fire_delay_counter s \<ge> 30"
      "spawn b_active (own_shot s) (bullets s) = None"
      "ship_action m code s c = (s\<lparr>fire_delay_counter := 0\<rparr>, c)"
  | (none) "ship_action m code s c = (s, c)" "code = KB_SPACE \<Longrightarrow> fire_delay_counter s < 30"
proof -
  have ne: "KB_A \<noteq> KB_D" "KB_A \<noteq> KB_SPACE" "KB_D \<noteq> KB_SPACE" by (simp_all add: key_codes)
  have shot_eq: "own_shot s = \<lparr>b_x = uint (ship_x s) + c_div ship_width 2 - 2,
      b_y = 700 - BULLET_HEIGHT, b_active = True\<rparr>" by (simp add: own_shot_def ship_consts)
  consider "code = KB_A" | "code = KB_D" | "code = KB_SPACE"
    | "code \<noteq> KB_A" "code \<noteq> KB_D" "code \<noteq> KB_SPACE" by blast
  then show ?thesis
  proof cases
    case 1
    then show ?thesis using left none ne by (cases "uint (ship_x s) > 50")
      (simp_all add: ship_action_def ship_width_def)
  next
    case 2
    then show ?thesis using right ne
      by (cases "uint (ship_x s + 30) > uint (XResolution m) - 50")
        (simp_all add: ship_action_def ship_width_def Let_def)
  next
    case 3
    then show ?thesis using shot full none ne
      by (cases "fire_delay_counter s \<ge> 30"; cases "spawn b_active (own_shot s) (bullets s)")
        (simp_all add: ship_action_def shot_eq)
  next
    case 4
    then show ?thesis using none by (simp add: ship_action_def)
  qed
qed

lemma ship_action_wf [keeps]:
  assumes "wf_ship m s" and "400 \<le> uint (XResolution m)"
  shows "wf_ship m (fst (ship_action m code s c))"
proof (cases rule: ship_action_cases [of code s m c])
  case left
  with assms show ?thesis using uint16_shift(1) [of "ship_x s"] by (simp add: wf_ship_def)
next
  case (right x')
  have lim: "uint (XResolution m) < 65536" using unsigned_less [of "XResolution m", where ?'a = int] by simp
  have "uint (ship_x s) + 30 < 65536" using assms(1) lim by (simp add: wf_ship_def)
  then have "21 \<le> uint x' \<and> uint x' \<le> uint (XResolution m) - 50"
    using right(3) assms uint16_shift(2) [of "ship_x s"] lim uint_word_of_int16 [of "uint (XResolution m) - 50"]
    by (auto simp: wf_ship_def)
  with right(2) assms show ?thesis by (simp add: wf_ship_def)
next
  case (shot bs)
  have "bullet_live m (own_shot s)" using assms(1) by (simp add: wf_ship_def bullet_live_def own_shot_def)
  moreover have "b_active (own_shot s)" by (simp add: own_shot_def)
  moreover have "own.good m (bullets s)" using assms(1) by (simp add: wf_ship_def own.good_def)
  ultimately have "own.good m bs" "length bs = length (bullets s)"
    using own.spawn_Some(4) [OF shot(3)] own.spawn_Some(2) [OF shot(3)] by auto
  with shot(4) assms(1) show ?thesis by (simp add: wf_ship_def own.good_def)
qed (use assms in \<open>simp_all add: wf_ship_def\<close>)


text \<open>The alien that shoots is the one with the random number among the living.\<close>

lemma find_shooter_nth:
  "i \<le> r \<Longrightarrow> find_shooter r i es =
     (if nat (r - i) < count_active_enemies es then Some (filter e_active es ! nat (r - i)) else None)"
proof (induction es arbitrary: i)
  case (Cons e es)
  show ?case
  proof (cases "e_active e \<and> i \<noteq> r")
    case True
    with Cons.prems have "nat (r - i) = Suc (nat (r - (i + 1)))" by arith
    with True Cons show ?thesis by (simp add: count_active_enemies_def)
  next
    case False
    with Cons show ?thesis by (auto simp: count_active_enemies_def)
  qed
qed (simp add: count_active_enemies_def)

lemma fire_enemy_bullet_eq:
  assumes "0 < count_active_enemies es" and "lcf_rand K h = (r, h')" and "0 \<le> r"
  shows "fire_enemy_bullet K es s h =
    (let e = filter e_active es ! (nat r mod count_active_enemies es);
         shot = \<lparr>eb_x = e_x e + 20, eb_y = e_y e + 40, eb_active = True\<rparr>
     in case spawn eb_active shot (enemy_bullets s) of
          None \<Rightarrow> (s, h') | Some bs \<Rightarrow> (s\<lparr>enemy_bullets := bs\<rparr>, h'))"
proof -
  let ?n = "count_active_enemies es"
  have idx: "c_mod r (int ?n) = r mod int ?n" using assms(1,3) by simp
  have "nat (r mod int ?n) = nat r mod ?n" using assms(3) by (simp add: nat_mod_distrib)
  then have "find_shooter (r mod int ?n) 0 es = Some (filter e_active es ! (nat r mod ?n))"
    using assms(1) find_shooter_nth [of 0 "r mod int ?n" es] by simp
  then show ?thesis
    using assms(1,2) idx
    by (simp add: fire_enemy_bullet_def enemy_consts Let_def case_prod_beta split: option.split)
qed

lemma find_shooter_member: "find_shooter r i es = Some e \<Longrightarrow> e \<in> set es \<and> e_active e"
  by (induction r i es rule: find_shooter.induct) (auto split: if_splits)

lemma fire_enemy_bullet_wf [keeps]:
  assumes "wf_ship m s" and "\<forall>e \<in> set es. e_active e \<longrightarrow> 0 \<le> e_y e"
  shows "wf_ship m (fst (fire_enemy_bullet K es s h))"
proof -
  have "wf_ship m (s\<lparr>enemy_bullets := bs\<rparr>)"
    if e: "find_shooter q 0 es = Some e"
      and sp: "spawn eb_active \<lparr>eb_x = xx, eb_y = e_y e + 40, eb_active = True\<rparr> (enemy_bullets s) = Some bs"
    for q e xx bs
  proof -
    have "0 \<le> e_y e" using find_shooter_member [OF e] assms(2) by blast
    then have "foe.good bs" "length bs = length (enemy_bullets s)"
      using foe.spawn_Some(2,4) [OF sp] assms(1) by (auto simp: wf_ship_def foe.good_def enemy_bullet_live_def)
    with assms(1) show ?thesis by (simp add: wf_ship_def foe.good_def)
  qed
  then show ?thesis
    using assms(1)
    by (auto simp: fire_enemy_bullet_def Let_def enemy_consts split: option.split prod.split)
qed


subsection \<open>Drawing\<close>

definition game_sprites :: "string list list" where
  "game_sprites = [Alien1_xpm, Alien2_xpm, Alien3_xpm, ship_xpm, bullet_xpm, enemy_bullet_xpm,
     shield_xpm, break_shield_xpm]"

definition game_sprites_load :: "'h kernel \<Rightarrow> bool" where
  "game_sprites_load K \<longleftrightarrow> list_all (loads K) game_sprites"

lemma game_sprite_sizes:
  "xpm_size Alien1_xpm = (45, 34)" "xpm_size Alien2_xpm = (45, 34)" "xpm_size Alien3_xpm = (51, 34)"
  "xpm_size ship_xpm = (50, 50)" "xpm_size bullet_xpm = (8, 30)" "xpm_size enemy_bullet_xpm = (5, 17)"
  "xpm_size shield_xpm = (47, 34)" "xpm_size break_shield_xpm = (47, 34)"
  by (rule xpm_sizeI, rule Alien1_xpm_def Alien2_xpm_def Alien3_xpm_def ship_xpm_def bullet_xpm_def
      enemy_bullet_xpm_def shield_xpm_def break_shield_xpm_def, simp add: header_eval)+

lemma blank_game_sprites_load: "xpm_load K = blank_load \<Longrightarrow> game_sprites_load K"
  unfolding game_sprites_load_def game_sprites_def list_all_iff
  by (auto intro!: blank_load_loads simp: game_sprite_sizes)

lemma game_sprites_loadD: "game_sprites_load K \<Longrightarrow> xpm \<in> set game_sprites \<Longrightarrow> loads K xpm"
  by (simp add: game_sprites_load_def list_all_iff)

lemma draw_ship_ok:
  assumes "game_sprites_load K" and "wf_gfx g"
    and "uint (ship_x s) \<le> uint (XResolution (mode_info g)) - 50"
    and "750 \<le> uint (YResolution (mode_info g))"
  shows "fst (draw_ship K (ship_x s) g) = 0" and "safe_step g (snd (draw_ship K (ship_x s) g))"
proof -
  have l: "loads K ship_xpm" using assms(1) by (rule game_sprites_loadD) (simp add: game_sprites_def)
  have lim: "uint (ship_x s) < 2 ^ 16" using unsigned_less [of "ship_x s", where ?'a = int] by simp
  have on: "on_screen g (uint (ship_x s)) 700 50 50" using assms(3,4) by (simp add: on_screen_def)
  note * = glyph_changes [OF l game_sprite_sizes(4) _ _ assms(2) on lim]
  then show "fst (draw_ship K (ship_x s) g) = 0" "safe_step g (snd (draw_ship K (ship_x s) g))"
    by (simp_all add: draw_ship_def changed_within_def case_prod_beta)
qed

lemma draw_bullet_ok:
  assumes "game_sprites_load K" and "wf_gfx g" and "b_active b \<longrightarrow> bullet_live (mode_info g) b"
    and "750 \<le> uint (YResolution (mode_info g))"
  shows "fst (draw_bullet K b g) = 0" and "safe_step g (snd (draw_bullet K b g))"
proof -
  have "fst (draw_bullet K b g) = 0 \<and> safe_step g (snd (draw_bullet K b g))"
  proof (cases "b_active b")
    case False
    then show ?thesis using assms(2) by (simp add: draw_bullet_def safe_step_refl)
  next
    case True
    have l: "loads K bullet_xpm" using assms(1) by (rule game_sprites_loadD) (simp add: game_sprites_def)
    have live: "bullet_live (mode_info g) b" using True assms(3) by simp
    then have on: "on_screen g (b_x b) (b_y b) 8 30"
      using assms(4) by (simp add: on_screen_def bullet_live_def)
    have lim: "b_x b < 2 ^ 16" "b_y b < 2 ^ 16"
      using live unsigned_less [of "XResolution (mode_info g)", where ?'a = int]
      by (simp_all add: bullet_live_def)
    from glyph_changes [OF l game_sprite_sizes(5) _ _ assms(2) on lim] True show ?thesis
      by (simp add: draw_bullet_def changed_within_def case_prod_beta)
  qed
  then show "fst (draw_bullet K b g) = 0" "safe_step g (snd (draw_bullet K b g))" by auto
qed

lemma draw_all_bullets_ok:
  assumes "game_sprites_load K" and "wf_gfx g"
    and "list_all (\<lambda>b. b_active b \<longrightarrow> bullet_live (mode_info g) b) bs"
    and "750 \<le> uint (YResolution (mode_info g))"
  shows "fst (draw_all_bullets K bs g) = 0" and "safe_step g (snd (draw_all_bullets K bs g))"
proof -
  have step: "fst (if b_active b then draw_bullet K b h else (0, h)) = 0 \<and>
      safe_step g (snd (if b_active b then draw_bullet K b h else (0, h)))"
    if "b \<in> set bs" "safe_step g h" for b h
  proof -
    have h: "wf_gfx h" "mode_info h = mode_info g"
      using that(2) by (auto simp: safe_step_def dest: same_screen_fields)
    have "b_active b \<longrightarrow> bullet_live (mode_info g) b" using that(1) assms(3) by (simp add: list_all_iff)
    then have "fst (draw_bullet K b h) = 0" "safe_step h (snd (draw_bullet K b h))"
      using draw_bullet_ok [OF assms(1) h(1), unfolded h(2), of b] assms(4) by blast+
    then show ?thesis using that(2) by (auto simp: safe_step_def intro: same_screen_trans)
  qed
  note * = for_fail_ok [of bs "safe_step g", OF step safe_step_refl [OF assms(2)]]
  show "fst (draw_all_bullets K bs g) = 0" "safe_step g (snd (draw_all_bullets K bs g))"
    unfolding draw_all_bullets_def by (rule *(1), assumption+) (rule *(2), assumption+)
qed

lemma shots_and_shields_safe [safe]:
  assumes "game_sprites_load K"
  shows "safe_draw (draw_enemy_bullets K bs)" and "safe_draw (draw_shields K shs)"
proof -
  have l: "loads K enemy_bullet_xpm" "loads K shield_xpm" "loads K break_shield_xpm"
    by (rule game_sprites_loadD [OF assms], simp add: game_sprites_def)+
  show "safe_draw (draw_enemy_bullets K bs)"
    unfolding draw_enemy_bullets_def by (intro safe_fold safe_if safe_id print_xpm_safe_draw l)
  have "safe_draw (draw_shield K sh)" for sh
    using print_xpm_safe_draw [OF l(2)] print_xpm_safe_draw [OF l(3)]
    by (cases "sh_state sh") (simp_all add: draw_shield_def safe_draw_def)
  then show "safe_draw (draw_shields K shs)" unfolding draw_shields_def by (intro safe_fold)
qed


subsection \<open>Properties\<close>

text \<open>C21. Whatever keys are pressed, in any order, the ship stays between column 21 and 50 columns before
  the right border, where it and every shot in flight can be drawn: neither \<open>draw_ship\<close> nor
  \<open>draw_all_bullets\<close> ever reports an error.\<close>

theorem ship_stays_on_screen:
  assumes "wf_ship (mode_info g) s" and "400 \<le> uint (XResolution (mode_info g))"
    and "750 \<le> uint (YResolution (mode_info g))" and "game_sprites_load K" and "wf_gfx g"
    and "s' = fst (fold (\<lambda>code (s, c). ship_action (mode_info g) code s c) codes (s, c))"
  shows "wf_ship (mode_info g) s' \<and> 21 \<le> uint (ship_x s') \<and>
         uint (ship_x s') \<le> uint (XResolution (mode_info g)) - 50 \<and>
         fst (draw_ship K (ship_x s') g) = 0 \<and> fst (draw_all_bullets K (bullets s') g) = 0"
proof -
  let ?m = "mode_info g"
  have "wf_ship ?m (fst (fold (\<lambda>code (s, c). ship_action ?m code s c) codes p))"
    if "wf_ship ?m (fst p)" for p
    using that
  proof (induction codes arbitrary: p)
    case (Cons code codes)
    have "wf_ship ?m (fst (ship_action ?m code (fst p) (snd p)))"
      by (rule ship_action_wf [OF Cons.prems assms(2)])
    then show ?case using Cons.IH by (simp add: case_prod_beta)
  qed simp
  from this [of "(s, c)"] have wf: "wf_ship ?m s'" using assms(1,6) by simp
  then show ?thesis
    using draw_ship_ok(1) [OF assms(4,5), of s'] draw_all_bullets_ok(1) [OF assms(4,5), of "bullets s'"]
      assms(3) by (simp add: wf_ship_def)
qed

lemma ship_stays_on_screen_witness:
  "fst (draw_ship blank_kernel (ship_x (fst (ship_action mode_14c KB_A ship_init_st score_init_st))) screen_14c) = 0"
proof -
  have m: "mode_info screen_14c = mode_14c" by (simp add: screen_14c_def)
  have wf: "wf_ship (mode_info screen_14c) ship_init_st"
    by (rule ship_init_st_wf) (simp add: m mode_14c_def)
  from ship_stays_on_screen [OF wf _ _ blank_game_sprites_load [OF blank_kernel_load] screen_14c_wf(1),
      of "fst (ship_action mode_14c KB_A ship_init_st score_init_st)" "[KB_A]" score_init_st]
  show ?thesis by (simp add: m mode_14c_def)
qed

text \<open>A key press fires a shot exactly if it is the space bar, at least 30 frames have passed and one
  of the ten slots is free. Then there is one more shot, which starts at the bow of the ship, the
  shots in flight stay, and an active game counts it. In every other case neither the shots nor the
  score change.\<close>

theorem shot_fired_and_counted:
  assumes "wf_ship m s" and "ship_action m code s c = (s', c')"
    and "fires = (code = KB_SPACE \<and> 30 \<le> fire_delay_counter s \<and> length (filter b_active (bullets s)) < 10)"
  shows "(fires \<longrightarrow>
            length (filter b_active (bullets s')) = length (filter b_active (bullets s)) + 1 \<and>
            own_shot s \<in> set (bullets s') \<and>
            (\<forall>b \<in> set (bullets s). b_active b \<longrightarrow> b \<in> set (bullets s')) \<and>
            fire_delay_counter s' = 0 \<and>
            bullets_fired (current_score c') =
              bullets_fired (current_score c) + (if game_active c then 1 else 0)) \<and>
         (\<not> fires \<longrightarrow> bullets s' = bullets s \<and> c' = c)"
proof -
  have shots: "own.shots bs = length (filter b_active bs)" for bs by (simp add: own.shots_def)
  have len: "length (bullets s) = 10" using assms(1) by (simp add: wf_ship_def)
  have ne: "KB_A \<noteq> KB_SPACE" "KB_D \<noteq> KB_SPACE" by (simp_all add: key_codes)
  show ?thesis
  proof (cases rule: ship_action_cases [of code s m c])
    case left
    with assms(2,3) ne show ?thesis by auto
  next
    case (right x')
    with assms(2,3) ne show ?thesis by auto
  next
    case (shot bs)
    note sp = own.spawn_Some [OF shot(3)]
    have a: "b_active (own_shot s)" by (simp add: own_shot_def)
    have "length (filter b_active (bullets s)) < 10"
      using own.spawn_None [of "own_shot s" "bullets s"] shot(3) len
        length_filter_le [of b_active "bullets s"] by (simp add: shots)
    with shot assms(2,3) sp(1) [OF a] sp(3) [OF a] sp(5) [OF a]
    show ?thesis by (auto simp: shots score_add_bullet_def)
  next
    case full
    then have "\<not> fires" using assms(3) len own.spawn_None [of "own_shot s" "bullets s"] by (simp add: shots)
    with full assms(2) show ?thesis by auto
  next
    case none
    with assms(2,3) show ?thesis by auto
  qed
qed

lemma shot_fired_and_counted_witness:
  "bullets_fired (current_score (snd (ship_action mode_14c KB_SPACE ship_init_st
     (score_init 0 score_init_st)))) = 1"
proof -
  have wf: "wf_ship mode_14c ship_init_st" by (rule ship_init_st_wf) (simp add: mode_14c_def)
  obtain s' c' where r: "ship_action mode_14c KB_SPACE ship_init_st (score_init 0 score_init_st) = (s', c')"
    by fastforce
  from shot_fired_and_counted [OF wf r refl] r show ?thesis
    by (simp add: ship_init_st_def score_init_def zero_score_def ship_consts)
qed

text \<open>No shot lives for ever: after 34 frames every shot of the ship in flight now is gone, after
  \<open>h div 20 + 1\<close> frames every shot of the aliens, on a screen of \<open>h\<close> rows; so the slots become free.\<close>

theorem shots_leave:
  assumes "wf_ship m s"
  shows "filter b_active (bullets ((update_bullets ^^ 34) s)) = [] \<and>
         filter eb_active (enemy_bullets
           ((update_enemy_bullets m ^^ (nat (uint (YResolution m)) div 20 + 1)) s)) = []"
proof
  have *: "bullets ((update_bullets ^^ n) s) = (map move_bullet ^^ n) (bullets s)" for n
    by (induction n) (simp_all add: update_bullets_def)
  have "nat (b_y b) div 20 < 34" if "bullet_live m b" for b
  proof -
    have "b_y b \<le> 670" using that by (simp add: bullet_live_def)
    then have "nat (b_y b) \<le> 670" by simp
    from div_le_mono [OF this, of 20] show ?thesis by simp
  qed
  then have "own.shots ((map move_bullet ^^ 34) (bullets s)) = 0"
    using assms by (intro own.all_gone [of m]) (simp_all add: wf_ship_def own.good_def)
  then show "filter b_active (bullets ((update_bullets ^^ 34) s)) = []"
    by (simp add: * own.shots_def)
next
  let ?n = "nat (uint (YResolution m)) div 20 + 1"
  have *: "enemy_bullets ((update_enemy_bullets m ^^ n) s) =
      (map (move_enemy_bullet m) ^^ n) (enemy_bullets s)" for n
    by (induction n) (simp_all add: update_enemy_bullets_def)
  have "nat (uint (YResolution m) - eb_y b) div 20 < ?n" if "enemy_bullet_live b" for b
  proof -
    have "nat (uint (YResolution m) - eb_y b) \<le> nat (uint (YResolution m))"
      using that by (intro nat_mono) (simp add: enemy_bullet_live_def)
    from div_le_mono [OF this, of 20] show ?thesis by simp
  qed
  then have "foe.shots ((map (move_enemy_bullet m) ^^ ?n) (enemy_bullets s)) = 0"
    using assms by (intro foe.all_gone) (simp_all add: wf_ship_def foe.good_def)
  then show "filter eb_active (enemy_bullets ((update_enemy_bullets m ^^ ?n) s)) = []"
    by (simp only: * foe.shots_def length_0_conv)
qed

lemma shots_leave_witness: "filter b_active (bullets ((update_bullets ^^ 34) ship_init_st)) = []"
  using shots_leave [OF ship_init_st_wf, of mode_14c] by (simp add: mode_14c_def)

text \<open>If at least one alien lives and a slot is free, an alien's shot starts below the living alien
  that the random number selects (counting the living from 0, modulo their number), exactly one shot
  is added, and the others stay. Without a living alien nothing happens and no number is drawn.\<close>

theorem alien_shot_below_living_alien:
  assumes "wf_ship m s" and "lcf_rand K h = (r, h')" and "0 \<le> r"
    and "length (filter eb_active (enemy_bullets s)) < 10"
  shows "(count_active_enemies es = 0 \<longrightarrow> fire_enemy_bullet K es s h = (s, h)) \<and>
    (0 < count_active_enemies es \<longrightarrow>
      (\<exists>bs e. fire_enemy_bullet K es s h = (s\<lparr>enemy_bullets := bs\<rparr>, h') \<and>
         e = filter e_active es ! (nat r mod count_active_enemies es) \<and> e \<in> set es \<and> e_active e \<and>
         \<lparr>eb_x = e_x e + 20, eb_y = e_y e + 40, eb_active = True\<rparr> \<in> set bs \<and>
         length (filter eb_active bs) = length (filter eb_active (enemy_bullets s)) + 1 \<and>
         (\<forall>b \<in> set (enemy_bullets s). eb_active b \<longrightarrow> b \<in> set bs)))"
proof (intro conjI impI)
  assume "count_active_enemies es = 0"
  then show "fire_enemy_bullet K es s h = (s, h)" by (simp add: fire_enemy_bullet_def)
next
  assume n: "0 < count_active_enemies es"
  let ?e = "filter e_active es ! (nat r mod count_active_enemies es)"
  let ?b = "\<lparr>eb_x = e_x ?e + 20, eb_y = e_y ?e + 40, eb_active = True\<rparr>"
  have "?e \<in> set (filter e_active es)"
    using n by (intro nth_mem) (simp add: count_active_enemies_def)
  then have e: "?e \<in> set es" "e_active ?e" by auto
  have "spawn eb_active ?b (enemy_bullets s) \<noteq> None"
    using foe.spawn_None [of ?b "enemy_bullets s"] assms(1,4) by (simp add: foe.shots_def wf_ship_def)
  then obtain bs where bs: "spawn eb_active ?b (enemy_bullets s) = Some bs" by blast
  note sp = foe.spawn_Some [OF bs]
  have "fire_enemy_bullet K es s h = (s\<lparr>enemy_bullets := bs\<rparr>, h')"
    using fire_enemy_bullet_eq [OF n assms(2,3), of s] bs by (simp add: Let_def)
  then show "\<exists>bs e. fire_enemy_bullet K es s h = (s\<lparr>enemy_bullets := bs\<rparr>, h') \<and>
         e = ?e \<and> e \<in> set es \<and> e_active e \<and>
         \<lparr>eb_x = e_x e + 20, eb_y = e_y e + 40, eb_active = True\<rparr> \<in> set bs \<and>
         length (filter eb_active bs) = length (filter eb_active (enemy_bullets s)) + 1 \<and>
         (\<forall>b \<in> set (enemy_bullets s). eb_active b \<longrightarrow> b \<in> set bs)"
    using sp(1,3,5) e by (intro exI [of _ bs] exI [of _ ?e]) (simp add: foe.shots_def)
qed

lemma alien_shot_below_living_alien_witness:
  "\<exists>bs. fire_enemy_bullet blank_kernel [\<lparr>e_x = 5, e_y = 9, e_active = True, e_type = 0\<rparr>] ship_init_st []
     = (ship_init_st\<lparr>enemy_bullets := bs\<rparr>, []) \<and> length (filter eb_active bs) = 1"
proof -
  have wf: "wf_ship mode_14c ship_init_st" by (rule ship_init_st_wf) (simp add: mode_14c_def)
  have r: "lcf_rand blank_kernel [] = (0, [])" by (simp add: blank_kernel_def log_kernel_def)
  from alien_shot_below_living_alien [OF wf r, of "[\<lparr>e_x = 5, e_y = 9, e_active = True, e_type = 0\<rparr>]"]
  show ?thesis by (auto simp: ship_init_st_def ship_consts count_active_enemies_def)
qed

end
