(* ===== verification/Collision.thy ===== *)
theory Collision
  imports Ship
begin

text \<open>
  The collision checks of \<open>game/game_state.c\<close>: shots against aliens, aliens' shots against the ship and
  the shields, and aliens against the ship. The lemmas show that the four comparisons of the code are
  exactly the overlap of two boxes of pixels, what each check changes, and that it changes nothing
  else.
\<close>

subsection \<open>Operations\<close>

text \<open>The test all checks use: box 1 at \<open>(x1, y1)\<close> of size \<open>w1 x h1\<close> against box 2.\<close>

definition overlap :: "int \<Rightarrow> int \<Rightarrow> int \<Rightarrow> int \<Rightarrow> int \<Rightarrow> int \<Rightarrow> int \<Rightarrow> int \<Rightarrow> bool" where
  "overlap x1 y1 w1 h1 x2 y2 w2 h2 \<longleftrightarrow> x1 < x2 + w2 \<and> x1 + w1 > x2 \<and> y1 < y2 + h2 \<and> y1 + h1 > y2"

text \<open>The row of the ship, the global \<open>y\<close>.\<close>

definition ship_y :: int where "ship_y = 700"

definition bullet_hits :: "Bullet \<Rightarrow> Enemy \<Rightarrow> bool" where
  "bullet_hits b e \<longleftrightarrow>
     overlap (b_x b) (b_y b) BULLET_WIDTH BULLET_HEIGHT (e_x e) (e_y e) ENEMY_WIDTH ENEMY_HEIGHT"

definition check_bullet_enemy_collision ::
  "Bullet list \<Rightarrow> Enemy list \<Rightarrow> int \<times> Bullet list \<times> Enemy list" where
  "check_bullet_enemy_collision bs es =
     (case find (\<lambda>(i, j). b_active (bs ! i) \<and> e_active (es ! j) \<and> bullet_hits (bs ! i) (es ! j))
             (List.product [0..<MAX_BULLETS] [0..<MAX_ENEMIES]) of
        Some (i, j) \<Rightarrow>
          (1, bs[i := (bs ! i)\<lparr>b_active := False\<rparr>], es[j := (es ! j)\<lparr>e_active := False\<rparr>])
      | None \<Rightarrow> (0, bs, es))"

definition enemy_bullet_hits_ship :: "int \<Rightarrow> EnemyBullet \<Rightarrow> bool" where
  "enemy_bullet_hits_ship x b \<longleftrightarrow>
     overlap (eb_x b) (eb_y b) BULLET_WIDTH BULLET_HEIGHT x ship_y ship_width ship_height"

definition check_enemy_bullet_collision ::
  "int \<Rightarrow> EnemyBullet list \<Rightarrow> bool \<Rightarrow> EnemyBullet list \<times> bool" where
  "check_enemy_bullet_collision x bs player_lost =
     (map (\<lambda>b. if eb_active b \<and> enemy_bullet_hits_ship x b then b\<lparr>eb_active := False\<rparr> else b) bs,
      player_lost \<or> (\<exists>b \<in> set bs. eb_active b \<and> enemy_bullet_hits_ship x b))"

definition ship_hits_alien :: "int \<Rightarrow> Enemy \<Rightarrow> bool" where
  "ship_hits_alien x e \<longleftrightarrow>
     overlap x ship_y ship_width ship_height (e_x e) (e_y e) ENEMY_WIDTH ENEMY_HEIGHT"

definition check_ship_alien_collision :: "int \<Rightarrow> Enemy list \<Rightarrow> bool \<Rightarrow> bool" where
  "check_ship_alien_collision x es player_lost \<longleftrightarrow>
     player_lost \<or> (\<exists>e \<in> set es. e_active e \<and> ship_hits_alien x e)"

definition bullet_hits_shield :: "Shield \<Rightarrow> EnemyBullet \<Rightarrow> bool" where
  "bullet_hits_shield sh b \<longleftrightarrow>
     overlap (eb_x b) (eb_y b) BULLET_WIDTH BULLET_HEIGHT (sh_x sh) (sh_y sh) SHIELD_WIDTH SHIELD_HEIGHT"

fun damage :: "ShieldState \<Rightarrow> ShieldState" where
  "damage SHIELD_FULL = SHIELD_BROKEN"
| "damage SHIELD_BROKEN = SHIELD_NONE"
| "damage SHIELD_NONE = SHIELD_NONE"

text \<open>
  The inner loop for one shield. The state is asked for before it only: a shield that breaks down in
  it still stops the shots that follow in the array.
\<close>

fun shield_against :: "Shield \<Rightarrow> EnemyBullet list \<Rightarrow> Shield \<times> EnemyBullet list" where
  "shield_against sh [] = (sh, [])"
| "shield_against sh (b # bs) =
     (if eb_active b \<and> bullet_hits_shield sh b
      then case shield_against (sh\<lparr>sh_state := damage (sh_state sh)\<rparr>) bs of
             (sh', bs') \<Rightarrow> (sh', b\<lparr>eb_active := False\<rparr> # bs')
      else case shield_against sh bs of (sh', bs') \<Rightarrow> (sh', b # bs'))"

fun check_shield_collision :: "Shield list \<Rightarrow> EnemyBullet list \<Rightarrow> Shield list \<times> EnemyBullet list" where
  "check_shield_collision [] bs = ([], bs)"
| "check_shield_collision (sh # shs) bs =
     (if sh_state sh = SHIELD_NONE
      then case check_shield_collision shs bs of (shs', bs') \<Rightarrow> (sh # shs', bs')
      else case shield_against sh bs of (sh', bs1) \<Rightarrow>
             (case check_shield_collision shs bs1 of (shs', bs') \<Rightarrow> (sh' # shs', bs')))"


subsection \<open>Lemmas\<close>

lemma overlap_pixels:
  assumes "0 < w1" "0 < h1" "0 < w2" "0 < h2"
  shows "overlap x1 y1 w1 h1 x2 y2 w2 h2 \<longleftrightarrow> (\<exists>p q. box x1 y1 w1 h1 p q \<and> box x2 y2 w2 h2 p q)"
proof
  assume "overlap x1 y1 w1 h1 x2 y2 w2 h2"
  with assms have "box x1 y1 w1 h1 (max x1 x2) (max y1 y2)" "box x2 y2 w2 h2 (max x1 x2) (max y1 y2)"
    by (auto simp: overlap_def box_def)
  then show "\<exists>p q. box x1 y1 w1 h1 p q \<and> box x2 y2 w2 h2 p q" by blast
qed (auto simp: overlap_def box_def)

lemma find_Some_set: "find P xs = Some x \<Longrightarrow> x \<in> set xs \<and> P x"
  by (induction xs) (auto split: if_splits)

lemma check_bullet_enemy_cases:
  assumes "length bs = 10" and "length es = 18"
  obtains (hit) i j where "i < 10" "j < 18" "b_active (bs ! i)" "e_active (es ! j)"
      "bullet_hits (bs ! i) (es ! j)"
      "check_bullet_enemy_collision bs es =
         (1, bs[i := (bs ! i)\<lparr>b_active := False\<rparr>], es[j := (es ! j)\<lparr>e_active := False\<rparr>])"
  | (miss) "check_bullet_enemy_collision bs es = (0, bs, es)"
      "\<forall>b \<in> set bs. \<forall>e \<in> set es. b_active b \<and> e_active e \<longrightarrow> \<not> bullet_hits b e"
proof (cases "find (\<lambda>(i, j). b_active (bs ! i) \<and> e_active (es ! j) \<and> bullet_hits (bs ! i) (es ! j))
             (List.product [0..<MAX_BULLETS] [0..<MAX_ENEMIES])")
  case None
  have "\<not> (b_active (bs ! i) \<and> e_active (es ! j) \<and> bullet_hits (bs ! i) (es ! j))"
    if "i < 10" "j < 18" for i j
    using None that unfolding find_None_iff by (auto simp: enemy_consts ship_consts)
  then have "\<forall>b \<in> set bs. \<forall>e \<in> set es. b_active b \<and> e_active e \<longrightarrow> \<not> bullet_hits b e"
    using assms by (metis in_set_conv_nth)
  with None show ?thesis using miss by (simp add: check_bullet_enemy_collision_def)
next
  case (Some ij)
  obtain i j where ij: "ij = (i, j)" by fastforce
  from find_Some_set [OF Some [unfolded ij]] Some ij show ?thesis
    by (intro hit) (auto simp: check_bullet_enemy_collision_def enemy_consts ship_consts)
qed

lemma shield_against_shape:
  assumes "shield_against sh bs = (sh', bs')"
  shows "sh_x sh' = sh_x sh" "sh_y sh' = sh_y sh" "length bs' = length bs"
    and "bs' = map (\<lambda>b. if eb_active b \<and> bullet_hits_shield sh b then b\<lparr>eb_active := False\<rparr> else b) bs"
    and "sh_state sh' = (damage ^^ length (filter (\<lambda>b. eb_active b \<and> bullet_hits_shield sh b) bs))
            (sh_state sh)"
proof -
  have "sh_x sh' = sh_x sh \<and> sh_y sh' = sh_y sh \<and>
    bs' = map (\<lambda>b. if eb_active b \<and> bullet_hits_shield sh b then b\<lparr>eb_active := False\<rparr> else b) bs \<and>
    sh_state sh' = (damage ^^ length (filter (\<lambda>b. eb_active b \<and> bullet_hits_shield sh b) bs))
            (sh_state sh)"
    using assms
  proof (induction sh bs arbitrary: sh' bs' rule: shield_against.induct)
    case (2 sh b bs)
    have same: "bullet_hits_shield (sh\<lparr>sh_state := st\<rparr>) = bullet_hits_shield sh" for st
      by (rule ext) (simp add: bullet_hits_shield_def)
    show ?case
    proof (cases "eb_active b \<and> bullet_hits_shield sh b")
      case True
      obtain sh1 bs1 where r: "shield_against (sh\<lparr>sh_state := damage (sh_state sh)\<rparr>) bs = (sh1, bs1)"
        by fastforce
      from 2(1) [OF True r] 2(3) True r show ?thesis by (auto simp: same funpow_swap1)
    next
      case False
      obtain sh1 bs1 where r: "shield_against sh bs = (sh1, bs1)" by fastforce
      from 2(2) [OF False r] 2(3) False r show ?thesis by auto
    qed
  qed simp
  then show "sh_x sh' = sh_x sh" "sh_y sh' = sh_y sh"
    and bs': "bs' = map (\<lambda>b. if eb_active b \<and> bullet_hits_shield sh b then b\<lparr>eb_active := False\<rparr> else b) bs"
    and "sh_state sh' = (damage ^^ length (filter (\<lambda>b. eb_active b \<and> bullet_hits_shield sh b) bs))
            (sh_state sh)" by auto
  then show "length bs' = length bs" by simp
qed


definition standing :: "Shield \<Rightarrow> bool" where
  "standing sh \<longleftrightarrow> sh_state sh \<noteq> SHIELD_NONE"

definition stop_shots :: "(EnemyBullet \<Rightarrow> bool) \<Rightarrow> EnemyBullet list \<Rightarrow> EnemyBullet list" where
  "stop_shots P = map (\<lambda>b. if eb_active b \<and> P b then b\<lparr>eb_active := False\<rparr> else b)"

lemma stop_shots_twice: "stop_shots Q (stop_shots P bs) = stop_shots (\<lambda>b. P b \<or> Q b) bs"
  by (simp add: stop_shots_def)

lemma stop_shots_none: "stop_shots (\<lambda>b. False) bs = bs"
  by (simp add: stop_shots_def)

lemma length_stop_shots [simp]: "length (stop_shots P bs) = length bs"
  by (simp add: stop_shots_def)

lemma stop_shots_active: "b \<in> set (stop_shots P bs) \<Longrightarrow> eb_active b \<Longrightarrow> b \<in> set bs \<and> \<not> P b"
  by (auto simp: stop_shots_def split: if_splits)

lemma check_shield_shots:
  "snd (check_shield_collision shs bs) =
     stop_shots (\<lambda>b. \<exists>sh \<in> set shs. standing sh \<and> bullet_hits_shield sh b) bs"
proof (induction shs arbitrary: bs)
  case Nil
  then show ?case by (simp add: stop_shots_none)
next
  case (Cons sh shs)
  show ?case
  proof (cases "sh_state sh = SHIELD_NONE")
    case True
    then show ?thesis using Cons by (simp add: standing_def case_prod_beta)
  next
    case False
    obtain sh' bs1 where r: "shield_against sh bs = (sh', bs1)" by fastforce
    then have "bs1 = stop_shots (bullet_hits_shield sh) bs"
      using shield_against_shape(4) [OF r] by (simp add: stop_shots_def)
    with False r Cons show ?thesis by (simp add: case_prod_beta stop_shots_twice standing_def)
  qed
qed

lemma funpow_damage_NONE [simp]: "(damage ^^ n) SHIELD_NONE = SHIELD_NONE"
  by (induction n) simp_all

lemma check_shield_shields:
  "length (fst (check_shield_collision shs bs)) = length shs \<and>
   (\<forall>i < length shs. sh_x (fst (check_shield_collision shs bs) ! i) = sh_x (shs ! i) \<and>
      sh_y (fst (check_shield_collision shs bs) ! i) = sh_y (shs ! i) \<and>
      (\<exists>n. sh_state (fst (check_shield_collision shs bs) ! i) = (damage ^^ n) (sh_state (shs ! i))))"
proof (induction shs arbitrary: bs)
  case (Cons sh shs)
  show ?case
  proof (cases "sh_state sh = SHIELD_NONE")
    case True
    with Cons [of bs] show ?thesis
      by (auto simp: case_prod_beta nth_Cons split: nat.split intro: exI [of _ 0])
  next
    case False
    obtain sh' bs1 where r: "shield_against sh bs = (sh', bs1)" by fastforce
    have "\<exists>n. sh_state sh' = (damage ^^ n) (sh_state sh)" using shield_against_shape(5) [OF r] by blast
    with False r Cons [of bs1] shield_against_shape(1,2) [OF r] show ?thesis
      by (auto simp: case_prod_beta nth_Cons split: nat.split)
  qed
qed simp


subsection \<open>Invariants\<close>

lemma in_formation_kill:
  "in_formation dx dy es \<Longrightarrow> in_formation dx dy (es[j := (es ! j)\<lparr>e_active := False\<rparr>])"
  by (cases "j < length es") (auto simp: in_formation_def nth_list_update)

lemma active_after_kill:
  "e \<in> set (es[j := (es ! j)\<lparr>e_active := False\<rparr>]) \<Longrightarrow> e_active e \<Longrightarrow> e \<in> set es"
  by (cases "j < length es") (auto dest: set_update_subset_insert [THEN subsetD])

lemma wf_enemies_kill:
  "wf_enemies w s \<Longrightarrow> wf_enemies w (s\<lparr>enemies := (enemies s)[j := (enemies s ! j)\<lparr>e_active := False\<rparr>]\<rparr>)"
  unfolding wf_enemies_def
  using in_formation_kill active_after_kill [of _ "enemies s" j] by fastforce

lemma own_good_update:
  "list_all (\<lambda>b. b_active b \<longrightarrow> P b) bs \<Longrightarrow>
     list_all (\<lambda>b. b_active b \<longrightarrow> P b) (bs[i := (bs ! i)\<lparr>b_active := False\<rparr>])"
  by (rule list_all_updateI) simp_all

lemma check_bullet_enemy_wf [keeps]:
  assumes "wf_ship m s" and "wf_enemies w t"
    and "check_bullet_enemy_collision (bullets s) (enemies t) = (r, bs, es)"
  shows "wf_ship m (s\<lparr>bullets := bs\<rparr>)" and "wf_enemies w (t\<lparr>enemies := es\<rparr>)"
    and "count_active_enemies es \<le> count_active_enemies (enemies t)"
proof -
  have len: "length (bullets s) = 10" "length (enemies t) = 18"
    using assms(1,2) by (auto simp: wf_ship_def wf_enemies_def in_formation_def)
  have "wf_ship m (s\<lparr>bullets := bs\<rparr>) \<and> wf_enemies w (t\<lparr>enemies := es\<rparr>) \<and>
      count_active_enemies es \<le> count_active_enemies (enemies t)"
  proof (cases rule: check_bullet_enemy_cases [OF len, case_names hit miss])
    case (hit i j)
    let ?es = "(enemies t)[j := (enemies t ! j)\<lparr>e_active := False\<rparr>]"
    have eq: "bs = (bullets s)[i := (bullets s ! i)\<lparr>b_active := False\<rparr>]" "es = ?es"
      using hit(6) assms(3) by simp_all
    have "Suc (count_active_enemies ?es) = count_active_enemies (enemies t)"
      unfolding count_active_enemies_def
      by (rule length_filter_update_drop) (use hit len in simp_all)
    then show ?thesis
      using assms(1) wf_enemies_kill [OF assms(2), of j]
        own_good_update [of "bullet_live m" "bullets s" i]
      by (simp add: eq wf_ship_def)
  next
    case miss
    with assms(3) have "bs = bullets s" "es = enemies t" by simp_all
    then show ?thesis using assms(1,2) by simp
  qed
  then show "wf_ship m (s\<lparr>bullets := bs\<rparr>)" and "wf_enemies w (t\<lparr>enemies := es\<rparr>)"
    and "count_active_enemies es \<le> count_active_enemies (enemies t)" by auto
qed

lemma stop_shots_wf:
  "wf_ship m s \<Longrightarrow> wf_ship m (s\<lparr>enemy_bullets := stop_shots P (enemy_bullets s)\<rparr>)"
  by (auto simp: wf_ship_def list_all_iff dest: stop_shots_active)

lemma check_enemy_bullet_wf [keeps]:
  "wf_ship m s \<Longrightarrow> wf_ship m (s\<lparr>enemy_bullets :=
     fst (check_enemy_bullet_collision x (enemy_bullets s) lost)\<rparr>)"
  using stop_shots_wf [of m s "enemy_bullet_hits_ship x"]
  by (simp add: check_enemy_bullet_collision_def stop_shots_def)

lemma check_shield_wf [keeps]:
  assumes "wf_ship m s" and "check_shield_collision (shields s) (enemy_bullets s) = (shs, bs)"
  shows "wf_ship m (s\<lparr>shields := shs, enemy_bullets := bs\<rparr>)"
  using stop_shots_wf [OF assms(1)] check_shield_shots [of "shields s" "enemy_bullets s"]
    check_shield_shields [of "shields s" "enemy_bullets s"] assms
  by (simp add: wf_ship_def)


subsection \<open>Properties\<close>

text \<open>C22. The four comparisons of each check are exact for the boxes the code gives the objects: a check
  reports a hit if and only if the two boxes have a pixel in common.\<close>

theorem collision_is_common_pixel:
  "(bullet_hits b e \<longleftrightarrow> (\<exists>p q. box (b_x b) (b_y b) 8 30 p q \<and> box (e_x e) (e_y e) 40 40 p q)) \<and>
   (enemy_bullet_hits_ship x c \<longleftrightarrow> (\<exists>p q. box (eb_x c) (eb_y c) 8 30 p q \<and> box x 700 50 50 p q)) \<and>
   (ship_hits_alien x e \<longleftrightarrow> (\<exists>p q. box x 700 50 50 p q \<and> box (e_x e) (e_y e) 40 40 p q)) \<and>
   (bullet_hits_shield sh c \<longleftrightarrow>
     (\<exists>p q. box (eb_x c) (eb_y c) 8 30 p q \<and> box (sh_x sh) (sh_y sh) 47 34 p q))"
  by (simp add: bullet_hits_def enemy_bullet_hits_ship_def ship_hits_alien_def
      bullet_hits_shield_def overlap_pixels ship_consts enemy_consts ship_y_def)

text \<open>C24. The box the code gives an alien's shot is that of the ship's shot, 8 x 30 pixels, while its
  sprite has 5 x 17. So the ship is hit by shots whose picture does not touch it: whenever the picture
  ends up to three columns to the left of the ship.\<close>

theorem alien_shot_hits_beside_its_picture:
  assumes "eb_x b + 5 \<le> x" and "x < eb_x b + 8" and "700 < eb_y b + 30" and "eb_y b < 750"
  shows "enemy_bullet_hits_ship x b \<and>
         xpm_size enemy_bullet_xpm = (5, 17) \<and> xpm_size ship_xpm = (50, 50) \<and>
         \<not> (\<exists>p q. box (eb_x b) (eb_y b) 5 17 p q \<and> box x 700 50 50 p q)"
  using assms
  by (auto simp: enemy_bullet_hits_ship_def overlap_def ship_consts ship_y_def box_def game_sprite_sizes)

lemma alien_shot_hits_beside_its_picture_witness:
  "enemy_bullet_hits_ship 350 \<lparr>eb_x = 344, eb_y = 710, eb_active = True\<rparr>"
  using alien_shot_hits_beside_its_picture [of "\<lparr>eb_x = 344, eb_y = 710, eb_active = True\<rparr>" 350] by simp

text \<open>A frame kills at most one alien. If the check reports a hit, exactly one active shot and one
  living alien that overlap are switched off and everything else stays; otherwise no active shot
  overlaps a living alien, and nothing changes.\<close>

theorem one_alien_per_frame:
  assumes "length bs = 10" and "length es = 18"
    and "check_bullet_enemy_collision bs es = (r, bs', es')"
  shows "(r = 1 \<and> (\<exists>i j. i < 10 \<and> j < 18 \<and> b_active (bs ! i) \<and> e_active (es ! j) \<and>
             bullet_hits (bs ! i) (es ! j) \<and> bs' = bs[i := (bs ! i)\<lparr>b_active := False\<rparr>] \<and>
             es' = es[j := (es ! j)\<lparr>e_active := False\<rparr>] \<and>
             count_active_enemies es = count_active_enemies es' + 1)) \<or>
         (r = 0 \<and> bs' = bs \<and> es' = es \<and>
            (\<forall>b \<in> set bs. \<forall>e \<in> set es. b_active b \<and> e_active e \<longrightarrow> \<not> bullet_hits b e))"
proof (cases rule: check_bullet_enemy_cases [OF assms(1,2), case_names hit miss])
  case (hit i j)
  have "Suc (count_active_enemies (es[j := (es ! j)\<lparr>e_active := False\<rparr>])) = count_active_enemies es"
    unfolding count_active_enemies_def by (rule length_filter_update_drop) (use hit assms(2) in simp_all)
  with hit assms(3) show ?thesis by (intro disjI1 conjI exI [of _ i] exI [of _ j]) simp_all
next
  case miss
  with assms(3) show ?thesis by simp
qed

lemma one_alien_per_frame_witness:
  "fst (check_bullet_enemy_collision (replicate 10 \<lparr>b_x = 110, b_y = 60, b_active = True\<rparr>)
          (enemies (snd (init_enemies enemies_init_st)))) = 1"
proof -
  let ?bs = "replicate 10 \<lparr>b_x = 110, b_y = 60, b_active = True\<rparr>"
  let ?es = "enemies (snd (init_enemies enemies_init_st))"
  have l: "?es = map (\<lambda>i. \<lparr>e_x = home_x i, e_y = home_y i, e_active = True, e_type = int (i div 6)\<rparr>) [0..<18]"
    by (rule init_enemies_list) (simp add: enemies_init_st_def enemy_consts)
  obtain r bs' es' where r: "check_bullet_enemy_collision ?bs ?es = (r, bs', es')" by (metis prod_cases3)
  have "hd ?es \<in> set ?es" "e_active (hd ?es)"
    "bullet_hits \<lparr>b_x = 110, b_y = 60, b_active = True\<rparr> (hd ?es)"
    by (simp_all add: l upt_rec home_x_def home_y_def bullet_hits_def overlap_def ship_consts enemy_consts)
  with one_alien_per_frame [of ?bs ?es, OF _ _ r] have "r = 1" by (fastforce simp: l)
  with r show ?thesis by simp
qed

text \<open>C23. The shields stop alien shots: a shot is switched off exactly if it overlaps a shield that still
  stood before the check, so afterwards no active shot overlaps a standing shield. The shields keep
  their places, and each only goes down the sequence full, broken, none.\<close>

theorem shields_stop_shots:
  assumes "check_shield_collision shs bs = (shs', bs')"
  shows "bs' = map (\<lambda>b. if eb_active b \<and> (\<exists>sh \<in> set shs. standing sh \<and> bullet_hits_shield sh b)
                       then b\<lparr>eb_active := False\<rparr> else b) bs \<and>
         length shs' = length shs \<and>
         (\<forall>i < length shs. sh_x (shs' ! i) = sh_x (shs ! i) \<and> sh_y (shs' ! i) = sh_y (shs ! i) \<and>
            (\<exists>n. sh_state (shs' ! i) = (damage ^^ n) (sh_state (shs ! i)))) \<and>
         (\<forall>sh \<in> set shs'. \<forall>b \<in> set bs'. standing sh \<and> eb_active b \<longrightarrow> \<not> bullet_hits_shield sh b)"
proof -
  have shots: "bs' = stop_shots (\<lambda>b. \<exists>sh \<in> set shs. standing sh \<and> bullet_hits_shield sh b) bs"
    using check_shield_shots [of shs bs] assms by simp
  have shs: "length shs' = length shs" "\<And>i. i < length shs \<Longrightarrow> sh_x (shs' ! i) = sh_x (shs ! i) \<and>
      sh_y (shs' ! i) = sh_y (shs ! i) \<and> (\<exists>n. sh_state (shs' ! i) = (damage ^^ n) (sh_state (shs ! i)))"
    using check_shield_shields [of shs bs] assms by auto
  have "\<not> bullet_hits_shield sh b"
    if mem: "sh \<in> set shs'" "b \<in> set bs'" and on: "standing sh" "eb_active b" for sh b
  proof -
    obtain i where "i < length shs'" and sh: "shs' ! i = sh"
      using mem(1) unfolding in_set_conv_nth by blast
    then have i: "i < length shs" "shs' ! i = sh" using shs(1) by simp_all
    then have "standing (shs ! i)" "bullet_hits_shield (shs ! i) b = bullet_hits_shield sh b"
      using shs(2) [OF i(1)] on(1) by (auto simp: standing_def bullet_hits_shield_def)
    moreover have "shs ! i \<in> set shs" using i(1) by simp
    ultimately show ?thesis using stop_shots_active [OF mem(2) [unfolded shots] on(2)] by blast
  qed
  then have "\<forall>sh \<in> set shs'. \<forall>b \<in> set bs'. standing sh \<and> eb_active b \<longrightarrow> \<not> bullet_hits_shield sh b"
    by blast
  with shs shots show ?thesis unfolding stop_shots_def by blast
qed

lemma shields_stop_shots_witness:
  "snd (check_shield_collision [\<lparr>sh_x = 182, sh_y = 614, sh_state = SHIELD_BROKEN\<rparr>]
     [\<lparr>eb_x = 200, eb_y = 600, eb_active = True\<rparr>, \<lparr>eb_x = 200, eb_y = 600, eb_active = True\<rparr>])
   = replicate 2 \<lparr>eb_x = 200, eb_y = 600, eb_active = False\<rparr>"
proof -
  let ?shs = "[\<lparr>sh_x = 182, sh_y = 614, sh_state = SHIELD_BROKEN\<rparr>]"
  let ?bs = "[\<lparr>eb_x = 200, eb_y = 600, eb_active = True\<rparr>, \<lparr>eb_x = 200, eb_y = 600, eb_active = True\<rparr>]"
  obtain shs' bs' where r: "check_shield_collision ?shs ?bs = (shs', bs')" by fastforce
  from shields_stop_shots [OF r] have "bs' = replicate 2 \<lparr>eb_x = 200, eb_y = 600, eb_active = False\<rparr>"
    by (simp add: numeral_2_eq_2 standing_def bullet_hits_shield_def overlap_def ship_consts)
  with r show ?thesis by simp
qed

end
