(* ===== verification/Sprites_Title.thy ===== *)
theory Sprites_Title
  imports Prelude
begin

text \<open>
  Pictures of the menu and of the end screens, row by row: \<open>xpm/menu/title.h\<close>. A large picture is the
  concatenation of parts.
\<close>

definition title_xpm_1 :: "string list" where
  "title_xpm_1 = [
     ''400 200 123 2 '',
     ''   c #000000'',
     ''.  c #0B0000'',
     ''X  c #0B0B00'',
     ''o  c #140000'',
     ''O  c #1C0000'',
     ''+  c #141400'',
     ''@  c #1B1B00'',
     ''#  c #230000'',
     ''$  c #290000'',
     ''%  c #230C00'',
     ''&  c #340000'',
     ''*  c #3C0000'',
     ''=  c #3F0B00'',
     ''-  c #261B00'',
     '';  c #391500'',
     '':  c #3C1800'',
     ''>  c #232300'',
     '',  c #292600'',
     ''<  c #292900'',
     ''1  c #343400'',
     ''2  c #383000'',
     ''3  c #3C3C00'',
     ''4  c #430000'',
     ''5  c #4C0000'',
     ''6  c #540000'',
     ''7  c #5A0000'',
     ''8  c #630000'',
     ''9  c #6E0000'',
     ''0  c #730000'',
     ''q  c #7C0000'',
     ''w  c #6A1F00'',
     ''e  c #432100'',
     ''r  c #4F3400'',
     ''t  c #473F00'',
     ''y  c #563D00'',
     ''u  c #434300'',
     ''i  c #4B4B00'',
     ''p  c #554D00'',
     ''a  c #545400'',
     ''s  c #5A5A00'',
     ''d  c #6B4A00'',
     ''f  c #794700'',
     ''g  c #7D5700'',
     ''h  c #626200'',
     ''j  c #6C6C00'',
     ''k  c #737300'',
     ''l  c #7C7C00'',
     ''z  c #820000'',
     ''x  c #8C0000'',
     ''c  c #840A00'',
     ''v  c #910000'',
     ''b  c #9C0000'',
     ''n  c #8A1D00'',
     ''m  c #991600'',
     ''M  c #A40000'',
     ''N  c #AB0000'',
     ''B  c #B30000'',
     ''V  c #BC0000'',
     ''C  c #953300'',
     ''Z  c #A12900'',
     ''A  c #C30000'',
     ''S  c #CB0000'',
     ''D  c #D60000'',
     ''F  c #DB0000'',
     ''G  c #D80900'',
     ''H  c #E30000'',
     ''J  c #EC0000'',
     ''K  c #EA0E00'',
     ''L  c #F30000'',
     ''P  c #FF0000'',
     ''I  c #FD0C00'',
     ''U  c #FF1100'',
     ''Y  c #FF1D00'',
     ''T  c #CC2E00'',
     ''R  c #FF2500'',
     ''E  c #FF2B00'',
     ''W  c #9E5400'',
     ''Q  c #BB6400'',
     ''!  c #FD4100'',
     ''~  c #FF5600'',
     ''^  c #FF5D00'',
     ''/  c #C17200'',
     ''(  c #ED6C00'',
     '')  c #F76600'',
     ''_  c #FF6900'',
     ''`  c #F77200'',
     [CHR 0x27] @ ''  c #828200'',
     '']  c #8C8C00'',
     ''[  c #919100'',
     ''{  c #9B9B00'',
     ''}  c #A79700'',
     ''|  c #A3A300'',
     '' . c #ABAB00'',
     ''.. c #B3B300'',
     ''X. c #BEB300'',
     ''o. c #BCBC00'',
     ''O. c #FD8600'',
     ''+. c #FF9C00'',
     ''@. c #C1A500'',
     ''#. c #D5AC00'',
     ''$. c #C6B800'',
     ''%. c #C8BC00'',
     ''&. c #D9BA00'',
     ''*. c #F6A500'',
     ''=. c #FFAF00'',
     ''-. c #F2BA00'',
     '';. c #FFBC00'',
     '':. c #C4C400'',
     ''>. c #CACA00'',
     '',. c #D4CD00'',
     ''<. c #D4D400'',
     ''1. c #DAD400'',
     ''2. c #DCDC00'',
     ''3. c #FFC600'',
     ''4. c #FECA00'',
     ''5. c #F2D100'',
     ''6. c #FDD400'',
     ''7. c #E2E200'',
     ''8. c #EBEB00'',
     ''9. c #F3E300'',
     ''0. c #F4F400'',
     ''q. c #FEF400'',
     ''w. c #FFFF00'',
     ''                                                                                                    '' @
       ''                                                                                                    '' @
       ''                                                                                                    '' @
       ''                                                                                                    '' @
       ''                                                                                                    '' @
       ''                                                                                                    '' @
       ''                                                                                                    '' @
       ''                                                                                                    '']"

definition title_xpm_2 :: "string list" where
  "title_xpm_2 = [
     ''                                                                                                    '' @
       ''                                                                                                    '' @
       ''                                                                                                    '' @
       ''                                                                                                    '' @
       ''                                                                                                    '' @
       ''                                                                                                    '' @
       ''                                                                                                    '' @
       ''                                                                                                    '',
     ''                                                                                                    '' @
       ''                                                                                                    '' @
       ''                                                                                                    '' @
       ''                                                                                                    '' @
       ''                                                                                                    '' @
       ''                                                                                                    '' @
       ''                                                                                                    '' @
       ''                                                                                                    '',
     ''                                                                                                    '' @
       ''                                                                                                    '' @
       ''                                                                                                    '' @
       ''                                                                                                    '' @
       ''                                                                                                    '' @
       ''                                                                                                    '' @
       ''                                                                                                    '' @
       ''                                                                                                    '']"

definition title_xpm_3 :: "string list" where
  "title_xpm_3 = [
     ''                                                                                                    '' @
       ''                                                                                                    '' @
       ''                                                                                                    '' @
       ''                                                                                                    '' @
       ''                                                                                                    '' @
       ''                                                                                                    '' @
       ''                                                                                                    '' @
       ''                                                                                                    '',
     ''                                                                                                    '' @
       ''                                                                                                    '' @
       ''                                                                                                    '' @
       ''                                                                                                    '' @
       ''                                                                                                    '' @
       ''                                                                                                    '' @
       ''                                                                                                    '' @
       ''                                                                                                    '',
     ''                                                                                                    '' @
       ''                                                                                                    '' @
       ''                                                                                                    '' @
       ''                                                                                                    '' @
       ''                                                                                                    '' @
       ''                                                                                                    '' @
       ''                                                                                                    '' @
       ''                                                                                                    '']"

definition title_xpm_4 :: "string list" where
  "title_xpm_4 = [
     ''                                                                                                    '' @
       ''                                                                                                    '' @
       ''                                                                                                    '' @
       ''                                                                                                    '' @
       ''                                                                                                    '' @
       ''                                                                                                    '' @
       ''                                                                                                    '' @
       ''                                                                                                    '',
     ''                                                                                                    '' @
       ''                                                                                                    '' @
       ''                                                                                                    '' @
       ''                                                                                                    '' @
       ''                                                                                                    '' @
       ''                                                                                                    '' @
       ''                                                                                                    '' @
       ''                                                                                                    '',
     ''                                                                                                    '' @
       ''                                                                                                    '' @
       ''                                                                                                    '' @
       ''                                                                                                    '' @
       ''                                                                                                    '' @
       ''                                                                                                    '' @
       ''                                                                                                    '' @
       ''                                                                                                    '']"

definition title_xpm_5 :: "string list" where
  "title_xpm_5 = [
     ''                                                                                                    '' @
       ''                                                                                                    '' @
       ''                                                                                                    '' @
       ''                                                                                                    '' @
       ''                                                                                                    '' @
       ''                                                                                                    '' @
       ''                                                                                                    '' @
       ''                                                                                                    '',
     ''                                                                                                    '' @
       ''                                                                                                    '' @
       ''                                                                                                    '' @
       ''                                                                                                    '' @
       ''                                                                                                    '' @
       ''                                                                                                    '' @
       ''                                                                                                    '' @
       ''                                                                                                    '',
     ''                                                                                                    '' @
       ''                                                                                                    '' @
       ''                                                                                                    '' @
       ''                                                                                                    '' @
       ''                                                                                                    '' @
       ''                                                                                                    '' @
       ''                                                                                                    '' @
       ''                                                                                                    '']"

definition title_xpm_6 :: "string list" where
  "title_xpm_6 = [
     ''                                                                                                    '' @
       ''                                                                                                    '' @
       ''                                                                                                    '' @
       ''                                                                                                    '' @
       ''                                                                                                    '' @
       ''                                                                                                    '' @
       ''                                                                                                    '' @
       ''                                                                                                    '',
     ''                                                                                                    '' @
       ''                                                                                                    '' @
       ''                                                                                                    '' @
       ''                                                                                                    '' @
       ''                                                                                                    '' @
       ''                                                                                                    '' @
       ''                                                                                                    '' @
       ''                                                                                                    '',
     ''                                                                                                    '' @
       ''                                                                                                    '' @
       ''                                                                                                    '' @
       ''                                                                                                    '' @
       ''                                                                                                    '' @
       ''                                                                                                    '' @
       ''                                                                                                    '' @
       ''                                                                                                    '']"

definition title_xpm_7 :: "string list" where
  "title_xpm_7 = [
     ''                                                                                                    '' @
       ''                                                                                                    '' @
       ''                                                                                                    '' @
       ''                                                                                                    '' @
       ''                                                                                                    '' @
       ''                                                                                                    '' @
       ''                                                                                                    '' @
       ''                                                                                                    '',
     ''                                                                                                    '' @
       ''                                                                                                    '' @
       ''                                                                                                    '' @
       ''                                                                                                    '' @
       ''                                                                                                    '' @
       ''                                                                                                    '' @
       ''                                                                                                    '' @
       ''                                                                                                    '',
     ''                                                                                                    '' @
       ''                                                                                                    '' @
       ''                                                                                                    '' @
       ''                                                                                                    '' @
       ''                                                                                                    '' @
       ''                                                                                                    '' @
       ''                                                                                                    '' @
       ''                                                                                                    '']"

definition title_xpm_8 :: "string list" where
  "title_xpm_8 = [
     ''                                                                                                    '' @
       ''                                                                                                    '' @
       ''                                                                                                    '' @
       ''                                                                                                    '' @
       ''                                                                                                    '' @
       ''                                                                                                    '' @
       ''                                                                                                    '' @
       ''                                                                                                    '',
     ''                                                                                                    '' @
       ''                                                                                                    '' @
       ''                                                                                                    '' @
       ''                                                                                                    '' @
       ''                                                                                                    '' @
       ''                                                                                                    '' @
       ''                                                                                                    '' @
       ''                                                                                                    '',
     ''                                                                                                    '' @
       ''                                                                                                    '' @
       ''                                                                                                    '' @
       ''                                                                                                    '' @
       ''                                                                                                    '' @
       ''                                                                                                    '' @
       ''                                                                                                    '' @
       ''                                                                                                    '']"

definition title_xpm_9 :: "string list" where
  "title_xpm_9 = [
     ''                                                                                                    '' @
       ''                                                                                                    '' @
       ''                                                                                                    '' @
       ''                                                                                                    '' @
       ''                                                                                                    '' @
       ''                                                                                                    '' @
       ''                                                                                                    '' @
       ''                                                                                                    '',
     ''                                                                                                    '' @
       ''                                                                                                    '' @
       ''                                                                                                    '' @
       ''                                                                                                    '' @
       ''                                                                                                    '' @
       ''                                                                                                    '' @
       ''                                                                                                    '' @
       ''                                                                                                    '',
     ''                                                                                                    '' @
       ''                                                                                                    '' @
       ''                                                                                                    '' @
       ''                                                                                                    '' @
       ''                                                                                                    '' @
       ''                                                                                                    '' @
       ''                                                                                                    '' @
       ''                                                                                                    '']"

definition title_xpm_10 :: "string list" where
  "title_xpm_10 = [
     ''                                                                                                    '' @
       ''                                                                                                    '' @
       ''                                                                                                    '' @
       ''                                                                                                    '' @
       ''                                                                                                    '' @
       ''                                                                                                    '' @
       ''                                                                                                    '' @
       ''                                                                                                    '',
     ''                                                                                                    '' @
       ''                                                                                                    '' @
       ''                                                                                                    '' @
       ''                                                                                                    '' @
       ''                                                                                                    '' @
       ''                                                                                                    '' @
       ''                                                                                                    '' @
       ''                                                                                                    '',
     ''                                                                                                    '' @
       ''                                                                                                    '' @
       ''                                                                                                    '' @
       ''                                                                                                    '' @
       ''                                                                                                    '' @
       ''                                                                                                    '' @
       ''                                                                                                    '' @
       ''                                                                                                    '']"

definition title_xpm_11 :: "string list" where
  "title_xpm_11 = [
     ''                                                                                                    '' @
       ''                                                                                                    '' @
       ''                                                                                                    '' @
       ''                                                                                                    '' @
       ''                                                                                                    '' @
       ''                                                                                                    '' @
       ''                                                                                                    '' @
       ''                                                                                                    '',
     ''                                                                                                    '' @
       ''                                                                                                    '' @
       ''                                                                                                    '' @
       ''                                                                                                    '' @
       ''                                                                                                    '' @
       ''                                                                                                    '' @
       ''                                                                                                    '' @
       ''                                                                                                    '',
     ''                                                                                                    '' @
       ''                                                                                                    '' @
       ''                                                                                                    '' @
       ''                                                                                                    '' @
       ''                                                                                                    '' @
       ''                                                                                                    '' @
       ''                                                                                                    '' @
       ''                                                                                                    '']"

definition title_xpm_12 :: "string list" where
  "title_xpm_12 = [
     ''                                                                                                    '' @
       ''                                                                                                    '' @
       ''                                                                                                    '' @
       ''                                                                                                    '' @
       ''                                                                                                    '' @
       ''                                                                                                    '' @
       ''                                                                                                    '' @
       ''                                                                                                    '',
     ''                                                                                                    '' @
       ''                                                                                                    '' @
       ''                                                                                                    '' @
       ''                                                                                                    '' @
       ''                                                                                                    '' @
       ''                                                                                                    '' @
       ''                                                                                                    '' @
       ''                                                                                                    '',
     ''                                                                                                    '' @
       ''                                                                                                    '' @
       ''                                                                                                    '' @
       ''                                                                                                    '' @
       ''                                                                                                    '' @
       ''                                                                                                    '' @
       ''                                                                                                    '' @
       ''                                                                                                    '']"

definition title_xpm_13 :: "string list" where
  "title_xpm_13 = [
     ''                                                                                                    '' @
       ''                                                                                                    '' @
       ''                                                                                                    '' @
       ''                                                                                                    '' @
       ''                                                                                                    '' @
       ''                                                                                                    '' @
       ''                                                                                                    '' @
       ''                                                                                                    '',
     ''                                                                                                    '' @
       ''                                                                                                    '' @
       ''                                                                                                    '' @
       ''                                                                                                    '' @
       ''                                                                                                    '' @
       ''                                                                                                    '' @
       ''                                                                                                    '' @
       ''                                                                                                    '',
     ''                                                                                                    '' @
       ''                                                                                                    '' @
       ''                                                                                                    '' @
       ''                                                                                                    '' @
       ''                                                                                                    '' @
       ''                                                                                                    '' @
       ''                                                                                                    '' @
       ''                                                                                                    '']"

definition title_xpm_14 :: "string list" where
  "title_xpm_14 = [
     ''                                                                                                    '' @
       ''                                                                                                    '' @
       ''                                                                                                    '' @
       ''                                                                                                    '' @
       ''                                                                                                    '' @
       ''                                                                                                    '' @
       ''                                                                                                    '' @
       ''                                                                                                    '',
     ''                                                                                                    '' @
       ''                                                                                                    '' @
       ''                                                                                                    '' @
       ''                                                                                                    '' @
       ''                                                                                                    '' @
       ''                                                                                                    '' @
       ''                                                                                                    '' @
       ''                                                                                                    '',
     ''                                                                                                    '' @
       ''                                                                                                    '' @
       ''                                                        o O o .                                     '' @
       ''                                                                                                    '' @
       ''                                                                                                    '' @
       ''                                                                                                    '' @
       ''                                                                                                    '' @
       ''                                                                                                    '']"

definition title_xpm_15 :: "string list" where
  "title_xpm_15 = [
     ''                                                                                                    '' @
       ''                                                                                                    '' @
       ''                                            o 8 b S L P P P P P L D N 0 &                           '' @
       ''                                                                                                    '' @
       ''                                                                                o 6 x B D J L P L J '' @
       ''S N z 5 o                                                                                           '' @
       ''                                                                                                    '' @
       ''                                                                                                    '',
     ''                                                                                                    '' @
       ''                                                                                                    '' @
       ''                                        * N P P P P P P P P P P P P P P P F x #                     '' @
       ''. 5 q N D H L P P P P P P P P L H S B x 8 $                                                   o P P '' @
       ''P P P P P P P 6                                                           . 9 A P P P P P P P P P P '' @
       ''P P P P P A 0 o                 & P P P P P P P P P P P P P P P P P P P P P P P P P P P H           '' @
       ''                                                                                                    '' @
       ''                                                                                                    '',
     ''                                                                                                    '' @
       ''                                                                                                    '' @
       ''                                    o M P P P P P J H J L P P P P P P P P P P P B $                 '' @
       ''& P P P P P P P P P P P P P P P P P P P P P J M 4                                             z P P '' @
       ''P P P P P P P A                                                       . z L P P P P P P P P P P P P '' @
       ''P P P P P P P P b O             & P P P P P P P P P P P P P P P P P P P P P P P P P P P F           '' @
       ''                                                                                                    '' @
       ''                                                                                                    '']"

definition title_xpm_16 :: "string list" where
  "title_xpm_16 = [
     ''                                                                                                    '' @
       ''                                                                                                    '' @
       ''                                  & J H b 9 $ .           . $ 6 x S P P P P P P P 5                 '' @
       ''& P P P P P P P P P P P P P P P P P P P P P P P P D 7                                       . J P P '' @
       ''P P P P P P P P &                                                   5 H P H N 0 5 $ . . . . o & 6 q '' @
       ''N J P P P P P P P J             & P P P P P P P P P P P P P P P P P P P P P P P P P P P H           '' @
       ''                                                                                                    '' @
       ''                                                                                                    '',
     ''                                                                                                    '' @
       ''                                                                                                    '' @
       ''                                $ B 6       X + @ + X               # q D P P P J                   '' @
       ''o $ O .               . . O & 5 0 b D P P P P P P P P A O                                           '' @
       ''        N P P P N                                                 x L v *                           '' @
       ''  . * x H P P P P M                                                               O P P H           '' @
       ''                                                                                                    '' @
       ''                                                                                                    '',
     ''                                                                                                    '' @ ''                                                                                                    '' @ ''                              . 5 @ s { >.0.q.w.w.w.w.0.<. .k 1           5 D P b                   '' @ ''                                      o 7 V P P P P P P J $                                         '' @ ''        * P P P P #                                             b q . @ a ] o.<.8.0.w.0.8.>. .'' @ [CHR 0x27] @ '' i +         . 8 H P P 4                                                               O P P H      '' @ ''                                                                                                    '' @ ''                                                                                                    '' @ ''     '']"

definition title_xpm_17 :: "string list" where
  "title_xpm_17 = [
     ''                                                                                                    '' @ ''                                                                                                    '' @ ''                              u  .q.w.w.w.w.w.w.w.w.w.w.w.w.w.w.7.'' @ [CHR 0x27] @ '' <       B P &         X u l ..<.7.0.w.w.w.w.w.w.w.0.0.7.>...] h <           # M P P P P P J o .    '' @ ''                 @ 0.w.w.w.w.w.w.w.w.a     S P P P x                                           0 % j'' @ '' :.w.w.w.w.w.w.w.w.w.w.w.w.w.w.w.:.k @       o P J     1 w.w.w.w.w.w.w.w.w.w.w.w.w.w.w.w.w.w.w.w.w.w'' @ ''.w.w.w.w.w.7.  # P P F                                                                              '' @ ''                                                                                                    '' @ ''                                 '',
     ''                                                                                                    '' @ ''                                                                                                    '' @ ''                          + | w.w.w.w.w.w.w.w.w.w.w.w.w.w.w.w.w.w.w.w...< o P F           1 w.w.w.w.'' @ ''w.w.w.w.w.w.w.w.w.w.w.w.w.w.w.w.w.8.| u         * H P P P P B                       '' @ [CHR 0x27] @ '' w.w.w.w.w.w.w.w.w.:.    6 P P P L o                                       = '' @ [CHR 0x27] @ '' 0.w.w.w.w.w.w.w.w.w.w.w.w.w.w.w.w.w.w.w.0.{ >   7 P v     1 w.w.w.w.w.w.w.w.w.w.w.w.w.w.w.w.w.w.w.w'' @ ''.w.w.w.w.w.w.w.2.  O P P H                                                                          '' @ ''                                                                                                    '' @ ''                                     '',
     ''                                                                                                    '' @
       ''                                                                                                    '' @
       ''                        1 7.w.w.w.w.w.w.w.w.w.w.w.w.w.w.w.w.w.w.w.w.w.w.i 9 P q           1 w.w.w.w.'' @
       ''w.w.w.w.w.w.w.w.w.w.w.w.w.w.w.w.w.w.w.w.2.s       o D P P P P 4                   X 0.w.w.w.w.w.w.w.'' @
       ''w.w.w.1   . F P P P 0                                     p 7.w.w.w.w.w.w.w.w.w.w.w.w.w.w.w.w.w.w.w.'' @
       ''w.w.w.w.8.  B P *     1 w.w.w.w.w.w.w.w.w.w.w.w.w.w.w.w.w.w.w.w.w.w.w.w.w.w.w.2.  # P P H           '' @
       ''                                                                                                    '' @
       ''                                                                                                    '']"

definition title_xpm_18 :: "string list" where
  "title_xpm_18 = [
     ''                                                                                                    '' @
       ''                                                                                                    '' @
       ''                      < 8.w.w.w.w.w.w.w.w.w.w.w.w.w.w.w.w.w.w.w.w.w.w.8.  x P #           1 w.w.w.w.'' @
       ''w.w.w.w.w.w.w.w.w.w.w.w.w.w.w.w.w.w.w.w.w.w.:.@     o H P P P N                   j w.w.w.w.w.w.w.w.'' @
       ''w.w.w.|     9 P P P H .                                 ] w.w.w.w.w.w.w.w.w.w.w.w.w.w.w.w.w.w.w.w.w.'' @
       ''w.w.w.w.| o P F       1 w.w.w.w.w.w.w.w.w.w.w.w.w.w.w.w.w.w.w.w.w.w.w.w.w.w.w.7.                    '' @
       ''                                                                                                    '' @
       ''                                                                                                    '',
     ''                                                                                                    '' @
       ''                                                                                                    '' @
       ''                    X 2.w.w.w.w.w.w.w.w.w.w.w.w.w.w.w.w.w.w.w.w.w.w.w.[     #             1 w.w.w.w.'' @
       ''w.w.w.w.w.w.w.w.w.w.w.w.w.w.w.w.w.w.w.w.w.w.w.8.<     5 P P P L .                 2.w.w.w.w.w.w.w.w.'' @
       ''w.w.w.w.>   . L P P P 6                             . | w.w.w.w.w.w.w.w.w.w.w.w.w.w.w.w.w.w.w.w.w.w.'' @
       ''w.w.w.w.u . z 0       1 w.w.w.w.w.w.w.w.w.w.w.w.w.w.w.w.w.w.w.w.w.w.w.w.w.w.w.7.                    '' @
       ''                                                                                                    '' @
       ''                                                                                                    '',
     ''                                                                                                    '' @ ''                                                                                                    '' @ ''                    '' @ [CHR 0x27] @ '' w.w.w.w.w.w.w.w.w.w.w.w.w.w.w.w.w.w.w.w.w.w.w.w.3                   1 w.w.w.w.w.w.w.w.w.w.w.w.w.w.w'' @ ''.w.w.w.w.w.w.w.w.w.w.w.w.w.8.@     V P P P *               a w.w.w.w.w.w.w.w.w.w.w.w.w.]     x P P P'' @ '' A                             { w.w.w.w.w.w.w.w.w.w.w.w.w.w.w.w.w.w.w.w.w.w.w.w.w.w.8.             '' @ '' 1 w.w.w.w.w.w.w.w.w.w.w.w.w.w.w.w.w.w.w.w.w.w.w.w.w.w.w.7.                                         '' @ ''                                                                                                    '' @ ''                                                                               '']"

definition title_xpm_19 :: "string list" where
  "title_xpm_19 = [
     ''                                                                                                    '' @
       ''                                                                                                    '' @
       ''                  + q.w.w.w.w.w.w.w.w.w.w.w.w.w.w.w.w.w.w.w.w.w.w.w.2.                    1 w.w.w.w.'' @
       ''w.w.w.w.w.w.w.w.w.w.w.w.w.w.w.w.w.w.w.w.w.w.w.w.w...    6 P P P 8               >.w.w.w.w.w.w.w.w.w.'' @
       ''w.w.w.w.0.+   O P P P P &                         k w.w.w.w.w.w.w.w.w.w.w.w.w.w.w.w.w.w.w.w.w.w.w.w.'' @
       ''w.w.w.[               1 w.w.w.w.w.w.w.w.w.w.w.w.w.w.w.w.w.w.w.w.w.w.w.w.w.w.w.2.                    '' @
       ''                                                                                                    '' @
       ''                                                                                                    '',
     ''                                                                                                    '' @ ''                                                                                                    '' @ ''                  k w.w.w.w.w.w.w.w.w.w.$.^ E K . X @ 1 h { 7.w.w.w.l                     1 w.w.w.w.'' @ ''w.w.w.w.w.w.0.q.q.w.w.w.w.w.w.w.w.w.w.w.w.w.w.w.w.w.u   . P P P q             3 w.w.w.w.w.w.w.w.w.w.'' @ ''w.w.w.w.w.k     N P P P b                       1 w.w.w.w.w.w.w.w.w.w.w.w.w.0.o.] l k '' @ [CHR 0x27] @ '' [  .7.w.w.w.w.w.w.3               1 w.w.w.w.w.w.w.w.w.w.w.w.w.w.w.w.w.w.w.w.w.w.w.w.w.w.w.7.       '' @ ''                                                                                                    '' @ ''                                                                                                    '' @ ''             '',
     ''                                                                                                    '' @
       ''                                                                                                    '' @
       ''                  o.w.w.w.w.w.w.w.w.w.j 9 P P P B .           u ..w.,                     1 w.w.w.w.'' @
       ''w.w.w.w.w.1   D P P $ @ 3 j o.w.w.w.w.w.w.w.w.w.w.w. .    A P P z              .w.w.w.w.w.w.w.w.w.w.'' @
       ''w.w.w.w.w.7.X   * P P P L o                     >.w.w.w.w.w.w.w.w.w.w.w.5.g X                 + s ..'' @
       ''q.w.2.                1 w.w.w.w.w.w.w.w.w.<   D P P #                                               '' @
       ''                                                                                                    '' @
       ''                                                                                                    '']"

definition title_xpm_20 :: "string list" where
  "title_xpm_20 = [
     ''                                                                                                    '' @ ''                                                                                                    '' @ ''                  7.w.w.w.w.w.w.w.w.>.  7 P P P P D 4             @                       1 w.w.w.w.'' @ ''w.w.w.w.w.<   D P P #         3 7.w.w.w.w.w.w.w.w.w.0.X   b P P z           > w.w.w.w.w.w.w.w.7.w.w.'' @ ''w.w.w.w.w.w.a     S P P P 0                   h w.w.w.w.w.w.w.w.w.w.w./ A                           '' @ ''+ '' @ [CHR 0x27] @ '' k                 1 w.w.w.w.w.w.w.w.w.<   D P P $                                                  '' @ ''                                                                                                    '' @ ''                                                                                                 '',
     ''                                                                                                    '' @
       ''                                                                                                    '' @
       ''                  w.w.w.w.w.w.w.w.w.{   o L P P P P P S 8 .                               1 w.w.w.w.'' @
       ''w.w.w.w.w.<   D P P $           , 0.w.w.w.w.w.w.w.w.w.1   z P P q           ] w.w.w.w.w.w.w.q.3 w.w.'' @
       ''w.w.w.w.w.w.:.    8 P P P D                   <.w.w.w.w.w.w.w.w.w.q.f P 8                           '' @
       ''                      1 w.w.w.w.w.w.w.w.w.,   D P P $                                               '' @
       ''                                                                                                    '' @
       ''                                                                                                    '',
     ''                                                                                                    '' @
       ''                                                                                                    '' @
       ''                X w.w.w.w.w.w.w.w.w.{   . 5 L P P P P P P L M *                           1 w.w.w.w.'' @
       ''w.w.w.w.w.<   D P P $             ] w.w.w.w.w.w.w.w.w.h   q P P 7         X 8.w.w.w.w.w.w.w...o 4.w.'' @
       ''w.w.w.w.w.w.w.1   . J P P P 4               i w.w.w.w.w.w.w.w.w.w.k A P #                           '' @
       ''                      1 w.w.w.w.w.w.w.w.w.<   D P P P P P P P P P P P P P P P P P P S               '' @
       ''                                                                                                    '' @
       ''                                                                                                    '']"

definition title_xpm_21 :: "string list" where
  "title_xpm_21 = [
     ''                                                                                                    '' @
       ''                                                                                                    '' @
       ''                X w.w.w.w.w.w.w.w.w.8.X     $ V P P P P P P P P D 9 .                     1 w.w.w.w.'' @
       ''w.w.w.w.w.,   D P P $             u w.w.w.w.w.w.w.w.w.l   q P P &         h w.w.w.w.w.w.w.w.i 9 _ w.'' @
       ''w.w.w.w.w.w.w.{     x P P P N                .w.w.w.w.w.w.w.w.w...* P L                             '' @
       ''                      1 w.w.w.w.w.w.w.w.w.<   D P P P P P P P P P P P P P P P P P P A               '' @
       ''                                                                                                    '' @
       ''                                                                                                    '',
     ''                                                                                                    '' @
       ''                                                                                                    '' @
       ''                  8.w.w.w.w.w.w.w.w.w...X       & b L P P P P P P P L x o                 1 w.w.w.w.'' @
       ''w.w.w.w.w.<   D P P #             < w.w.w.w.w.w.w.w.w.]   z P J           >.w.w.w.w.w.w.w.8.  D U 0.'' @
       ''w.w.w.w.w.w.w.0.+   $ P P P P o           X 0.w.w.w.w.w.w.w.w.w.3 b P D                             '' @
       ''                      1 w.w.w.w.w.w.w.w.w.,   D P P P P P P P P P P P P P P P P P P S               '' @
       ''                                                                                                    '' @
       ''                                                                                                    '',
     ''                                                                                                    '' @ ''                                                                                                    '' @ ''                  o.w.w.w.w.w.w.w.w.w.w.<.u         . 7 A P P P P P P P P q .             1 w.w.w.w.'' @ ''w.w.w.w.w.<   D P P 4 # # # $ * 6 C w.w.w.w.w.w.w.w.w.'' @ [CHR 0x27] @ ''   M P b         1 w.w.w.w.w.w.w.w.] & P N | w.w.w.w.w.w.w.w.k     V P P P 0           u w.w.w.w.w.w'' @ ''.w.w.w.:.  D P A                                                   1 w.w.w.w.w.w.w.w.w.<            '' @ ''                       * P P S                                                                      '' @ ''                                                                                                    '' @ ''                                             '']"

definition title_xpm_22 :: "string list" where
  "title_xpm_22 = [
     ''                                                                                                    '' @
       ''                                                                                                    '' @
       ''                  k w.w.w.w.w.w.w.w.w.w.w.w.>.h X         $ x L P P P P P P D #           1 w.w.w.w.'' @
       ''w.w.w.w.w.,   D P P P P P P P P P ~ w.w.w.w.w.w.w.w.w.k   D P &         { w.w.w.w.w.w.w.w.< v P 5 u '' @
       ''w.w.w.w.w.w.w.w.2.    6 P P P D           l w.w.w.w.w.w.w.w.w.h . P P V                             '' @
       ''                      1 w.w.w.w.w.w.w.w.w.<                                   & P P S               '' @
       ''                                                                                                    '' @
       ''                                                                                                    '',
     ''                                                                                                    '' @
       ''                                                                                                    '' @
       ''                  + 0.w.w.w.w.w.w.w.w.w.w.w.w.w.0.| 3         . 0 H P P P P P J *         1 w.w.w.w.'' @
       ''w.w.w.w.w.<   D P P P P P P P P J #.w.w.w.w.w.w.w.w.w.s . P b         X 0.w.w.w.w.w.w.w.>.. J J .   '' @
       ''2.w.w.w.w.w.w.w.w.3   . J P P P *         | w.w.w.w.w.w.w.w.w., $ P P A                             '' @
       ''                      1 w.w.w.w.w.w.w.w.w.w.w.w.w.w.w.w.w.w.w.w.w.w.w.w.w.:.  * P P A               '' @
       ''                                                                                                    '' @
       ''                                                                                                    '',
     ''                                                                                                    '' @
       ''                                                                                                    '' @
       ''                    k w.w.w.w.w.w.w.w.w.w.w.w.w.w.w.w.<.k X       . z P P P P P J O       1 w.w.w.w.'' @
       ''w.w.w.w.w.<   V F H F D A N z 4 p w.w.w.w.w.w.w.w.w.w.1 8 D .         j w.w.w.w.w.w.w.w.j 6 P b     '' @
       ''l w.w.w.w.w.w.w.w. .    x P P P b         >.w.w.w.w.w.w.w.w.0.  * P P S                             '' @
       ''                      1 w.w.w.w.w.w.w.w.w.w.w.w.w.w.w.w.w.w.w.w.w.w.w.w.w.>.  & P P S               '' @
       ''                                                                                                    '' @
       ''                                                                                                    '']"

definition title_xpm_23 :: "string list" where
  "title_xpm_23 = [
     ''                                                                                                    '' @ ''                                                                                                    '' @ ''                    X :.w.w.w.w.w.w.w.w.w.w.w.w.w.w.w.w.w.0.] @       $ D P P P P S       1 w.w.w.w.'' @ ''w.w.w.w.w.,                 + '' @ [CHR 0x27] @ '' q.w.w.w.w.w.w.w.w.w.0.  B O           <.w.w.w.w.w.w.w.0.+ B P *     > w.w.w.w.w.w.w.w.q.+   $ P P P'' @ '' L X       7.w.w.w.w.w.w.w.w.<.  4 P P F                                                   1 w.w.w.w'' @ ''.w.w.w.w.w.w.w.w.w.w.w.w.w.w.w.w.w.w.w.w.w.>.  $ D D M                                              '' @ ''                                                                                                    '' @ ''                                                                     '',
     ''                                                                                                    '' @
       ''                                                                                                    '' @
       ''                      X <.w.w.w.w.w.w.w.w.w.w.w.w.w.w.w.w.w.w.0.l X     o A P P P P 5     1 w.w.w.w.'' @
       ''w.w.w.w.w.u > > > , 3 s l ..0.w.w.w.w.w.w.w.w.w.w.w.{ * o           1 w.w.w.w.w.w.w.w. .o L H       '' @
       ''  o.w.w.w.w.w.w.w.w.k     A P P P 8       0.w.w.w.w.w.w.w.w.:.  * P P P .                           '' @
       ''                      1 w.w.w.w.w.w.w.w.w.w.w.w.w.w.w.w.w.w.w.w.w.w.w.w.w.>.                        '' @
       ''                                                                                                    '' @
       ''                                                                                                    '',
     ''                                                                                                    '' @
       ''                                                                                                    '' @
       ''                        + ..w.w.w.w.w.w.w.w.w.w.w.w.w.w.w.w.w.w.w.<.,     o H P P P V     1 w.w.w.w.'' @
       ''w.w.w.w.w.w.w.w.w.w.w.w.w.w.w.w.w.w.w.w.w.w.w.w.w.w.2               { w.w.w.w.w.w.w.w.i 9 P D x v v '' @
       ''v Q w.w.w.w.w.w.w.w.<.    8 P P P A       q.w.w.w.w.w.w.w.w.o.  & P P P &                           '' @
       ''                      1 w.w.w.w.w.w.w.w.w.w.w.w.w.w.w.w.w.w.w.w.w.w.w.w.w.:.                        '' @
       ''                                                                                                    '' @
       ''                                                                                                    '']"

definition title_xpm_24 :: "string list" where
  "title_xpm_24 = [
     ''                                                                                                    '' @
       ''                                                                                                    '' @
       ''                            j 8.w.w.w.w.w.w.w.w.w.w.w.w.w.w.w.w.w.w.8.3     & P P P P .   1 w.w.w.w.'' @
       ''w.w.w.w.w.w.w.w.w.w.w.w.w.w.w.w.w.w.w.w.w.w.w.w.w.|               X 8.w.w.w.w.w.w.w.8.X A P P P P P '' @
       ''P U w.w.w.w.w.w.w.w.w.3   . L P P P O     w.w.w.w.w.w.w.w.w.:.  O P P P 9                           '' @
       ''                      1 w.w.w.w.w.w.w.w.w.w.w.w.w.w.w.w.w.w.w.w.w.w.w.w.w.>.                        '' @
       ''                                                                                                    '' @
       ''                                                                                                    '',
     ''                                                                                                    '' @
       ''                                                                                                    '' @
       ''                              X l 7.w.w.w.w.w.w.w.w.w.w.w.w.w.w.w.w.w.8.>     B P P P 4   1 w.w.w.w.'' @
       ''w.w.w.w.w.w.w.w.w.w.w.w.w.w.w.w.w.w.w.w.w.w.w.w.2.X               s w.w.w.w.w.w.w.w.{ o P P P P P P '' @
       ''P P =.w.w.w.w.w.w.w.w.{     b P P P q     0.w.w.w.w.w.w.w.w.>.    P P P A                           '' @
       ''                      1 w.w.w.w.w.w.w.w.w.w.w.w.w.w.w.w.w.w.w.w.w.w.w.w.w.>.                        '' @
       ''                                                                                                    '' @
       ''                                                                                                    '',
     ''                                                                                                    '' @
       ''                                                                                                    '' @
       ''                                    a o.w.w.w.w.w.w.w.w.w.w.w.w.w.w.w.w.>.    * P P P 7   1 w.w.w.w.'' @
       ''w.w.w.w.w.w.w.w.w.w.w.w.w.w.w.w.w.w.w.w.w.w.w.2.@                 o.w.w.w.w.w.w.w.w.3 $ 9 9 0 9 9 9 '' @
       ''9 9 W w.w.w.w.w.w.w.w.0.X   4 P P P D     8.w.w.w.w.w.w.w.w.7.    S P P P #                         '' @
       ''                      1 w.w.w.w.w.w.w.w.w.2.<.6.6.6.1.<.<.<.<.<.<.<.<.<.<.|                         '' @
       ''                                                                                                    '' @
       ''                                                                                                    '']"

definition title_xpm_25 :: "string list" where
  "title_xpm_25 = [
     ''                                                                                                    '' @
       ''                                                                                                    '' @
       ''                                        > l 2.w.w.w.w.w.w.w.w.w.w.w.w.w.w.i   . L P P 0   1 w.w.w.w.'' @
       ''w.w.w.w.w.w.w.w.w.w.w.w.w.w.w.w.w.w.w.w.w.w. .+                 > w.w.w.w.w.w.w.w.7..               '' @
       ''    X 0.w.w.w.w.w.w.w.w.h     H P P P &   <.w.w.w.w.w.w.w.w.w.X   v P P P B                         '' @
       ''                      1 w.w.w.w.w.w.w.w.w.<   D P P $                                               '' @
       ''                                                                                                    '' @
       ''                                                                                                    '',
     ''                                                                                                    '' @
       ''                                                                                                    '' @
       ''                                              u ..w.w.w.w.w.w.w.w.w.w.w.w.o.    V P P q   1 w.w.w.w.'' @
       ''w.w.w.w.w.w.w.w.w.w.w.w.w.w.w.w.w.w.w.w.:.u                     l w.w.w.w.w.w.w.w.<.[ [ [ [ [ ] [ [ '' @
       ''] [ [ 2.w.w.w.w.w.w.w.w.o.    z P P P b   o.w.w.w.w.w.w.w.w.w.1   * P P P P 7                       '' @
       ''                      1 w.w.w.w.w.w.w.w.w.<   D P P #                                               '' @
       ''                                                                                                    '' @
       ''                                                                                                    '',
     ''                                                                                                    '' @
       ''                                                                                                    '' @
       ''                                                  1 :.w.w.w.w.w.w.w.w.w.w.q.X   M P P q   1 w.w.w.w.'' @
       ''w.w.w.w.w.w.w.w.w.w.w.w.w.w.w.w.w.2.[ 1                         2.w.w.w.w.w.w.w.w.w.w.w.w.w.w.w.w.w.'' @
       ''w.w.w.w.w.w.w.w.w.w.w.w.w.@   # P P P J   { w.w.w.w.w.w.w.w.w.j     D P P P L 4                     '' @
       ''                      1 w.w.w.w.w.w.w.w.w.<   D P P #                                               '' @
       ''                                                                                                    '' @
       ''                                                                                                    '']"

definition title_xpm_26 :: "string list" where
  "title_xpm_26 = [
     ''                                                                                                    '' @ ''                                                                                                    '' @ ''                              * z o                   '' @ [CHR 0x27] @ '' w.w.w.w.w.w.w.w.w.w.3   x P P 7   1 w.w.w.w.w.w.w.w.w.w.w.w.w.w.0.2.>. .'' @ [CHR 0x27] @ '' s >                             3 w.w.w.w.w.w.w.w.w.w.w.w.w.w.w.w.w.w.w.w.w.w.w.w.w.w.w.w.w.w.w.l  '' @ ''   A P P P 5 h w.w.w.w.w.w.w.w.w.:.    5 P P P P P 0 .                             O z $ .   1 w.w.w'' @ ''.w.w.w.w.w.w.,   D P P $                                                                            '' @ ''                                                                                                    '' @ ''                                                                       '',
     ''                                                                                                    '' @
       ''                                                                                                    '' @
       ''                              b P L M 5 .               ..w.w.w.w.w.w.w.w.w.s   q P P &   1 w.w.w.w.'' @
       ''w.w.w.w.w.<   D P P #                                         { w.w.w.w.w.w.w.w.w.w.w.w.w.w.w.w.w.w.'' @
       ''w.w.w.w.w.w.w.w.w.w.w.w.w.2.    9 P P P N 1 w.w.w.w.w.w.w.w.w.w.,     N P P P P P D 6 .             '' @
       ''      o 7 B P P x     1 w.w.w.w.w.w.w.w.w.<   D P P $                                               '' @
       ''                                                                                                    '' @
       ''                                                                                                    '',
     ''                                                                                                    '' @
       ''                                                                                                    '' @
       ''                            . J P P P P J B q 6 * $ # # d w.w.w.w.w.w.w.w.w.k   x P J X   1 w.w.w.w.'' @
       ''w.w.w.w.w.<   D P P $                                       X 0.w.w.w.w.w.w.w.w.w.w.w.w.w.w.w.w.w.w.'' @
       ''w.w.w.w.w.w.w.w.w.w.w.w.w.w.3   o L P P L . 7.w.w.w.w.w.w.w.w.w...    . B P P P P P P L V v q 0 0 z '' @
       ''b B H P P P P P F     1 w.w.w.w.w.w.w.w.w.<   D P P P P P P P P P P P P P P P P P P P P P P 4       '' @
       ''                                                                                                    '' @
       ''                                                                                                    '']"

definition title_xpm_27 :: "string list" where
  "title_xpm_27 = [
     ''                                                                                                    '' @
       ''                                                                                                    '' @
       ''                            4 P P P P P P P P P P P P P E w.w.w.w.w.w.w.w.w.l   b P b     1 w.w.w.w.'' @
       ''w.w.w.w.w.<   D P P $                                       a w.w.w.w.w.w.w.w.w.w.w.w.w.w.w.w.w.w.w.'' @
       ''w.w.w.w.w.w.w.w.w.w.w.w.w.w.{     B P P P 8 { w.w.w.w.w.w.w.w.w.w.s     . x P P P P P P P P P P P P '' @
       ''P P P H 0 S P P P &   1 w.w.w.w.w.w.w.w.w.<   D P P P P P P P P P P P P P P P P P P P P P P 4       '' @
       ''                                                                                                    '' @
       ''                                                                                                    '',
     ''                                                                                                    '' @
       ''                                                                                                    '' @
       ''                            . 7 B P P P P P P P P P P P ! w.w.w.w.w.w.w.w.w.l   S P #     1 w.w.w.w.'' @
       ''w.w.w.w.w.,   D P P $                                       ..w.w.w.w.w.w.w.w.w.w.w.w.w.w.w.w.w.w.w.'' @
       ''w.w.w.w.w.w.w.w.w.w.w.w.w.w.8.X   6 P P P V 3 w.w.w.w.w.w.w.w.w.w.0.i       $ N P P P P P P P P P P '' @
       ''H M 6 .   q P P P x   1 w.w.w.w.w.w.w.w.w.,   D P P P P P P P P P P P P P P P P P P P P P P 4       '' @
       ''                                                                                                    '' @
       ''                                                                                                    '',
     ''                                                                                                    '' @ ''                                                                                                    '' @ ''                    1 '' @ [CHR 0x27] @ '' +         o 5 z M A D F F D B q } w.w.w.w.w.w.w.w.w.h o P z       1 w.w.w.w.w.w.w.w.w.<   D P P $  '' @ ''                                   + q.w.w.w.w.w.w.w.w.w.w.w.w.w.w.w.w.w.w.w.w.w.w.w.w.w.w.w.w.w.w.w'' @ ''.w.w.w.i   . L P P P o <.w.w.w.w.w.w.w.w.w.w.0.k         . 4 9 z x x q 9 4 O   @ ] <   # P P P H   1'' @ '' w.w.w.w.w.w.w.w.w.<                                           V P P 4                              '' @ ''                                                                                                    '' @ ''                                                                             '']"

definition title_xpm_28 :: "string list" where
  "title_xpm_28 = [
     ''                                                                                                    '' @
       ''                                                                                                    '' @
       ''                    { w.0.| i                         k w.w.w.w.w.w.w.w.w.w.1 8 B         1 w.w.w.w.'' @
       ''w.w.w.w.w.<   D P P $                                     j w.w.w.w.w.w.w.w.w.1 z P q               '' @
       ''          u w.w.w.w.w.w.w.w.w. .    b P P P 0 a w.w.w.w.w.w.w.w.w.w.w.w.<.s X                   @ s '' @
       ''..q.w.]     S P P P * 1 w.w.w.w.w.w.w.w.w.<                                           V P P 4       '' @
       ''                                                                                                    '' @
       ''                                                                                                    '',
     ''                                                                                                    '' @ ''                                                                                                    '' @ ''                  X 8.w.w.w.w.8...l a 3 < > , < i l <.w.w.w.w.w.w.w.w.w.w.0.X x .         1 w.w.w.w.'' @ ''w.w.w.w.w.<   D P P #                                     :.w.w.w.w.w.w.w.w.2.  D P #               '' @ ''            7.w.w.w.w.w.w.w.w.0.X   4 P P P A   :.w.w.w.w.w.w.w.w.w.w.w.w.w.0.o.[ l k k '' @ [CHR 0x27] @ '' { ..7.w.w.w.w.w.2.    0 P P P x 1 w.w.w.w.w.w.w.w.w.w.w.w.w.w.w.w.w.w.w.w.w.w.w.w.w.w.w.w.w.u   V P'' @ '' P 4                                                                                                '' @ ''                                                                                                    '' @ ''           '',
     ''                                                                                                    '' @ ''                                                                                                    '' @ ''                  i w.w.w.w.w.w.w.w.w.w.w.w.w.w.w.w.w.w.w.w.w.w.w.w.w.w.w.{ $             1 w.w.w.w.'' @ ''w.w.w.w.w.<   D P P $                                   > w.w.w.w.w.w.w.w.w.'' @ [CHR 0x27] @ '' & P S                             ] w.w.w.w.w.w.w.w.w.h     J P P P # > 0.w.w.w.w.w.w.w.w.w.w.w.w.w'' @ ''.w.w.w.w.w.w.w.w.w.w.w.w.w.w.w.3   o P H 0 . 1 w.w.w.w.w.w.w.w.w.w.w.w.w.w.w.w.w.w.w.w.w.w.w.w.w.w.w'' @ ''.w.w.u   V P P 4                                                                                    '' @ ''                                                                                                    '' @ ''                       '']"

definition title_xpm_29 :: "string list" where
  "title_xpm_29 = [
     ''                                                                                                    '' @
       ''                                                                                                    '' @
       ''                  | w.w.w.w.w.w.w.w.w.w.w.w.w.w.w.w.w.w.w.w.w.w.w.w.w.w.q.<               1 w.w.w.w.'' @
       ''w.w.w.w.w.,   D P P $                                   l w.w.w.w.w.w.w.w.w.< z P q                 '' @
       ''            1 w.w.w.w.w.w.w.w.w.o.    v P P P q   s w.w.w.w.w.w.w.w.w.w.w.w.w.w.w.w.w.w.w.w.w.w.w.w.'' @
       ''w.w.w.w.]     *       1 w.w.w.w.w.w.w.w.w.w.w.w.w.w.w.w.w.w.w.w.w.w.w.w.w.w.w.w.w.u   V P P 4       '' @
       ''                                                                                                    '' @
       ''                                                                                                    '',
     ''                                                                                                    '' @ ''                                                                                                    '' @ ''                X 0.w.w.w.w.w.w.w.w.w.w.w.w.w.w.w.w.w.w.w.w.w.w.w.w.w.w.'' @ [CHR 0x27] @ ''                 1 w.w.w.w.w.w.w.w.w.<                                             <.w.w.w.w.w.w.w.w'' @ ''.>.                                      2.w.w.w.w.w.w.w.w.w.@                 k w.w.w.w.w.w.w.w.w.w'' @ ''.w.w.w.w.w.w.w.w.w.w.w.w.w.w.w.w.w.7.            1 w.w.w.w.w.w.w.w.w.w.w.w.w.w.w.w.w.w.w.w.w.w.w.w.w'' @ ''.w.w.w.w.u                                                                                          '' @ ''                                                                                                    '' @ ''                           '',
     ''                                                                                                    '' @ ''                                                                                                    '' @ ''                a w.w.w.w.w.w.w.w.w.w.w.w.w.w.w.w.w.w.w.w.w.w.w.w.w.w...                  1 w.w.w.w.'' @ ''w.w.w.w.w.<                                           1 w.w.w.w.w.w.w.w.w.k                         '' @ ''              '' @ [CHR 0x27] @ '' w.w.w.w.w.w.w.w.w.j                   j q.w.w.w.w.w.w.w.w.w.w.w.w.w.w.w.w.w.w.w.w.w.w.w.w.w.w.3    '' @ ''       1 w.w.w.w.w.w.w.w.w.w.w.w.w.w.w.w.w.w.w.w.w.w.w.w.w.w.w.w.w.u                                '' @ ''                                                                                                    '' @ ''                                                                                     '']"

definition title_xpm_30 :: "string list" where
  "title_xpm_30 = [
     ''                                                                                                    '' @
       ''                                                                                                    '' @
       ''                | w.w.w.w.w.w.w.w.w.w.w.w.w.w.w.w.w.w.w.w.w.w.w.w.w.| X                   1 w.w.w.w.'' @
       ''w.w.w.w.w.,                                           ] w.w.w.w.w.w.w.w.w.,                         '' @
       ''              1 w.w.w.w.w.w.w.w.w.>.                    3 7.w.w.w.w.w.w.w.w.w.w.w.w.w.w.w.w.w.w.w.w.'' @
       ''w.w.w.w.w.]           1 w.w.w.w.w.w.w.w.w.w.w.w.w.w.w.w.w.w.w.w.w.w.w.w.w.w.w.w.w.u                 '' @
       ''                                                                                                    '' @
       ''                                                                                                    '',
     ''                                                                                                    '' @
       ''                                                                                                    '' @
       ''                X j 7.w.w.w.w.w.w.w.w.w.w.w.w.w.w.w.w.w.w.w.w.w.8.h                       1 w.w.w.w.'' @
       ''w.w.w.w.w.<                                           7.w.w.w.w.w.w.w.w.>.                          '' @
       ''                2.w.w.w.w.w.w.w.w.w.>                     X l 0.w.w.w.w.w.w.w.w.w.w.w.w.w.w.w.w.w.w.'' @
       ''w.w.w.7.k X           1 w.w.w.w.w.w.w.w.w.w.w.w.w.w.w.w.w.w.w.w.w.w.w.w.w.w.w.w.w.u                 '' @
       ''                                                                                                    '' @
       ''                                                                                                    '',
     ''                                                                                                    '' @ ''                                                                                                    '' @ ''                    X u { 8.w.w.w.w.w.w.w.w.w.w.w.w.w.w.w.w.<.j X                         1 w.w.w.w.'' @ ''w.w.w.w.w.<                                         3 w.w.w.w.w.w.w.w.w.l                           '' @ ''                '' @ [CHR 0x27] @ '' w.w.w.w.w.w.w.w.w.l                         X j >.w.w.w.w.w.w.w.w.w.w.w.w.w.w.w.w.8.{ i            '' @ ''     1 w.w.w.w.w.w.w.w.w.w.w.w.w.w.w.w.w.w.w.w.w.w.w.w.w.w.w.w.w.u                                  '' @ ''                                                                                                    '' @ ''                                                                                   '']"

definition title_xpm_31 :: "string list" where
  "title_xpm_31 = [
     ''                                                                                                    '' @
       ''                                                                                                    '' @
       ''                            < s [ ..<.8.0.q.w.0.8.2.o.[ s >                                         '' @
       ''                                                                                                    '' @
       ''                                                                    @ a ] ..<.8.0.w.w.0.8.<...[ h < '' @
       ''                                                                                                    '' @
       ''                                                                                                    '' @
       ''                                                                                                    '',
     ''                                                                                                    '' @
       ''                                                                                                    '' @
       ''                                                                                                    '' @
       ''                                                                                                    '' @
       ''                                                                                                    '' @
       ''                                                                                                    '' @
       ''                                                                                                    '' @
       ''                                                                                                    '',
     ''                                                                                                    '' @
       ''                                                                                                    '' @
       ''                                                                                                    '' @
       ''                                                                                                    '' @
       ''                                                                                                    '' @
       ''                                                                                                    '' @
       ''                                                                                                    '' @
       ''                                                                                                    '']"

definition title_xpm_32 :: "string list" where
  "title_xpm_32 = [
     ''                                                                                                    '' @
       ''                                                                                                    '' @
       ''                                                                                                    '' @
       ''                                                                                                    '' @
       ''                                                                                                    '' @
       ''                                                                                                    '' @
       ''                                                                                                    '' @
       ''                                                                                                    '',
     ''                                                                                                    '' @
       ''                                                                                                    '' @
       ''                                                                                                    '' @
       ''                                                                                                    '' @
       ''                                                                                                    '' @
       ''                                                                                                    '' @
       ''                                                                                                    '' @
       ''                                                                                                    '',
     ''                                                                                                    '' @
       ''                                                                                                    '' @
       ''                                                                                                    '' @
       ''                                                                                                    '' @
       ''                                                                                                    '' @
       ''                                                                                                    '' @
       ''                                                                                                    '' @
       ''                                                                                                    '']"

definition title_xpm_33 :: "string list" where
  "title_xpm_33 = [
     ''                                                                                                    '' @
       ''                                                                                                    '' @
       ''                                                                                                    '' @
       ''                                                                                                    '' @
       ''                                                                                                    '' @
       ''                                                                                                    '' @
       ''                                                                                                    '' @
       ''                                                                                                    '',
     ''                                                                                                    '' @
       ''                                                                                                    '' @
       ''                                                                                                    '' @
       ''                                                                                                    '' @
       ''                                                                                                    '' @
       ''                                                                                                    '' @
       ''                                                                                                    '' @
       ''                                                                                                    '',
     ''                                                                                                    '' @
       ''                                                                                                    '' @
       ''                                                                                                    '' @
       ''                                                                                                    '' @
       ''                                                                                                    '' @
       ''                                                                                                    '' @
       ''                                                                                                    '' @
       ''                                                                                                    '']"

definition title_xpm_34 :: "string list" where
  "title_xpm_34 = [
     ''                                                                                                    '' @
       ''                                                                                                    '' @
       ''                                                                                                    '' @
       ''                                                                                                    '' @
       ''                                                                                                    '' @
       ''                                                                                                    '' @
       ''                                                                                                    '' @
       ''                                                                                                    '',
     ''                                                                                                    '' @
       ''                                                                                                    '' @
       ''                                                                                                    '' @
       ''                                                                                                    '' @
       ''                                                                                                    '' @
       ''                                                                                                    '' @
       ''                                                                                                    '' @
       ''                                                                                                    '',
     ''                                                                                                    '' @
       ''                                                                                                    '' @
       ''                                                                                                    '' @
       ''                                                                                                    '' @
       ''                                                                                                    '' @
       ''                                                                                                    '' @
       ''                                                                                                    '' @
       ''                                                                                                    '']"

definition title_xpm_35 :: "string list" where
  "title_xpm_35 = [
     ''                                                                                                    '' @
       ''                                                                                                    '' @
       ''                                                                                                    '' @
       ''                                                                                                    '' @
       ''                                                                                                    '' @
       ''                                                                                                    '' @
       ''                                                                                                    '' @
       ''                                                                                                    '',
     ''                                                                                                    '' @
       ''                                                                                                    '' @
       ''                                                                                                    '' @
       ''                                                                                                    '' @
       ''                                                                                                    '' @
       ''                                                                                                    '' @
       ''                                                                                                    '' @
       ''                                                                                                    '',
     ''                                                                                                    '' @
       ''                                                                                                    '' @
       ''                                                                                                    '' @
       ''                                                                                                    '' @
       ''                                                                                                    '' @
       ''                                                                                                    '' @
       ''                                                                                                    '' @
       ''                                                                                                    '']"

definition title_xpm_36 :: "string list" where
  "title_xpm_36 = [
     ''                                                                                                    '' @
       ''                                                                                                    '' @
       ''                                                                                                    '' @
       ''                                                                                                    '' @
       ''                                                                                                    '' @
       ''                                                                                                    '' @
       ''                                                                                                    '' @
       ''                                                                                                    '',
     ''                                                                                                    '' @
       ''                                                                                                    '' @
       ''                                                                                                    '' @
       ''                                                                                                    '' @
       ''                                                                                                    '' @
       ''                                                                                                    '' @
       ''                                                                                                    '' @
       ''                                                                                                    '',
     ''                                                                                                    '' @
       ''                                                                                                    '' @
       ''                                                                                                    '' @
       ''                                                                                                    '' @
       ''                                                                                                    '' @
       ''                                                                                                    '' @
       ''                                                                                                    '' @
       ''                                                                                                    '']"

definition title_xpm_37 :: "string list" where
  "title_xpm_37 = [
     ''                                                                                                    '' @
       ''                                                                                                    '' @
       ''                                                                                                    '' @
       ''                                                                                                    '' @
       ''                                                                                                    '' @
       ''                                                                                                    '' @
       ''                                                                                                    '' @
       ''                                                                                                    '',
     ''                                                                                                    '' @
       ''                                                                                                    '' @
       ''                                                                                                    '' @
       ''                                                                                                    '' @
       ''                                                                                                    '' @
       ''                                                                                                    '' @
       ''                                                                        . o O o .                   '' @
       ''                                                                                                    '',
     ''                                                                                                    '' @
       ''                o 6 7 6 7 7 7 7 6 7 .                 o 6 7 7 6 7 7 7 &                             '' @
       ''        * 7 6 7 7 6 7 7 7 &         $ z z z q z z q z q q                                           '' @
       ''$ q q z q z z q z z 6                                                                               '' @
       ''        . 5 0 M A D H L L L L L L L J H D A N z 7 $                                                 '' @
       ''                                                                                      . . o O O o . '' @
       ''                                                              o 8 b D J P P P P P L D N 0 &         '' @
       ''                                                                                                    '']"

definition title_xpm_38 :: "string list" where
  "title_xpm_38 = [
     ''                                                                                                    '' @
       ''                & P P P P P P P P P $                 & P P P P P P P L *                           '' @
       ''        V P P P P P P P P x         o P P P P P P P P P P 4                                         '' @
       ''v P P P P P P P P P 8                       . o P P P P P P P P P 6                                 '' @
       ''        & P P P P P P P P P P P P P P P P P P P P P J N 7 .                                     & P '' @
       ''P P P P P P P P P P P P P P P P P P P P P P P P P P H                 # 5 q b B S H L P P P P P P P '' @
       ''P H A b 9 & .                                             * M P P P P P P P P P P P P P P P H z #   '' @
       ''                                                                                                    '',
     ''                                                                                                    '' @
       ''                & P P P P P P P P P #                 & P P P P P P P P L &                         '' @
       ''        V P P P P P P P P v           V P P P P P P P P P b                                         '' @
       ''H P P P P P P P P P .                         z P P P P P P P P P A                                 '' @
       ''        & P P P P P P P P P P P P P P P P P P P P P P P P L x O                                 & P '' @
       ''P P P P P P P P P P P P P P P P P P P P P P P P P P F               & P P P P P P P P P P P P P P P '' @
       ''P P P P P P J b *                                     o N P P P P P J H J L P P P P P P P P P P P B '' @
       ''$                                                                                                   '',
     ''                                                                                                    '' @
       ''                # M M N M M M L P P $                 # N M M N S P P P P H O                       '' @
       ''        q N M M N M S P P v           & q q z q q z P P P H                                     . o '' @
       ''z q z q q z q N P N                         . J P P P P P P P P P P &                               '' @
       ''        o & $ O . . . . . . . o o $ * 6 q M D P P P P P P P P L z .                             & P '' @
       ''P P P P P P P P P P P P P P P P P P P P P P P P P P H               & P P P P P P L H H H J L P P P '' @
       ''P P P P P P P P P A 4                               & H H M 8 & .           . # 6 x S P P P P P P P '' @
       ''5                                                                                                   '']"

definition title_xpm_39 :: "string list" where
  "title_xpm_39 = [
     ''                                                                                                    '' @
       ''                              D P P $                           . A P P P P S .                     '' @
       ''                    9 P P v                         V P P P *                                       '' @
       ''              b P 7                                         N P P P N                               '' @
       ''                                              o 6 N L P P P P P P D #                               '' @
       ''                                              # P P H               o 8 5 & o .               . o * '' @
       ''8 v S P P P P P P P P b .                         $ N 6         + @ + X               O q D P P P J '' @
       ''.                                                                                                   '',
     ''                                                                                                    '' @ ''      + a s a s s s a s s X   D P P $       + s s a s s s a 1     . S P P P P B                   u '' @ ''s a s s a s s s 1   9 P P Z l '' @ [CHR 0x27] @ '' '' @ [CHR 0x27] @ '' '' @ [CHR 0x27] @ '' l '' @ [CHR 0x27] @ '' l '' @ [CHR 0x27] @ '' '' @ [CHR 0x27] @ '' l     9 P P P v                             < W '' @ [CHR 0x27] @ '' l '' @ [CHR 0x27] @ '' '' @ [CHR 0x27] @ '' '' @ [CHR 0x27] @ '' l '' @ [CHR 0x27] @ '' '' @ [CHR 0x27] @ '' a . J L .                                         * P P P P #                           X i k | :.<'' @ ''.7.0.0.0.0.0.0.0.8.7.2.:. .'' @ [CHR 0x27] @ '' s <           . 0 H P P P P P L 4                                                                  '' @ ''         O P P H               .       X X @ - @ + X                 o 8 A P P P P P P A o          '' @ ''           . 5 @ h { <.0.w.w.w.w.w.0.<. .k 1           5 D P v                                      '' @ ''                                                               '',
     ''                                                                                                    '' @ ''      1 w.w.w.w.w.w.w.w.w.<   D P P $       1 w.w.w.w.w.w.w.0.3     o H P P P P z                 o.'' @ ''w.w.w.w.w.w.w.w.]   9 P P m w.w.w.w.w.w.w.w.w.w.u   o P P P H                             [ 0.w.w.w.'' @ ''w.w.w.w.w.s 5 P M                   @ q.w.w.w.w.w.w.w.w.a     S P P P x                           1 '' @ ''w.w.w.w.w.w.w.w.w.w.w.w.w.w.w.w.w.w.w.w.w.8. .a X       . q L P P P P L *             1 w.w.w.w.w.w.'' @ ''w.w.w.w.w.w.w.w.w.w.w.w.w.w.w.w.w.w.w.w.w.7.  O P P F       < a k { ..<.7.0.w.w.w.w.w.w.w.0.7.:.| j '' @ ''1 X         & A P P P P P V                     t  .q.w.w.w.w.w.w.w.w.w.w.w.w.w.w.7.'' @ [CHR 0x27] @ '' ,       B P &                                                                                      '' @ ''               '']"

definition title_xpm_40 :: "string list" where
  "title_xpm_40 = [
     ''                                                                                                    '' @ ''      1 w.w.w.w.w.w.w.w.w.<   D P P #       1 w.w.w.w.w.w.w.w.0.1     & L P P P P 5               o.'' @ ''w.w.w.w.w.w.w.w.[   0 P P v o.w.w.w.w.w.w.w.w.w.[   . A P P P &                           2.w.w.w.w.'' @ ''w.w.w.w.q.+ N P 5                   '' @ [CHR 0x27] @ '' w.w.w.w.w.w.w.w.w.:.    6 P P P L .                         1 w.w.w.w.w.w.w.w.w.w.w.w.w.w.w.w.w.w.w'' @ ''.w.w.w.w.w.0.] @       & D P P P P J #           1 w.w.w.w.w.w.w.w.w.w.w.w.w.w.w.w.w.w.w.w.w.w.w.w.w'' @ ''.w.w.2.  # P P H     1 w.w.w.w.w.w.w.w.w.w.w.w.w.w.w.w.w.w.w.w.w.8.{ 3         8 L P P P P q        '' @ ''       + | w.w.w.w.w.w.w.w.w.w.w.w.w.w.w.w.w.w.w.w...< o P D                                        '' @ ''                                                               '',
     ''                                                                                                    '' @ ''      1 w.w.w.w.w.w.w.w.w.>   D P P $       1 w.w.w.w.w.w.w.w.w.8.@     5 P P P P L $             o.'' @ ''w.w.w.w.w.w.w.w.[   9 P P v h w.w.w.w.w.w.w.w.w.7.    0 P P P x                         3 w.w.w.w.w.'' @ ''w.w.w.w.... L J .                 X 8.w.w.w.w.w.w.w.w.w.w.1     H P P P 0                         1 '' @ ''w.w.w.w.w.w.w.w.w.w.w.w.w.w.w.w.w.w.w.w.w.w.w.w.w.w.0.'' @ [CHR 0x27] @ '' X     . V P P P P A           1 w.w.w.w.w.w.w.w.w.w.w.w.w.w.w.w.w.w.w.w.w.w.w.w.w.w.w.7.  O P P H  '' @ ''   1 w.w.w.w.w.w.w.w.w.w.w.w.w.w.w.w.w.w.w.w.w.w.w.w.>.3       & J P P P L o           1 7.w.w.w.w.w'' @ ''.w.w.w.w.w.w.w.w.w.w.w.w.w.w.w.w.w.i 9 P z                                                          '' @ ''                                             '',
     ''                                                                                                    '' @
       ''      1 w.w.w.w.w.w.w.w.w.<   D P P $       1 w.w.w.w.w.w.w.w.w.w.>.X     q P P P P D .           o.'' @
       ''w.w.w.w.w.w.w.w.[   9 P P x + q.w.w.w.w.w.w.w.w.w.3   O P P P H                         ] w.w.w.w.w.'' @
       ''w.w.w.w.a 7 P b                   j w.w.w.w.w.w.w.w.w.w.w. .    0 P P P F .                       1 '' @
       ''w.w.w.w.w.w.w.w.w.w.w.w.w.w.w.w.w.w.w.w.w.w.w.w.w.w.w.w.<.,     . A P P P P 9         1 w.w.w.w.w.w.'' @
       ''w.w.w.w.w.w.w.w.w.w.w.w.w.w.w.w.w.w.w.w.w.7.              1 w.w.w.w.w.w.w.w.w.w.w.w.w.w.w.w.w.w.w.w.'' @
       ''w.w.w.w.w.w.{ X     4 P P P P 0         < 8.w.w.w.w.w.w.w.w.w.w.w.w.w.w.w.w.w.w.w.w.w.w.8.X z P #   '' @
       ''                                                                                                    '']"

definition title_xpm_41 :: "string list" where
  "title_xpm_41 = [
     ''                                                                                                    '' @
       ''      1 w.w.w.w.w.w.w.w.w.<   D P P $       1 w.w.w.w.w.w.w.w.w.w.w...      B P P P P M           o.'' @
       ''w.w.w.w.w.w.w.w.[   0 P P v   o.w.w.w.w.w.w.w.w.w.[     A P P P *                       7.w.w.w.w.w.'' @
       ''w.w.w.0.X B P *                   2.w.w.w.w.w.w.w.w.w.w.w.w.-   . J P P P 6                       1 '' @
       ''w.w.w.w.w.w.w.w.w.w.w.w.w.w.w.w.w.w.w.w.w.w.w.w.w.w.w.w.w.0.u     o F P P P H .       1 w.w.w.w.w.w.'' @
       ''w.w.w.w.w.w.w.w.w.w.w.w.w.w.w.w.w.w.w.w.w.2.              1 w.w.w.w.w.w.w.w.w.w.w.w.w.w.w.w.w.w.w.w.'' @
       ''w.w.w.w.w.w.w.:.X     x P P P V       X 2.w.w.w.w.w.w.w.w.w.w.w.w.w.w.w.w.w.w.w.w.w.w.w.[     #     '' @
       ''                                                                                                    '',
     ''                                                                                                    '' @ ''      1 w.w.w.w.w.w.w.w.w.,   D P P $       1 w.w.w.w.w.w.w.w.w.w.w.w.'' @ [CHR 0x27] @ ''     . D P P P P 8         o.w.w.w.w.w.w.w.w.[   9 P P v   h w.w.w.w.w.w.w.w.w.7.    0 P P P v      '' @ ''               1 w.w.w.w.w.w.w.w.w.| . P H                   a w.w.w.w.w.w.w.w.w.w.w.w.w.[     x P P'' @ '' P A                       1 w.w.w.w.w.w.w.w.w.w.w.w.w.w.w.w.w.w.w.w.w.w.w.w.w.w.w.w.w.w.0.3     & P'' @ '' P P P 9       1 w.w.w.w.w.w.w.w.w.w.w.w.w.w.w.w.w.w.w.w.w.w.w.w.w.w.w.7.              1 w.w.w.w.w.w'' @ ''.w.w.w.w.w.w.w.w.w.w.w.w.w.w.w.w.w.w.w.w.w.w.o.X   . J P P P .     '' @ [CHR 0x27] @ '' w.w.w.w.w.w.w.w.w.w.w.w.w.w.w.w.w.w.w.w.w.w.w.w.1                                                  '' @ ''                                                             '',
     ''                                                                                                    '' @
       ''      1 w.w.w.w.w.w.w.w.w.<   D P P #       1 w.w.w.w.w.w.w.w.w.w.w.w.w.i     $ L P P P L $       o.'' @
       ''w.w.w.w.w.w.w.w.]   0 P P v   + 0.w.w.w.w.w.w.w.w.w.1   # P P P H                     ] w.w.w.w.w.w.'' @
       ''w.w.w.i 8 P x                   >.w.w.w.w.w.w.w.w.w.w.w.w.w.0.X   O P P P P $                     1 '' @
       ''w.w.w.w.w.w.w.w.w.w.w.w.w.w.w.w.w.w.w.w.w.w.w.w.w.w.w.w.w.w.w.8.>     b P P P S       1 w.w.w.w.w.w.'' @
       ''w.w.w.w.w.w.w.w.w.w.w.w.w.w.w.w.w.w.w.w.w.7.              1 w.w.w.w.w.w.w.w.w.w.w.w.w.w.w.w.w.w.w.w.'' @
       ''w.w.w.w.w.w.w.w.w.k     x P P P #   + q.w.w.w.w.w.w.w.w.w.w.w.w.w.w.w.w.w.w.w.w.w.w.w.2.            '' @
       ''                                                                                                    '']"

definition title_xpm_42 :: "string list" where
  "title_xpm_42 = [
     ''                                                                                                    '' @
       ''      1 w.w.w.w.w.w.w.w.w.<   D P P $       1 w.w.w.w.w.w.w.w.w.w.w.w.w.0.<     7 P P P P D .     o.'' @
       ''w.w.w.w.w.w.w.w.[   9 P P x      .w.w.w.w.w.w.w.w.w.]     A P P P *                   2.w.w.w.w.w.w.'' @
       ''w.w.8.X A P $                 3 w.w.w.w.w.w.w.w.w.w.w.w.w.w.w.k     N P P P b                     1 '' @
       ''w.w.w.w.w.w.w.w.w.3 X D P P : < u l ..0.w.w.w.w.w.w.w.w.w.w.w.w.:.    o L P P P #     1 w.w.w.w.w.w.'' @
       ''w.w.w.w.w.w.w.w.w.w.w.w.w.w.w.w.w.w.w.w.w.7.              1 w.w.w.w.w.w.w.w.w.w.w.w.w.w.w.w.w.w.w.w.'' @
       ''w.w.w.w.w.w.w.w.w.0.+   4 P P P *   k w.w.w.w.w.w.w.w.w.w.$.^ E K X X @ < h { 7.w.w.w.l             '' @
       ''                                                                                                    '',
     ''                                                                                                    '' @
       ''      1 w.w.w.w.w.w.w.w.w.,   D P P $       1 w.w.w.w.w.w.w.w.w.w.w.w.w.w.<.X     b P P P P v     o.'' @
       ''w.w.w.w.w.w.w.w.[   9 P P x     a w.w.w.w.w.w.w.w.w.7.    0 P P P v                 1 w.w.w.w.w.w.w.'' @
       ''w.w.{ # P S                    .w.w.w.w.w.w.w.w.w.w.w.w.w.w.w.7.X   * P P P L o                   1 '' @
       ''w.w.w.w.w.w.w.w.w.<   D P P $         + l 8.w.w.w.w.w.w.w.w.w.w.w.j     b P P P 9     1 w.w.w.w.w.w.'' @
       ''w.w.w.<   D P P $                                         1 w.w.w.w.w.w.w.w.w.u + G P I ; 1 a { 7.w.'' @
       ''w.w.w.w.w.w.w.w.w.w.k   . L P P 5   o.w.w.w.w.w.w.w.w.w.j 9 P P P B .           u ..w.>             '' @
       ''                                                                                                    '',
     ''                                                                                                    '' @
       ''      1 w.w.w.w.w.w.w.w.w.<   D P P $       1 w.w.w.w.w.w.w.w.w.w.w.w.w.w.w.|     . D P P P P 5   o.'' @
       ''w.w.w.w.w.w.w.w.[   0 P P v     X 8.w.w.w.w.w.w.w.w.w.3   o P P P H .               [ w.w.w.w.w.w.w.'' @
       ''w.w.3 0 P 0                 > w.w.w.w.w.w.w.w.7.w.w.w.w.w.w.w.w.a     S P P P 0                   1 '' @
       ''w.w.w.w.w.w.w.w.w.<   D P P $             + :.w.w.w.w.w.w.w.w.w.w.7.X   & P P P M     1 w.w.w.w.w.w.'' @
       ''w.w.w.<   D P P #                                         1 w.w.w.w.w.w.w.w.w.<   D P P $       X j '' @
       ''0.w.w.w.w.w.w.w.w.w.o.    D P P *   7.w.w.w.w.w.w.w.w.>.  7 P P P P D 4             >               '' @
       ''                                                                                                    '']"

definition title_xpm_43 :: "string list" where
  "title_xpm_43 = [
     ''                                                                                                    '' @
       ''      1 w.w.w.w.w.w.w.w.w.<   D P P $       1 w.w.w.w.w.w.w.w.w.w.w.w.w.w.w.w.h     $ P P P P J o o.'' @
       ''w.w.w.w.w.w.w.w.[   9 P P v       { w.w.w.w.w.w.w.w.w.]     A P P P 4               7.w.w.w.w.w.w.w.'' @
       ''w.7.  D P o                 ] w.w.w.w.w.w.w.0.3 w.w.w.w.w.w.w.w.:.    8 P P P D                   1 '' @
       ''w.w.w.w.w.w.w.w.w.<   D P P $               X | w.w.w.w.w.w.w.w.w.w.j     D P P D     1 w.w.w.w.w.w.'' @
       ''w.w.w.<   D P P $                                         1 w.w.w.w.w.w.w.w.w.<   D P P $           '' @
       ''a w.w.w.w.w.w.w.w.w.w.    A P P $   w.w.w.w.w.w.w.w.w.{   o L P P P P P S 8 .                       '' @
       ''                                                                                                    '',
     ''                                                                                                    '' @ ''      1 w.w.w.w.w.w.w.w.w.,   D P P $       1 w.w.w.w.w.w.w.w.w.w.w.w.w.w.w.w.0.<     9 P P P P B o.'' @ ''w.w.w.w.w.w.w.w.[   9 P P v       3 w.w.w.w.w.w.w.w.w.7.    9 P P P b             3 w.w.w.w.w.w.w.w.'' @ ''w.'' @ [CHR 0x27] @ '' $ P B                 X 8.w.w.w.w.w.w.w...o 4.w.w.w.w.w.w.w.w.1   . J P P P 4                 1 w.w'' @ ''.w.w.w.w.w.w.w.,   D P P $                 X <.w.w.w.w.w.w.w.w.w.>.    b P P L     1 w.w.w.w.w.w.w.w'' @ ''.w.,   D P P P P P P P P P P P P P P P P P P S         1 w.w.w.w.w.w.w.w.w.<   D P P $             :'' @ ''.w.w.w.w.w.w.w.w.w.,   V P P . X w.w.w.w.w.w.w.w.w.{     5 P P P P P P P L M *                      '' @ ''                                                                                                 '',
     ''                                                                                                    '' @
       ''      1 w.w.w.w.w.w.w.w.w.<   D P P #       1 w.w.w.w.w.w.w.w.w.w.w.w.w.w.w.w.w.<.X     B P P P P &.'' @
       ''w.w.w.w.w.w.w.w.]   0 P P v         2.w.w.w.w.w.w.w.w.w.3   o P P P J .           [ w.w.w.w.w.w.w.w.'' @
       ''w.< x P 6                 s w.w.w.w.w.w.w.w.i 0 _ w.w.w.w.w.w.w.w.{     x P P P M                 1 '' @
       ''w.w.w.w.w.w.w.w.w.<   D P P #                   1 w.w.w.w.w.w.w.w.w.w.>   7 P P P o   1 w.w.w.w.w.w.'' @
       ''w.w.w.<   D P P P P P P P P P P P P P P P P P P A         1 w.w.w.w.w.w.w.w.w.<   D P P $           '' @
       ''  l w.w.w.w.w.w.w.w.w.3   V P S   X w.w.w.w.w.w.w.w.w.8.X     $ V P P P P P P P P D 9 o             '' @
       ''                                                                                                    '']"

definition title_xpm_44 :: "string list" where
  "title_xpm_44 = [
     ''                                                                                                    '' @ ''      1 w.w.w.w.w.w.w.w.w.<   D P P $       1 w.w.w.w.w.w.w.w.w.w.w.w.w.w.w.w.w.w.[     o J P P P ;.'' @ ''w.w.w.w.w.w.w.w.[   9 P P x         '' @ [CHR 0x27] @ '' w.w.w.w.w.w.w.w.w.{     V P P P 5         X 7.w.w.w.w.w.w.w.w.<.. J J .                 >.w.w.w.w.w'' @ ''.w.w.8.  D I 0.w.w.w.w.w.w.w.0.+   $ P P P P o               1 w.w.w.w.w.w.w.w.w.<   D P P $        '' @ ''             :.w.w.w.w.w.w.w.w.w.j   $ P P P #   1 w.w.w.w.w.w.w.w.w.<   D P P P P P P P P P P P P P'' @ '' P P P P P S         1 w.w.w.w.w.w.w.w.w.<   D P P #             h w.w.w.w.w.w.w.w.w.i   D P q     8'' @ ''.w.w.w.w.w.w.w.w.w...X       & b L P P P P P P P L x o                                              '' @ ''                                                               '',
     ''                                                                                                    '' @
       ''      1 w.w.w.w.w.w.w.w.w.<   D P P $       1 w.w.w.w.w.w.w.w.w.>.w.w.w.w.w.w.w.w.w.i     5 P P P ;.'' @
       ''w.w.w.w.w.w.w.w.[   9 P P x         , w.w.w.w.w.w.w.w.w.7.    8 P P P M         3 w.w.w.w.w.w.w.w.w.'' @
       ''k 5 P v                 1 w.w.w.w.w.w.w.w.] & P N | w.w.w.w.w.w.w.w.k     V P P P 0               1 '' @
       ''w.w.w.w.w.w.w.w.w.<   D P P #                     a w.w.w.w.w.w.w.w.w.|   . P P P $   1 w.w.w.w.w.w.'' @
       ''w.w.w.<                                   * P P A         1 w.w.w.w.w.w.w.w.w.<   D P P M b x b M N '' @
       ''S ` w.w.w.w.w.w.w.w.w.3 . L L O     o.w.w.w.w.w.w.w.w.w.w.<.u         . 7 A P P P P P P P L q .     '' @
       ''                                                                                                    '',
     ''                                                                                                    '' @
       ''      1 w.w.w.w.w.w.w.w.w.<   D P P $       1 w.w.w.w.w.w.w.w.w.> 7.w.w.w.w.w.w.w.w.8.+     x P P ;.'' @
       ''w.w.w.w.w.w.w.w.[   9 P P v           >.w.w.w.w.w.w.w.w.w.u   o P P P L .       { w.w.w.w.w.w.w.w.q.'' @
       ''+ N P $                 { w.w.w.w.w.w.w.w.< v P 5 u w.w.w.w.w.w.w.w.2.    6 P P P D               1 '' @
       ''w.w.w.w.w.w.w.w.w.,   D P P $                     X w.w.w.w.w.w.w.w.w.<.    J P P &   1 w.w.w.w.w.w.'' @
       ''w.w.w.<                                   & P P S         1 w.w.w.w.w.w.w.w.w.<   D P P P P P P P P '' @
       ''P *.w.w.w.w.w.w.w.w.w.< $ P q       k w.w.w.w.w.w.w.w.w.w.w.w.>.h X         $ x L P P P P P P D #   '' @
       ''                                                                                                    '']"

definition title_xpm_45 :: "string list" where
  "title_xpm_45 = [
     ''                                                                                                    '' @
       ''      1 w.w.w.w.w.w.w.w.w.<   D P P $       1 w.w.w.w.w.w.w.w.w.X 1 w.w.w.w.w.w.w.w.w...    . D P ;.'' @
       ''w.w.w.w.w.w.w.w.[   0 P P v           h w.w.w.w.w.w.w.w.w.{     B P P P 7     X 8.w.w.w.w.w.w.w.w...'' @
       ''. P A                 X 0.w.w.w.w.w.w.w.>.. J J .   2.w.w.w.w.w.w.w.w.3   X J P P P *             1 '' @
       ''w.w.w.w.w.w.w.w.w.<   D P P $                       1.w.w.w.w.w.w.w.w.0.    D P P &   1 w.w.w.w.w.w.'' @
       ''w.w.w.w.w.w.w.w.w.w.w.w.w.w.w.w.w.w.w.>.  * P P S         1 w.w.w.w.w.w.w.w.w.<   D P P P P P P P S '' @
       ''n 0.w.w.w.w.w.w.w.w.w.X z V .       + 0.w.w.w.w.w.w.w.w.w.w.w.w.w.0.| 3         . q H P P P P P J * '' @
       ''                                                                                                    '',
     ''                                                                                                    '' @
       ''      1 w.w.w.w.w.w.w.w.w.>   D P P $       1 w.w.w.w.w.w.w.w.w.X   ) w.w.w.w.w.w.w.w.w.k     & P ;.'' @
       ''w.w.w.w.w.w.w.w.[   9 P P v           X 0.w.w.w.w.w.w.w.w.8.X   7 P P P B     u w.w.w.w.w.w.w.w.w.a '' @
       ''9 P 8                 j w.w.w.w.w.w.w.w.j 6 P b     l w.w.w.w.w.w.w.w. .    x P P P b             1 '' @
       ''w.w.w.w.w.w.w.w.w.<   D P P $                       | w.w.w.w.w.w.w.w.w.+   D P P #   1 w.w.w.w.w.w.'' @
       ''w.w.w.w.w.w.w.w.w.w.w.w.w.w.w.w.w.w.w.>.  * P P A         1 w.w.w.w.w.w.w.w.w.<   7 9 9 8 7 5 & . @ '' @
       ''>.w.w.w.w.w.w.w.w.w.>.. M .           k w.w.w.w.w.w.w.w.w.w.w.w.w.w.w.w.<.k X       . z L P P P P J '' @
       ''#                                                                                                   '',
     ''                                                                                                    '' @ ''      1 w.w.w.w.w.w.w.w.w.<   D P P #       1 w.w.w.w.w.w.w.w.w.X   L +.w.w.w.w.w.w.w.w.0.<     z ;.'' @ ''w.w.w.w.w.w.w.w.]   0 P P v             | w.w.w.w.w.w.w.w.w.i   . L P P L o   | w.w.w.w.w.w.w.w.8.X '' @ ''S L .                 <.w.w.w.w.w.w.w.0.+ B P *     @ w.w.w.w.w.w.w.w.q.+   $ P P P L .           1 '' @ ''w.w.w.w.w.w.w.w.w.<   D P P $                       [ w.w.w.w.w.w.w.w.w.>   S P P .   1 w.w.w.w.w.w.'' @ ''w.w.w.w.w.w.w.w.w.w.w.w.w.w.w.w.w.w.w.>.  $ D D M         1 w.w.w.w.w.w.w.w.w.,               1 '' @ [CHR 0x27] @ '' 8.w.w.w.w.w.w.w.w.w.w.l 4               X :.w.w.w.w.w.w.w.w.w.w.w.w.w.w.w.w.w.0.] @       $ D P P P'' @ '' P S                                                                                                '' @ ''   '']"

definition title_xpm_46 :: "string list" where
  "title_xpm_46 = [
     ''                                                                                                    '' @ ''      1 w.w.w.w.w.w.w.w.w.<   D P P $       1 w.w.w.w.w.w.w.w.w.X   L I 4.w.w.w.w.w.w.w.w.>.X   . -.'' @ ''w.w.w.w.w.w.w.w.[   9 P P x             u w.w.w.w.w.w.w.w.w.|     M P P P 9 X 0.w.w.w.w.w.w.w.w.[ & '' @ ''P b                 1 w.w.w.w.w.w.w.w.... P F         %.w.w.w.w.w.w.w.w.k     A P P P 7           1 '' @ ''w.w.w.w.w.w.w.w.w.,   D P P $                       '' @ [CHR 0x27] @ '' w.w.w.w.w.w.w.w.w.<   D P J     1 w.w.w.w.w.w.w.w.w.w.w.w.w.w.w.w.w.w.w.w.w.w.w.w.w.:.             '' @ ''     1 w.w.w.w.w.w.w.w.w.| [ { { | ..>.0.w.w.w.w.w.w.w.w.w.w.w.w.0.-                   X <.w.w.w.w.w'' @ ''.w.w.w.w.w.w.w.w.w.w.w.w.w.0.l X     o A P P P P 5                                                  '' @ ''                                               '',
     ''                                                                                                    '' @
       ''      1 w.w.w.w.w.w.w.w.w.,   D P P $       1 w.w.w.w.w.w.w.w.w.X   L P Y 8.w.w.w.w.w.w.w.w.l     %.'' @
       ''w.w.w.w.w.w.w.w.[   9 P P v               2.w.w.w.w.w.w.w.w.0.X   5 P P P S a w.w.w.w.w.w.w.w.w.< M '' @
       ''P $                 { q.w.w.w.w.w.w.w.i 8 P D v v x x Q w.w.w.w.w.w.w.w.<.    8 P P P V           1 '' @
       ''w.w.w.w.w.w.w.w.w.<   D P P $                       k w.w.w.w.w.w.w.w.w.3   F P S     1 w.w.w.w.w.w.'' @
       ''w.w.w.w.w.w.w.w.w.w.w.w.w.w.w.w.w.w.w.:.                  1 w.w.w.w.w.w.w.w.w.w.w.w.w.w.w.w.w.w.w.w.'' @
       ''w.w.w.w.w.w.w.w.w.l                       + ..w.w.w.w.w.w.w.w.w.w.w.w.w.w.w.w.w.w.w.<.,     o F P P '' @
       ''P V                                                                                                 '',
     ''                                                                                                    '' @ ''      1 w.w.w.w.w.w.w.w.w.<   D P P $       1 w.w.w.w.w.w.w.w.w.X   L P P p w.w.w.w.w.w.w.w.q.1   o.'' @ ''w.w.w.w.w.w.w.w.[   0 P P v               l w.w.w.w.w.w.w.w.w.s   . J P P P X.w.w.w.w.w.w.w.w.:.o L '' @ ''A                 X 0.w.w.w.w.w.w.w.8.X A P P P P P P U w.w.w.w.w.w.w.w.w.3   . L P P P #         1 '' @ ''w.w.w.w.w.w.w.w.w.<   D P P $                       '' @ [CHR 0x27] @ '' w.w.w.w.w.w.w.w.w.<   J P b     1 w.w.w.w.w.w.w.w.w.w.w.w.w.w.w.w.w.w.w.w.w.w.w.w.w.>.             '' @ ''     1 w.w.w.w.w.w.w.w.w.w.w.w.w.w.w.w.w.w.w.w.w.w.w.w.w.w.w.w.&.z                           j 8.w.w'' @ ''.w.w.w.w.w.w.w.w.w.w.w.w.w.w.w.w.8.3     & P P P P .                                                '' @ ''                                               '']"

definition title_xpm_47 :: "string list" where
  "title_xpm_47 = [
     ''                                                                                                    '' @
       ''      1 w.w.w.w.w.w.w.w.w.<   D P P $       1 w.w.w.w.w.w.w.w.w.X   L P P . { w.w.w.w.w.w.w.w.<.  o.'' @
       ''w.w.w.w.w.w.w.w.[   9 P P x               @ q.w.w.w.w.w.w.w.w...    b P P U q.w.w.w.w.w.w.w.w.s 9 P '' @
       ''8                 s w.w.w.w.w.w.w.w.{ # P P P P P P P P =.w.w.w.w.w.w.w.w.{     M P P P q         1 '' @
       ''w.w.w.w.w.w.w.w.w.<   D P P #                       { w.w.w.w.w.w.w.w.w.> . P P 7     1 w.w.w.w.w.w.'' @
       ''w.w.w.w.w.w.w.w.w.w.w.w.w.w.w.w.w.w.w.>.                  1 w.w.w.w.w.w.w.w.w.w.w.w.w.w.w.w.w.w.w.w.'' @
       ''w.w.w.w.w.w.w.-.I P *                           X l 7.w.w.w.w.w.w.w.w.w.w.w.w.w.w.w.w.w.8.>     B P '' @
       ''P P 4                                                                                               '',
     ''                                                                                                    '' @ ''      1 w.w.w.w.w.w.w.w.w.,   D P P $       1 w.w.w.w.w.w.w.w.w.X   L P P . X 2.w.w.w.w.w.w.w.w.'' @ [CHR 0x27] @ '' o.w.w.w.w.w.w.w.w.[   9 P P v                  .w.w.w.w.w.w.w.w.q.+   & P P _ w.w.w.w.w.w.w.w.0.X D'' @ '' J .                 o.w.w.w.w.w.w.w.w.3 $ 9 9 9 9 9 0 9 0 W w.w.w.w.w.w.w.w.0.X   * P P P D        '' @ '' 1 w.w.w.w.w.w.w.w.w.,   D P P $                        .w.w.w.w.w.w.w.w.w.+ & P P o     1 w.w.w.w.w'' @ ''.w.w.w.w.2.<.6.6.6.1.<.<.<.<.<.<.<.<.<.<.|                   1 w.w.w.w.w.w.w.w.w.w.w.w.w.w.w.w.w.w.w'' @ ''.w.w.w.w.w.w.0.O.P P P F .                             X a o.q.w.w.w.w.w.w.w.w.w.w.w.w.w.w.w.>.    4'' @ '' P P P 7                                                                                            '' @ ''   '',
     ''                                                                                                    '' @
       ''      1 w.w.w.w.w.w.w.w.w.<   D P P $       1 w.w.w.w.w.w.w.w.w.X   L P P .   3 q.w.w.w.w.w.w.w.0.7.'' @
       ''w.w.w.w.w.w.w.w.]   0 P P v                 u w.w.w.w.w.w.w.w.w.j     D P 3.w.w.w.w.w.w.w.w.{ * P v '' @
       ''                > w.w.w.w.w.w.w.w.7.                    X 8.w.w.w.w.w.w.w.w.h     H P P P *       1 '' @
       ''w.w.w.w.w.w.w.w.w.<   D P P $                       7.w.w.w.w.w.w.w.w.8.  9 P B       1 w.w.w.w.w.w.'' @
       ''w.w.w.<   D P P $                                         1 w.w.w.w.w.w.w.w.w.w.w.w.w.w.w.w.w.w.w.w.'' @
       ''w.w.w.w...1 q P P P P x                                   > l 2.w.w.w.w.w.w.w.w.w.w.w.w.w.w.i   . L '' @
       ''P P 0                                                                                               '']"

definition title_xpm_48 :: "string list" where
  "title_xpm_48 = [
     ''                                                                                                    '' @ ''      1 w.w.w.w.w.w.w.w.w.<   D P P #       1 w.w.w.w.w.w.w.w.w.X   L P P .     '' @ [CHR 0x27] @ '' w.w.w.w.w.w.w.w.w.w.w.w.w.w.w.w.w.[   9 P P v                   2.w.w.w.w.w.w.w.w.>.    0 R w.w.w.w'' @ ''.w.w.w.w.w.< b P $                 l w.w.w.w.w.w.w.w.<.] [ [ [ [ [ ] [ [ [ [ 7.w.w.w.w.w.w.w.w.o.   '' @ '' z P P P b       1 w.w.w.w.w.w.w.w.w.<   D P P $                     > w.w.w.w.w.w.w.w.w.>.  M P 4  '' @ ''     1 w.w.w.w.w.w.w.w.w.<   D P P $                                         1 w.w.w.w.w.w.w.w.w.w.w'' @ ''.w.w.w.w.w.w.w.w.w.w.w.w.:.    . A P P P P &                                       u ..w.w.w.w.w.w.w'' @ ''.w.w.w.w.w.o.    V P P q                                                                            '' @ ''                   '',
     ''                                                                                                    '' @
       ''      1 w.w.w.w.w.w.w.w.w.>   D P P $       1 w.w.w.w.w.w.w.w.w.X   L P P .     X >.w.w.w.w.w.w.w.w.'' @
       ''w.w.w.w.w.w.w.w.[   9 P P x                   k w.w.w.w.w.w.w.w.w.<   o O.w.w.w.w.w.w.w.w.>.. L A   '' @
       ''                2.w.w.w.w.w.w.w.w.w.w.w.w.w.w.w.w.w.w.w.w.w.w.w.w.w.w.w.w.w.w.@   # P P P J .     1 '' @
       ''w.w.w.w.w.w.w.w.w.<   D P P #                     k w.w.w.w.w.w.w.w.w.[ . J S         1 w.w.w.w.w.w.'' @
       ''w.w.w.<   D P P $                                         1 w.w.w.w.w.w.w.w.w.w.w.w.w.w.w.w.w.w.w.w.'' @
       ''w.w.w.w.l     # L P P P D .                                         1 o.w.w.w.w.w.w.w.w.w.w.q.X   M '' @
       ''P P q                                                                                               '',
     ''                                                                                                    '' @
       ''      1 w.w.w.w.w.w.w.w.w.<   D P P $       1 w.w.w.w.w.w.w.w.w.X   L P P .       > 0.w.w.w.w.w.w.w.'' @
       ''w.w.w.w.w.w.w.w.]   0 P P v                   @ q.w.w.w.w.w.w.w.w.]     9.w.w.w.w.w.w.w.w.s 9 P 6   '' @
       ''              3 w.w.w.w.w.w.w.w.w.w.w.w.w.w.w.w.w.w.w.w.w.w.w.w.w.w.w.w.w.w.w.l     A P P P 5     1 '' @
       ''w.w.w.w.w.w.w.w.w.,   D P P $                   & 9.w.w.w.w.w.w.w.w.w.s 5 P *         1 w.w.w.w.w.w.'' @
       ''w.w.w.,   D P P #                                         1 w.w.w.w.w.w.w.w.w.<   D P I ,.w.w.w.w.w.'' @
       ''w.w.w.w.w.3     9 P P P P 0                     * z o                 . ] w.w.w.w.w.w.w.w.w.w.u   x '' @
       ''P P 7                                                                                               '']"

definition title_xpm_49 :: "string list" where
  "title_xpm_49 = [
     ''                                                                                                    '' @
       ''      1 w.w.w.w.w.w.w.w.w.<   D P P $       1 w.w.w.w.w.w.w.w.w.X   L P P .         k w.w.w.w.w.w.w.'' @
       ''w.w.w.w.w.w.w.w.[   9 P P v                      .w.w.w.w.w.w.w.w.8.  i w.w.w.w.w.w.w.w.8.X D H .   '' @
       ''              { w.w.w.w.w.w.w.w.w.w.w.w.w.w.w.w.w.w.w.w.w.w.w.w.w.w.w.w.w.w.w.2.    8 P P P N     1 '' @
       ''w.w.w.w.w.w.w.w.w.<   D P P * .     . # $ 6 v S ( w.w.w.w.w.w.w.w.w.q.+ V b           1 w.w.w.w.w.w.'' @
       ''w.w.w.<   D P P $                                         1 w.w.w.w.w.w.w.w.w.<   D P P e 0.w.w.w.w.'' @
       ''w.w.w.w.w.2.X     S P P P L O                   b P L M 5                 ..w.w.w.w.w.w.w.w.w.s   z '' @
       ''P P &                                                                                               '',
     ''                                                                                                    '' @
       ''      1 w.w.w.w.w.w.w.w.w.,   D P P $       1 w.w.w.w.w.w.w.w.w.X   L P P .           <.w.w.w.w.w.w.'' @
       ''w.w.w.w.w.w.w.w.[   9 P P v                     u w.w.w.w.w.w.w.w.w.a  .w.w.w.w.w.w.w.w.{ * P q     '' @
       ''            X 0.w.w.w.w.w.w.w.w.w.w.w.w.w.w.w.w.w.w.w.w.w.w.w.w.w.w.w.w.w.w.w.w.3   o P P P P .   1 '' @
       ''w.w.w.w.w.w.w.w.w.<   D P P P P P P P P P P P T w.w.w.w.w.w.w.w.w.w...$ S .           1 w.w.w.w.w.w.'' @
       ''w.w.w.<   D P P P P P P P P P P P P P P P P P P P P P P 4 1 w.w.w.w.w.w.w.w.w.<   D P P $ s w.w.w.w.'' @
       ''w.w.w.w.w.w.[     $ P P P P M                 . J P P P P J B q 6 * $ # # d w.w.w.w.w.w.w.w.w.k   z '' @
       ''P L .                                                                                               '',
     ''                                                                                                    '' @
       ''      1 w.w.w.w.w.w.w.w.w.<   D P P $       1 w.w.w.w.w.w.w.w.w.X   L P P .           1 w.w.w.w.w.w.'' @
       ''w.w.w.w.w.w.w.w.[   0 P P v                       2.w.w.w.w.w.w.w.w.<.q.w.w.w.w.w.w.w.w.< N P o     '' @
       ''            s w.w.w.w.w.w.w.w.w.w.w.w.w.w.w.w.w.w.w.w.w.w.w.w.w.w.w.w.w.w.w.w.w.{     B P P P 8   1 '' @
       ''w.w.w.w.w.w.w.w.w.<   D P P P P P P P P P S w 2.w.w.w.w.w.w.w.w.w.w.u N O             1 w.w.w.w.w.w.'' @
       ''w.w.w.<   D P P P P P P P P P P P P P P P P P P P P P P 4 1 w.w.w.w.w.w.w.w.w.,   D P P $    .w.w.w.'' @
       ''w.w.w.w.w.w.w.1     x P P P P &               4 P P P P P P P P P P P P P E w.w.w.w.w.w.w.w.w.l   b '' @
       ''P b                                                                                                 '']"

definition title_xpm_50 :: "string list" where
  "title_xpm_50 = [
     ''                                                                                                    '' @
       ''      1 w.w.w.w.w.w.w.w.w.<   D P P $       1 w.w.w.w.w.w.w.w.w.X   L P P .             ] w.w.w.w.w.'' @
       ''w.w.w.w.w.w.w.w.]   9 P P v                       k w.w.w.w.w.w.w.w.w.w.w.w.w.w.w.w.w.:.o P M       '' @
       ''            ..w.w.w.w.w.w.w.w.w.w.w.w.w.w.w.w.w.w.w.w.w.w.w.w.w.w.w.w.w.w.w.w.w.8.X   6 P P P V   1 '' @
       ''w.w.w.w.w.w.w.w.w.<   A P P P L H D N 9 & 3 8.w.w.w.w.w.w.w.w.w.w.>.7 o               1 w.w.w.w.w.w.'' @
       ''w.w.w.<   D P P P P P P P P P P P P P P P P P P P P P P 4 1 w.w.w.w.w.w.w.w.w.<   D P P $   @ 0.w.w.'' @
       ''w.w.w.w.w.w.w.<.    . H P P P A               . 7 B P P P P P P P P P P P ! w.w.w.w.w.w.w.w.w.l   S '' @
       ''P #                                                                                                 '',
     ''                                                                                                    '' @ ''      1 w.w.w.w.w.w.w.w.w.,   D P P $       1 w.w.w.w.w.w.w.w.w.X   L P P .             X 7.w.w.w.w.'' @ ''w.w.w.w.w.w.w.w.[   9 P P x                       + 0.w.w.w.w.w.w.w.w.w.w.w.w.w.w.w.w.a z P $       '' @ ''          + q.w.w.w.w.w.w.w.w.w.w.w.w.w.w.w.w.w.w.w.w.w.w.w.w.w.w.w.w.w.w.w.w.w.w.i   . J P P P o 1 '' @ ''w.w.w.w.w.w.w.w.w.,                   1  .w.w.w.w.w.w.w.w.w.w.w.w.y .                 1 w.w.w.w.w.w.'' @ ''w.w.w.<                                           V P P 4 1 w.w.w.w.w.w.w.w.w.,   D P P #     j w.w.'' @ ''w.w.w.w.w.w.w.w.l     7 P P P P 6     3 '' @ [CHR 0x27] @ '' +         o 5 z N A D F F D N q } w.w.w.w.w.w.w.w.w.h . P z                                        '' @ ''                                                           '',
     ''                                                                                                    '' @
       ''      1 w.w.w.w.w.w.w.w.w.<   D P P $       1 w.w.w.w.w.w.w.w.w.X   L P P .               i w.w.w.w.'' @
       ''w.w.w.w.w.w.w.w.[   9 P P v                         { w.w.w.w.w.w.w.w.w.w.w.w.w.w.w.7.X J V         '' @
       ''          j w.w.w.w.w.w.w.w.w.1 q P q                         u w.w.w.w.w.w.w.w.w. .    b P P P 0 1 '' @
       ''w.w.w.w.w.w.w.w.w.3       X @ 1 a [ >.w.w.w.w.w.w.w.w.w.w.w.w.w.{                     1 w.w.w.w.w.w.'' @
       ''w.w.w.<                                           V P P 4 1 w.w.w.w.w.w.w.w.w.<   D P P $       :.w.'' @
       ''w.w.w.w.w.w.w.w.0.@     S P P P D     { w.0.| u X                       j w.w.w.w.w.w.w.w.w.w.1 8 B '' @
       ''.                                                                                                   '']"

definition title_xpm_51 :: "string list" where
  "title_xpm_51 = [
     ''                                                                                                    '' @ ''      1 w.w.w.w.w.w.w.w.w.<   D P P $       1 w.w.w.w.w.w.w.w.w.X   L P P .                  .w.w.w.'' @ ''w.w.w.w.w.w.w.w.[   9 P P v                         < w.w.w.w.w.w.w.w.w.w.w.w.w.w.w.l 7 P 4         '' @ ''          :.w.w.w.w.w.w.w.w.2.  D P #                           7.w.w.w.w.w.w.w.w.0.X   4 P P P S 1 '' @ ''w.w.w.w.w.w.w.w.w.w.w.w.w.w.w.w.w.w.w.w.w.w.w.w.w.w.w.w.w.w.w.>.X                     1 w.w.w.w.w.w.'' @ ''w.w.w.w.w.w.w.w.w.w.w.w.w.w.w.w.w.w.w.w.w.w.w.u   V P P 4 1 w.w.w.w.w.w.w.w.w.<   D P P $       < w.'' @ ''w.w.w.w.w.w.w.w.w.|     * P P P P 6 X 8.w.w.w.w.8...l a 3 < , > < i '' @ [CHR 0x27] @ '' 2.w.w.w.w.w.w.w.w.w.w.0.X x .                                                                      '' @ ''                               '',
     ''                                                                                                    '' @ ''      1 w.w.w.w.w.w.w.w.w.,   D P P $       1 w.w.w.w.w.w.w.w.w.X   L P P .                 @ 0.w.w.'' @ ''w.w.w.w.w.w.w.w.[   9 P P x                           o.w.w.w.w.w.w.w.w.w.w.w.w.w.0.+ D D           '' @ ''        , w.w.w.w.w.w.w.w.w.'' @ [CHR 0x27] @ '' & P S                             ] w.w.w.w.w.w.w.w.w.h     H P P P r w.w.w.w.w.w.w.w.w.w.w.w.w.w.w'' @ ''.w.w.w.w.w.w.w.w.w.w.w.w.w.w.w.2.@                       1 w.w.w.w.w.w.w.w.w.w.w.w.w.w.w.w.w.w.w.w.w'' @ ''.w.w.w.w.w.w.w.w.u   V P P 4 1 w.w.w.w.w.w.w.w.w.<   D P P $         { w.w.w.w.w.w.w.w.w.w.1     N P'' @ '' P P S i w.w.w.w.w.w.w.w.w.w.w.w.w.w.w.w.w.w.w.w.w.w.w.w.w.w.w.{ $                                  '' @ ''                                                                       '',
     ''                                                                                                    '' @
       ''      1 w.w.w.w.w.w.w.w.w.<   D P P #       1 w.w.w.w.w.w.w.w.w.X   L P P .                   l w.w.'' @
       ''w.w.w.w.w.w.w.w.[   0 P P v                           a w.w.w.w.w.w.w.w.w.w.w.w.w.| 4 P 8           '' @
       ''        l w.w.w.w.w.w.w.w.w., z P q                             1 w.w.w.w.w.w.w.w.w.o.    v P P P C '' @
       ''w.w.w.w.w.w.w.w.w.w.w.w.w.w.w.w.w.w.w.w.w.w.w.w.w.w.w.w.w.<.@                         1 w.w.w.w.w.w.'' @
       ''w.w.w.w.w.w.w.w.w.w.w.w.w.w.w.w.w.w.w.w.w.w.w.u   V P P 4 1 w.w.w.w.w.w.w.w.w.,   D P P #         + '' @
       ''8.w.w.w.w.w.w.w.w.w.:.    $ P P P P @.w.w.w.w.w.w.w.w.w.w.w.w.w.w.w.w.w.w.w.w.w.w.w.w.w.w.0.,       '' @
       ''                                                                                                    '']"

definition title_xpm_52 :: "string list" where
  "title_xpm_52 = [
     ''                                                                                                    '' @ ''      1 w.w.w.w.w.w.w.w.w.<                 1 w.w.w.w.w.w.w.w.w.X                             X 2.w.'' @ ''w.w.w.w.w.w.w.w.]                                       2.w.w.w.w.w.w.w.w.w.w.w.w.1                 '' @ ''        <.w.w.w.w.w.w.w.w.>.                                      2.w.w.w.w.w.w.w.w.w.@           1 '' @ ''w.w.w.w.w.w.w.w.w.w.w.w.w.w.w.w.w.w.w.w.w.w.w.w.w.w.w.w. .X                           1 w.w.w.w.w.w.'' @ ''w.w.w.w.w.w.w.w.w.w.w.w.w.w.w.w.w.w.w.w.w.w.w.u           1 w.w.w.w.w.w.w.w.w.<   9 z z o           '' @ ''k w.w.w.w.w.w.w.w.w.w.a     6 q z c 0.w.w.w.w.w.w.w.w.w.w.w.w.w.w.w.w.w.w.w.w.w.w.w.w.w.w.'' @ [CHR 0x27] @ ''                                                                                                    '' @ ''         '',
     ''                                                                                                    '' @ ''      1 w.w.w.w.w.w.w.w.w.<                 1 w.w.w.w.w.w.w.w.w.X                               a w.'' @ ''w.w.w.w.w.w.w.w.[                                       j w.w.w.w.w.w.w.w.w.w.w.o.                  '' @ ''      1 w.w.w.w.w.w.w.w.w.k                                       '' @ [CHR 0x27] @ '' w.w.w.w.w.w.w.w.w.j           1 w.w.w.w.w.w.w.w.w.w.w.w.w.w.w.w.w.w.w.w.w.w.w.w.w.w.7.a            '' @ ''                   1 w.w.w.w.w.w.w.w.w.w.w.w.w.w.w.w.w.w.w.w.w.w.w.w.w.w.w.w.w.u           1 w.w.w.w'' @ ''.w.w.w.w.w.<                     X <.w.w.w.w.w.w.w.w.w.<.          s w.w.w.w.w.w.w.w.w.w.w.w.w.w.w.w'' @ ''.w.w.w.w.w.w.w.w.w.w...X                                                                            '' @ ''                                 '',
     ''                                                                                                    '' @ ''      1 w.w.w.w.w.w.w.w.w.,                 1 w.w.w.w.w.w.w.w.w.X                                 :.'' @ ''w.w.w.w.w.w.w.w.]                                       X 8.w.w.w.w.w.w.w.w.w.w.u                   '' @ ''      '' @ [CHR 0x27] @ '' w.w.w.w.w.w.w.w.w.,                                       1 w.w.w.w.w.w.w.w.w.>.          1 w.w.w.w'' @ ''.w.w.w.w.w.w.w.w.w.w.w.w.w.w.w.w.w.w.w.w.2.h X                                 1 w.w.w.w.w.w.w.w.w.w'' @ ''.w.w.w.w.w.w.w.w.w.w.w.w.w.w.w.w.w.w.w.u           1 w.w.w.w.w.w.w.w.w.<                       a w.w'' @ ''.w.w.w.w.w.w.w.w.a         { w.w.w.w.w.w.w.w.w.w.w.w.w.w.w.w.w.w.w.w.w.w.w.w.w. .X                  '' @ ''                                                                                             '']"

definition title_xpm_53 :: "string list" where
  "title_xpm_53 = [
     ''                                                                                                    '' @ ''      1 w.w.w.w.w.w.w.w.w.<                 1 w.w.w.w.w.w.w.w.w.X                                 < '' @ ''w.w.w.w.w.w.w.w.[                                         '' @ [CHR 0x27] @ '' w.w.w.w.w.w.w.w.w.<.                          7.w.w.w.w.w.w.w.w.>.                                 '' @ ''         2.w.w.w.w.w.w.w.w.w.>         1 w.w.w.w.w.w.w.w.w.w.w.w.w.w.w.w.w.w.w.w.w.2.[ 3            '' @ ''                           1 w.w.w.w.w.w.w.w.w.w.w.w.w.w.w.w.w.w.w.w.w.w.w.w.w.w.w.w.w.u           1'' @ '' w.w.w.w.w.w.w.w.w.<                         :.w.w.w.w.w.w.w.w.w.<.        X k 7.w.w.w.w.w.w.w.w.w.w'' @ ''.w.w.w.w.w.w.w.w.w.w.w.8.h                                                                          '' @ ''                                         '',
     ''                                                                                                    '' @ ''      1 w.w.w.w.w.w.w.w.w.<                 1 w.w.w.w.w.w.w.w.w.X                                   '' @ ''{ w.w.w.w.w.w.w.[                                         @ q.w.w.w.w.w.w.w.w.h                     '' @ ''    3 w.w.w.w.w.w.w.w.w.l                                           '' @ [CHR 0x27] @ '' w.w.w.w.w.w.w.w.w.l         X 3 k | >.2.0.w.w.w.w.w.w.w.q.8.2.:. .'' @ [CHR 0x27] @ '' a @                                             1 w.w.w.w.w.w.w.w.w.w.w.w.w.w.w.w.w.w.w.w.w.w.w.w.w'' @ ''.w.w.w.w.u           1 w.w.w.w.w.w.w.w.w.<                         3 w.w.w.w.w.w.w.w.w.w.a          '' @ ''   i { 8.w.w.w.w.w.w.w.w.w.w.w.w.w.w.w.w.<.j X                                                      '' @ ''                                                               '',
     ''                                                                                                    '' @ ''                                                                                                    '' @ ''                                                                                                    '' @ ''                                                                                                    '' @ ''                                                                                                    '' @ ''                                                          @ '' @ [CHR 0x27] @ '' l '' @ [CHR 0x27] @ '' '' @ [CHR 0x27] @ '' '' @ [CHR 0x27] @ '' '' @ [CHR 0x27] @ '' l '' @ [CHR 0x27] @ '' l +                           j '' @ [CHR 0x27] @ '' l '' @ [CHR 0x27] @ '' '' @ [CHR 0x27] @ '' '' @ [CHR 0x27] @ '' l '' @ [CHR 0x27] @ '' '' @ [CHR 0x27] @ '' l s                   < s [ ..<.8.0.q.w.0.8.<.o.[ s >                                              '' @ ''                                                                             '']"

definition title_xpm_54 :: "string list" where
  "title_xpm_54 = [
     ''                                                                                                    '' @
       ''                                                                                                    '' @
       ''                                                                                                    '' @
       ''                                                                                                    '' @
       ''                                                                                                    '' @
       ''                                                                                                    '' @
       ''                                                                                                    '' @
       ''                                                                                                    '',
     ''                                                                                                    '' @
       ''                                                                                                    '' @
       ''                                                                                                    '' @
       ''                                                                                                    '' @
       ''                                                                                                    '' @
       ''                                                                                                    '' @
       ''                                                                                                    '' @
       ''                                                                                                    '',
     ''                                                                                                    '' @
       ''                                                                                                    '' @
       ''                                                                                                    '' @
       ''                                                                                                    '' @
       ''                                                                                                    '' @
       ''                                                                                                    '' @
       ''                                                                                                    '' @
       ''                                                                                                    '']"

definition title_xpm_55 :: "string list" where
  "title_xpm_55 = [
     ''                                                                                                    '' @
       ''                                                                                                    '' @
       ''                                                                                                    '' @
       ''                                                                                                    '' @
       ''                                                                                                    '' @
       ''                                                                                                    '' @
       ''                                                                                                    '' @
       ''                                                                                                    '',
     ''                                                                                                    '' @
       ''                                                                                                    '' @
       ''                                                                                                    '' @
       ''                                                                                                    '' @
       ''                                                                                                    '' @
       ''                                                                                                    '' @
       ''                                                                                                    '' @
       ''                                                                                                    '',
     ''                                                                                                    '' @
       ''                                                                                                    '' @
       ''                                                                                                    '' @
       ''                                                                                                    '' @
       ''                                                                                                    '' @
       ''                                                                                                    '' @
       ''                                                                                                    '' @
       ''                                                                                                    '']"

definition title_xpm_56 :: "string list" where
  "title_xpm_56 = [
     ''                                                                                                    '' @
       ''                                                                                                    '' @
       ''                                                                                                    '' @
       ''                                                                                                    '' @
       ''                                                                                                    '' @
       ''                                                                                                    '' @
       ''                                                                                                    '' @
       ''                                                                                                    '',
     ''                                                                                                    '' @
       ''                                                                                                    '' @
       ''                                                                                                    '' @
       ''                                                                                                    '' @
       ''                                                                                                    '' @
       ''                                                                                                    '' @
       ''                                                                                                    '' @
       ''                                                                                                    '',
     ''                                                                                                    '' @
       ''                                                                                                    '' @
       ''                                                                                                    '' @
       ''                                                                                                    '' @
       ''                                                                                                    '' @
       ''                                                                                                    '' @
       ''                                                                                                    '' @
       ''                                                                                                    '']"

definition title_xpm_57 :: "string list" where
  "title_xpm_57 = [
     ''                                                                                                    '' @
       ''                                                                                                    '' @
       ''                                                                                                    '' @
       ''                                                                                                    '' @
       ''                                                                                                    '' @
       ''                                                                                                    '' @
       ''                                                                                                    '' @
       ''                                                                                                    '',
     ''                                                                                                    '' @
       ''                                                                                                    '' @
       ''                                                                                                    '' @
       ''                                                                                                    '' @
       ''                                                                                                    '' @
       ''                                                                                                    '' @
       ''                                                                                                    '' @
       ''                                                                                                    '',
     ''                                                                                                    '' @
       ''                                                                                                    '' @
       ''                                                                                                    '' @
       ''                                                                                                    '' @
       ''                                                                                                    '' @
       ''                                                                                                    '' @
       ''                                                                                                    '' @
       ''                                                                                                    '']"

definition title_xpm_58 :: "string list" where
  "title_xpm_58 = [
     ''                                                                                                    '' @
       ''                                                                                                    '' @
       ''                                                                                                    '' @
       ''                                                                                                    '' @
       ''                                                                                                    '' @
       ''                                                                                                    '' @
       ''                                                                                                    '' @
       ''                                                                                                    '',
     ''                                                                                                    '' @
       ''                                                                                                    '' @
       ''                                                                                                    '' @
       ''                                                                                                    '' @
       ''                                                                                                    '' @
       ''                                                                                                    '' @
       ''                                                                                                    '' @
       ''                                                                                                    '',
     ''                                                                                                    '' @
       ''                                                                                                    '' @
       ''                                                                                                    '' @
       ''                                                                                                    '' @
       ''                                                                                                    '' @
       ''                                                                                                    '' @
       ''                                                                                                    '' @
       ''                                                                                                    '']"

definition title_xpm_59 :: "string list" where
  "title_xpm_59 = [
     ''                                                                                                    '' @
       ''                                                                                                    '' @
       ''                                                                                                    '' @
       ''                                                                                                    '' @
       ''                                                                                                    '' @
       ''                                                                                                    '' @
       ''                                                                                                    '' @
       ''                                                                                                    '',
     ''                                                                                                    '' @
       ''                                                                                                    '' @
       ''                                                                                                    '' @
       ''                                                                                                    '' @
       ''                                                                                                    '' @
       ''                                                                                                    '' @
       ''                                                                                                    '' @
       ''                                                                                                    '',
     ''                                                                                                    '' @
       ''                                                                                                    '' @
       ''                                                                                                    '' @
       ''                                                                                                    '' @
       ''                                                                                                    '' @
       ''                                                                                                    '' @
       ''                                                                                                    '' @
       ''                                                                                                    '']"

definition title_xpm_60 :: "string list" where
  "title_xpm_60 = [
     ''                                                                                                    '' @
       ''                                                                                                    '' @
       ''                                                                                                    '' @
       ''                                                                                                    '' @
       ''                                                                                                    '' @
       ''                                                                                                    '' @
       ''                                                                                                    '' @
       ''                                                                                                    '',
     ''                                                                                                    '' @
       ''                                                                                                    '' @
       ''                                                                                                    '' @
       ''                                                                                                    '' @
       ''                                                                                                    '' @
       ''                                                                                                    '' @
       ''                                                                                                    '' @
       ''                                                                                                    '',
     ''                                                                                                    '' @
       ''                                                                                                    '' @
       ''                                                                                                    '' @
       ''                                                                                                    '' @
       ''                                                                                                    '' @
       ''                                                                                                    '' @
       ''                                                                                                    '' @
       ''                                                                                                    '']"

definition title_xpm_61 :: "string list" where
  "title_xpm_61 = [
     ''                                                                                                    '' @
       ''                                                                                                    '' @
       ''                                                                                                    '' @
       ''                                                                                                    '' @
       ''                                                                                                    '' @
       ''                                                                                                    '' @
       ''                                                                                                    '' @
       ''                                                                                                    '',
     ''                                                                                                    '' @
       ''                                                                                                    '' @
       ''                                                                                                    '' @
       ''                                                                                                    '' @
       ''                                                                                                    '' @
       ''                                                                                                    '' @
       ''                                                                                                    '' @
       ''                                                                                                    '',
     ''                                                                                                    '' @
       ''                                                                                                    '' @
       ''                                                                                                    '' @
       ''                                                                                                    '' @
       ''                                                                                                    '' @
       ''                                                                                                    '' @
       ''                                                                                                    '' @
       ''                                                                                                    '']"

definition title_xpm_62 :: "string list" where
  "title_xpm_62 = [
     ''                                                                                                    '' @
       ''                                                                                                    '' @
       ''                                                                                                    '' @
       ''                                                                                                    '' @
       ''                                                                                                    '' @
       ''                                                                                                    '' @
       ''                                                                                                    '' @
       ''                                                                                                    '',
     ''                                                                                                    '' @
       ''                                                                                                    '' @
       ''                                                                                                    '' @
       ''                                                                                                    '' @
       ''                                                                                                    '' @
       ''                                                                                                    '' @
       ''                                                                                                    '' @
       ''                                                                                                    '',
     ''                                                                                                    '' @
       ''                                                                                                    '' @
       ''                                                                                                    '' @
       ''                                                                                                    '' @
       ''                                                                                                    '' @
       ''                                                                                                    '' @
       ''                                                                                                    '' @
       ''                                                                                                    '']"

definition title_xpm_63 :: "string list" where
  "title_xpm_63 = [
     ''                                                                                                    '' @
       ''                                                                                                    '' @
       ''                                                                                                    '' @
       ''                                                                                                    '' @
       ''                                                                                                    '' @
       ''                                                                                                    '' @
       ''                                                                                                    '' @
       ''                                                                                                    '',
     ''                                                                                                    '' @
       ''                                                                                                    '' @
       ''                                                                                                    '' @
       ''                                                                                                    '' @
       ''                                                                                                    '' @
       ''                                                                                                    '' @
       ''                                                                                                    '' @
       ''                                                                                                    '',
     ''                                                                                                    '' @
       ''                                                                                                    '' @
       ''                                                                                                    '' @
       ''                                                                                                    '' @
       ''                                                                                                    '' @
       ''                                                                                                    '' @
       ''                                                                                                    '' @
       ''                                                                                                    '']"

definition title_xpm_64 :: "string list" where
  "title_xpm_64 = [
     ''                                                                                                    '' @
       ''                                                                                                    '' @
       ''                                                                                                    '' @
       ''                                                                                                    '' @
       ''                                                                                                    '' @
       ''                                                                                                    '' @
       ''                                                                                                    '' @
       ''                                                                                                    '',
     ''                                                                                                    '' @
       ''                                                                                                    '' @
       ''                                                                                                    '' @
       ''                                                                                                    '' @
       ''                                                                                                    '' @
       ''                                                                                                    '' @
       ''                                                                                                    '' @
       ''                                                                                                    '',
     ''                                                                                                    '' @
       ''                                                                                                    '' @
       ''                                                                                                    '' @
       ''                                                                                                    '' @
       ''                                                                                                    '' @
       ''                                                                                                    '' @
       ''                                                                                                    '' @
       ''                                                                                                    '']"

definition title_xpm_65 :: "string list" where
  "title_xpm_65 = [
     ''                                                                                                    '' @
       ''                                                                                                    '' @
       ''                                                                                                    '' @
       ''                                                                                                    '' @
       ''                                                                                                    '' @
       ''                                                                                                    '' @
       ''                                                                                                    '' @
       ''                                                                                                    '',
     ''                                                                                                    '' @
       ''                                                                                                    '' @
       ''                                                                                                    '' @
       ''                                                                                                    '' @
       ''                                                                                                    '' @
       ''                                                                                                    '' @
       ''                                                                                                    '' @
       ''                                                                                                    '',
     ''                                                                                                    '' @
       ''                                                                                                    '' @
       ''                                                                                                    '' @
       ''                                                                                                    '' @
       ''                                                                                                    '' @
       ''                                                                                                    '' @
       ''                                                                                                    '' @
       ''                                                                                                    '']"

definition title_xpm_66 :: "string list" where
  "title_xpm_66 = [
     ''                                                                                                    '' @
       ''                                                                                                    '' @
       ''                                                                                                    '' @
       ''                                                                                                    '' @
       ''                                                                                                    '' @
       ''                                                                                                    '' @
       ''                                                                                                    '' @
       ''                                                                                                    '',
     ''                                                                                                    '' @
       ''                                                                                                    '' @
       ''                                                                                                    '' @
       ''                                                                                                    '' @
       ''                                                                                                    '' @
       ''                                                                                                    '' @
       ''                                                                                                    '' @
       ''                                                                                                    '',
     ''                                                                                                    '' @
       ''                                                                                                    '' @
       ''                                                                                                    '' @
       ''                                                                                                    '' @
       ''                                                                                                    '' @
       ''                                                                                                    '' @
       ''                                                                                                    '' @
       ''                                                                                                    '']"

definition title_xpm_67 :: "string list" where
  "title_xpm_67 = [
     ''                                                                                                    '' @
       ''                                                                                                    '' @
       ''                                                                                                    '' @
       ''                                                                                                    '' @
       ''                                                                                                    '' @
       ''                                                                                                    '' @
       ''                                                                                                    '' @
       ''                                                                                                    '',
     ''                                                                                                    '' @
       ''                                                                                                    '' @
       ''                                                                                                    '' @
       ''                                                                                                    '' @
       ''                                                                                                    '' @
       ''                                                                                                    '' @
       ''                                                                                                    '' @
       ''                                                                                                    '',
     ''                                                                                                    '' @
       ''                                                                                                    '' @
       ''                                                                                                    '' @
       ''                                                                                                    '' @
       ''                                                                                                    '' @
       ''                                                                                                    '' @
       ''                                                                                                    '' @
       ''                                                                                                    '']"

definition title_xpm_68 :: "string list" where
  "title_xpm_68 = [
     ''                                                                                                    '' @
       ''                                                                                                    '' @
       ''                                                                                                    '' @
       ''                                                                                                    '' @
       ''                                                                                                    '' @
       ''                                                                                                    '' @
       ''                                                                                                    '' @
       ''                                                                                                    '']"

definition title_xpm :: "string list" where
  "title_xpm = title_xpm_1 @ title_xpm_2 @ title_xpm_3 @ title_xpm_4 @ title_xpm_5 @ title_xpm_6 @ title_xpm_7 @ title_xpm_8 @ title_xpm_9 @ title_xpm_10 @ title_xpm_11 @ title_xpm_12 @ title_xpm_13 @ title_xpm_14 @ title_xpm_15 @ title_xpm_16 @ title_xpm_17 @ title_xpm_18 @ title_xpm_19 @ title_xpm_20 @ title_xpm_21 @ title_xpm_22 @ title_xpm_23 @ title_xpm_24 @ title_xpm_25 @ title_xpm_26 @ title_xpm_27 @ title_xpm_28 @ title_xpm_29 @ title_xpm_30 @ title_xpm_31 @ title_xpm_32 @ title_xpm_33 @ title_xpm_34 @ title_xpm_35 @ title_xpm_36 @ title_xpm_37 @ title_xpm_38 @ title_xpm_39 @ title_xpm_40 @ title_xpm_41 @ title_xpm_42 @ title_xpm_43 @ title_xpm_44 @ title_xpm_45 @ title_xpm_46 @ title_xpm_47 @ title_xpm_48 @ title_xpm_49 @ title_xpm_50 @ title_xpm_51 @ title_xpm_52 @ title_xpm_53 @ title_xpm_54 @ title_xpm_55 @ title_xpm_56 @ title_xpm_57 @ title_xpm_58 @ title_xpm_59 @ title_xpm_60 @ title_xpm_61 @ title_xpm_62 @ title_xpm_63 @ title_xpm_64 @ title_xpm_65 @ title_xpm_66 @ title_xpm_67 @ title_xpm_68"

end
