(* ===== verification/Sprites_Options.thy ===== *)
theory Sprites_Options
  imports Prelude
begin

text \<open>
  Pictures of the menu and of the end screens, row by row: \<open>xpm/menu/options.h\<close>. A large picture is the
  concatenation of parts.
\<close>

definition start1_xpm_1 :: "string list" where
  "start1_xpm_1 = [
     ''163 51 103 2 '',
     ''   c #000000'',
     ''.  c #040300'',
     ''X  c #070500'',
     ''o  c #080600'',
     ''O  c #0B0900'',
     ''+  c #0D0A00'',
     ''@  c #0F0C00'',
     ''#  c #120F00'',
     ''$  c #131000'',
     ''%  c #161200'',
     ''&  c #181400'',
     ''*  c #1B1600'',
     ''=  c #1D1800'',
     ''-  c #201A00'',
     '';  c #221C00'',
     '':  c #241E00'',
     ''>  c #262000'',
     '',  c #2A2300'',
     ''<  c #2C2500'',
     ''1  c #302800'',
     ''2  c #332B00'',
     ''3  c #362D00'',
     ''4  c #382F00'',
     ''5  c #3B3100'',
     ''6  c #3E3400'',
     ''7  c #403500'',
     ''8  c #433800'',
     ''9  c #463B00'',
     ''0  c #4A3E00'',
     ''q  c #4B3F00'',
     ''w  c #4E4100'',
     ''e  c #524500'',
     ''r  c #554700'',
     ''t  c #564800'',
     ''y  c #584A00'',
     ''u  c #5E4F00'',
     ''i  c #5F5000'',
     ''p  c #605000'',
     ''a  c #635300'',
     ''s  c #685700'',
     ''d  c #6B5A00'',
     ''f  c #6D5B00'',
     ''g  c #6F5D00'',
     ''h  c #705E00'',
     ''j  c #756200'',
     ''k  c #766300'',
     ''l  c #776400'',
     ''z  c #796600'',
     ''x  c #7F6B00'',
     ''c  c #836E00'',
     ''v  c #846F00'',
     ''b  c #857000'',
     ''n  c #897300'',
     ''m  c #8C7600'',
     ''M  c #8F7800'',
     ''N  c #907900'',
     ''B  c #947C00'',
     ''V  c #957D00'',
     ''C  c #998100'',
     ''Z  c #9C8300'',
     ''A  c #9D8400'',
     ''S  c #A08600'',
     ''D  c #A38900'',
     ''F  c #A68B00'',
     ''G  c #A78C00'',
     ''H  c #A88D00'',
     ''J  c #AC9100'',
     ''K  c #AD9100'',
     ''L  c #B39600'',
     ''P  c #B49700'',
     ''I  c #B79A00'',
     ''U  c #B89B00'',
     ''Y  c #BA9C00'',
     ''T  c #BD9F00'',
     ''R  c #BFA100'',
     ''E  c #C1A200'',
     ''W  c #C3A400'',
     ''Q  c #C4A500'',
     ''!  c #C7A700'',
     ''~  c #C8A800'',
     ''^  c #CBAB00'',
     ''/  c #CEAD00'',
     ''(  c #D0AF00'',
     '')  c #D1B000'',
     ''_  c #D6B400'',
     ''`  c #D7B500'',
     [CHR 0x27] @ ''  c #D9B600'',
     '']  c #DBB800'',
     ''[  c #DCB900'',
     ''{  c #DFBC00'',
     ''}  c #E2BE00'',
     ''|  c #E5C100'',
     '' . c #E8C300'',
     ''.. c #EAC500'',
     ''X. c #EDC700'',
     ''o. c #EFC900'',
     ''O. c #F1CB00'',
     ''+. c #F3CC00'',
     ''@. c #F5CE00'',
     ''#. c #F7D000'',
     ''$. c #FAD200'',
     ''%. c #FCD400'',
     ''&. c #FFD700'',
     ''                                                                                                    '' @
       ''                                                                                                    '' @
       ''                                                                                                    '' @
       ''                          '',
     ''                                                                                                    '' @
       ''                                                                                                    '' @
       ''                                                                                                    '' @
       ''                          '',
     ''                                                                                                    '' @
       ''                                                                                                    '' @
       ''                                                                                                    '' @
       ''                          '',
     ''                                                                                                    '' @
       ''                                                                                                    '' @
       ''                                                                                                    '' @
       ''                          '']"

definition start1_xpm_2 :: "string list" where
  "start1_xpm_2 = [
     ''                                                                                                    '' @
       ''                                                                                                    '' @
       ''                                                                                                    '' @
       ''                          '',
     ''                                                                                                    '' @
       ''                                                                                                    '' @
       ''                                                                                                    '' @
       ''                          '',
     ''                                                                                                    '' @
       ''                                                                                                    '' @
       ''                                                                                                    '' @
       ''                          '',
     ''                                                                                                    '' @
       ''                                                                                                    '' @
       ''                                                                                                    '' @
       ''                          '',
     ''                                                                                                    '' @
       ''                                                                                                    '' @
       ''                                                                                                    '' @
       ''                          '',
     ''                                                                                                    '' @
       ''                                                                                                    '' @
       ''                                                                                                    '' @
       ''                          '',
     ''                                                                                                    '' @
       ''                                                                                                    '' @
       ''                                                                                                    '' @
       ''                          '']"

definition start1_xpm_3 :: "string list" where
  "start1_xpm_3 = [
     ''                                                                                                    '' @
       ''                                                                                                    '' @
       ''                                                                                                    '' @
       ''                          '',
     ''                                                                                                    '' @
       ''                                                                                                    '' @
       ''                                                                                                    '' @
       ''                          '',
     ''                                                                      o u K [ +.&.O.[ I c 6         '' @
       ''L &.&.&.&.&.&.&.&.&.&.&.&.&.&.&.&.&.&.N             $ #.&.]                           l &.&.&.&.&.&.'' @
       ''&.+.| R V 7             L &.&.&.&.&.&.&.&.&.&.&.&.&.&.&.&.&.&.V                                     '' @
       ''                          '',
     ''                                                                    w | &.&.&.&.&.&.&.&.&.&.} 2     '' @
       ''L &.&.&.&.&.&.&.&.&.&.&.&.&.&.&.&.&.&.V             g &.&.&.6                         z &.&.&.&.&.&.'' @
       ''&.&.&.&.&.&.( 5         L &.&.&.&.&.&.&.&.&.&.&.&.&.&.&.&.&.&.N                                     '' @
       ''                          '',
     ''                                                                  u &.&.&.&.| W T ~ ..&.&.&.+.+     '' @
       ''z P P P P P P P [ &.&.` L L P L L I L d             ) &.&.&.G                         z &.&.` K K K '' @
       ''K Y ` $.&.&.&.#.7       z P P P P L L I [ &.&.` P L L I L L I d                                     '' @
       ''                          '',
     ''                                    +                           = @.&.&.Q 3           * y K Z       '' @ ''                m &.&.h                           5 &.&.'' @ [CHR 0x27] @ '' &.#.$                       z &.&.v             + p ..&.&.| @                     m &.&.h          '' @ ''                           o X                                       '',
     ''                                - A L                           x &.&./ X                           '' @
       ''                m &.&.h                           C &.&.e &.&.d                       l &.&.v       '' @
       ''          : @.&.&.p                     m &.&.h                                     < [ p .         '' @
       ''                          '']"

definition start1_xpm_4 :: "string list" where
  "start1_xpm_4 = [
     ''                            = C $.&.U                           I &.&.u                             '' @
       ''                m &.&.h                         O +.&.E   o.&./                       l &.&.v       '' @
       ''            V &.&.G                     m &.&.h                                     < &.&.[ u       '' @
       ''                          '',
     ''                        * V $.&.&.+.h                           Q &.&.5                             '' @ ''                m &.&.h                         a &.&.f   A &.&.2                     z &.&.v       '' @ ''            y &.&.W                     m &.&.h                                     % Q &.&.&.'' @ [CHR 0x27] @ '' i                             '',
     ''                    * N $.&.&.o.c $                             P &.&.r                             '' @
       ''                m &.&.h                         Q &.$.*   7 &.&.V                     z &.&.v       '' @
       ''            q &.&.~                     m &.&.h                                         7 R &.&.&.` '' @
       ''t                         '',
     ''                % m @.&.&...z +                                 x &.&.K                             '' @
       ''                m &.&.h                       , &.&.L       { &.+.X                   l &.&.v       '' @
       ''            u &.&.I                     m &.&.h                                             3 I &.&.'' @
       ''&.) e                     '',
     ''            # n @.&.&.| h O                                     : &.&.&.x                           '' @
       ''                m &.&.h                       M &.&.e       c &.&.i                   z &.&.v       '' @
       ''            S &.&.c                     m &.&.h                                                 2 K '' @
       ''&.&.&./ w                 '',
     ''        # v @.&.&.{ s X                                           b &.&.&.Q 8                       '' @
       ''                m &.&.h                     X ..&...X       = &.&.E                   l &.&.v       '' @
       ''          2 &.&.$.;                     m &.&.h                                                     '' @
       '', G &.&.&.~ q             '',
     ''    @ c o.&.&.` p .                                                 m &.&.&.&.` j *                 '' @
       ''                m &.&.h                     y &.&.N           E &.&.:                 z &.&.v       '' @
       ''      X p o.&.&.c                       m &.&.h                                                     '' @
       ''    > S $.&.&.Q 9         '']"

definition start1_xpm_5 :: "string list" where
  "start1_xpm_5 = [
     ''  = o.&.&.) y                                                         9 ( &.&.&.&.$.L 5             '' @
       ''                m &.&.h                     T &.&.2           p &.&.b                 l &.&./ Z C A '' @
       ''A G E +.&.&.&.m                         m &.&.h                                                     '' @
       ''        - C $.&.&.C       '',
     ''  < &.&.&.L 9                                                             q L $.&.&.&.&.Y :         '' @
       ''                m &.&.h                   = &.&./             + @.&.| X               z &.&.&.&.&.&.'' @
       ''&.&.&.&.&.Q 9                           m &.&.h                                                     '' @
       ''        O d [ &.&.I       '',
     ''  X d '' @ [CHR 0x27] @ '' &.&.&.` d O                                                           % j ] &.&.&.+.9              '' @ ''         m &.&.h                   c &.&.h               S &.&.w               l &.&.&.&.&.&.&.&.&.&'' @ ''.{ X                             m &.&.h                                                         > M'' @ '' o.&.&.&.F 2       '',
     ''        w E &.&.&.O.m ;                                                             u ..&.&.O.=     '' @
       ''                m &.&.h                   | &.&.&.&.&.&.&.&.&.&.&.&.&.L               z &.&.b       '' @
       ''    ) &.&.j                             m &.&.h                                                     '' @
       ''q I &.&.&.+.m =           '',
     ''            2 F $.&.&.&.L 9                                                           * [ &.&.V     '' @
       ''                m &.&.h                 q &.&.&.&.&.&.&.&.&.&.&.&.&.&.&.*             z &.&.c       '' @
       ''    8 &.&.+.*                           m &.&.h                                               # j ] '' @
       ''&.&.&.[ j +               '',
     ''                = m O.&.&.&.` d +                                                       e &.&.[     '' @
       ''                m &.&.h                 L &.&.~ E E E E R E E E R [ &.&.l             z &.&.b       '' @
       ''      L &.&.D                           m &.&.h                                           < V @.&.&.'' @
       ''&.~ y o                   '',
     ''                    + h { &.&.&.O.N :                                                   + &.&.&.    '' @ ''                m &.&.h               % $.&.}                     5 &.&.'' @ [CHR 0x27] @ ''             z &.&.v             > $.&.&.5                         m &.&.h                          '' @ ''             r E &.&.&.&.L 6                         '']"

definition start1_xpm_6 :: "string list" where
  "start1_xpm_6 = [
     ''                        . t ~ &.&.&.U                                                   o &.&.$.    '' @
       ''                m &.&.h               j &.&.v                       ` &.&.6           z &.&.v       '' @
       ''        N &.&./                         m &.&.h                                     < &.&.&.@.V ;   '' @
       ''                          '',
     ''                              5 K &.U                                                   5 &.&.'' @ [CHR 0x27] @ ''                     m &.&.h               '' @ [CHR 0x27] @ '' &.&.;                       h &.&.G           l &.&.v               # o.&.&.s                      '' @ '' m &.&.h                                     < &.| z $                                 '',
     ''                                  ; u                                                 O W &.&.m     '' @
       ''                m &.&.h             6 &.&.E                         % $.&.@.#         z &.&.v       '' @
       ''          g &.&.X.#                     m &.&.h                                     * i X           '' @
       ''                          '',
     ''                                                              : '' @ [CHR 0x27] @ '' c 7 o             7 ~ &.&.o.*                     m &.&.h             D &.&.u                      '' @ ''     K &.&.d         l &.&.v                 X '' @ [CHR 0x27] @ '' &.&.V                     m &.&.h                                                                  '' @ ''             '',
     ''                                                              : &.&.&.&.[ R L L W X.&.&.&.@.9       '' @
       ''                m &.&.h           @ @.&.O.O                           q &.&./         z &.&.v       '' @
       ''            w &.&.&.<                   m &.&.h                                                     '' @
       ''                          '',
     ''                                                              = $.&.&.&.&.&.&.&.&.&.&.&.W 2         '' @
       ''                m &.&.h           d &.&.C                               } &.&.2       l &.&.v       '' @
       ''              R &.&.E                   m &.&.h                                                     '' @
       ''                          '',
     ''                                                                # p A ~ | @.&.#. .Q M 5             '' @
       ''                m &.&.h           / &.&.5                               c &.&.V       z &.&.v       '' @
       ''              < &.&.&.y                 m &.&.h                                                     '' @
       ''                          '']"

definition start1_xpm_7 :: "string list" where
  "start1_xpm_7 = [
     ''                                                                                                    '' @
       ''                                                                                                    '' @
       ''                                                                                                    '' @
       ''                          '',
     ''                                                                                                    '' @
       ''                                                                                                    '' @
       ''                                                                                                    '' @
       ''                          '',
     ''                                                                                                    '' @
       ''                                                                                                    '' @
       ''                                                                                                    '' @
       ''                          '',
     ''                                                                                                    '' @
       ''                                                                                                    '' @
       ''                                                                                                    '' @
       ''                          '',
     ''                                                                                                    '' @
       ''                                                                                                    '' @
       ''                                                                                                    '' @
       ''                          '',
     ''                                                                                                    '' @
       ''                                                                                                    '' @
       ''                                                                                                    '' @
       ''                          '',
     ''                                                                                                    '' @
       ''                                                                                                    '' @
       ''                                                                                                    '' @
       ''                          '']"

definition start1_xpm_8 :: "string list" where
  "start1_xpm_8 = [
     ''                                                                                                    '' @
       ''                                                                                                    '' @
       ''                                                                                                    '' @
       ''                          '',
     ''                                                                                                    '' @
       ''                                                                                                    '' @
       ''                                                                                                    '' @
       ''                          '',
     ''                                                                                                    '' @
       ''                                                                                                    '' @
       ''                                                                                                    '' @
       ''                          '',
     ''                                                                                                    '' @
       ''                                                                                                    '' @
       ''                                                                                                    '' @
       ''                          '',
     ''                                                                                                    '' @
       ''                                                                                                    '' @
       ''                                                                                                    '' @
       ''                          '']"

definition start1_xpm :: "string list" where
  "start1_xpm = start1_xpm_1 @ start1_xpm_2 @ start1_xpm_3 @ start1_xpm_4 @ start1_xpm_5 @ start1_xpm_6 @ start1_xpm_7 @ start1_xpm_8"

definition start2_xpm_1 :: "string list" where
  "start2_xpm_1 = [
     ''163 51 87 1 '',
     ''  c #000000'',
     ''. c #040100'',
     ''X c #0B0200'',
     ''o c #0D0300'',
     ''O c #110400'',
     ''+ c #130500'',
     ''@ c #160500'',
     ''# c #190600'',
     ''$ c #1B0700'',
     ''% c #1D0700'',
     ''& c #1E0800'',
     ''* c #200800'',
     ''= c #210800'',
     ''- c #240900'',
     ''; c #2A0B00'',
     '': c #2C0B00'',
     ''> c #2D0C00'',
     '', c #330D00'',
     ''< c #370E00'',
     ''1 c #3B0F00'',
     ''2 c #3D1000'',
     ''3 c #3E1000'',
     ''4 c #421100'',
     ''5 c #461200'',
     ''6 c #491300'',
     ''7 c #4A1400'',
     ''8 c #4E1500'',
     ''9 c #521600'',
     ''0 c #561700'',
     ''q c #581700'',
     ''w c #5A1800'',
     ''e c #5E1900'',
     ''r c #601900'',
     ''t c #631A00'',
     ''y c #6B1C00'',
     ''u c #6F1E00'',
     ''i c #701E00'',
     ''p c #761F00'',
     ''a c #772000'',
     ''s c #792000'',
     ''d c #7F2200'',
     ''f c #822300'',
     ''g c #832300'',
     ''h c #842300'',
     ''j c #892500'',
     ''k c #8C2500'',
     ''l c #902600'',
     ''z c #912700'',
     ''x c #942800'',
     ''c c #952800'',
     ''v c #992900'',
     ''b c #9D2A00'',
     ''n c #A12B00'',
     ''m c #A32C00'',
     ''M c #A62C00'',
     ''N c #AA2E00'',
     ''B c #AC2E00'',
     ''V c #AF2F00'',
     ''C c #B02F00'',
     ''Z c #B33000'',
     ''A c #B43000'',
     ''S c #B83100'',
     ''D c #BF3300'',
     ''F c #C03300'',
     ''G c #C13400'',
     ''H c #C73500'',
     ''J c #C83600'',
     ''K c #CD3700'',
     ''L c #CF3800'',
     ''P c #D03800'',
     ''I c #D53900'',
     ''U c #D73A00'',
     ''Y c #D93A00'',
     ''T c #DB3B00'',
     ''R c #DC3B00'',
     ''E c #DF3C00'',
     ''W c #E23D00'',
     ''Q c #E63E00'',
     ''! c #EA3F00'',
     ''~ c #EC3F00'',
     ''^ c #EF4000'',
     ''/ c #F34100'',
     ''( c #F64200'',
     '') c #F94300'',
     ''_ c #FA4300'',
     ''` c #FC4400'',
     [CHR 0x27] @ '' c #FF4500'',
     ''                                                                                                    '' @
       ''                                                               '',
     ''                                                                                                    '' @
       ''                                                               '',
     ''                                                                                                    '' @
       ''                                                               '',
     ''                                                                                                    '' @
       ''                                                               '',
     ''                                                                                                    '' @
       ''                                                               '',
     ''                                                                                                    '' @
       ''                                                               '',
     ''                                                                                                    '' @
       ''                                                               '',
     ''                                                                                                    '' @
       ''                                                               '',
     ''                                                                                                    '' @
       ''                                                               '',
     ''                                                                                                    '' @
       ''                                                               '']"

definition start2_xpm_2 :: "string list" where
  "start2_xpm_2 = [
     ''                                                                                                    '' @
       ''                                                               '',
     ''                                                                                                    '' @
       ''                                                               '',
     ''                                                                                                    '' @
       ''                                                               '',
     ''                                   XeNR/'' @ [CHR 0x27] @ ''/RAg3    Z'' @ [CHR 0x27, CHR 0x27, CHR 0x27, CHR 0x27, CHR 0x27, CHR 0x27, CHR 0x27, CHR 0x27, CHR 0x27, CHR 0x27, CHR 0x27, CHR 0x27, CHR 0x27, CHR 0x27, CHR 0x27, CHR 0x27, CHR 0x27, CHR 0x27] @ ''z      +('' @ [CHR 0x27] @ ''R             a'' @ [CHR 0x27, CHR 0x27, CHR 0x27, CHR 0x27, CHR 0x27, CHR 0x27, CHR 0x27] @ ''/QGl4      Z'' @ [CHR 0x27, CHR 0x27, CHR 0x27, CHR 0x27, CHR 0x27, CHR 0x27, CHR 0x27, CHR 0x27, CHR 0x27, CHR 0x27, CHR 0x27, CHR 0x27, CHR 0x27, CHR 0x27, CHR 0x27, CHR 0x27, CHR 0x27, CHR 0x27] @ ''c                               '',
     ''                                  8Q'' @ [CHR 0x27, CHR 0x27, CHR 0x27, CHR 0x27, CHR 0x27, CHR 0x27, CHR 0x27, CHR 0x27, CHR 0x27, CHR 0x27] @ ''W,  C'' @ [CHR 0x27, CHR 0x27, CHR 0x27, CHR 0x27, CHR 0x27, CHR 0x27, CHR 0x27, CHR 0x27, CHR 0x27, CHR 0x27, CHR 0x27, CHR 0x27, CHR 0x27, CHR 0x27, CHR 0x27, CHR 0x27, CHR 0x27, CHR 0x27] @ ''c      y'' @ [CHR 0x27, CHR 0x27, CHR 0x27] @ ''4            s'' @ [CHR 0x27, CHR 0x27, CHR 0x27, CHR 0x27, CHR 0x27, CHR 0x27, CHR 0x27, CHR 0x27, CHR 0x27, CHR 0x27, CHR 0x27, CHR 0x27] @ ''P3    C'' @ [CHR 0x27, CHR 0x27, CHR 0x27, CHR 0x27, CHR 0x27, CHR 0x27, CHR 0x27, CHR 0x27, CHR 0x27, CHR 0x27, CHR 0x27, CHR 0x27, CHR 0x27, CHR 0x27, CHR 0x27, CHR 0x27, CHR 0x27, CHR 0x27] @ ''l                               '',
     ''                                 e'' @ [CHR 0x27, CHR 0x27, CHR 0x27, CHR 0x27] @ ''QGDJ!'' @ [CHR 0x27, CHR 0x27, CHR 0x27] @ ''(o  sAAAAAAAR'' @ [CHR 0x27, CHR 0x27] @ ''IAAAAAAAy      P'' @ [CHR 0x27, CHR 0x27, CHR 0x27] @ ''M            s'' @ [CHR 0x27, CHR 0x27] @ ''IVNVVAI_'' @ [CHR 0x27, CHR 0x27, CHR 0x27] @ '')4   sAAAAAZZE'' @ [CHR 0x27, CHR 0x27] @ ''IAAAAAAAy                               '',
     ''                  o             &('' @ [CHR 0x27, CHR 0x27] @ ''G<     $wVv           k'' @ [CHR 0x27, CHR 0x27] @ ''i             <'' @ [CHR 0x27, CHR 0x27] @ ''Y'' @ [CHR 0x27] @ ''(+           s'' @ [CHR 0x27, CHR 0x27] @ ''h      or!'' @ [CHR 0x27, CHR 0x27] @ ''Qo          k'' @ [CHR 0x27, CHR 0x27] @ ''i                  X.                   '',
     ''                *bZ             d'' @ [CHR 0x27, CHR 0x27] @ ''K.                     k'' @ [CHR 0x27, CHR 0x27] @ ''i             b'' @ [CHR 0x27, CHR 0x27] @ ''9'' @ [CHR 0x27, CHR 0x27] @ ''y           a'' @ [CHR 0x27, CHR 0x27] @ ''h        -('' @ [CHR 0x27, CHR 0x27] @ ''r          k'' @ [CHR 0x27, CHR 0x27] @ ''i                  ;Er.                 '',
     ''              &v_'' @ [CHR 0x27] @ ''S             A'' @ [CHR 0x27, CHR 0x27] @ ''e                      k'' @ [CHR 0x27, CHR 0x27] @ ''i            X/'' @ [CHR 0x27] @ ''G.^'' @ [CHR 0x27] @ ''K           a'' @ [CHR 0x27, CHR 0x27] @ ''h         c'' @ [CHR 0x27, CHR 0x27] @ ''M          k'' @ [CHR 0x27, CHR 0x27] @ ''i                  ;'' @ [CHR 0x27, CHR 0x27] @ ''Ee                '',
     ''            $c_'' @ [CHR 0x27, CHR 0x27] @ ''/i             H'' @ [CHR 0x27, CHR 0x27] @ ''1                      k'' @ [CHR 0x27, CHR 0x27] @ ''i            r'' @ [CHR 0x27, CHR 0x27] @ ''y b'' @ [CHR 0x27, CHR 0x27] @ '',          s'' @ [CHR 0x27, CHR 0x27] @ ''h         q'' @ [CHR 0x27, CHR 0x27] @ ''G          k'' @ [CHR 0x27, CHR 0x27] @ ''i                  @H'' @ [CHR 0x27, CHR 0x27, CHR 0x27] @ ''Ie              '',
     ''          $l_'' @ [CHR 0x27, CHR 0x27] @ ''^g+              A'' @ [CHR 0x27, CHR 0x27] @ ''0                      k'' @ [CHR 0x27, CHR 0x27] @ ''i            J'' @ [CHR 0x27, CHR 0x27] @ ''@ 4'' @ [CHR 0x27, CHR 0x27] @ ''c          s'' @ [CHR 0x27, CHR 0x27] @ ''h         6'' @ [CHR 0x27, CHR 0x27] @ ''K          k'' @ [CHR 0x27, CHR 0x27] @ ''i                    4D'' @ [CHR 0x27, CHR 0x27, CHR 0x27] @ ''I0            '',
     ''        @k('' @ [CHR 0x27, CHR 0x27] @ ''!so                d'' @ [CHR 0x27, CHR 0x27] @ ''V                      k'' @ [CHR 0x27, CHR 0x27] @ ''i           ;'' @ [CHR 0x27, CHR 0x27] @ ''C   R'' @ [CHR 0x27] @ ''/X         a'' @ [CHR 0x27, CHR 0x27] @ ''h         e'' @ [CHR 0x27, CHR 0x27] @ ''S          k'' @ [CHR 0x27, CHR 0x27] @ ''i                      <A'' @ [CHR 0x27, CHR 0x27, CHR 0x27] @ ''P9          '',
     ''      @j/'' @ [CHR 0x27, CHR 0x27] @ ''QiX                  -'' @ [CHR 0x27, CHR 0x27, CHR 0x27] @ ''d                     k'' @ [CHR 0x27, CHR 0x27] @ ''i           l'' @ [CHR 0x27, CHR 0x27] @ ''9   g'' @ [CHR 0x27, CHR 0x27] @ ''e         s'' @ [CHR 0x27, CHR 0x27] @ ''h         n'' @ [CHR 0x27, CHR 0x27] @ ''d          k'' @ [CHR 0x27, CHR 0x27] @ ''i                        ,V'' @ [CHR 0x27, CHR 0x27, CHR 0x27] @ ''L8        '',
     ''    +h/'' @ [CHR 0x27, CHR 0x27] @ ''Wy                      h'' @ [CHR 0x27, CHR 0x27, CHR 0x27] @ ''H5                   k'' @ [CHR 0x27, CHR 0x27] @ ''i          .!'' @ [CHR 0x27] @ ''~.   %'' @ [CHR 0x27, CHR 0x27] @ ''F         a'' @ [CHR 0x27, CHR 0x27] @ ''h        <_'' @ [CHR 0x27, CHR 0x27] @ ''*          k'' @ [CHR 0x27, CHR 0x27] @ ''i                          ;M'' @ [CHR 0x27, CHR 0x27, CHR 0x27] @ ''K7      '',
     ''  og/'' @ [CHR 0x27, CHR 0x27] @ ''Ir.                        k'' @ [CHR 0x27, CHR 0x27, CHR 0x27, CHR 0x27] @ ''Ip$                k'' @ [CHR 0x27, CHR 0x27] @ ''i          w'' @ [CHR 0x27, CHR 0x27] @ ''z     G'' @ [CHR 0x27, CHR 0x27] @ ''-        s'' @ [CHR 0x27, CHR 0x27] @ ''h      .r^'' @ [CHR 0x27, CHR 0x27] @ ''g           k'' @ [CHR 0x27, CHR 0x27] @ ''i                            -m_'' @ [CHR 0x27, CHR 0x27] @ ''H5    '']"

definition start2_xpm_3 :: "string list" where
  "start2_xpm_3 = [
     '' &^'' @ [CHR 0x27, CHR 0x27] @ ''Pw                            5P'' @ [CHR 0x27, CHR 0x27, CHR 0x27, CHR 0x27] @ ''_Z3              k'' @ [CHR 0x27, CHR 0x27] @ ''i          A'' @ [CHR 0x27, CHR 0x27] @ '',     r'' @ [CHR 0x27, CHR 0x27] @ ''h        a'' @ [CHR 0x27, CHR 0x27] @ ''LbbvbMG('' @ [CHR 0x27, CHR 0x27, CHR 0x27] @ ''k            k'' @ [CHR 0x27, CHR 0x27] @ ''i                              &v_'' @ [CHR 0x27, CHR 0x27] @ ''v   '',
     '' >'' @ [CHR 0x27, CHR 0x27, CHR 0x27] @ ''Z5                              8V_'' @ [CHR 0x27, CHR 0x27, CHR 0x27, CHR 0x27] @ ''S-            k'' @ [CHR 0x27, CHR 0x27] @ ''i         &'' @ [CHR 0x27, CHR 0x27] @ ''L      o('' @ [CHR 0x27] @ ''Q.       s'' @ [CHR 0x27, CHR 0x27, CHR 0x27, CHR 0x27, CHR 0x27, CHR 0x27, CHR 0x27, CHR 0x27, CHR 0x27, CHR 0x27, CHR 0x27] @ ''H4             k'' @ [CHR 0x27, CHR 0x27] @ ''i                              XyE'' @ [CHR 0x27, CHR 0x27] @ ''Z   '',
     '' .yY'' @ [CHR 0x27, CHR 0x27, CHR 0x27] @ ''IyX                             @yY'' @ [CHR 0x27, CHR 0x27, CHR 0x27] @ ''(5           k'' @ [CHR 0x27, CHR 0x27] @ ''i         g'' @ [CHR 0x27, CHR 0x27] @ ''i       b'' @ [CHR 0x27, CHR 0x27] @ ''8       s'' @ [CHR 0x27, CHR 0x27, CHR 0x27, CHR 0x27, CHR 0x27, CHR 0x27, CHR 0x27, CHR 0x27, CHR 0x27, CHR 0x27] @ ''W.              k'' @ [CHR 0x27, CHR 0x27] @ ''i                            -k/'' @ [CHR 0x27, CHR 0x27] @ ''_N,   '',
     ''    8G'' @ [CHR 0x27, CHR 0x27, CHR 0x27] @ ''/k*                              e^'' @ [CHR 0x27, CHR 0x27] @ ''/&          k'' @ [CHR 0x27, CHR 0x27] @ ''i         Q'' @ [CHR 0x27, CHR 0x27, CHR 0x27, CHR 0x27, CHR 0x27, CHR 0x27, CHR 0x27, CHR 0x27, CHR 0x27, CHR 0x27, CHR 0x27, CHR 0x27, CHR 0x27] @ ''Z       s'' @ [CHR 0x27, CHR 0x27] @ ''h     P'' @ [CHR 0x27, CHR 0x27] @ ''p              k'' @ [CHR 0x27, CHR 0x27] @ ''i                          8A'' @ [CHR 0x27, CHR 0x27, CHR 0x27] @ ''/k&     '',
     ''      ,M_'' @ [CHR 0x27, CHR 0x27, CHR 0x27] @ ''Z5                             $E'' @ [CHR 0x27, CHR 0x27] @ ''l          k'' @ [CHR 0x27, CHR 0x27] @ ''i        7'' @ [CHR 0x27, CHR 0x27, CHR 0x27, CHR 0x27, CHR 0x27, CHR 0x27, CHR 0x27, CHR 0x27, CHR 0x27, CHR 0x27, CHR 0x27, CHR 0x27, CHR 0x27, CHR 0x27] @ ''_&      s'' @ [CHR 0x27, CHR 0x27] @ ''h     4'' @ [CHR 0x27, CHR 0x27] @ ''/$             k'' @ [CHR 0x27, CHR 0x27] @ ''i                       oiE'' @ [CHR 0x27, CHR 0x27, CHR 0x27] @ ''Wio       '',
     ''        %k/'' @ [CHR 0x27, CHR 0x27, CHR 0x27] @ ''Iyo                           8'' @ [CHR 0x27, CHR 0x27] @ ''E          k'' @ [CHR 0x27, CHR 0x27] @ ''i        Z'' @ [CHR 0x27, CHR 0x27] @ ''JGGDFFFGFFE'' @ [CHR 0x27, CHR 0x27] @ ''s      s'' @ [CHR 0x27, CHR 0x27] @ ''h      Z'' @ [CHR 0x27, CHR 0x27] @ ''m             k'' @ [CHR 0x27, CHR 0x27] @ ''i                     >v('' @ [CHR 0x27, CHR 0x27, CHR 0x27] @ ''Jw          '',
     ''          oiE'' @ [CHR 0x27, CHR 0x27, CHR 0x27] @ ''/l-                         o'' @ [CHR 0x27, CHR 0x27, CHR 0x27] @ ''          k'' @ [CHR 0x27, CHR 0x27] @ ''i       @)'' @ [CHR 0x27] @ ''W          1'' @ [CHR 0x27, CHR 0x27] @ ''Y      s'' @ [CHR 0x27, CHR 0x27] @ ''h      -_'' @ [CHR 0x27, CHR 0x27] @ ''3            k'' @ [CHR 0x27, CHR 0x27] @ ''i                   0G'' @ [CHR 0x27, CHR 0x27, CHR 0x27, CHR 0x27] @ ''C3            '',
     ''            .0J'' @ [CHR 0x27, CHR 0x27, CHR 0x27] @ ''S                         .'' @ [CHR 0x27, CHR 0x27] @ ''_          k'' @ [CHR 0x27, CHR 0x27] @ ''i       p'' @ [CHR 0x27, CHR 0x27] @ ''h           I'' @ [CHR 0x27, CHR 0x27] @ ''3     s'' @ [CHR 0x27, CHR 0x27] @ ''h       l'' @ [CHR 0x27, CHR 0x27] @ ''K            k'' @ [CHR 0x27, CHR 0x27] @ ''i                  :'' @ [CHR 0x27, CHR 0x27, CHR 0x27] @ ''/c-              '',
     ''               1V'' @ [CHR 0x27] @ ''S                         1'' @ [CHR 0x27, CHR 0x27] @ ''Y          k'' @ [CHR 0x27, CHR 0x27] @ ''i       Y'' @ [CHR 0x27, CHR 0x27] @ ''*           a'' @ [CHR 0x27, CHR 0x27] @ ''M     a'' @ [CHR 0x27, CHR 0x27] @ ''h       +^'' @ [CHR 0x27, CHR 0x27] @ ''y           k'' @ [CHR 0x27, CHR 0x27] @ ''i                  :'' @ [CHR 0x27] @ ''Qs@                '',
     ''                 *e                        XG'' @ [CHR 0x27, CHR 0x27] @ ''k          k'' @ [CHR 0x27, CHR 0x27] @ ''i      3'' @ [CHR 0x27, CHR 0x27] @ ''D            +_'' @ [CHR 0x27] @ ''(+    s'' @ [CHR 0x27, CHR 0x27] @ ''h        i'' @ [CHR 0x27, CHR 0x27] @ ''!+          k'' @ [CHR 0x27, CHR 0x27] @ ''i                  &e.                  '',
     ''                               -Yg3X      4J'' @ [CHR 0x27, CHR 0x27] @ ''~$          k'' @ [CHR 0x27, CHR 0x27] @ ''i      m'' @ [CHR 0x27, CHR 0x27] @ ''e             V'' @ [CHR 0x27, CHR 0x27] @ ''y    a'' @ [CHR 0x27, CHR 0x27] @ ''h        .Y'' @ [CHR 0x27, CHR 0x27] @ ''c          k'' @ [CHR 0x27, CHR 0x27] @ ''i                                       '',
     ''                               -'' @ [CHR 0x27, CHR 0x27, CHR 0x27, CHR 0x27] @ ''RDZZG^'' @ [CHR 0x27, CHR 0x27, CHR 0x27] @ ''(5           k'' @ [CHR 0x27, CHR 0x27] @ ''i     o('' @ [CHR 0x27] @ ''/X             6'' @ [CHR 0x27, CHR 0x27] @ ''K    s'' @ [CHR 0x27, CHR 0x27] @ ''h         8'' @ [CHR 0x27, CHR 0x27, CHR 0x27] @ ''>         k'' @ [CHR 0x27, CHR 0x27] @ ''i                                       '',
     ''                               %_'' @ [CHR 0x27, CHR 0x27, CHR 0x27, CHR 0x27, CHR 0x27, CHR 0x27, CHR 0x27, CHR 0x27, CHR 0x27, CHR 0x27, CHR 0x27] @ ''H>            k'' @ [CHR 0x27, CHR 0x27] @ ''i     y'' @ [CHR 0x27, CHR 0x27] @ ''v               W'' @ [CHR 0x27, CHR 0x27] @ '',   a'' @ [CHR 0x27, CHR 0x27] @ ''h          D'' @ [CHR 0x27, CHR 0x27] @ ''G         k'' @ [CHR 0x27, CHR 0x27] @ ''i                                       '',
     ''                                +rbJQ(_(!Gk3              k'' @ [CHR 0x27, CHR 0x27] @ ''i     L'' @ [CHR 0x27, CHR 0x27] @ ''3               g'' @ [CHR 0x27, CHR 0x27] @ ''c   s'' @ [CHR 0x27, CHR 0x27] @ ''h          >_'' @ [CHR 0x27, CHR 0x27] @ ''w        k'' @ [CHR 0x27, CHR 0x27] @ ''i                                       '',
     ''                                                                                                    '' @
       ''                                                               '']"

definition start2_xpm_4 :: "string list" where
  "start2_xpm_4 = [
     ''                                                                                                    '' @
       ''                                                               '',
     ''                                                                                                    '' @
       ''                                                               '',
     ''                                                                                                    '' @
       ''                                                               '',
     ''                                                                                                    '' @
       ''                                                               '',
     ''                                                                                                    '' @
       ''                                                               '',
     ''                                                                                                    '' @
       ''                                                               '',
     ''                                                                                                    '' @
       ''                                                               '',
     ''                                                                                                    '' @
       ''                                                               '',
     ''                                                                                                    '' @
       ''                                                               '',
     ''                                                                                                    '' @
       ''                                                               '',
     ''                                                                                                    '' @
       ''                                                               '']"

definition start2_xpm :: "string list" where
  "start2_xpm = start2_xpm_1 @ start2_xpm_2 @ start2_xpm_3 @ start2_xpm_4"

definition scores1_xpm_1 :: "string list" where
  "scores1_xpm_1 = [
     ''193 51 110 2 '',
     ''   c #000000'',
     ''.  c #040300'',
     ''X  c #070500'',
     ''o  c #080600'',
     ''O  c #0B0900'',
     ''+  c #0D0A00'',
     ''@  c #0F0C00'',
     ''#  c #110E00'',
     ''$  c #131000'',
     ''%  c #161200'',
     ''&  c #1B1600'',
     ''*  c #1D1800'',
     ''=  c #201A00'',
     ''-  c #221C00'',
     '';  c #241E00'',
     '':  c #272000'',
     ''>  c #282100'',
     '',  c #2B2400'',
     ''<  c #2D2500'',
     ''1  c #302800'',
     ''2  c #332B00'',
     ''3  c #362D00'',
     ''4  c #382F00'',
     ''5  c #3B3100'',
     ''6  c #3D3300'',
     ''7  c #3E3400'',
     ''8  c #403500'',
     ''9  c #433800'',
     ''0  c #463B00'',
     ''q  c #483C00'',
     ''w  c #4B3F00'',
     ''e  c #4E4100'',
     ''r  c #514400'',
     ''t  c #524500'',
     ''y  c #554700'',
     ''u  c #564800'',
     ''i  c #584A00'',
     ''p  c #5B4C00'',
     ''a  c #5E4F00'',
     ''s  c #5F5000'',
     ''d  c #605000'',
     ''f  c #645400'',
     ''g  c #685700'',
     ''h  c #6B5A00'',
     ''j  c #6C5B00'',
     ''k  c #6F5D00'',
     ''l  c #705E00'',
     ''z  c #736000'',
     ''x  c #766300'',
     ''c  c #786500'',
     ''v  c #796600'',
     ''b  c #7B6700'',
     ''n  c #7D6900'',
     ''m  c #7F6B00'',
     ''M  c #806B00'',
     ''N  c #836E00'',
     ''B  c #846F00'',
     ''V  c #857000'',
     ''C  c #887200'',
     ''Z  c #8A7400'',
     ''A  c #8C7600'',
     ''S  c #8F7800'',
     ''D  c #907900'',
     ''F  c #937B00'',
     ''G  c #957D00'',
     ''H  c #988000'',
     ''J  c #998100'',
     ''K  c #9C8300'',
     ''L  c #9D8400'',
     ''P  c #A08600'',
     ''I  c #A28800'',
     ''U  c #A68B00'',
     ''Y  c #A78C00'',
     ''T  c #AA8F00'',
     ''R  c #AC9100'',
     ''E  c #AD9100'',
     ''W  c #AF9300'',
     ''Q  c #B39600'',
     ''!  c #B49700'',
     ''~  c #B59800'',
     ''^  c #B89B00'',
     ''/  c #BA9C00'',
     ''(  c #BD9F00'',
     '')  c #BFA100'',
     ''_  c #C1A200'',
     ''`  c #C3A400'',
     [CHR 0x27] @ ''  c #C7A700'',
     '']  c #C8A800'',
     ''[  c #CCAC00'',
     ''{  c #D1B000'',
     ''}  c #D4B200'',
     ''|  c #D7B500'',
     '' . c #D9B600'',
     ''.. c #DBB800'',
     ''X. c #DDBA00'',
     ''o. c #DFBC00'',
     ''O. c #E2BE00'',
     ''+. c #E4C000'',
     ''@. c #E5C100'',
     ''#. c #E8C300'',
     ''$. c #EAC500'',
     ''%. c #ECC600'',
     ''&. c #EFC900'',
     ''*. c #F1CB00'',
     ''=. c #F3CC00'',
     ''-. c #F5CE00'',
     '';. c #F7D000'',
     '':. c #FAD200'',
     ''>. c #FBD300'',
     '',. c #FFD700'',
     ''                                                                                                    '' @
       ''                                                                                                    '' @
       ''                                                                                                    '' @
       ''                                                                                      '',
     ''                                                                                                    '' @
       ''                                                                                                    '' @
       ''                                                                                                    '' @
       ''                                                                                      '',
     ''                                                                                                    '' @
       ''                                                                                                    '' @
       ''                                                                                                    '' @
       ''                                                                                      '']"

definition scores1_xpm_2 :: "string list" where
  "scores1_xpm_2 = [
     ''                                                                                                    '' @
       ''                                                                                                    '' @
       ''                                                                                                    '' @
       ''                                                                                      '',
     ''                                                                                                    '' @
       ''                                                                                                    '' @
       ''                                                                                                    '' @
       ''                                                                                      '',
     ''                                                                                                    '' @
       ''                                                                                                    '' @
       ''                                                                                                    '' @
       ''                                                                                      '',
     ''                                                                                                    '' @
       ''                                                                                                    '' @
       ''                                                                                                    '' @
       ''                                                                                      '',
     ''                                                                                                    '' @
       ''                                                                                                    '' @
       ''                                                                                                    '' @
       ''                                                                                      '',
     ''                                                                                                    '' @
       ''                                                                                                    '' @
       ''                                                                                                    '' @
       ''                                                                                      '']"

definition scores1_xpm_3 :: "string list" where
  "scores1_xpm_3 = [
     ''                                                                                                    '' @
       ''                                                                                                    '' @
       ''                                                                                                    '' @
       ''                                                                                      '',
     ''                                                                                                    '' @
       ''                                                                                                    '' @
       ''                                                                                                    '' @
       ''                                                                                      '',
     ''                                                                                                    '' @
       ''                                                                                                    '' @
       ''                                                                                                    '' @
       ''                                                                                      '',
     ''                                                                                                    '' @
       ''                                                                                                    '' @
       ''                                                                                                    '' @
       ''                                                                                      '',
     ''                                                                      o a T X.=.,.*.X.~ N 7         '' @ ''                  * l E ..*.,.=.@._ D e O                     0 Z '' @ [CHR 0x27] @ '' o.=.-.O.] S 0 X                       v ,.,.,.,.,.,.,.=.@._ G 8                   v ,.,.,.,.,.,.,.,'' @ ''.,.,.,.,.,.X.              o a T ..*.,.*.o.~ B 7                                                    '' @ ''                   '',
     ''                                                                    e @.,.,.,.,.,.,.,.,.,.,.O.2     '' @
       ''              - Y ,.,.,.,.,.,.,.,.,.,.,.*.u               u  .,.,.,.,.,.,.,.,.,.,.| u               '' @
       ''      v ,.,.,.,.,.,.,.,.,.,.,.,.{ 5               v ,.,.,.,.,.,.,.,.,.,.,.,.,...            e @.,.,.'' @
       '',.,.,.,.,.,.,.,.@.2                                                                   '']"

definition scores1_xpm_4 :: "string list" where
  "scores1_xpm_4 = [
     ''                                                                  a ,.,.,.,.@.` ) ] $.,.,.,.=.+     '' @ ''            d -.,.,.,.,.$.[ ( '' @ [CHR 0x27] @ '' @.,.,.,.,.>           X I ,.,.,.,.,.X.] '' @ [CHR 0x27] @ ''  .:.,.,.,.,.L X                 v ,.,.| E E E E / { :.,.,.,.:.8             v ,.,...! ! ! ! ! ~ Q ~'' @ '' Q ~ J           s ,.,.,.,.@.'' @ [CHR 0x27] @ '' / ] $.,.,.,.*.+                                                                   '',
     ''                                    +                           * -.,.,.'' @ [CHR 0x27] @ '' 3           & i E K                 l ,.,.,.:.Z 2           % i ~ U             / ,.,.,.{ i $      '' @ ''   + e '' @ [CHR 0x27] @ '' ,.,.,.Q                 c ,.,.B             + f #.,.,.@.+           v ,.,.N                        '' @ ''       * -.,.,.'' @ [CHR 0x27] @ '' 3           & p E J                           o X                                       '',
     ''                                = L Q                           n ,.,.[ X                           '' @
       ''        q ,.,.,.{ =                                 n ,.,.,.N                     j ,.,.,.v         '' @
       ''      v ,.,.B                 : -.,.,.d           v ,.,.V                               n ,.,.[ X   '' @
       ''                                            < X.d X                                   '',
     ''                            * J :.,.^                           ~ ,.,.a                             '' @
       ''      + O.,.,.[ @                                 : ,.,.,.N                         h ,.,.:.:       '' @
       ''      v ,.,.B                   D ,.,.Y           c ,.,.N                               ~ ,.,.s     '' @
       ''                                            , ,.,...s                                 '',
     ''                        & G :.,.,.=.l                           '' @ [CHR 0x27] @ '' ,.,.7                                   v ,.,.-.;                                   J ,.,.[ X      '' @ ''                     ) ,.,.G             c ,.,.B                   u ,.,.'' @ [CHR 0x27] @ ''           v ,.,.V                               '' @ [CHR 0x27] @ '' ,.,.7                                                 % ` ,.,.,.| a                             '',
     ''                    & D :.,.,.&.N $                             ~ ,.,.u                             '' @
       ''      O.,.,.C                                   O -.,.,.u                             q ,.,.-.+     '' @
       ''      v ,.,.B                   q ,.,.[           v ,.,.N                               ~ ,.,.r     '' @
       ''                                                8 ( ,.,.,.} u                         '']"

definition scores1_xpm_5 :: "string list" where
  "scores1_xpm_5 = [
     ''                % A -.,.,.$.v +                                 n ,.,.E                             '' @
       ''    2 ,.,.,.*                                   9 ,.,.&.X                               @.,.,.0     '' @
       ''      v ,.,.B                   s ,.,.~           v ,.,.V                               N ,.,.E     '' @
       ''                                                    4 ~ ,.,.,.{ y                     '',
     ''            % C -.,.,.@.l O                                     ; ,.,.,.n                           '' @
       ''    x ,.,.}                                     b ,.,./                                 E ,.,.N     '' @
       ''      v ,.,.B                   P ,.,.N           c ,.,.N                               - ,.,.,.n   '' @
       ''                                                        2 E ,.,.,.[ e                 '',
     ''        # B *.,.,.o.g X                                           V ,.,.,.'' @ [CHR 0x27] @ '' 0                           L ,.,.J                                     I ,.,.V                    '' @ ''             N ,.,.E           v ,.,.B                 2 :.,.>.-           c ,.,.V                  '' @ ''               V ,.,.,.'' @ [CHR 0x27] @ '' 9                                                           < U ,.,.,.[ q             '',
     ''    @ N &.,.,.| d .                                                 A ,.,.,.,.} z &                 '' @ ''    / ,.,.n                                     ~ ,.,.z                                 h ,.,.(     '' @ ''      v ,.,.B             X d $.,.,.M             v ,.,.,.,.,.,.,.,.,.,.,.,.,.<             A ,.,.,.'' @ '',.| x &                                                         : P :.,.,.'' @ [CHR 0x27] @ '' 0         '',
     ''  * &.,.,.{ i                                                         0 { ,.,.,.,.:.Q 7             '' @ ''    '' @ [CHR 0x27] @ '' ,.,.h                                     '' @ [CHR 0x27] @ '' ,.,.f                                 i ,.,.[           v ,.,.[ L K L K U _ =.,.,.,.A              '' @ '' v ,.,.,.,.,.,.,.,.,.,.,.,.,.<               0 { ,.,.,.,.:.E 7                                      '' @ ''                   = J :.,.,.J       '',
     ''  < ,.,.,.Q 0                                                             q ~ :.,.,.,.,./ ;         '' @ ''    '' @ [CHR 0x27] @ '' ,.,.h                                     _ ,.,.d                                 p ,.,.[          '' @ '' v ,.,.,.,.,.,.,.,.,.,.,.'' @ [CHR 0x27] @ '' 9                 c ,.,. .W E Q Q Q E Q Q W Q *                   q E ,.,.,.,.,./ -                '' @ ''                                     O h X.,.,.~       '']"

definition scores1_xpm_6 :: "string list" where
  "scores1_xpm_6 = [
     ''  X h  .,.,.,.| h O                                                           % z ..,.,.,.=.0       '' @
       ''    Q ,.,.v                                     Q ,.,.l                                 h ,.,.)     '' @
       ''      v ,.,.,.,.,.,.,.,.,.,.O.X                   c ,.,.V                                           '' @
       ''  % z  .,.,.,.=.0                                               ; S &.,.,.:.T 2       '',
     ''        e _ ,.,.,.*.A -                                                             s $.,.,.=.*     '' @
       ''    I ,.,.D                                     L ,.,.V                                 N ,.,.E     '' @
       ''      v ,.,.B           { ,.,.v                   v ,.,.N                                           '' @
       ''        s $.,.,.=.*                                         e ~ ,.,.,.*.A *           '',
     ''            2 U :.,.,.,.Q 0                                                           & o.,.,.G     '' @
       ''    v ,.,.]                                     v ,.,./                                 E ,.,.M     '' @
       ''      v ,.,.B           9 ,.,.*.&                 v ,.,.V                                           '' @
       ''          & o.,.,.G                                   # l X.,.,.,.O.z +               '',
     ''                * A *.,.,.,.| h +                                                       e ,.,.X.    '' @
       ''    8 ,.,.:.#                                   7 ,.,.%.X                               @.,.,.0     '' @
       ''      v ,.,.V             ! ,.,.I                 c ,.,.N                                           '' @
       ''            e ,.,.o.                              < J -.,.,.,.] p .                   '',
     ''                    + l o.,.,.,.*.D ;                                                   + ,.,.,.    '' @
       ''    + -.,.,.z                                   O -.,.,.r                             0 ,.,.=.O     '' @
       ''      v ,.,.B             ; :.,.,.5               c ,.,.V                                           '' @
       ''            @ ,.,.:.                        . y _ ,.,.,.,.E 7                         '',
     ''                        . u ] ,.,.,.^                                                   o ,.,.:.    '' @ ''      J ,.,.@.$                                   G ,.,.'' @ [CHR 0x27] @ ''                             ^ ,.,.G             v ,.,.B               D ,.,.[               v ,.,.B'' @ ''                                                       X ,.,.:.                        < ,.,.,.-.G ;'' @ ''                             '']"

definition scores1_xpm_7 :: "string list" where
  "scores1_xpm_7 = [
     ''                              5 E ,.^                                                   5 ,.,. .    '' @
       ''      < ,.,.,.E .                                 > :.,.,.z                         d ,.,.:.:       '' @
       ''      v ,.,.B               # &.,.,.g             v ,.,.B                                           '' @
       ''            5 ,.,. .                        < ,.@.v #                                 '',
     ''                                  - a                                                 o ` ,.,.Z     '' @ ''        V ,.,.,.Q +                                 B ,.,.,.z                     a ,.,.,.x         '' @ ''      v ,.,.B                 j ,.,.%.#           v ,.,.B                                           '' @ ''          o '' @ [CHR 0x27] @ '' ,.,.A                         & s X                                     '',
     ''                                                              ;  .N 8 o             8 [ ,.,.&.&     '' @ ''        . ) ,.,.,.%.x =             < f a           . / ,.,.,.'' @ [CHR 0x27] @ '' q O         X 7 ~ ,.,.,.Q                 v ,.,.B                 o  .,.,.D           v ,.,.B      '' @ ''                       ;  .N 8 o           . 8 ] ,.,.&.%                                            '' @ ''                       '',
     ''                                                              ; ,.,.,.,.X.) Q Q _ &.,.,.,.-.0       '' @
       ''          o T ,.,.,.,.,.O.] / ] X.-.,.,.U             X Y ,.,.,.,.-.[ ~ ~ ] *.,.,.,.,.L .           '' @
       ''      v ,.,.B                   e ,.,.,.<         v ,.,.X.^ ^ ^ ^ ^ ^ ^ ^ ^ ^ L       ; ,.,.,.,.X.) '' @
       ''Q Q _ &.,.,.,.-.0                                                                     '',
     ''                                                              * :.,.,.,.,.,.,.,.,.,.,.,.'' @ [CHR 0x27] @ '' <                       a X.,.,.,.,.,.,.,.,.,.,.,.I                 a ..,.,.,.,.,.,.,.,.,.,.| r    '' @ ''                 v ,.,.B                     ) ,.,._         v ,.,.,.,.,.,.,.,.,.,.,.,.,...      * ;'' @ ''.,.,.,.,.,.,.,.,.,.,.,.'' @ [CHR 0x27] @ '' 2                                                                       '',
     ''                                                                # d L ] @.-.:.;.$.` S 5             '' @ ''                X q A ] O.-.,.=.O._ G u @                   X 0 S ] O.-.-.@.] A 0                   '' @ ''      v ,.,.B                     < ,.,.,.i       v ,.,.,.,.,.,.,.,.,.,.,.,.,.X.        # d L '' @ [CHR 0x27] @ '' @.-.:.:.#.'' @ [CHR 0x27] @ '' A 5                                                                           '']"

definition scores1_xpm_8 :: "string list" where
  "scores1_xpm_8 = [
     ''                                                                                                    '' @
       ''                                                                                                    '' @
       ''                                                                                                    '' @
       ''                                                                                      '',
     ''                                                                                                    '' @
       ''                                                                                                    '' @
       ''                                                                                                    '' @
       ''                                                                                      '',
     ''                                                                                                    '' @
       ''                                                                                                    '' @
       ''                                                                                                    '' @
       ''                                                                                      '',
     ''                                                                                                    '' @
       ''                                                                                                    '' @
       ''                                                                                                    '' @
       ''                                                                                      '',
     ''                                                                                                    '' @
       ''                                                                                                    '' @
       ''                                                                                                    '' @
       ''                                                                                      '',
     ''                                                                                                    '' @
       ''                                                                                                    '' @
       ''                                                                                                    '' @
       ''                                                                                      '']"

definition scores1_xpm_9 :: "string list" where
  "scores1_xpm_9 = [
     ''                                                                                                    '' @
       ''                                                                                                    '' @
       ''                                                                                                    '' @
       ''                                                                                      '',
     ''                                                                                                    '' @
       ''                                                                                                    '' @
       ''                                                                                                    '' @
       ''                                                                                      '',
     ''                                                                                                    '' @
       ''                                                                                                    '' @
       ''                                                                                                    '' @
       ''                                                                                      '',
     ''                                                                                                    '' @
       ''                                                                                                    '' @
       ''                                                                                                    '' @
       ''                                                                                      '',
     ''                                                                                                    '' @
       ''                                                                                                    '' @
       ''                                                                                                    '' @
       ''                                                                                      '',
     ''                                                                                                    '' @
       ''                                                                                                    '' @
       ''                                                                                                    '' @
       ''                                                                                      '']"

definition scores1_xpm :: "string list" where
  "scores1_xpm = scores1_xpm_1 @ scores1_xpm_2 @ scores1_xpm_3 @ scores1_xpm_4 @ scores1_xpm_5 @ scores1_xpm_6 @ scores1_xpm_7 @ scores1_xpm_8 @ scores1_xpm_9"

definition scores2_xpm_1 :: "string list" where
  "scores2_xpm_1 = [
     ''193 51 91 1 '',
     ''  c #000000'',
     ''. c #040100'',
     ''X c #0B0200'',
     ''o c #0C0300'',
     ''O c #0D0300'',
     ''+ c #110400'',
     ''@ c #130500'',
     ''# c #160500'',
     ''$ c #190600'',
     ''% c #1B0700'',
     ''& c #1D0700'',
     ''* c #1E0800'',
     ''= c #200800'',
     ''- c #240900'',
     ''; c #270A00'',
     '': c #280A00'',
     ''> c #2B0B00'',
     '', c #2C0B00'',
     ''< c #2F0C00'',
     ''1 c #330D00'',
     ''2 c #360E00'',
     ''3 c #3B0F00'',
     ''4 c #3D1000'',
     ''5 c #3E1000'',
     ''6 c #421100'',
     ''7 c #471300'',
     ''8 c #481300'',
     ''9 c #4A1400'',
     ''0 c #4E1500'',
     ''q c #521600'',
     ''w c #561700'',
     ''e c #581700'',
     ''r c #5A1800'',
     ''t c #5E1900'',
     ''y c #601900'',
     ''u c #641B00'',
     ''i c #681C00'',
     ''p c #6A1C00'',
     ''a c #6F1E00'',
     ''s c #701E00'',
     ''d c #751F00'',
     ''f c #782000'',
     ''g c #792000'',
     ''h c #7D2100'',
     ''j c #822300'',
     ''k c #832300'',
     ''l c #842300'',
     ''z c #852300'',
     ''x c #892500'',
     ''c c #8C2500'',
     ''v c #902600'',
     ''b c #912700'',
     ''n c #952800'',
     ''m c #992900'',
     ''M c #9C2A00'',
     ''N c #9D2A00'',
     ''B c #A02B00'',
     ''V c #A32C00'',
     ''C c #A62C00'',
     ''Z c #AA2E00'',
     ''A c #AE2F00'',
     ''S c #AF2F00'',
     ''D c #B02F00'',
     ''F c #B33000'',
     ''G c #B53000'',
     ''H c #B83100'',
     ''J c #BD3300'',
     ''K c #BF3300'',
     ''L c #C13400'',
     ''P c #C23400'',
     ''I c #C43500'',
     ''U c #C83600'',
     ''Y c #CD3700'',
     ''T c #CF3800'',
     ''R c #D13800'',
     ''E c #D53900'',
     ''W c #DA3A00'',
     ''Q c #DC3B00'',
     ''! c #DF3C00'',
     ''~ c #E33D00'',
     ''^ c #E63E00'',
     ''/ c #EA3F00'',
     ''( c #EC3F00'',
     '') c #EF4000'',
     ''_ c #F34100'',
     ''` c #F64200'',
     [CHR 0x27] @ '' c #F84300'',
     ''] c #F94300'',
     ''[ c #FA4300'',
     ''{ c #FC4400'',
     ''} c #FF4500'',
     ''                                                                                                    '' @
       ''                                                                                             '',
     ''                                                                                                    '' @
       ''                                                                                             '',
     ''                                                                                                    '' @
       ''                                                                                             '',
     ''                                                                                                    '' @
       ''                                                                                             '',
     ''                                                                                                    '' @
       ''                                                                                             '',
     ''                                                                                                    '' @
       ''                                                                                             '',
     ''                                                                                                    '' @
       ''                                                                                             '',
     ''                                                                                                    '' @
       ''                                                                                             '']"

definition scores2_xpm_2 :: "string list" where
  "scores2_xpm_2 = [
     ''                                                                                                    '' @
       ''                                                                                             '',
     ''                                                                                                    '' @
       ''                                                                                             '',
     ''                                                                                                    '' @
       ''                                                                                             '',
     ''                                                                                                    '' @
       ''                                                                                             '',
     ''                                                                                                    '' @
       ''                                                                                             '',
     ''                                   XtZQ_}_!Gk5             &pSE)}_^Lv0X          7xI!_`~Uc9.        '' @
       ''   g}}}}}}}_^Lv6         g}}}}}}}}}}}}}Q       XtZQ_[_!Fz5                                   '',
     ''                                  0^}}}}}}}}}}~<         =Z}}}}}}}}}}}_r       wW}}}}}}}}}}Ww       '' @
       ''   g}}}}}}}}}}}}R5       g}}}}}}}}}}}}}Q      0^}}}}}}}}}}~<                                 '',
     ''                                 t}}}}^LKU/}}}`O        t`}}}})TKI^}}}]:     .V}}}}}!ULW]}}}}V.     '' @
       ''   g}}EAAZAGE]}}}`6      g}}WGFGFGFGFGGm     t}}}}^LKI)}}}`X                                 '',
     ''                  O             *`}}L2     %rSm        p}}}[x1     #rGC      H}}}Rr@    X0I}}}F     '' @
       ''   f}}l      Oy)}}~O     g}}k               *`}}L3     %eSm             X                    '',
     ''                =NF             h}}TX                 0}}}R=                k}}}l          p}}}g    '' @
       ''   g}}l        =`}}y     g}}z               h}}YX                       <!y                  '',
     ''              *m[}H             G}}t                 O^}}TO                :]}}l            p}}]-   '' @
       ''   g}}l         n}}C     f}}k               G}}t                        >}}!y                '',
     ''            %n[}}_s             L}}3                 g}}[=                 n}}T              L}}n   '' @
       ''   f}}l         e}}L     f}}z               I}}5                        #L}}}Wr              '',
     ''          %v[}})k@              F}}w                 ~}}x                 X`}}w              7}}]O  '' @
       ''   g}}l         9}}Y     g}}k               G}}w                          5K}}}Er            '']"

definition scores2_xpm_3 :: "string list" where
  "scores2_xpm_3 = [
     ''        #c`}}/gO                k}}S                1}}[*                 6}}_.               )}}7  '' @
       ''   g}}l         t}}H     g}}z               k}}S                            5G}}}Rq          '',
     ''      @x`}}^sX                  -}}}h               g}}E                  g}}H                A}}h  '' @
       ''   g}}l         N}}k     f}}k               =}}}h                             1A}}}R0        '',
     ''    @k_}}~p                      l}}}I7             N}}m                  C}}x                k}}A  '' @
       ''   g}}l        2}}[*     f}}z                k}}}L7                             :C}}}U9      '',
     ''  Ok_}}Ey.                        c}}}}Ef%          H}}h                  G}}g                p}}K  '' @
       ''   g}}l      .y)}}k      g}}}}}}}}}}}}},      c}}}}Eg%                            -V[}}I7    '',
     '' *)}}Rr                            7R}}}}]F5        I}}p                  I}}t                r}}T  '' @
       ''   g}}TNmNNCL_}}}c       g}}}}}}}}}}}}},       7R}}}}]S5                            =m[}}m   '',
     '' ,}}}F7                              9F]}}}}H-      I}}p                  L}}t                t}}T  '' @
       ''   g}}}}}}}}}}}I6        f}}WSDDSDDDDDD*         9D[}}}}H-                          OpQ}}G   '',
     '' .pW}}}EpX                             #pW}}}_7     F}}g                  F}}g                p}}K  '' @
       ''   g}}}}}}}}}}~.         f}}z                      #pW}}}_7                       -c)}}[Z1   '',
     ''    0L}}}_c=                              t)}}_*    V}}n                  V}}k                h}}Z  '' @
       ''   g}}l     R}}g         g}}k                         t/}}`*                    0G}}}_c*     '',
     ''      1C[}}}F7                             #!}}b    g}}U                  g}}G                A}}k  '' @
       ''   g}}l     6}}_%        g}}z                          %Q}}n                 @sW}}}~sO       '',
     ''        &c_}}}EpO                           0}}!    6}}]@                 5}})                )}}7  '' @
       ''   g}}l      G}}V        f}}k                           0}}Q               <m`}}}Ur.         '',
     ''          Os!}}}_v-                         O}}}    o`}}d                 X`}}q              7]}_X  '' @
       ''   g}}l      =[}}3       f}}z                           O}}[            .wL}}}}A5            '',
     ''            .wU}}}H                         .}}[     m}}^@                 m}}I              H}}n   '' @
       ''   g}}l       b}}T       g}}k                           .}}[            <}}}`n-              '',
     ''               3S}H                         3}}W     ,}}}S                 :}}}s            u}}[-   '' @
       ''   g}}l       @)}}i      g}}z                           3}}W            :}^g@                '']"

definition scores2_xpm_4 :: "string list" where
  "scores2_xpm_4 = [
     ''                 =t                        XI}}x      z}}}GO                k}}}s          t}}}d    '' @
       ''   g}}l        p}})@     g}}z                          XI}}x            *t.                  '',
     ''                               -Wk5X      6U}}(%      .K}}}(g=      <ut      H}}}I9X     6D}}}F     '' @
       ''   g}}l        .E}}b     g}}z              -Wk5X      6U}})%                                 '',
     ''                               -}}}}QKFFL)}}}`7        XZ}}}}}~IHU!`}}C      .Z}}}}`UHGU`}}}}N      '' @
       ''   g}}l         q}}}<    g}}QHHHHHHHHHHN   -}}}}!KFFL)}}}`7                                  '',
     ''                               &[}}}}}}}}}}}I1           tQ}}}}}}}}}}}V        t!}}}}}}}}}}Eq       '' @
       ''   g}}l          K}}K    g}}}}}}}}}}}}}Q   &[}}}}}}}}}}}I<                                   '',
     ''                                @yNU^`[`/Lc5              .8cU~`}_!LnwO         .7cU~``~Yc7         '' @
       ''   g}}l          <}}}r   g}}}}}}}}}}}}}Q    @tNI^`[`/Ic3                                     '',
     ''                                                                                                    '' @
       ''                                                                                             '',
     ''                                                                                                    '' @
       ''                                                                                             '',
     ''                                                                                                    '' @
       ''                                                                                             '',
     ''                                                                                                    '' @
       ''                                                                                             '',
     ''                                                                                                    '' @
       ''                                                                                             '',
     ''                                                                                                    '' @
       ''                                                                                             '',
     ''                                                                                                    '' @
       ''                                                                                             '',
     ''                                                                                                    '' @
       ''                                                                                             '']"

definition scores2_xpm_5 :: "string list" where
  "scores2_xpm_5 = [
     ''                                                                                                    '' @
       ''                                                                                             '',
     ''                                                                                                    '' @
       ''                                                                                             '',
     ''                                                                                                    '' @
       ''                                                                                             '',
     ''                                                                                                    '' @
       ''                                                                                             '']"

definition scores2_xpm :: "string list" where
  "scores2_xpm = scores2_xpm_1 @ scores2_xpm_2 @ scores2_xpm_3 @ scores2_xpm_4 @ scores2_xpm_5"

definition quit1_xpm_1 :: "string list" where
  "quit1_xpm_1 = [
     ''145 51 100 2 '',
     ''   c #000000'',
     ''.  c #040300'',
     ''X  c #070500'',
     ''o  c #080600'',
     ''O  c #0B0900'',
     ''+  c #0D0A00'',
     ''@  c #0F0C00'',
     ''#  c #110E00'',
     ''$  c #131000'',
     ''%  c #161200'',
     ''&  c #1B1600'',
     ''*  c #1C1700'',
     ''=  c #1D1800'',
     ''-  c #201A00'',
     '';  c #231D00'',
     '':  c #241E00'',
     ''>  c #262000'',
     '',  c #282100'',
     ''<  c #2C2500'',
     ''1  c #2D2500'',
     ''2  c #2E2600'',
     ''3  c #332B00'',
     ''4  c #352C00'',
     ''5  c #382F00'',
     ''6  c #3B3100'',
     ''7  c #3E3400'',
     ''8  c #413600'',
     ''9  c #443900'',
     ''0  c #463B00'',
     ''q  c #473B00'',
     ''w  c #483C00'',
     ''e  c #4D4000'',
     ''r  c #524500'',
     ''t  c #544600'',
     ''y  c #564800'',
     ''u  c #584A00'',
     ''i  c #5B4C00'',
     ''p  c #5E4F00'',
     ''a  c #5F5000'',
     ''s  c #605000'',
     ''d  c #675600'',
     ''f  c #685700'',
     ''g  c #6B5A00'',
     ''h  c #6C5B00'',
     ''j  c #6F5D00'',
     ''k  c #705E00'',
     ''l  c #726000'',
     ''z  c #786500'',
     ''x  c #7E6A00'',
     ''c  c #806B00'',
     ''v  c #836E00'',
     ''b  c #846F00'',
     ''n  c #857000'',
     ''m  c #867000'',
     ''M  c #887200'',
     ''N  c #8B7500'',
     ''B  c #8C7600'',
     ''V  c #8E7700'',
     ''C  c #907900'',
     ''Z  c #927B00'',
     ''A  c #957D00'',
     ''S  c #988000'',
     ''D  c #9D8400'',
     ''F  c #A18700'',
     ''G  c #A38900'',
     ''H  c #A68B00'',
     ''J  c #A78C00'',
     ''K  c #AA8F00'',
     ''L  c #AC9100'',
     ''P  c #B29600'',
     ''I  c #B39600'',
     ''U  c #B49700'',
     ''Y  c #B79A00'',
     ''T  c #B89B00'',
     ''R  c #BC9E00'',
     ''E  c #BD9F00'',
     ''W  c #C1A200'',
     ''Q  c #C4A500'',
     ''!  c #C7A700'',
     ''~  c #C8A800'',
     ''^  c #CEAD00'',
     ''/  c #D0AF00'',
     ''(  c #D1B000'',
     '')  c #D7B500'',
     ''_  c #D9B600'',
     ''`  c #DBB800'',
     [CHR 0x27] @ ''  c #DCB900'',
     '']  c #DFBC00'',
     ''[  c #E1BD00'',
     ''{  c #E5C100'',
     ''}  c #EAC500'',
     ''|  c #EDC700'',
     '' . c #EFC900'',
     ''.. c #F1CB00'',
     ''X. c #F3CC00'',
     ''o. c #F5CE00'',
     ''O. c #F7D000'',
     ''+. c #FAD200'',
     ''@. c #FCD400'',
     ''#. c #FFD700'',
     ''                                                                                                    '' @
       ''                                                                                                    '' @
       ''                                                                                          '',
     ''                                                                                                    '' @
       ''                                                                                                    '' @
       ''                                                                                          '',
     ''                                                                                                    '' @
       ''                                                                                                    '' @
       ''                                                                                          '',
     ''                                                                                                    '' @
       ''                                                                                                    '' @
       ''                                                                                          '']"

definition quit1_xpm_2 :: "string list" where
  "quit1_xpm_2 = [
     ''                                                                                                    '' @
       ''                                                                                                    '' @
       ''                                                                                          '',
     ''                                                                                                    '' @
       ''                                                                                                    '' @
       ''                                                                                          '',
     ''                                                                                                    '' @
       ''                                                                                                    '' @
       ''                                                                                          '',
     ''                                                                                                    '' @
       ''                                                                                                    '' @
       ''                                                                                          '',
     ''                                                                                                    '' @
       ''                                                                                                    '' @
       ''                                                                                          '',
     ''                                                                                                    '' @
       ''                                                                                                    '' @
       ''                                                                                          '',
     ''                                                                                                    '' @
       ''                                                                                                    '' @
       ''                                                                                          '',
     ''                                                                                                    '' @
       ''                                                                                                    '' @
       ''                                                                                          '']"

definition quit1_xpm_3 :: "string list" where
  "quit1_xpm_3 = [
     ''                                                                                                    '' @
       ''                                                                                                    '' @
       ''                                                                                          '',
     ''                                                                              0 B ! '' @ [CHR 0x27] @ '' o.O.[ ~ B 0 X                       R #.#.0                         + #.#...            z #.#.b    '' @ ''   I #.#.#.#.#.#.#.#.#.#.#.#.#.#.#.#.#.#.A                                                          '' @ ''     '',
     ''                                                                          u _ #.#.#.#.#.#.#.#.#.#._ '' @
       ''y                     R #.#.0                         O #.#. .            z #.#.b       I #.#.#.#.#.'' @
       ''#.#.#.#.#.#.#.#.#.#.#.#.#.A                                                               '',
     ''                                                                      X G #.#.#.#.#.'' @ [CHR 0x27] @ '' ~ Q _ +.#.#.#.#.G X                 E #.#.0                         + #.#...            z #.#.b    '' @ ''   z U U U U U U U '' @ [CHR 0x27] @ '' #.#.) I I Y I I I I f                                                               '',
     ''                                    +                                 T #.#.#.( u %         O e Q #.'' @
       ''#.#.R                 R #.#.9                         @ #.#.X.            z #.#.b                   '' @
       ''    B #.#.k                                     o X                                       '',
     ''                                - D I                               v #.#.#.b                     g '' @ ''#.#.#.x               R #.#.0                         O #.#...            z #.#.b                   '' @ ''    B #.#.k                                     1 '' @ [CHR 0x27] @ '' s X                                   '',
     ''                            = S +.#.T                             , #.#.#.v                         '' @
       ''j #.#.+.,             E #.#.0                         O #.#. .            z #.#.b                   '' @
       ''    B #.#.k                                     1 #.#.` a                                 '',
     ''                        & A +.#.#.X.k                             A #.#.^ .                         '' @
       ''  E #.#.S             R #.#.9                         + #.#...            z #.#.b                   '' @
       ''    B #.#.k                                     % Q #.#.#._ u                             '']"

definition quit1_xpm_4 :: "string list" where
  "quit1_xpm_4 = [
     ''                    & C +.#.#...v $                             O o.#.#.y                           '' @
       ''  w #.#.o.+           E #.#.0                         + #.#...            z #.#.b                   '' @
       ''    B #.#.k                                         8 R #.#.#.) y                         '',
     ''                % B o.#.#.} z +                                 8 #.#. .X                           '' @
       ''    { #.#.0           R #.#.0                         O #.#. .            z #.#.b                   '' @
       ''    B #.#.k                                             4 Y #.#.#.( r                     '',
     ''            % M o.#.#.{ k O                                     z #.#.R                             '' @
       ''    I #.#.v           E #.#.9                         + #.#...            z #.#.b                   '' @
       ''    B #.#.k                                                 3 L #.#.#.^ e                 '',
     ''        # b ..#.#.] f X                                         G #.#.M                             '' @
       ''    x #.#.L           R #.#.0                         O #.#...            z #.#.b                   '' @
       ''    B #.#.k                                                     1 J #.#.#.^ w             '',
     ''    @ v  .#.#.) s .                                             Y #.#.l                             '' @
       ''    h #.#.R           R #.#.0                         + #.#. .            z #.#.b                   '' @
       ''    B #.#.k                                                         > G +.#.#.Q 0         '',
     ''  =  .#.#.( u                                                   Q #.#.a                             '' @
       ''    p #.#.^           E #.#.9                         O #.#...            z #.#.b                   '' @
       ''    B #.#.k                                                             - S +.#.#.S       '',
     ''  1 #.#.#.I 0                                                   Q #.#.s                             '' @ ''    i #.#.(           E #.#.0                         + #.#...            z #.#.b                   '' @ ''    B #.#.k                                                             + g '' @ [CHR 0x27] @ '' #.#.R       '',
     ''  X g _ #.#.#.) g O                                             I #.#.k                             '' @
       ''    g #.#.W           E #.#.0                         + #.#. .            z #.#.b                   '' @
       ''    B #.#.k                                                         > C  .#.#.+.L 1       '']"

definition quit1_xpm_5 :: "string list" where
  "quit1_xpm_5 = [
     ''        e W #.#.#...B ;                                         F #.#.m                             '' @
       ''    x #.#.L           R #.#.9                         + #.#...            z #.#.b                   '' @
       ''    B #.#.k                                                     w Y #.#.#.X.N =           '',
     ''            3 H +.#.#.#.I 0                                     z #.#.Y                             '' @ ''    L #.#.v           R #.#.0                         + #.#. .            z #.#.b                   '' @ ''    B #.#.k                                               @ l '' @ [CHR 0x27] @ '' #.#.#.] l +               '',
     ''                = B ..#.#.#.) g +                               7 #.#.| .                           '' @
       ''    { #.#.e           K #.#.r                         * #.#.`             z #.#.b                   '' @
       ''    B #.#.k                                           1 A o.#.#.#.~ u X                   '',
     ''                    + k ] #.#.#...C :                           O o.#.#.e                           '' @
       ''  0 #.#.o.O           C #.#.k                         7 #.#.Q             z #.#.b                   '' @
       ''    B #.#.k                                       t W #.#.#.#.I 7                         '',
     ''                        . y ~ #.#.#.T                             A #.#.Q                           '' @
       ''  Y #.#.G             i #.#.T                         v #.#.N             z #.#.b                   '' @
       ''    B #.#.k                                     1 #.#.#.o.A :                             '',
     ''                              6 L #.T                             , #.#.#.k                         '' @
       ''s #.#.#.,             % +.#.#.3                     # } #.#.7             z #.#.b                   '' @
       ''    B #.#.k                                     1 #.{ z #                                 '',
     ''                                  ; p                               c #.#.#.j                     i '' @
       ''+.#.#.M                 S #.#._ &                 O R #.#.Q               z #.#.m                   '' @
       ''    B #.#.k                                     = s X                                     '',
     ''                                                                      R #.#.#.W 0 X           6 I #.'' @
       ''#.#.R                   & { #.#.{ g +           e ^ #.#.X.1               z #.#.m                   '' @
       ''    B #.#.k                                                                               '']"

definition quit1_xpm_6 :: "string list" where
  "quit1_xpm_6 = [
     ''                                                                      o J #.#.#.#.X.~ I I Q  .#.#.#.'' @
       ''#.L o                     4 } #.#.#.#.^ Y I Q X.#.#.#.X.0                 z #.#.b                   '' @
       ''    B #.#.k                                                                               '',
     ''                                                                          i '' @ [CHR 0x27] @ '' #.#.#.#.#.#.#.#.#.#.[ p                           = R #.#.#.#.#.#.#.#.#.#.R :                   z #'' @ ''.#.b                       B #.#.k                                                                  '' @ ''             '',
     ''                                                                            X 0 V ~ [ o.#.#.#.#.S . '' @
       ''                                3 m Q { O.O.{ Q m 4                       z #.#.b                   '' @
       ''    B #.#.k                                                                               '',
     ''                                                                                          C #.#.+.w '' @
       ''                                                                                                    '' @
       ''                                                                                          '',
     ''                                                                                          X R #.#.o.'' @
       ''5                                                                                                   '' @
       ''                                                                                          '',
     ''                                                                                            O ) #.#.'' @
       '' .1                                                                                                 '' @
       ''                                                                                          '',
     ''                                                                                              :  .#.'' @
       ''#.{ ;                                                                                               '' @
       ''                                                                                          '',
     ''                                                                                                7 #.'' @
       ''#.#.] &                                                                                             '' @
       ''                                                                                          '']"

definition quit1_xpm_7 :: "string list" where
  "quit1_xpm_7 = [
     ''                                                                                                  d '' @
       ''#.#.#.( #                                                                                           '' @
       ''                                                                                          '',
     ''                                                                                                    '' @
       ''                                                                                                    '' @
       ''                                                                                          '',
     ''                                                                                                    '' @
       ''                                                                                                    '' @
       ''                                                                                          '',
     ''                                                                                                    '' @
       ''                                                                                                    '' @
       ''                                                                                          '',
     ''                                                                                                    '' @
       ''                                                                                                    '' @
       ''                                                                                          '',
     ''                                                                                                    '' @
       ''                                                                                                    '' @
       ''                                                                                          '',
     ''                                                                                                    '' @
       ''                                                                                                    '' @
       ''                                                                                          '']"

definition quit1_xpm :: "string list" where
  "quit1_xpm = quit1_xpm_1 @ quit1_xpm_2 @ quit1_xpm_3 @ quit1_xpm_4 @ quit1_xpm_5 @ quit1_xpm_6 @ quit1_xpm_7"

definition quit2_xpm_1 :: "string list" where
  "quit2_xpm_1 = [
     ''145 51 85 1 '',
     ''  c #000000'',
     ''. c #040100'',
     ''X c #0B0200'',
     ''o c #0D0300'',
     ''O c #0F0400'',
     ''+ c #110400'',
     ''@ c #130500'',
     ''# c #160500'',
     ''$ c #1B0700'',
     ''% c #1D0700'',
     ''& c #1E0800'',
     ''* c #200800'',
     ''= c #240900'',
     ''- c #280A00'',
     ''; c #290B00'',
     '': c #2C0B00'',
     ''> c #2D0C00'',
     '', c #330D00'',
     ''< c #350E00'',
     ''1 c #3B0F00'',
     ''2 c #3D1000'',
     ''3 c #3F1100'',
     ''4 c #411100'',
     ''5 c #471300'',
     ''6 c #481300'',
     ''7 c #4A1400'',
     ''8 c #4D1400'',
     ''9 c #521600'',
     ''0 c #561700'',
     ''q c #571700'',
     ''w c #581700'',
     ''e c #5B1800'',
     ''r c #5E1900'',
     ''t c #601900'',
     ''y c #621A00'',
     ''u c #671B00'',
     ''i c #6A1C00'',
     ''p c #6F1E00'',
     ''a c #701E00'',
     ''s c #731F00'',
     ''d c #782000'',
     ''f c #7A2100'',
     ''g c #7E2200'',
     ''h c #832300'',
     ''j c #842300'',
     ''k c #852300'',
     ''l c #892500'',
     ''z c #8C2500'',
     ''x c #902600'',
     ''c c #932700'',
     ''v c #952800'',
     ''b c #982900'',
     ''n c #9D2A00'',
     ''m c #A02B00'',
     ''M c #A62C00'',
     ''N c #AA2E00'',
     ''B c #AF2F00'',
     ''V c #B12F00'',
     ''C c #B33000'',
     ''Z c #B73100'',
     ''A c #B83100'',
     ''S c #BD3300'',
     ''D c #C03300'',
     ''F c #C13400'',
     ''G c #C73500'',
     ''H c #C83600'',
     ''J c #CE3700'',
     ''K c #CF3800'',
     ''L c #D03800'',
     ''P c #D53900'',
     ''I c #DA3A00'',
     ''U c #DC3B00'',
     ''Y c #DF3C00'',
     ''T c #E03C00'',
     ''R c #E13C00'',
     ''E c #E53D00'',
     ''W c #EA3F00'',
     ''Q c #EC3F00'',
     ''! c #EE4000'',
     ''~ c #F34100'',
     ''^ c #F54200'',
     ''/ c #FA4300'',
     ''( c #FC4400'',
     '') c #FD4400'',
     ''_ c #FF4500'',
     ''                                                                                                    '' @
       ''                                             '',
     ''                                                                                                    '' @
       ''                                             '',
     ''                                                                                                    '' @
       ''                                             '',
     ''                                                                                                    '' @
       ''                                             '',
     ''                                                                                                    '' @
       ''                                             '',
     ''                                                                                                    '' @
       ''                                             '',
     ''                                                                                                    '' @
       ''                                             '',
     ''                                                                                                    '' @
       ''                                             '',
     ''                                                                                                    '' @
       ''                                             '',
     ''                                                                                                    '' @
       ''                                             '',
     ''                                                                                                    '' @
       ''                                             '']"

definition quit2_xpm_2 :: "string list" where
  "quit2_xpm_2 = [
     ''                                                                                                    '' @
       ''                                             '',
     ''                                                                                                    '' @
       ''                                             '',
     ''                                       5lHY^^THx5.           S__5            O__~      a__k   C_____'' @
       ''_____________v                               '',
     ''                                     eI__________I0          S__5            X__Q      f__h   B_____'' @
       ''_____________x                               '',
     ''                                   Xn_____UGSI_____m.        S__4            o__^      f__k   fZZVZV'' @
       ''ZVU__PZVZVZVZi                               '',
     ''                  o                A___Lr@    X8D___A        A__5            O__!      f__k         '' @
       ''  z__a                  X.                   '',
     ''                *nC               h___k          p___g       S__5            X__~      f__h         '' @
       ''  z__a                  -Tt.                 '',
     ''              &b/_A              -___k            p__/-      S__4            X__!      f__k         '' @
       ''  z__a                  >__Yr                '',
     ''            $v/__~a              v__K              D__b      S__5            O__!      a__h         '' @
       ''  z__a                  #F___Ie              '',
     ''          $x/__!h@              X^__q              6__^o     S__5            O__^      f__k         '' @
       ''  z__a                    4S___Pw            '',
     ''        #z^__Wfo                4__!                E__5     A__4            X__Q      s__h         '' @
       ''  z__a                      <Z___L9          '',
     ''      @l^__EaX                  g__A                C__h     S__5            o__~      f__k         '' @
       ''  z__a                        ,B___K8        '',
     ''    @k~__Ti.                    m__l                g__B     S__5            X__~     .s__h         '' @
       ''  z__a                          :M___J7      '',
     ''  Oh~__It.                      C__f                i__S     S__4            o__Q      a__k         '' @
       ''  z__a                            -m/__G5    '',
     '' &!__Jq                         G__t                r__J     S__5            X__~      f__k         '' @
       ''  z__a                              *b/__n   '',
     '' :___C5                         F__t                e__L     A__5            o__~      g__h         '' @
       ''  z__a                              oiU__Z   '',
     '' .iI___PiX                      C__a                i__F     S__4            o__Q      a__k         '' @
       ''  z__a                            =x!__/M,   '']"

definition quit2_xpm_3 :: "string list" where
  "quit2_xpm_3 = [
     ''    8F___~z*                    n__k                g__B     S__5            o__~      f__h         '' @
       ''  z__a                          6Z___~z&     '',
     ''      ,M/___C5                  f__Z                B__h     A__5            o__!      g__k         '' @
       ''  z__a                       @aU___Tao       '',
     ''        %z~___Pio               3__!.               E__8     N__9            $__U      a__h         '' @
       ''  z__a                     >v^___He.         '',
     ''          oaY___~x=             X~__9              4__^X     x__a            3__G      f__k         '' @
       ''  z__a                   0F____B3            '',
     ''            .qG___A              v__G              Z__M      e__A            k__z      d__k         '' @
       ''  z__a                  >___^v*              '',
     ''               1B_A              -___a            t___=      #/__,          @W__4      d__h         '' @
       ''  z__a                  -_Ef@                '',
     ''                 *r               h___p          e/__l        b__I$        XZ__F       f__k         '' @
       ''  z__a                  &t.                  '',
     ''                                   A___F5.     1C___A.        $E__Wio     8L__~>       d__k         '' @
       ''  z__a                                       '',
     ''                                   XM____~HCVG!____BX          <W___/KZVG~___~5        d__k         '' @
       ''  z__a                                       '',
     ''                                     eU__________Tr             &A__________S=         f__k         '' @
       ''  z__a                                       '',
     ''                                      .5zHT^____b.                ,kGE^/EFk<           f__h         '' @
       ''  z__a                                       '',
     ''                                             x__/6                                                  '' @
       ''                                             '',
     ''                                             .A__^3                                                 '' @
       ''                                             '',
     ''                                              OI__Q>                                                '' @
       ''                                             '',
     ''                                               *Q__E*                                               '' @
       ''                                             '',
     ''                                                3___T$                                              '' @
       ''                                             '',
     ''                                                 u___P@                                             '' @
       ''                                             '']"

definition quit2_xpm_4 :: "string list" where
  "quit2_xpm_4 = [
     ''                                                                                                    '' @
       ''                                             '',
     ''                                                                                                    '' @
       ''                                             '',
     ''                                                                                                    '' @
       ''                                             '',
     ''                                                                                                    '' @
       ''                                             '',
     ''                                                                                                    '' @
       ''                                             '',
     ''                                                                                                    '' @
       ''                                             '']"

definition quit2_xpm :: "string list" where
  "quit2_xpm = quit2_xpm_1 @ quit2_xpm_2 @ quit2_xpm_3 @ quit2_xpm_4"

definition cursor_xpm :: "string list" where
  "cursor_xpm = [
     ''28 17 24 1 '',
     ''  c #000000'',
     ''. c #070707'',
     ''X c #0C0C0C'',
     ''o c #161616'',
     ''O c #212121'',
     ''+ c #252525'',
     ''@ c #2B2B2B'',
     ''# c #2C2C2C'',
     ''$ c #2D2D2D'',
     ''% c #4C4C4C'',
     ''& c #5B5B5B'',
     ''* c #757575'',
     ''= c #828282'',
     ''- c #AEAEAE'',
     ''; c #B4B4B4'',
     '': c #D1D1D1'',
     ''> c #D8D8D8'',
     '', c #DFDFDF'',
     ''< c #EAEAEA'',
     ''1 c #EFEFEF'',
     ''2 c #F3F3F3'',
     ''3 c #F9F9F9'',
     ''4 c #FEFEFE'',
     ''5 c #FFFFFF'',
     '' $                          '',
     '' 1- o                       '',
     '' 152* @                     '',
     '' 1555>$                     '',
     '' 155555- o                  '',
     '' 15555552* @                '',
     '' 155555555>$                '',
     '' 15555555555- o             '',
     '' 1555555555552* @           '',
     '' 15555555555555>$           '',
     '' 1555555555555555- o        '',
     '' 155555555                  '',
     '' 155555555X                 '',
     '' 1555; <55=O                '',
     '' 155;    355%$              '',
     '' 15;      355%$             '',
     '' 1;       .-55:             '']"

end
