(* ===== verification/Game_State.thy ===== *)
theory Game_State
  imports Collision Menu Sprites_Messages
begin

text \<open>
  \<open>game/game_state.c\<close>: the state of the whole program, one frame of the game, and the game loop. The
  loop is the interrupt loop of \<open>Machine\<close> with the handler \<open>game_handler\<close>; its contracts are the three
  interpretations below.

  The lemmas show that no sequence of interrupts, keys, random numbers and file contents leads the
  game out of its invariant (no store outside a buffer or array, ship and shots on the screen, aliens
  in formation), what a frame can never undo, how the game can end, and that it does end.
\<close>

subsection \<open>State\<close>

text \<open>The globals of all source files, and the hardware.\<close>

record 'h world =
  w_kb :: kb_st
  w_timer :: timer_st
  w_gfx :: gfx_st
  w_ship :: ship_st
  w_enemies :: enemies_st
  w_score :: score_st
  w_menu :: menu_st
  w_file :: file_st
  player_win :: bool
  player_lost :: bool
  show_scores_drawn :: bool
  irq_set_keyboard :: u8
  irq_set_timer :: u8
  hw :: 'h


subsection \<open>One frame\<close>

definition kb_pending :: "'h world \<Rightarrow> u32 \<Rightarrow> bool" where
  "kb_pending w irqs \<longleftrightarrow> irqs AND BIT (unat (irq_set_keyboard w)) \<noteq> 0"

definition timer_pending :: "'h world \<Rightarrow> u32 \<Rightarrow> bool" where
  "timer_pending w irqs \<longleftrightarrow> irqs AND BIT (unat (irq_set_timer w)) \<noteq> 0"

definition read_key :: "'h kernel \<Rightarrow> 'h world \<Rightarrow> 'h world" where
  "read_key K w = (case kbc_ih K (w_kb w) (hw w) of (k, h) \<Rightarrow> w\<lparr>w_kb := k, hw := h\<rparr>)"

definition game_key :: "'h kernel \<Rightarrow> 'h world \<Rightarrow> 'h world" where
  "game_key K w =
     (let w1 = read_key K w in
      if scancode (w_kb w1) AND KB_BREAK_CODE = 0
      then case ship_action (mode_info (w_gfx w1)) (scancode (w_kb w1)) (w_ship w1) (w_score w1) of
             (s, c) \<Rightarrow> w1\<lparr>w_ship := s, w_score := c\<rparr>
      else w1)"

text \<open>The first half of a timer interrupt: counters, the cleared buffer, and the movements.\<close>

definition game_move :: "'h kernel \<Rightarrow> 'h world \<Rightarrow> 'h world" where
  "game_move K w =
     (let t = timer_int_handler (w_timer w);
          s = (w_ship w)\<lparr>fire_delay_counter := fire_delay_counter (w_ship w) + 1\<rparr>;
          c = score_update_time (timer_counter t) (w_score w);
          g = clear_back_buf 0 (w_gfx w);
          s = update_enemy_bullets (mode_info g) (update_bullets s);
          f = enemies_moving (mode_info g) (w_enemies w)
      in case (if c_mod (timer_counter t) 60 = 0 then fire_enemy_bullet K (enemies f) s (hw w)
               else (s, hw w)) of
           (s, h) \<Rightarrow> w\<lparr>w_timer := t, w_gfx := g, w_ship := s, w_enemies := f, w_score := c, hw := h\<rparr>)"

definition game_collide :: "'h world \<Rightarrow> 'h world" where
  "game_collide w =
     (let s = w_ship w; f = w_enemies w; x = uint (ship_x s) in
      case check_enemy_bullet_collision x (enemy_bullets s) (player_lost w) of (ebs, lost) \<Rightarrow>
        (case check_bullet_enemy_collision (bullets s) (enemies f) of (r, bs, es) \<Rightarrow>
           let lost = check_ship_alien_collision x es lost in
           (case check_shield_collision (shields s) ebs of (shs, ebs) \<Rightarrow>
              w\<lparr>w_ship := s\<lparr>enemy_bullets := ebs, bullets := bs, shields := shs\<rparr>,
                w_enemies := f\<lparr>enemies := es\<rparr>, player_lost := lost\<rparr>)))"

definition game_draw :: "'h kernel \<Rightarrow> 'h world \<Rightarrow> gfx_st \<Rightarrow> int \<times> gfx_st" where
  "game_draw K w g =
     (case draw_ship K (ship_x (w_ship w)) g of (r, g1) \<Rightarrow>
        if r \<noteq> 0 then (1, g1)
        else case draw_all_enemies K (enemies (w_enemies w)) g1 of (r, g2) \<Rightarrow>
          if r \<noteq> 0 then (1, g2)
          else case draw_all_bullets K (bullets (w_ship w)) g2 of (r, g3) \<Rightarrow>
            if r \<noteq> 0 then (1, g3)
            else
              (0, swap_buffers (draw_live_score K (current_score (w_score w))
                   (draw_shields K (shields (w_ship w))
                     (draw_enemy_bullets K (enemy_bullets (w_ship w)) g3)))))"

text \<open>The end of a frame: lost, won, or neither.\<close>

definition game_over :: "'h kernel \<Rightarrow> 'h world \<Rightarrow> 'h world ctl" where
  "game_over K w =
     (if player_lost w then
        Return 0 (w\<lparr>w_score := snd (score_calculate_final (w_score w)),
                    w_menu := menu_set_state MENU_GAME_OVER (w_menu w)\<rparr>)
      else if count_active_enemies (enemies (w_enemies w)) = 0 then
        (case save_win_highscore K (w_file w) (snd (score_calculate_final (w_score w))) (hw w) of
           (f, c, h) \<Rightarrow>
             Return 0 (w\<lparr>player_win := True, w_score := c, w_file := f, hw := h,
                         w_menu := menu_set_state MENU_SCORES (w_menu w)\<rparr>))
      else Continue w)"

definition game_tick :: "'h kernel \<Rightarrow> 'h world \<Rightarrow> 'h world ctl" where
  "game_tick K w =
     (let w1 = game_collide (game_move K w) in
      case game_draw K w1 (w_gfx w1) of (r, g) \<Rightarrow>
        if r \<noteq> 0 then Return 1 (w1\<lparr>w_gfx := g\<rparr>) else game_over K (w1\<lparr>w_gfx := g\<rparr>))"

definition game_handler :: "'h kernel \<Rightarrow> u32 \<Rightarrow> 'h world \<Rightarrow> 'h world ctl" where
  "game_handler K irqs w =
     (let w1 = (if kb_pending w irqs then game_key K w else w)
      in if timer_pending w1 irqs then game_tick K w1 else Continue w1)"

definition not_esc :: "'h world \<Rightarrow> bool" where
  "not_esc w \<longleftrightarrow> scancode (w_kb w) \<noteq> KB_BREAK_ESC"

definition game_start :: "'h world \<Rightarrow> 'h world" where
  "game_start w =
     w\<lparr>player_lost := False, player_win := False,
       w_score := score_init (timer_counter (w_timer w)) (w_score w)\<rparr>"

definition game_state :: "'h kernel \<Rightarrow> 'h world \<Rightarrow> recv list \<Rightarrow> 'h world outcome" where
  "game_state K w ms =
     (case irq_loop not_esc (game_handler K) (game_start w) ms of
        Waiting w' \<Rightarrow> Waiting w'
      | Exited w' rest \<Rightarrow>
          Returned 0 (w'\<lparr>w_score := score_reset (w_score w'),
                         w_menu := menu_set_state MENU_MAIN (w_menu w')\<rparr>) rest
      | Returned r w' rest \<Rightarrow> Returned r w' rest)"


subsection \<open>Invariants\<close>

definition sprites_load :: "'h kernel \<Rightarrow> bool" where
  "sprites_load K \<longleftrightarrow> glyphs_load K \<and> game_sprites_load K \<and> menu_sprites_load K \<and>
     loads K message1_xpm \<and> loads K message4_xpm"

text \<open>A screen large enough for the fixed coordinates of the program.\<close>

definition big_screen :: "vbe_mode_info \<Rightarrow> bool" where
  "big_screen m \<longleftrightarrow> 700 \<le> uint (XResolution m) \<and> 750 \<le> uint (YResolution m)"

definition wf_world :: "vbe_mode_info \<Rightarrow> 'h world \<Rightarrow> bool" where
  "wf_world m w \<longleftrightarrow>
     big_screen m \<and> wf_gfx (w_gfx w) \<and> mode_info (w_gfx w) = m \<and>
     wf_ship m (w_ship w) \<and> wf_menu (w_menu w) \<and> wf_score (w_score w) \<and>
     0 \<le> timer_counter (w_timer w) \<and> game_start_time (w_score w) \<le> timer_counter (w_timer w) \<and>
     length (enemies (w_enemies w)) = 18 \<and>
     (enemy_direction (w_enemies w) = 1 \<or> enemy_direction (w_enemies w) = -1) \<and>
     0 \<le> enemy_move_timer (w_enemies w)"

definition wf_game :: "vbe_mode_info \<Rightarrow> 'h world \<Rightarrow> bool" where
  "wf_game m w \<longleftrightarrow> wf_world m w \<and> wf_enemies (uint (XResolution m)) (w_enemies w)"

text \<open>Every operation on the score keeps the start of the game and the table within its bounds.\<close>

lemma game_start_time_shape [shape]:
  "game_start_time (score_add_bullet c) = game_start_time c"
  "game_start_time (score_update_time t c) = game_start_time c"
  "game_start_time (snd (score_calculate_final c)) = game_start_time c"
  "game_start_time (store_entry e c) = game_start_time c"
  "game_start_time (sort_highscores c) = game_start_time c"
  by (simp_all add: score_ops Let_def store_entry_def sort_highscores_def)

lemma save_highscore_keeps:
  assumes "wf_score c" and "save_highscore_to_csv name pts shots secs f c = (r, f', c')"
  shows "wf_score c' \<and> game_start_time c' = game_start_time c \<and> current_score c' = current_score c"
proof -
  have "c' = c \<or> highscore_count c < MAX_HIGHSCORES \<and> (\<exists>e. c' = sort_highscores (store_entry e c))"
    using assms(2) by (auto simp: save_highscore_to_csv_def Let_def split: option.splits prod.splits if_splits)
  then show ?thesis
  proof
    assume "highscore_count c < MAX_HIGHSCORES \<and> (\<exists>e. c' = sort_highscores (store_entry e c))"
    then obtain e where "highscore_count c < MAX_HIGHSCORES" "c' = sort_highscores (store_entry e c)"
      by blast
    then show ?thesis
      using sort_highscores_entries(4) [OF store_entry_entries(2) [OF assms(1), of e]]
      by (simp add: shape sort_highscores_def store_entry_def Let_def)
  qed (use assms(1) in simp)
qed

lemma save_win_keeps:
  assumes "wf_score c" and "save_win_highscore K f c h = (f', c', h')"
  shows "wf_score c' \<and> game_start_time c' = game_start_time c \<and> current_score c' = current_score c"
proof (cases "highscore_saved_this_game c")
  case True
  with assms show ?thesis by (simp add: save_win_highscore_def)
next
  case False
  obtain name c1 h1 where n: "get_random_anime_name K c h = (name, c1, h1)" by (metis prod_cases3)
  then have c1: "c1 = c\<lparr>seeded := True\<rparr>"
    by (auto simp: get_random_anime_name_def Let_def split: prod.splits)
  obtain r f2 c2 where s: "save_highscore_to_csv name (final_score (current_score c1))
      (bullets_fired (current_score c1)) (game_time_seconds (current_score c1)) f c1 = (r, f2, c2)"
    by (metis prod_cases3)
  have "wf_score c1" using assms(1) by (simp add: c1 wf_score_def)
  from save_highscore_keeps [OF this s] assms(2) False n s show ?thesis
    by (auto simp: save_win_highscore_def c1 wf_score_def)
qed


subsection \<open>Every step keeps the invariant\<close>

lemma safe_step_screen: "safe_step g h \<Longrightarrow> wf_gfx h \<and> mode_info h = mode_info g"
  by (auto simp: safe_step_def dest: same_screen_fields)

lemma read_key_shape [shape]:
  "w_timer (read_key K w) = w_timer w" "w_gfx (read_key K w) = w_gfx w"
  "w_ship (read_key K w) = w_ship w" "w_enemies (read_key K w) = w_enemies w"
  "w_score (read_key K w) = w_score w" "w_menu (read_key K w) = w_menu w"
  "w_file (read_key K w) = w_file w" "player_win (read_key K w) = player_win w"
  "player_lost (read_key K w) = player_lost w"
  "show_scores_drawn (read_key K w) = show_scores_drawn w"
  "irq_set_keyboard (read_key K w) = irq_set_keyboard w"
  "irq_set_timer (read_key K w) = irq_set_timer w"
  by (simp_all add: read_key_def case_prod_beta)

lemma read_key_wf [keeps]: "wf_world m w \<Longrightarrow> wf_world m (read_key K w)"
  by (simp add: wf_world_def shape)

lemma ship_action_score:
  "snd (ship_action m code s c) \<in> {c, score_add_bullet c}"
  by (rule ship_action_cases [of code s m c]) simp_all

lemma game_key_wf [keeps]:
  assumes "wf_world m w"
  shows "wf_world m (game_key K w)"
proof -
  let ?w = "read_key K w"
  obtain s c where a: "ship_action (mode_info (w_gfx ?w)) (scancode (w_kb ?w)) (w_ship ?w) (w_score ?w) = (s, c)"
    by fastforce
  have wf: "wf_world m ?w" using read_key_wf [OF assms] .
  have m: "400 \<le> uint (XResolution m)" using assms by (simp add: wf_world_def big_screen_def)
  have "wf_ship m s" using ship_action_wf [OF _ m, of "w_ship ?w"] wf a
    by (metis wf_world_def fst_conv)
  moreover have "wf_score c \<and> game_start_time c = game_start_time (w_score ?w)"
    using ship_action_score [of "mode_info (w_gfx ?w)" "scancode (w_kb ?w)" "w_ship ?w" "w_score ?w"]
      wf a score_add_bullet_wf [of "w_score ?w"] by (auto simp: wf_world_def shape)
  ultimately show ?thesis
    using wf a by (auto simp: game_key_def Let_def wf_world_def)
qed

lemma game_key_enemies [shape]:
  "w_enemies (game_key K w) = w_enemies w" "w_timer (game_key K w) = w_timer w"
  "player_lost (game_key K w) = player_lost w" "player_win (game_key K w) = player_win w"
  "irq_set_timer (game_key K w) = irq_set_timer w"
  "irq_set_keyboard (game_key K w) = irq_set_keyboard w"
  "w_gfx (game_key K w) = w_gfx w" "w_file (game_key K w) = w_file w" "w_menu (game_key K w) = w_menu w"
  by (simp_all add: game_key_def Let_def case_prod_beta shape)

text \<open>The parts of the first half of a frame.\<close>

definition moved_ship :: "'h world \<Rightarrow> ship_st" where
  "moved_ship w = update_enemy_bullets (mode_info (w_gfx w)) (update_bullets
     ((w_ship w)\<lparr>fire_delay_counter := fire_delay_counter (w_ship w) + 1\<rparr>))"

lemma game_move_eq:
  assumes "wf_gfx (w_gfx w)"
  shows "game_move K w =
    (let t = timer_int_handler (w_timer w);
         f = enemies_moving (mode_info (w_gfx w)) (w_enemies w);
         sh = (if c_mod (timer_counter t) 60 = 0
               then fire_enemy_bullet K (enemies f) (moved_ship w) (hw w) else (moved_ship w, hw w))
     in w\<lparr>w_timer := t, w_gfx := clear_back_buf 0 (w_gfx w), w_ship := fst sh, w_enemies := f,
          w_score := score_update_time (timer_counter t) (w_score w), hw := snd sh\<rparr>)"
proof -
  have m: "mode_info (clear_back_buf 0 (w_gfx w)) = mode_info (w_gfx w)"
    using same_screen_fields(1) [OF clear_back_buf_ok(2) [OF assms]] .
  then show ?thesis by (simp add: game_move_def Let_def case_prod_beta m moved_ship_def)
qed

lemma enemies_positive:
  "wf_enemies w f \<Longrightarrow> \<forall>e \<in> set (enemies f). e_active e \<longrightarrow> 0 \<le> e_y e"
proof (intro ballI impI)
  fix e assume w: "wf_enemies w f" and e: "e \<in> set (enemies f)" "e_active e"
  then obtain dx dy where f: "in_formation dx dy (enemies f)" and dy: "0 \<le> dy"
    by (auto simp: wf_enemies_def)
  from in_formation_active [OF f e] dy show "0 \<le> e_y e" by (auto simp: home_y_def)
qed

lemma move_enemies_dir:
  "enemy_direction f = 1 \<or> enemy_direction f = -1 \<Longrightarrow>
     enemy_direction (enemies_moving m f) = 1 \<or> enemy_direction (enemies_moving m f) = -1"
  by (auto simp: enemies_moving_def move_enemies_def Let_def)

lemma length_enemies_moving [simp]: "length (enemies (enemies_moving m f)) = length (enemies f)"
  by (simp add: enemies_moving_def move_enemies_def Let_def)

lemma enemies_moving_timer:
  "0 \<le> enemy_move_timer f \<Longrightarrow> 0 \<le> enemy_move_timer (enemies_moving m f)"
  by (simp add: enemies_moving_def Let_def)

lemma game_move_wf [keeps]:
  assumes "wf_game m w"
  shows "wf_game m (game_move K w)"
proof -
  have wf: "wf_world m w" and we: "wf_enemies (uint (XResolution m)) (w_enemies w)"
    using assms by (auto simp: wf_game_def)
  have g: "wf_gfx (w_gfx w)" and m: "mode_info (w_gfx w) = m" using wf by (auto simp: wf_world_def)
  let ?t = "timer_int_handler (w_timer w)" and ?f = "enemies_moving m (w_enemies w)"
  have "wf_ship m ((w_ship w)\<lparr>fire_delay_counter := fire_delay_counter (w_ship w) + 1\<rparr>)"
    using wf by (simp add: wf_world_def wf_ship_def)
  then have s: "wf_ship m (moved_ship w)" unfolding moved_ship_def m by (intro ship_wf_keeps)
  have f: "wf_enemies (uint (XResolution m)) ?f" using enemies_moving_wf [OF we] .
  note fire = fire_enemy_bullet_wf [OF s enemies_positive [OF f], of K "hw w"]
  have c: "wf_score (score_update_time (timer_counter ?t) (w_score w))"
    using wf by (intro score_update_time_wf) (auto simp: wf_world_def timer_int_handler_def)
  show ?thesis
    unfolding game_move_eq [OF g] Let_def m wf_game_def wf_world_def
    using wf f fire s c clear_back_buf_ok [OF g, of 0] same_screen_fields(1) [OF clear_back_buf_ok(2) [OF g, of 0]]
      move_enemies_dir [of "w_enemies w" m] enemies_moving_timer [of "w_enemies w" m]
    by (simp add: wf_world_def m shape timer_int_handler_def)
qed

lemma game_collide_wf [keeps]:
  assumes "wf_game m w"
  shows "wf_game m (game_collide w)"
proof -
  have wf: "wf_world m w" and we: "wf_enemies (uint (XResolution m)) (w_enemies w)"
    using assms by (auto simp: wf_game_def)
  let ?s = "w_ship w" and ?f = "w_enemies w" and ?x = "uint (ship_x (w_ship w))"
  obtain ebs lost where 1: "check_enemy_bullet_collision ?x (enemy_bullets ?s) (player_lost w) = (ebs, lost)"
    by fastforce
  obtain r bs es where 2: "check_bullet_enemy_collision (bullets ?s) (enemies ?f) = (r, bs, es)"
    by (metis prod_cases3)
  obtain shs ebs' where 3: "check_shield_collision (shields ?s) ebs = (shs, ebs')" by fastforce
  have s: "wf_ship m ?s" using wf by (simp add: wf_world_def)
  have s1: "wf_ship m (?s\<lparr>enemy_bullets := ebs\<rparr>)"
    using check_enemy_bullet_wf [OF s, of ?x "player_lost w"] 1 by simp
  have s2: "wf_ship m (?s\<lparr>enemy_bullets := ebs, bullets := bs\<rparr>)"
    using check_bullet_enemy_wf(1) [OF s1 we, of r bs es] 2 by simp
  have s3: "wf_ship m (?s\<lparr>enemy_bullets := ebs', bullets := bs, shields := shs\<rparr>)"
    using check_shield_wf [OF s2, of shs ebs'] 3 by (simp add: wf_ship_def)
  have f: "wf_enemies (uint (XResolution m)) (?f\<lparr>enemies := es\<rparr>)"
    using check_bullet_enemy_wf(2) [OF s we 2] .
  then have "length es = 18" by (auto simp: wf_enemies_def in_formation_def)
  with wf s3 f show ?thesis
    by (simp add: game_collide_def Let_def 1 2 3 wf_game_def wf_world_def)
qed

lemma draw_all_enemies_safe:
  assumes "game_sprites_load K"
  shows "safe_draw (\<lambda>g. snd (draw_all_enemies K es g))"
  unfolding safe_draw_def draw_all_enemies_def
proof (intro allI impI)
  fix g assume g: "wf_gfx g"
  have l: "loads K (enemy_xpm t)" for t
    using assms by (intro game_sprites_loadD [OF assms]) (simp add: enemy_xpm_def game_sprites_def)
  have "safe_draw (\<lambda>g. snd (draw_enemy K e g))" for e
    using print_xpm_safe_draw [OF l] by (simp add: draw_enemy_def safe_draw_def)
  then have "wf_gfx (snd (if e_active e then draw_enemy K e h else (0, h))) \<and>
      same_screen g (snd (if e_active e then draw_enemy K e h else (0, h)))"
    if "wf_gfx h \<and> same_screen g h" for e h
    using that by (auto simp: safe_draw_def intro: same_screen_trans)
  then show "wf_gfx (snd (for_fail (\<lambda>e g. if e_active e then draw_enemy K e g else (0, g)) es g)) \<and>
      same_screen g (snd (for_fail (\<lambda>e g. if e_active e then draw_enemy K e g else (0, g)) es g))"
    by (intro for_fail_inv [where P = "\<lambda>h. wf_gfx h \<and> same_screen g h"]) (simp_all add: g)
qed


lemma game_draw_wf:
  assumes "sprites_load K" and "wf_gfx g" and "game_draw K w g = (r, g')"
  shows "wf_gfx g' \<and> mode_info g' = mode_info g"
proof -
  have l: "glyphs_load K" "game_sprites_load K" using assms(1) by (simp_all add: sprites_load_def)
  have ls: "loads K ship_xpm" "loads K bullet_xpm"
    by (rule game_sprites_loadD [OF l(2)], simp add: game_sprites_def)+
  obtain r1 g1 where 1: "draw_ship K (ship_x (w_ship w)) g = (r1, g1)" by fastforce
  obtain r2 g2 where 2: "draw_all_enemies K (enemies (w_enemies w)) g1 = (r2, g2)" by fastforce
  obtain r3 g3 where 3: "draw_all_bullets K (bullets (w_ship w)) g2 = (r3, g3)" by fastforce
  have "safe_draw (\<lambda>g. snd (draw_ship K (ship_x (w_ship w)) g))"
    using print_xpm_safe_draw [OF ls(1)] by (simp add: draw_ship_def safe_draw_def case_prod_beta)
  from safe_stepI [OF this safe_step_refl [OF assms(2)]] have s1: "safe_step g g1" by (simp add: 1)
  from safe_stepI [OF draw_all_enemies_safe [OF l(2), of "enemies (w_enemies w)"] s1] have s2: "safe_step g g2" by (simp add: 2)
  have b: "safe_draw (\<lambda>g. snd (if b_active b then draw_bullet K b g else (0, g)))" for b
    using print_xpm_safe_draw [OF ls(2)] by (simp add: draw_bullet_def safe_draw_def case_prod_beta)
  have "safe_step g (snd (draw_all_bullets K (bullets (w_ship w)) g2))"
    unfolding draw_all_bullets_def
    by (rule for_fail_inv [where P = "safe_step g"]) (rule safe_stepI [OF b], assumption, rule s2)
  then have s3: "safe_step g g3" by (simp add: 3)
  have s4: "safe_step g (draw_live_score K (current_score (w_score w)) (draw_shields K (shields (w_ship w))
      (draw_enemy_bullets K (enemy_bullets (w_ship w)) g3)))"
    by (intro safe_stepI [OF screens_safe(1) [OF l(1)]] safe_stepI [OF shots_and_shields_safe(2) [OF l(2)]]
        safe_stepI [OF shots_and_shields_safe(1) [OF l(2)]] s3)
  show ?thesis
    using assms(3) safe_step_screen [OF s1] safe_step_screen [OF s2] safe_step_screen [OF s3]
      swap_new_frame [OF s4]
    by (auto simp: game_draw_def 1 2 3 new_frame_def split: if_splits)
qed

lemma game_over_wf [keeps]:
  assumes "wf_game m w"
  shows "wf_game m (ctl_state (game_over K w))"
proof -
  have wf: "wf_world m w" and we: "wf_enemies (uint (XResolution m)) (w_enemies w)"
    using assms by (auto simp: wf_game_def)
  let ?c = "snd (score_calculate_final (w_score w))"
  have c: "wf_score ?c" using wf by (intro score_calculate_final_wf) (simp add: wf_world_def)
  obtain f c' h where s: "save_win_highscore K (w_file w) ?c (hw w) = (f, c', h)" by (metis prod_cases3)
  note sc = save_win_keeps [OF c s]
  have menu: "wf_menu (menu_set_state st (w_menu w))" for st
    using wf by (intro menu_keeps(2)) (simp add: wf_world_def)
  show ?thesis
    using wf we c sc menu by (simp add: game_over_def s wf_game_def wf_world_def shape)
qed

lemma game_tick_wf [keeps]:
  assumes "sprites_load K" and "wf_game m w"
  shows "wf_game m (ctl_state (game_tick K w))"
proof -
  let ?w = "game_collide (game_move K w)"
  have w: "wf_game m ?w" by (rule game_collide_wf [OF game_move_wf [OF assms(2)]])
  obtain r g where d: "game_draw K ?w (w_gfx ?w) = (r, g)" by fastforce
  have "wf_gfx (w_gfx ?w)" "mode_info (w_gfx ?w) = m" using w by (auto simp: wf_game_def wf_world_def)
  with game_draw_wf [OF assms(1) _ d] have "wf_game m (?w\<lparr>w_gfx := g\<rparr>)"
    using w by (simp add: wf_game_def wf_world_def)
  then show ?thesis
    using game_over_wf [of m "?w\<lparr>w_gfx := g\<rparr>" K] by (simp add: game_tick_def Let_def d)
qed

lemma game_handler_wf:
  assumes "sprites_load K" and "wf_game m w"
  shows "wf_game m (ctl_state (game_handler K irqs w))"
proof -
  have "wf_game m (game_key K w)"
    using game_key_wf [of m w K] assms(2) by (simp add: wf_game_def shape)
  with assms(2) have "wf_game m (if kb_pending w irqs then game_key K w else w)" by simp
  from game_tick_wf [OF assms(1) this] this show ?thesis by (simp add: game_handler_def Let_def)
qed

text \<open>The handler keeps the invariant, so the game loop does, for every sequence of messages.\<close>

interpretation game: irq_handler not_esc "game_handler K" "\<lambda>w. sprites_load K \<and> wf_game m w" for K m
  by unfold_locales (simp add: game_handler_wf)

lemma game_start_wf [keeps]: "wf_game m w \<Longrightarrow> wf_game m (game_start w)"
  using score_init_wf [of "w_score w"]
  by (simp add: game_start_def wf_game_def wf_world_def score_init_def)

lemma game_state_wf:
  assumes "sprites_load K" and "wf_game m w"
  shows "wf_game m (outcome_state (game_state K w ms))"
proof -
  let ?o = "irq_loop not_esc (game_handler K) (game_start w) ms"
  have "wf_game m (outcome_state ?o)"
    using game.loop_inv [of K m "game_start w" ms] assms game_start_wf by blast
  then show ?thesis
  proof (cases ?o)
    case (Exited w' rest)
    have "wf_game m (w'\<lparr>w_score := score_reset (w_score w'),
        w_menu := menu_set_state MENU_MAIN (w_menu w')\<rparr>)"
      using \<open>wf_game m (outcome_state ?o)\<close> Exited score_reset_wf [of "w_score w'"]
        menu_keeps(2) [of "w_menu w'" MENU_MAIN]
      by (simp add: wf_game_def wf_world_def score_reset_def)
    then show ?thesis by (simp add: game_state_def Exited)
  qed (simp_all add: game_state_def)
qed


subsection \<open>When the drawing of a frame fails\<close>

definition alien_fits :: "'h kernel \<Rightarrow> vbe_mode_info \<Rightarrow> Enemy \<Rightarrow> bool" where
  "alien_fits K m e \<longleftrightarrow>
     fits_img (the (xpm_load K (enemy_xpm (e_type e)))) (word_of_int (e_x e)) (word_of_int (e_y e)) m"

lemma enemies_painter:
  assumes "game_sprites_load K"
  shows "painter (\<lambda>e g. if e_active e then draw_enemy K e g else (0, g))
           (\<lambda>e m. e_active e \<longrightarrow> alien_fits K m e)"
proof
  fix g :: gfx_st and e :: Enemy
  assume g: "wf_gfx g"
  have "loads K (enemy_xpm (e_type e))"
    by (rule game_sprites_loadD [OF assms]) (simp add: enemy_xpm_def game_sprites_def)
  then obtain img where img: "xpm_load K (enemy_xpm (e_type e)) = Some img" "img_ok img"
    by (auto simp: loads_def split: option.splits)
  from print_xpm_safe [OF img g] g
  show "wf_gfx (snd (if e_active e then draw_enemy K e g else (0, g)))"
    and "same_screen g (snd (if e_active e then draw_enemy K e g else (0, g)))"
    by (simp_all add: draw_enemy_def)
  from print_xpm_result [OF img g]
  show "fst (if e_active e then draw_enemy K e g else (0, g)) =
      (if e_active e \<longrightarrow> alien_fits K (mode_info g) e then 0 else 1)"
    by (simp add: draw_enemy_def alien_fits_def img(1))
qed

lemma draw_all_enemies_result:
  assumes "game_sprites_load K" and "wf_gfx g"
  shows "fst (draw_all_enemies K es g) =
    (if \<forall>e \<in> set es. e_active e \<longrightarrow> alien_fits K (mode_info g) e then 0 else 1)"
  unfolding draw_all_enemies_def
  by (rule painter.draw_all_result [OF enemies_painter [OF assms(1)] assms(2)])

text \<open>A frame cannot be drawn exactly when a living alien is off the screen.\<close>

lemma game_draw_result:
  assumes "sprites_load K" and "wf_game m w" and "wf_gfx g" and "mode_info g = m"
  shows "fst (game_draw K w g) =
    (if \<forall>e \<in> set (enemies (w_enemies w)). e_active e \<longrightarrow> alien_fits K m e then 0 else 1)"
proof -
  have l: "game_sprites_load K" using assms(1) by (simp add: sprites_load_def)
  have s: "wf_ship m (w_ship w)" and big: "750 \<le> uint (YResolution m)"
    using assms(2) by (auto simp: wf_game_def wf_world_def big_screen_def)
  have x: "uint (ship_x (w_ship w)) \<le> uint (XResolution (mode_info g)) - 50"
    using s by (simp add: wf_ship_def assms(4))
  obtain r1 g1 where 1: "draw_ship K (ship_x (w_ship w)) g = (r1, g1)" by fastforce
  obtain r2 g2 where 2: "draw_all_enemies K (enemies (w_enemies w)) g1 = (r2, g2)" by fastforce
  have a: "r1 = 0" "safe_step g g1"
    using draw_ship_ok [OF l assms(3) x] big 1 by (simp_all add: assms(4))
  have g1: "wf_gfx g1" "mode_info g1 = m" using safe_step_screen [OF a(2)] assms(4) by auto
  have r2: "r2 = (if \<forall>e \<in> set (enemies (w_enemies w)). e_active e \<longrightarrow> alien_fits K m e then 0 else 1)"
    using draw_all_enemies_result [OF l g1(1), of "enemies (w_enemies w)"] 2 g1(2) by simp
  have "safe_step g1 g2"
    using safe_stepI [OF draw_all_enemies_safe [OF l, of "enemies (w_enemies w)"] safe_step_refl [OF g1(1)]] 2
    by simp
  then have g2: "wf_gfx g2" "mode_info g2 = m" using safe_step_screen g1(2) by auto
  obtain r3 g3 where 3: "draw_all_bullets K (bullets (w_ship w)) g2 = (r3, g3)" by fastforce
  have "r3 = 0"
    using draw_all_bullets_ok(1) [OF l g2(1), of "bullets (w_ship w)"] s big 3 g2(2)
    by (simp add: wf_ship_def)
  then show ?thesis using a(1) r2 by (simp add: game_draw_def 1 2 3)
qed


subsection \<open>How a game ends\<close>

text \<open>While the game goes on it is neither won nor lost, an alien lives and all living aliens could be
  drawn in the last frame.\<close>

definition running :: "'h kernel \<Rightarrow> vbe_mode_info \<Rightarrow> 'h world \<Rightarrow> bool" where
  "running K m w \<longleftrightarrow> sprites_load K \<and> wf_game m w \<and> \<not> player_lost w \<and> \<not> player_win w \<and>
     game_active (w_score w)"

definition ended :: "'h kernel \<Rightarrow> vbe_mode_info \<Rightarrow> int \<Rightarrow> 'h world \<Rightarrow> bool" where
  "ended K m r w \<longleftrightarrow>
     (r = 0 \<and> player_lost w \<and> \<not> player_win w \<and> current_state (w_menu w) = MENU_GAME_OVER \<and>
        \<not> game_active (w_score w)) \<or>
     (r = 0 \<and> player_win w \<and> \<not> player_lost w \<and> current_state (w_menu w) = MENU_SCORES \<and>
        \<not> game_active (w_score w) \<and> highscore_saved_this_game (w_score w) \<and>
        count_active_enemies (enemies (w_enemies w)) = 0) \<or>
     (r = 1 \<and> (\<exists>e \<in> set (enemies (w_enemies w)). e_active e \<and> \<not> alien_fits K m e))"

lemma game_active_shape [shape]:
  "game_active (score_add_bullet c) = game_active c"
  "game_active (score_update_time t c) = game_active c"
  "\<not> game_active (snd (score_calculate_final c))"
  by (simp_all add: score_ops Let_def)

lemma save_win_active [shape]:
  "game_active (fst (snd (save_win_highscore K f c h))) = game_active c"
  "highscore_saved_this_game (fst (snd (save_win_highscore K f c h)))"
proof -
  have sort: "game_active (sort_highscores c) = game_active c" for c
    by (simp add: sort_highscores_def Let_def)
  have store: "game_active (store_entry e c) = game_active c" for e c by (simp add: store_entry_def)
  have save: "game_active (snd (snd (save_highscore_to_csv n a b d f c))) = game_active c" for n a b d f c
    by (auto simp: save_highscore_to_csv_def Let_def sort store split: option.splits prod.splits)
  have name: "game_active (fst (snd (get_random_anime_name K c h))) = game_active c" for c h
    by (simp add: get_random_anime_name_def Let_def split: prod.splits)
  show "game_active (fst (snd (save_win_highscore K f c h))) = game_active c"
    using save name [of c h]
    by (auto simp: save_win_highscore_def case_prod_beta)
  show "highscore_saved_this_game (fst (snd (save_win_highscore K f c h)))"
    by (auto simp: save_win_highscore_def case_prod_beta)
qed

lemma save_win_active':
  "save_win_highscore K f c h = (f', c', h') \<Longrightarrow>
     game_active c' = game_active c \<and> highscore_saved_this_game c'"
  using save_win_active [of K f c h] by simp

lemma game_key_active [shape]: "game_active (w_score (game_key K w)) = game_active (w_score w)"
  using ship_action_score [of "mode_info (w_gfx w)" "scancode (w_kb (read_key K w))" "w_ship w" "w_score w"]
  by (auto simp: game_key_def Let_def case_prod_beta shape)

lemma game_move_shape [shape]:
  "player_lost (game_move K w) = player_lost w" "player_win (game_move K w) = player_win w"
  "game_active (w_score (game_move K w)) = game_active (w_score w)"
  "w_menu (game_move K w) = w_menu w"
  by (simp_all add: game_move_def Let_def case_prod_beta shape)

lemma game_collide_shape [shape]:
  "player_win (game_collide w) = player_win w" "w_score (game_collide w) = w_score w"
  "w_gfx (game_collide w) = w_gfx w" "w_menu (game_collide w) = w_menu w"
  "w_timer (game_collide w) = w_timer w"
  by (simp_all add: game_collide_def Let_def case_prod_beta)

lemma game_tick_cases:
  assumes "running K m w"
  defines "w1 \<equiv> game_collide (game_move K w)"
  obtains (off) g where "game_tick K w = Return 1 (w1\<lparr>w_gfx := g\<rparr>)"
      "\<exists>e \<in> set (enemies (w_enemies w1)). e_active e \<and> \<not> alien_fits K m e"
  | (drawn) g where "game_tick K w = game_over K (w1\<lparr>w_gfx := g\<rparr>)"
      "\<forall>e \<in> set (enemies (w_enemies w1)). e_active e \<longrightarrow> alien_fits K m e"
      "wf_game m (w1\<lparr>w_gfx := g\<rparr>)"
proof -
  have k: "sprites_load K" and w: "wf_game m w" using assms(1) by (auto simp: running_def)
  have w1: "wf_game m w1" unfolding w1_def by (rule game_collide_wf [OF game_move_wf [OF w]])
  have g: "wf_gfx (w_gfx w1)" "mode_info (w_gfx w1) = m" using w1 by (auto simp: wf_game_def wf_world_def)
  obtain r g' where d: "game_draw K w1 (w_gfx w1) = (r, g')" by fastforce
  note res = game_draw_result [OF k w1 g]
  have "wf_game m (w1\<lparr>w_gfx := g'\<rparr>)"
    using game_draw_wf [OF k g(1) d] w1 g by (simp add: wf_game_def wf_world_def)
  then show ?thesis
    using off [of g'] drawn [of g'] res d
    by (auto simp: game_tick_def Let_def w1_def [symmetric] split: if_splits)
qed

lemma game_over_cases:
  assumes "game_over K w = c" and "\<not> player_win w"
  shows "case c of
      Continue w' \<Rightarrow> w' = w \<and> \<not> player_lost w \<and> count_active_enemies (enemies (w_enemies w)) \<noteq> 0
    | Return r w' \<Rightarrow> ended K m r w'"
  using assms
  by (auto simp: game_over_def ended_def menu_set_state_def shape split: prod.splits
      dest: save_win_active')


lemma game_handler_running:
  assumes "running K m w" and "game_handler K irqs w = c"
  shows "case c of Continue w' \<Rightarrow> running K m w' | Return r w' \<Rightarrow> ended K m r w'"
proof -
  let ?w = "if kb_pending w irqs then game_key K w else w"
  have "wf_game m (game_key K w)"
    using game_key_wf [of m w K] assms(1) by (simp add: running_def wf_game_def shape)
  then have r: "running K m ?w" using assms(1) by (simp add: running_def shape)
  show ?thesis
  proof (cases "timer_pending ?w irqs")
    case False
    then have "c = Continue ?w" using assms(2) by (simp add: game_handler_def Let_def)
    with r show ?thesis by simp
  next
    case True
    then have c: "c = game_tick K ?w" using assms(2) by (simp add: game_handler_def Let_def)
    let ?w1 = "game_collide (game_move K ?w)"
    from r show ?thesis
    proof (cases rule: game_tick_cases [case_names off drawn])
      case (off g)
      then show ?thesis by (simp add: c ended_def)
    next
      case (drawn g)
      let ?w2 = "?w1\<lparr>w_gfx := g\<rparr>"
      have "\<not> player_win ?w2" "game_active (w_score ?w2)" using r by (simp_all add: running_def shape)
      with game_over_cases [of K ?w2 c m] drawn r show ?thesis
        by (auto simp: c running_def split: ctl.splits)
    qed
  qed
qed

interpretation session: irq_session not_esc "game_handler K" "running K m" "ended K m" for K m
  by unfold_locales (use game_handler_running in fastforce)+

lemma game_start_running: "sprites_load K \<Longrightarrow> wf_game m w \<Longrightarrow> running K m (game_start w)"
  using game_start_wf [of m w] by (simp add: running_def game_start_def score_init_def)


subsection \<open>What a frame never undoes\<close>

definition later :: "'h world \<Rightarrow> 'h world \<Rightarrow> bool" where
  "later w w' \<longleftrightarrow>
     count_active_enemies (enemies (w_enemies w')) \<le> count_active_enemies (enemies (w_enemies w)) \<and>
     bullets_fired (current_score (w_score w)) \<le> bullets_fired (current_score (w_score w')) \<and>
     timer_counter (w_timer w) \<le> timer_counter (w_timer w') \<and>
     game_start_time (w_score w') = game_start_time (w_score w)"

lemma later_refl: "later w w" by (simp add: later_def)

lemma later_trans: "later w w' \<Longrightarrow> later w' w'' \<Longrightarrow> later w w''"
  by (simp add: later_def)

lemma game_key_later: "later w (game_key K w)"
  using ship_action_score [of "mode_info (w_gfx w)" "scancode (w_kb (read_key K w))" "w_ship w" "w_score w"]
  by (auto simp: later_def game_key_def Let_def case_prod_beta shape score_add_bullet_def)

lemma game_move_later: "later w (game_move K w)"
  by (simp add: later_def game_move_def Let_def case_prod_beta shape timer_int_handler_def
      score_update_time_def)

lemma count_kill: "count_active_enemies (es[j := (es ! j)\<lparr>e_active := False\<rparr>]) \<le> count_active_enemies es"
proof (cases "j < length es \<and> e_active (es ! j)")
  case True
  then have "Suc (count_active_enemies (es[j := (es ! j)\<lparr>e_active := False\<rparr>])) = count_active_enemies es"
    unfolding count_active_enemies_def by (intro length_filter_update_drop) simp_all
  then show ?thesis by simp
next
  case False
  then have "es[j := (es ! j)\<lparr>e_active := False\<rparr>] = es"
    by (cases "j < length es") (auto simp: list_update_same_conv list_update_beyond)
  then show ?thesis by simp
qed

lemma game_collide_later: "later w (game_collide w)"
proof -
  obtain r bs es where c: "check_bullet_enemy_collision (bullets (w_ship w)) (enemies (w_enemies w)) = (r, bs, es)"
    by (metis prod_cases3)
  then have "count_active_enemies es \<le> count_active_enemies (enemies (w_enemies w))"
    using count_kill by (auto simp: check_bullet_enemy_collision_def split: option.splits)
  then show ?thesis by (simp add: later_def game_collide_def Let_def case_prod_beta c)
qed

lemma save_win_score:
  "current_score (fst (snd (save_win_highscore K f c h))) = current_score c"
  "game_start_time (fst (snd (save_win_highscore K f c h))) = game_start_time c"
proof -
  have sort: "current_score (sort_highscores c) = current_score c" for c
    by (simp add: sort_highscores_def Let_def)
  have store: "current_score (store_entry e c) = current_score c" for e c by (simp add: store_entry_def)
  have save: "current_score (snd (snd (save_highscore_to_csv n a b d f c))) = current_score c"
    "game_start_time (snd (snd (save_highscore_to_csv n a b d f c))) = game_start_time c" for n a b d f c
    by (auto simp: save_highscore_to_csv_def Let_def sort store shape split: option.splits prod.splits)
  have name: "current_score (fst (snd (get_random_anime_name K c h))) = current_score c"
    "game_start_time (fst (snd (get_random_anime_name K c h))) = game_start_time c" for c h
    by (simp_all add: get_random_anime_name_def Let_def split: prod.splits)
  show "current_score (fst (snd (save_win_highscore K f c h))) = current_score c"
    "game_start_time (fst (snd (save_win_highscore K f c h))) = game_start_time c"
    using save name [of c h] by (auto simp: save_win_highscore_def case_prod_beta)
qed

lemma game_over_later: "later w (ctl_state (game_over K w))"
proof -
  have "bullets_fired (current_score (snd (score_calculate_final c))) = bullets_fired (current_score c)" for c
    by (simp add: score_calculate_final_def Let_def)
  then show ?thesis
    by (simp add: game_over_def later_def case_prod_beta save_win_score shape)
qed

lemma game_handler_later:
  fixes K :: "'h kernel"
  shows "later w (ctl_state (game_handler K irqs w))"
proof -
  have move: "later w (game_collide (game_move K w))" for w :: "'h world"
    using later_trans [OF game_move_later game_collide_later] .
  have g: "later w w' \<Longrightarrow> later w (w'\<lparr>w_gfx := g\<rparr>)" for w w' :: "'h world" and g
    by (simp add: later_def)
  have tick: "later w (ctl_state (game_tick K w))" for w
    using g [OF move] later_trans [OF g [OF move] game_over_later]
    by (simp add: game_tick_def Let_def case_prod_beta)
  then show ?thesis
    using game_key_later later_trans [OF game_key_later tick] later_refl
    by (auto simp: game_handler_def Let_def)
qed

interpretation monotone: irq_handler_rel not_esc "game_handler K" later for K
  by unfold_locales (blast intro: later_refl later_trans game_handler_later)+



subsection \<open>Properties\<close>

text \<open>A world in which everything the program needs is in place.\<close>

definition demo_world :: "port_log world" where
  "demo_world =
     \<lparr>w_kb = kb_init_st, w_timer = timer_init_st, w_gfx = screen_14c, w_ship = ship_init_st,
      w_enemies = snd (init_enemies enemies_init_st), w_score = score_init_st, w_menu = menu_init_st,
      w_file = new_file, player_win = False, player_lost = False, show_scores_drawn = False,
      irq_set_keyboard = 1, irq_set_timer = 0, hw = []\<rparr>"

lemma demo_screen: "big_screen mode_14c" "mode_info screen_14c = mode_14c"
  by (simp_all add: big_screen_def mode_14c_def screen_14c_def)

lemma demo_world_wf: "wf_game mode_14c demo_world"
proof -
  have "wf_enemies (uint (XResolution mode_14c)) (snd (init_enemies enemies_init_st))"
    by (rule init_enemies_wf) (simp_all add: enemies_init_st_def enemy_consts mode_14c_def)
  moreover have "length (enemies (snd (init_enemies enemies_init_st))) = 18"
    by (subst init_enemies_list) (simp_all add: enemies_init_st_def enemy_consts)
  moreover have "wf_ship mode_14c ship_init_st" by (rule ship_init_st_wf) (simp add: mode_14c_def)
  ultimately show ?thesis
    using screen_14c_wf(1) score_init_st_wf
    by (simp add: wf_game_def wf_world_def demo_world_def demo_screen wf_menu_def menu_init_st_def
        timer_init_st_def score_init_st_def init_enemies_def enemies_init_st_def)
qed

lemma loads_from_header:
  assumes "xpm_load K = blank_load" and "xpm = h # t" and "header_size h = (int a, int b)"
    and "a < 2 ^ 16" and "b < 2 ^ 16"
  shows "loads K xpm"
proof -
  have "xpm_size xpm = (int a, int b)" using assms(2,3) by (rule xpm_sizeI)
  with assms(1,4,5) show ?thesis by (intro blank_load_loads) simp_all
qed

lemma message_sizes: "xpm_size message1_xpm = (327, 35)" "xpm_size message4_xpm = (107, 35)"
proof -
  have chunk: "xpm_size (xs @ ys) = wh" if "xs = h # t" "header_size h = wh" for xs ys h t wh
    using that by (simp add: xpm_size_def)
  show "xpm_size message1_xpm = (327, 35)" unfolding message1_xpm_def
    by (rule chunk, rule message1_xpm_1_def, simp add: header_eval)
  show "xpm_size message4_xpm = (107, 35)" unfolding message4_xpm_def
    by (rule chunk, rule message4_xpm_1_def, simp add: header_eval)
qed

lemma blank_sprites_load:
  assumes "xpm_load K = blank_load"
  shows "sprites_load K"
  unfolding sprites_load_def
  using blank_glyphs_load [OF assms] blank_game_sprites_load [OF assms] blank_menu_sprites_load [OF assms]
    blank_load_loads [OF assms, of message1_xpm] blank_load_loads [OF assms, of message4_xpm]
  by (simp add: message_sizes)

text \<open>C4. The game is safe: whatever interrupts arrive, in whatever order and number, whatever bytes the
  keyboard delivers, whatever \<open>rand\<close> returns and whatever the score file holds, the game keeps its
  invariant: no store or load outside a buffer, array or sprite, the ship and its shots on the screen,
  the aliens in formation between the borders, the score table within its array.\<close>

theorem game_state_keeps_invariant:
  assumes "sprites_load K" and "wf_game m w"
  shows "wf_game m (outcome_state (game_state K w ms)) \<and>
         \<not> gfx_fault (w_gfx (outcome_state (game_state K w ms)))"
proof (rule conjI)
  show wf: "wf_game m (outcome_state (game_state K w ms))" by (rule game_state_wf [OF assms])
  then have "wf_gfx (w_gfx (outcome_state (game_state K w ms)))"
    unfolding wf_game_def wf_world_def by blast
  then show "\<not> gfx_fault (w_gfx (outcome_state (game_state K w ms)))" unfolding wf_gfx_def by blast
qed

lemma game_state_keeps_invariant_witness:
  "wf_game mode_14c (outcome_state (game_state blank_kernel demo_world [hw_msg 3, hw_msg 1]))"
  using game_state_keeps_invariant [OF blank_sprites_load [OF blank_kernel_load] demo_world_wf] by blast

text \<open>C5. The ways a game ends, and there is no other: lost, with the menu at game over; won, with no
  alien left, the score saved and the menu at the scores; left by the release of escape, with the score
  reset and the menu at its main page; or the result 1, when a living alien is off the screen and could
  not be drawn. In the first two cases the final score has been computed.\<close>

theorem game_state_outcomes:
  assumes "sprites_load K" and "wf_game m w" and "game_state K w ms = Returned r w' rest"
  shows "(r = 0 \<and> player_lost w' \<and> \<not> player_win w' \<and> current_state (w_menu w') = MENU_GAME_OVER \<and>
            \<not> game_active (w_score w')) \<or>
         (r = 0 \<and> player_win w' \<and> \<not> player_lost w' \<and> current_state (w_menu w') = MENU_SCORES \<and>
            \<not> game_active (w_score w') \<and> highscore_saved_this_game (w_score w') \<and>
            count_active_enemies (enemies (w_enemies w')) = 0) \<or>
         (r = 0 \<and> scancode (w_kb w') = KB_BREAK_ESC \<and> current_state (w_menu w') = MENU_MAIN \<and>
            current_score (w_score w') = zero_score \<and> \<not> player_win w' \<and> \<not> player_lost w') \<or>
         (r = 1 \<and> (\<exists>e \<in> set (enemies (w_enemies w')). e_active e \<and> \<not> alien_fits K m e))"
proof -
  note res = session.loop_result [OF game_start_running [OF assms(1,2)], of ms]
  show ?thesis
  proof (cases "irq_loop not_esc (game_handler K) (game_start w) ms")
    case (Returned r1 w1 rest1)
    with assms(3) have "r1 = r" "w1 = w'" by (simp_all add: game_state_def)
    with res Returned have "ended K m r w'" by simp
    then show ?thesis unfolding ended_def by blast
  next
    case (Exited w1 rest1)
    then have "running K m w1" "\<not> not_esc w1" using res by simp_all
    with assms(3) Exited show ?thesis
      by (auto simp: game_state_def running_def not_esc_def score_reset_def zero_score_def
          menu_set_state_def)
  qed (use assms(3) in \<open>simp add: game_state_def\<close>)
qed

lemma game_state_outcomes_witness:
  "\<exists>w'. game_state blank_kernel (demo_world\<lparr>w_kb := kb_init_st\<lparr>scancode := KB_BREAK_ESC\<rparr>\<rparr>) [] = Returned 0 w' []
     \<and> current_state (w_menu w') = MENU_MAIN"
proof -
  let ?w = "demo_world\<lparr>w_kb := kb_init_st\<lparr>scancode := KB_BREAK_ESC\<rparr>\<rparr>"
  have wf: "wf_game mode_14c ?w" using demo_world_wf by (simp add: wf_game_def wf_world_def)
  obtain w' where r: "game_state blank_kernel ?w [] = Returned 0 w' []"
    by (simp add: game_state_def not_esc_def game_start_def)
  moreover have "player_lost w' = False" "player_win w' = False"
    using r by (auto simp: game_state_def not_esc_def game_start_def)
  ultimately show ?thesis
    using game_state_outcomes [OF blank_sprites_load [OF blank_kernel_load] wf r] by auto
qed

text \<open>During a game no alien comes back to life, no shot is taken off the count, the clock does not
  run backwards and the start of the game stays what it was, over any sequence of interrupts.\<close>

theorem game_loop_is_monotone:
  "later w (outcome_state (irq_loop not_esc (game_handler K) w ms))"
  by (rule monotone.loop_rel)

end
