(* ===== verification/Game_End.thy ===== *)
theory Game_End
  imports Game_State
begin

text \<open>
  Every game ends. The invasion is a race the player cannot draw out: between two timer interrupts the
  formation may only lose aliens, every 30th timer interrupt it makes a move, a bounded number of moves
  brings it one step down, and a living alien below the screen ends the game. The lemmas give the
  variant that goes down at every timer interrupt and instantiate the progress contract of \<open>Machine\<close>
  with it.
\<close>

subsection \<open>The place of the formation\<close>

definition first_alive :: "Enemy list \<Rightarrow> nat" where
  "first_alive es = hd (filter (\<lambda>i. e_active (es ! i)) [0..<18])"

definition lead_dx :: "Enemy list \<Rightarrow> int" where
  "lead_dx es = e_x (es ! first_alive es) - home_x (first_alive es)"

definition lead_dy :: "Enemy list \<Rightarrow> int" where
  "lead_dy es = e_y (es ! first_alive es) - home_y (first_alive es)"

lemma first_alive:
  assumes "length es = 18" and "count_active_enemies es \<noteq> 0"
  shows "first_alive es < 18 \<and> e_active (es ! first_alive es) \<and> es ! first_alive es \<in> set es"
proof -
  let ?is = "filter (\<lambda>i. e_active (es ! i)) [0..<18]"
  obtain e where "e \<in> set es" "e_active e"
    using assms(2) by (auto simp: count_active_enemies_def filter_empty_conv)
  with assms(1) have "?is \<noteq> []" by (auto simp: filter_empty_conv in_set_conv_nth)
  from hd_in_set [OF this] assms(1) show ?thesis by (simp add: first_alive_def)
qed

lemma lead_formation:
  assumes "in_formation dx dy es" and "count_active_enemies es \<noteq> 0"
  shows "lead_dx es = dx" and "lead_dy es = dy"
  using first_alive [of es] assms by (auto simp: in_formation_def lead_dx_def lead_dy_def)

definition aliens_above :: "vbe_mode_info \<Rightarrow> enemies_st \<Rightarrow> bool" where
  "aliens_above m s \<longleftrightarrow>
     (\<forall>e \<in> set (enemies s). e_active e \<longrightarrow> e_y e + 34 \<le> uint (YResolution m))"

definition march_room :: "vbe_mode_info \<Rightarrow> enemies_st \<Rightarrow> nat" where
  "march_room m s =
     nat (if enemy_direction s > 0 then uint (XResolution m) - 140 - lead_dx (enemies s)
          else lead_dx (enemies s) + 600) div 20"

definition march_phase :: "vbe_mode_info \<Rightarrow> enemies_st \<Rightarrow> nat" where
  "march_phase m s =
     (if should_drop s then (if hits_edge m s then 2 else 1) else march_room m s + 3)"

definition march_span :: "vbe_mode_info \<Rightarrow> nat" where
  "march_span m = nat (uint (XResolution m) + 460) div 20 + 4"

definition march_variant :: "vbe_mode_info \<Rightarrow> enemies_st \<Rightarrow> nat" where
  "march_variant m s =
     nat (uint (YResolution m) - lead_dy (enemies s)) div 40 * march_span m + march_phase m s"

lemma formation_in_screen:
  assumes "wf_enemies (uint (XResolution m)) s" and "count_active_enemies (enemies s) \<noteq> 0"
  obtains dx dy where "in_formation dx dy (enemies s)" "lead_dx (enemies s) = dx" "lead_dy (enemies s) = dy"
    "dx mod 20 = 0" "dy mod 40 = 0" "0 \<le> dy" "- 600 < dx" "dx < uint (XResolution m) - 140"
    "enemy_direction s = 1 \<or> enemy_direction s = -1"
proof -
  from assms(1) obtain dx dy where f: "in_formation dx dy (enemies s)"
    and d: "dx mod 20 = 0" "dy mod 40 = 0" "0 \<le> dy"
    and dir: "enemy_direction s = 1 \<or> enemy_direction s = -1"
    and on: "\<And>e. e \<in> set (enemies s) \<Longrightarrow> e_active e \<Longrightarrow> 0 < e_x e \<and> e_x e + 40 < uint (XResolution m)"
    by (auto simp: wf_enemies_def)
  let ?i = "first_alive (enemies s)"
  have i: "?i < 18" "e_active (enemies s ! ?i)" "enemies s ! ?i \<in> set (enemies s)"
    using first_alive [OF _ assms(2)] f by (auto simp: in_formation_def)
  have "e_x (enemies s ! ?i) = home_x ?i + dx" using f i by (simp add: in_formation_def)
  moreover have "100 \<le> home_x ?i" "home_x ?i \<le> 600"
    by (simp_all add: home_x_def less_Suc_eq_le [symmetric])
  ultimately have "- 600 < dx" "dx < uint (XResolution m) - 140" using on [OF i(3,2)] by linarith+
  with that [OF f lead_formation [OF f assms(2)] d _ _ dir] show ?thesis by blast
qed

lemma march_phase_less:
  assumes "wf_enemies (uint (XResolution m)) s" and "count_active_enemies (enemies s) \<noteq> 0"
  shows "march_phase m s < march_span m"
proof -
  from formation_in_screen [OF assms] obtain dx dy where
    "lead_dx (enemies s) = dx" "- 600 < dx" "dx < uint (XResolution m) - 140" by metis
  then have "march_room m s \<le> nat (uint (XResolution m) + 460) div 20"
    unfolding march_room_def by (intro div_le_mono nat_mono) auto
  then show ?thesis by (auto simp: march_phase_def march_span_def)
qed


subsection \<open>One move goes down the variant\<close>

lemma lead_after_march:
  assumes "in_formation dx dy (enemies s)" and "count_active_enemies (enemies s) \<noteq> 0" and "\<not> hits_edge m s"
  shows "lead_dx (enemies (move_enemies_st m s)) = (if should_drop s then dx else dx + enemy_direction s * 20)"
    and "lead_dy (enemies (move_enemies_st m s)) = (if should_drop s then dy + 40 else dy)"
  using lead_formation [OF march_formation [OF assms(1), of "should_drop s" "enemy_direction s"]] assms(2,3)
  by (simp_all add: move_enemies_go)

lemma room_shrinks:
  assumes "wf_enemies (uint (XResolution m)) s" and "count_active_enemies (enemies s) \<noteq> 0"
    and "\<not> hits_edge m s" and "\<not> should_drop s"
  shows "march_room m (move_enemies_st m s) < march_room m s"
proof -
  from formation_in_screen [OF assms(1,2)] obtain dx dy where
    f: "in_formation dx dy (enemies s)" and l: "lead_dx (enemies s) = dx"
    and d: "enemy_direction s = 1 \<or> enemy_direction s = -1" by metis
  let ?i = "first_alive (enemies s)" and ?w = "uint (XResolution m)"
  have i: "?i < 18" "e_active (enemies s ! ?i)" "enemies s ! ?i \<in> set (enemies s)"
    using first_alive [OF _ assms(2)] f by (auto simp: in_formation_def)
  have "e_x (enemies s ! ?i) = home_x ?i + dx" using f i by (simp add: in_formation_def)
  moreover have "100 \<le> home_x ?i" "home_x ?i \<le> 600"
    by (simp_all add: home_x_def less_Suc_eq_le [symmetric])
  moreover have "\<not> at_edge ?w (enemy_direction s) (enemies s ! ?i)"
    using assms(3) i by (auto simp: hits_edge_def)
  ultimately have room: "if enemy_direction s > 0 then 20 < ?w - 140 - dx else 20 < dx + 600"
    using d by (auto simp: at_edge_def enemy_consts)
  have l': "lead_dx (enemies (move_enemies_st m s)) = dx + enemy_direction s * 20"
    using lead_after_march(1) [OF f assms(2,3)] assms(4) by simp
  have d': "enemy_direction (move_enemies_st m s) = enemy_direction s"
    by (simp add: move_enemies_go [OF assms(3)])
  have shrink: "nat (a - 20) div 20 < nat a div 20" if "20 < a" for a :: int
  proof -
    have "nat a = nat (a - 20) + 20" using that by simp
    then show ?thesis by simp
  qed
  from d show ?thesis
  proof
    assume 1: "enemy_direction s = 1"
    with shrink [of "?w - 140 - dx"] room show ?thesis
      by (simp add: march_room_def l l' d' algebra_simps)
  next
    assume 1: "enemy_direction s = -1"
    with shrink [of "dx + 600"] room show ?thesis
      by (simp add: march_room_def l l' d' algebra_simps)
  qed
qed

lemma move_enemies_variant:
  assumes "wf_enemies (uint (XResolution m)) s" and "700 \<le> uint (XResolution m)"
    and "count_active_enemies (enemies s) \<noteq> 0" and "aliens_above m s"
  shows "march_variant m (move_enemies_st m s) < march_variant m s"
proof -
  let ?t = "move_enemies_st m s"
  consider "hits_edge m s" | "\<not> hits_edge m s" "should_drop s" | "\<not> hits_edge m s" "\<not> should_drop s"
    by blast
  then show ?thesis
  proof cases
    case 1
    then show ?thesis
      using turn_then_clear [OF assms(1,2) 1]
      by (simp add: march_variant_def march_phase_def move_enemies_turn)
  next
    case 2
    have wf: "wf_enemies (uint (XResolution m)) ?t" by (rule move_enemies_wf [OF assms(1)])
    have c: "count_active_enemies (enemies ?t) \<noteq> 0" using assms(3) by (simp add: move_enemies_go [OF 2(1)])
    from formation_in_screen [OF assms(1,3)] obtain dx dy where
      f: "in_formation dx dy (enemies s)" and l: "lead_dy (enemies s) = dy" and dy: "0 \<le> dy" by metis
    let ?i = "first_alive (enemies s)" and ?h = "uint (YResolution m)"
    have i: "?i < 18" "e_active (enemies s ! ?i)" "enemies s ! ?i \<in> set (enemies s)"
      using first_alive [OF _ assms(3)] f by (auto simp: in_formation_def)
    have "e_y (enemies s ! ?i) = home_y ?i + dy" using f i by (simp add: in_formation_def)
    moreover have "50 \<le> home_y ?i" by (simp add: home_y_def)
    moreover have "e_y (enemies s ! ?i) + 34 \<le> ?h" using assms(4) i by (simp add: aliens_above_def)
    ultimately have "nat (?h - dy) = nat (?h - (dy + 40)) + 40" by simp
    then have "nat (?h - dy) div 40 = nat (?h - (dy + 40)) div 40 + 1" by simp
    moreover have "lead_dy (enemies ?t) = dy + 40" using lead_after_march(2) [OF f assms(3) 2(1)] 2(2) by simp
    ultimately show ?thesis
      using march_phase_less [OF wf c] by (simp add: march_variant_def l)
  next
    case 3
    have "lead_dy (enemies ?t) = lead_dy (enemies s)"
    proof -
      from formation_in_screen [OF assms(1,3)] obtain dx dy where
        f: "in_formation dx dy (enemies s)" and l: "lead_dy (enemies s) = dy" by metis
      show ?thesis using lead_after_march(2) [OF f assms(3) 3(1)] 3(2) l by simp
    qed
    moreover have "march_phase m ?t < march_phase m s"
      using room_shrinks [OF assms(1,3) 3] 3(2)
      by (simp add: march_phase_def)
    ultimately show ?thesis by (simp add: march_variant_def)
  qed
qed


subsection \<open>Kills do not go up the variant\<close>

definition thinned :: "Enemy list \<Rightarrow> Enemy list \<Rightarrow> bool" where
  "thinned es es' \<longleftrightarrow> length es' = length es \<and>
     (\<forall>i < length es. e_active (es' ! i) \<longrightarrow> es' ! i = es ! i)"

lemma thinned_living: "thinned es es' \<Longrightarrow> e \<in> set es' \<Longrightarrow> e_active e \<Longrightarrow> e \<in> set es"
  unfolding thinned_def by (auto simp: in_set_conv_nth)

lemma thinned_lead:
  assumes "thinned es es'" and "in_formation dx dy es" and "count_active_enemies es' \<noteq> 0"
  shows "lead_dx es' = dx" and "lead_dy es' = dy"
proof -
  have "length es' = 18" using assms(1,2) by (simp add: thinned_def in_formation_def)
  from first_alive [OF this assms(3)] have i: "first_alive es' < 18" "e_active (es' ! first_alive es')" by auto
  with assms(1,2) have "es' ! first_alive es' = es ! first_alive es'"
    by (simp add: thinned_def in_formation_def)
  with i assms(2) show "lead_dx es' = dx" "lead_dy es' = dy"
    by (auto simp: in_formation_def lead_dx_def lead_dy_def)
qed

lemma thinned_count:
  assumes "thinned es es'" and "count_active_enemies es' \<noteq> 0"
  shows "count_active_enemies es \<noteq> 0"
proof -
  obtain e where e: "e \<in> set es'" "e_active e"
    using assms(2) by (auto simp: count_active_enemies_def filter_empty_conv)
  from thinned_living [OF assms(1) e] e(2) show ?thesis
    by (auto simp: count_active_enemies_def filter_empty_conv)
qed

lemma thinned_variant:
  assumes "thinned (enemies s) es" and "wf_enemies (uint (XResolution m)) s"
    and "count_active_enemies es \<noteq> 0"
  shows "march_variant m (s\<lparr>enemies := es\<rparr>) \<le> march_variant m s"
proof -
  have c: "count_active_enemies (enemies s) \<noteq> 0" by (rule thinned_count [OF assms(1,3)])
  from formation_in_screen [OF assms(2) c] obtain dx dy where
    f: "in_formation dx dy (enemies s)" "lead_dx (enemies s) = dx" "lead_dy (enemies s) = dy" by metis
  have "hits_edge m (s\<lparr>enemies := es\<rparr>) \<Longrightarrow> hits_edge m s"
    using thinned_living [OF assms(1)] by (auto simp: hits_edge_def)
  then show ?thesis
    using f thinned_lead [OF assms(1) f(1) assms(3)]
    by (auto simp: march_variant_def march_phase_def march_room_def)
qed

lemma collision_thins:
  assumes "length (bullets s) = 10" and "length es = 18"
    and "check_bullet_enemy_collision (bullets s) es = (r, bs, es')"
  shows "thinned es es'"
proof (cases rule: check_bullet_enemy_cases [OF assms(1,2), case_names hit miss])
  case (hit i j)
  then have "es' = es[j := (es ! j)\<lparr>e_active := False\<rparr>]" using assms(3) by simp
  moreover have "es[j := (es ! j)\<lparr>e_active := False\<rparr>] ! k = es ! k"
    if "e_active (es[j := (es ! j)\<lparr>e_active := False\<rparr>] ! k)" for k
    using that hit(2) assms(2) by (cases "k = j") simp_all
  ultimately show ?thesis by (simp add: thinned_def)
next
  case miss
  with assms(3) show ?thesis by (simp add: thinned_def)
qed

subsection \<open>The variant of a game\<close>

definition frame_variant :: "vbe_mode_info \<Rightarrow> enemies_st \<Rightarrow> nat" where
  "frame_variant m s = 32 * march_variant m s + nat (31 - enemy_move_timer s)"

definition game_variant :: "vbe_mode_info \<Rightarrow> 'h world \<Rightarrow> nat" where
  "game_variant m w =
     (if count_active_enemies (enemies (w_enemies w)) = 0 then 0 else frame_variant m (w_enemies w))"

lemma enemies_moving_variant:
  assumes "wf_enemies (uint (XResolution m)) s" and "700 \<le> uint (XResolution m)"
    and "count_active_enemies (enemies s) \<noteq> 0" and "aliens_above m s"
  shows "frame_variant m (enemies_moving m s) < frame_variant m s"
proof -
  let ?s1 = "s\<lparr>enemy_move_timer := enemy_move_timer s + 1\<rparr>"
  have timer: "march_variant m (f\<lparr>enemy_move_timer := t\<rparr>) = march_variant m f" for f t
    by (simp add: march_variant_def march_phase_def march_room_def hits_edge_def)
  show ?thesis
  proof (cases "enemy_move_timer s + 1 \<ge> 30")
    case False
    then show ?thesis by (simp add: enemies_moving_def frame_variant_def timer)
  next
    case True
    have "wf_enemies (uint (XResolution m)) ?s1" "aliens_above m ?s1"
      using assms(1,4) by (simp_all add: wf_enemies_def aliens_above_def)
    from move_enemies_variant [OF this(1) assms(2) _ this(2)] assms(3)
    have "march_variant m (move_enemies_st m ?s1) < march_variant m s" by (simp add: timer)
    then show ?thesis using True by (simp add: enemies_moving_def frame_variant_def timer)
  qed
qed

lemma thinned_frame_variant:
  assumes "thinned (enemies s) es" and "wf_enemies (uint (XResolution m)) s"
    and "count_active_enemies es \<noteq> 0"
  shows "frame_variant m (s\<lparr>enemies := es\<rparr>) \<le> frame_variant m s"
  using thinned_variant [OF assms] by (simp add: frame_variant_def)

text \<open>An explicit bound: with a running move timer, at most this many timer interrupts.\<close>

definition game_bound :: "vbe_mode_info \<Rightarrow> nat" where
  "game_bound m = 32 * ((nat (uint (YResolution m)) div 40 + 1) * march_span m) + 31"

lemma game_variant_bound:
  assumes "wf_game m w"
  shows "game_variant m w \<le> game_bound m"
proof (cases "count_active_enemies (enemies (w_enemies w)) = 0")
  case False
  let ?s = "w_enemies w" and ?h = "nat (uint (YResolution m)) div 40"
  have wf: "wf_enemies (uint (XResolution m)) ?s" using assms(1) by (simp add: wf_game_def)
  from formation_in_screen [OF wf False] obtain dx dy where
    "in_formation dx dy (enemies ?s)" "lead_dy (enemies ?s) = dy" "0 \<le> dy" by metis
  then have "nat (uint (YResolution m) - lead_dy (enemies ?s)) div 40 \<le> ?h"
    by (intro div_le_mono nat_mono) simp
  then have "nat (uint (YResolution m) - lead_dy (enemies ?s)) div 40 * march_span m \<le> ?h * march_span m"
    by (rule mult_le_mono1)
  with march_phase_less [OF wf False]
  have "march_variant m ?s \<le> ?h * march_span m + march_span m"
    unfolding march_variant_def by linarith
  then have "march_variant m ?s \<le> (?h + 1) * march_span m" by simp
  moreover have "0 \<le> enemy_move_timer ?s" using assms by (simp add: wf_game_def wf_world_def)
  ultimately show ?thesis using False by (simp add: game_variant_def frame_variant_def game_bound_def)
qed (simp add: game_variant_def)


subsection \<open>A living alien below the screen ends the game\<close>

lemma alien_fits_above:
  assumes "game_sprites_load K" and "alien_fits K m e" and "0 \<le> e_y e" and "e_y e < 2 ^ 16"
  shows "e_y e + 34 \<le> uint (YResolution m)"
proof -
  have mem: "enemy_xpm (e_type e) \<in> set game_sprites" by (simp add: enemy_xpm_def game_sprites_def)
  have "\<exists>w > 0. xpm_size (enemy_xpm (e_type e)) = (w, 34)"
    by (simp add: enemy_xpm_def game_sprite_sizes)
  then obtain w where sz: "xpm_size (enemy_xpm (e_type e)) = (w, 34)" "0 < w" by blast
  obtain img where img: "xpm_load K (enemy_xpm (e_type e)) = Some img"
    "(uint (img_width img), uint (img_height img)) = (w, 34)"
    using game_sprites_loadD [OF assms(1) mem] sz(1) by (auto simp: loads_def split: option.splits)
  have "unat (img_width img) \<noteq> 0" "unat (img_height img) = 34" using img(2) sz(2) by (auto simp: unat_eq_nat_uint)
  with assms(2) img(1) have "unat (word_of_int (e_y e) :: u16) + 34 \<le> unat (YResolution m)"
    by (simp add: alien_fits_def fits_img_def fits_rect_def)
  then have "int (unat (word_of_int (e_y e) :: u16)) + 34 \<le> int (unat (YResolution m))" by linarith
  then have "uint (word_of_int (e_y e) :: u16) + 34 \<le> uint (YResolution m)" by (simp only: uint_nat [symmetric])
  moreover have "uint (word_of_int (e_y e) :: u16) = e_y e"
    using assms(3,4) by (simp add: uint_word_of_int)
  ultimately show ?thesis by simp
qed

text \<open>Coordinates do not wrap on the way down: the rows of the formation are at 10 modulo 40.\<close>

lemma enemies_moving_rows:
  "\<forall>e \<in> set (enemies (enemies_moving m s)). e_active e \<longrightarrow>
     (\<exists>e0 \<in> set (enemies s). e_active e0 \<and> (e_y e = e_y e0 \<or> e_y e = e_y e0 + 40))"
proof -
  have "enemies (enemies_moving m s) = enemies s \<or>
      (\<exists>dr d. enemies (enemies_moving m s) = map (march dr d) (enemies s))"
    by (auto simp: enemies_moving_def move_enemies_def Let_def)
  moreover have rows: "e_y (march dr d x) = e_y x \<or> e_y (march dr d x) = e_y x + 40" for dr d x
    by (simp add: march_def)
  ultimately show ?thesis
  proof (elim disjE exE)
    fix dr d assume *: "enemies (enemies_moving m s) = map (march dr d) (enemies s)"
    show ?thesis unfolding * using rows [of dr d] by fastforce
  qed auto
qed

lemma next_row_in_range:
  assumes "wf_enemies (uint (XResolution m)) s" and "aliens_above m s"
    and "e \<in> set (enemies (enemies_moving m s))" and "e_active e"
  shows "0 \<le> e_y e \<and> e_y e < 2 ^ 16"
proof -
  from assms(1) obtain dx dy where f: "in_formation dx dy (enemies s)" and dy: "dy mod 40 = 0" "0 \<le> dy"
    by (auto simp: wf_enemies_def)
  have "\<exists>e0 \<in> set (enemies s). e_active e0 \<and> (e_y e = e_y e0 \<or> e_y e = e_y e0 + 40)"
    using assms(3,4) enemies_moving_rows [of m s] by blast
  then obtain e0 where e0: "e0 \<in> set (enemies s)" "e_active e0" "e_y e = e_y e0 \<or> e_y e = e_y e0 + 40"
    by blast
  from in_formation_active [OF f e0(1,2)] obtain i where "e_y e0 = home_y i + dy" by blast
  then have y: "e_y e0 = 50 + 80 * int (i div 6) + dy" by (simp add: home_y_def)
  obtain k where "dy = 40 * k" using dy(1) by (metis mod_0_imp_dvd dvdE)
  then have row: "e_y e0 = 10 + 40 * (1 + 2 * int (i div 6) + k)" by (simp add: y)
  have "e_y e0 + 34 \<le> 65535"
  proof -
    have "e_y e0 + 34 \<le> uint (YResolution m)" using assms(2) e0(1,2) by (simp add: aliens_above_def)
    moreover have "uint (YResolution m) < 2 ^ 16" using uint_lt2p [of "YResolution m"] by simp
    ultimately show ?thesis by simp
  qed
  moreover have "10 + 40 * a \<le> 65490" if "10 + 40 * a + 34 \<le> (65535 :: int)" for a using that by presburger
  ultimately have "e_y e0 \<le> 65490" unfolding row by blast
  moreover have "0 \<le> e_y e0" unfolding y using dy(2) by simp
  ultimately show ?thesis using e0(3) by auto
qed



subsection \<open>The progress of a game\<close>

lemma irq_timer_shape [shape]:
  "irq_set_timer (game_move K w) = irq_set_timer w" "irq_set_timer (game_collide w) = irq_set_timer w"
  "w_enemies (game_move K w) = enemies_moving (mode_info (clear_back_buf 0 (w_gfx w))) (w_enemies w)"
  by (simp_all add: game_move_def game_collide_def Let_def case_prod_beta)

lemma game_collide_enemies:
  assumes "wf_game m w"
  obtains es where "w_enemies (game_collide w) = (w_enemies w)\<lparr>enemies := es\<rparr>"
    "thinned (enemies (w_enemies w)) es"
proof -
  obtain r bs es where c: "check_bullet_enemy_collision (bullets (w_ship w)) (enemies (w_enemies w)) = (r, bs, es)"
    by (metis prod_cases3)
  have "length (bullets (w_ship w)) = 10" "length (enemies (w_enemies w)) = 18"
    using assms by (auto simp: wf_game_def wf_world_def wf_ship_def)
  from collision_thins [OF this c] have "thinned (enemies (w_enemies w)) es" .
  moreover have "w_enemies (game_collide w) = (w_enemies w)\<lparr>enemies := es\<rparr>"
    by (simp add: game_collide_def Let_def case_prod_beta c)
  ultimately show ?thesis using that by blast
qed

definition playing :: "'h kernel \<Rightarrow> vbe_mode_info \<Rightarrow> u8 \<Rightarrow> 'h world \<Rightarrow> bool" where
  "playing K m b w \<longleftrightarrow> running K m w \<and> irq_set_timer w = b \<and> aliens_above m (w_enemies w)"

lemma tick_progress:
  assumes "playing K m b w" and "game_tick K w = Continue w'"
  shows "playing K m b w' \<and> game_variant m w' < game_variant m w"
proof -
  have r: "running K m w" and above: "aliens_above m (w_enemies w)" and b: "irq_set_timer w = b"
    using assms(1) by (auto simp: playing_def)
  have wf: "wf_game m w" and k: "game_sprites_load K" using r by (auto simp: running_def sprites_load_def)
  have wfe: "wf_enemies (uint (XResolution m)) (w_enemies w)" and big: "700 \<le> uint (XResolution m)"
    and g: "wf_gfx (w_gfx w)" "mode_info (w_gfx w) = m"
    using wf by (auto simp: wf_game_def wf_world_def big_screen_def)
  let ?f = "enemies_moving m (w_enemies w)"
  have mv: "w_enemies (game_move K w) = ?f"
    using same_screen_fields(1) [OF clear_back_buf_ok(2) [OF g(1)], of 0] g(2) by (simp add: shape)
  obtain es where es: "w_enemies (game_collide (game_move K w)) = ?f\<lparr>enemies := es\<rparr>"
    and thin: "thinned (enemies ?f) es"
    using game_collide_enemies [OF game_move_wf [OF wf, of K]] mv by metis
  have wff: "wf_enemies (uint (XResolution m)) ?f" by (rule enemies_moving_wf [OF wfe])
  from r show ?thesis
  proof (cases rule: game_tick_cases [case_names off drawn])
    case (off g)
    with assms(2) show ?thesis by simp
  next
    case (drawn g)
    let ?w2 = "game_collide (game_move K w)\<lparr>w_gfx := g\<rparr>"
    have "\<not> player_win ?w2" using r by (simp add: running_def shape)
    from game_over_cases [OF _ this, of K "Continue w'" m] drawn(1) assms(2)
    have w': "w' = ?w2" and lost: "\<not> player_lost w'" and c: "count_active_enemies es \<noteq> 0"
      by (auto simp: es)
    have c0: "count_active_enemies (enemies (w_enemies w)) \<noteq> 0" using thinned_count [OF thin c] by simp
    have "aliens_above m (w_enemies w')"
      unfolding aliens_above_def
    proof (intro ballI impI)
      fix e assume e: "e \<in> set (enemies (w_enemies w'))" "e_active e"
      then have "e \<in> set es" by (simp add: w' es)
      with thinned_living [OF thin _ e(2)] have "e \<in> set (enemies ?f)" by blast
      from next_row_in_range [OF wfe above this e(2)]
      have "0 \<le> e_y e" "e_y e < 2 ^ 16" by auto
      moreover have "alien_fits K m e" using drawn(2) e by (simp add: w')
      ultimately show "e_y e + 34 \<le> uint (YResolution m)" using alien_fits_above [OF k] by blast
    qed
    moreover have "running K m w'" using drawn(3) lost r by (simp add: running_def w' shape)
    moreover have "irq_set_timer w' = b" by (simp add: w' shape b)
    moreover have "game_variant m w' < game_variant m w"
      using enemies_moving_variant [OF wfe big c0 above] thinned_frame_variant [OF thin wff c] c c0
      by (simp add: game_variant_def w' es)
    ultimately show ?thesis by (simp add: playing_def)
  qed
qed

lemma key_keeps_playing:
  assumes "playing K m b w"
  shows "playing K m b (game_key K w) \<and> game_variant m (game_key K w) = game_variant m w"
proof -
  have "wf_game m (game_key K w)"
    using game_key_wf [of m w K] assms by (simp add: playing_def running_def wf_game_def shape)
  with assms show ?thesis by (simp add: playing_def running_def game_variant_def shape)
qed

lemma handler_progress:
  assumes "playing K m b w" and "game_handler K irqs w = Continue w'"
  shows "playing K m b w'" and "game_variant m w' \<le> game_variant m w"
    and "irqs AND BIT (unat b) \<noteq> 0 \<Longrightarrow> game_variant m w' < game_variant m w"
proof -
  let ?w = "if kb_pending w irqs then game_key K w else w"
  have p: "playing K m b ?w" "game_variant m ?w = game_variant m w"
    using key_keeps_playing [OF assms(1)] assms(1) by auto
  then have "timer_pending ?w irqs \<longleftrightarrow> irqs AND BIT (unat b) \<noteq> 0"
    by (simp add: timer_pending_def playing_def)
  with assms(2) have "if irqs AND BIT (unat b) \<noteq> 0 then game_tick K ?w = Continue w' else w' = ?w"
    by (auto simp: game_handler_def Let_def split: if_splits)
  then show "playing K m b w'" "game_variant m w' \<le> game_variant m w"
    "irqs AND BIT (unat b) \<noteq> 0 \<Longrightarrow> game_variant m w' < game_variant m w"
    using tick_progress [OF p(1), of w'] p by (auto split: if_splits)
qed

interpretation progress: irq_progress not_esc "game_handler K" "playing K m b" "ended K m"
    "\<lambda>irqs. irqs AND BIT (unat b) \<noteq> 0" "game_variant m" for K m b
proof unfold_locales
  show "ended K m r w'" if "playing K m b w" "not_esc w" "game_handler K irqs w = Return r w'" for w irqs r w'
    using game_handler_running [OF _ that(3)] that(1) by (simp add: playing_def)
qed (use handler_progress in blast)+


definition timer_irqs :: "u8 \<Rightarrow> recv list \<Rightarrow> nat" where
  "timer_irqs b = ticks (\<lambda>irqs. irqs AND BIT (unat b) \<noteq> 0)"

lemma game_leaves:
  assumes "sprites_load K" and "wf_game m w"
    and "\<forall>e \<in> set (enemies (w_enemies w)). e_active e \<longrightarrow> e_y e + 34 \<le> uint (YResolution m)"
    and "game_bound m < timer_irqs (irq_set_timer w) ms"
  shows "\<exists>w' rest. game_state K w ms = Returned 0 w' rest \<or> game_state K w ms = Returned 1 w' rest"
proof -
  let ?w = "game_start w"
  have "playing K m (irq_set_timer w) ?w"
    using game_start_running [OF assms(1,2)] assms(3)
    by (simp add: playing_def game_start_def aliens_above_def)
  moreover have "game_variant m ?w = game_variant m w" by (simp add: game_variant_def game_start_def)
  then have "game_variant m ?w \<le> game_bound m" using game_variant_bound [OF assms(2)] by (simp only:)
  ultimately have left: "irq_loop not_esc (game_handler K) ?w ms \<noteq> Waiting w'"
    and res: "case irq_loop not_esc (game_handler K) ?w ms of
      Waiting s' \<Rightarrow> playing K m (irq_set_timer w) s' \<and> not_esc s'
    | Exited s' rest \<Rightarrow> playing K m (irq_set_timer w) s' \<and> \<not> not_esc s'
    | Returned r s' rest \<Rightarrow> ended K m r s'" for w'
    using progress.loop_left [of K m "irq_set_timer w" ?w ms w'] progress.loop_result assms(4)
    by (auto simp: timer_irqs_def)
  then show ?thesis
    by (cases "irq_loop not_esc (game_handler K) ?w ms") (auto simp: game_state_def ended_def)
qed


subsection \<open>Properties\<close>

text \<open>C6. Every game ends. A game that starts with its aliens above the lower border of the screen is left
  after at most \<open>game_bound m\<close> timer interrupts, whatever the player does, whatever other interrupts and
  messages come in between and however many aliens are shot; in mode 0x14C that is less than 17 minutes
  at 60 interrupts a second.\<close>

theorem every_game_ends:
  assumes "sprites_load K" and "wf_game m w"
    and "\<forall>e \<in> set (enemies (w_enemies w)). e_active e \<longrightarrow> e_y e + 34 \<le> uint (YResolution m)"
    and "game_bound m < timer_irqs (irq_set_timer w) ms"
  shows "\<exists>w' rest. game_state K w ms = Returned 0 w' rest \<or> game_state K w ms = Returned 1 w' rest"
  by (rule game_leaves [OF assms])

lemma demo_world_many_ticks:
  "game_bound mode_14c < timer_irqs (irq_set_timer demo_world) (replicate 60000 (hw_msg 1))"
  by (simp add: timer_irqs_def ticks_def demo_world_def game_bound_def march_span_def mode_14c_def
      filter_replicate BIT_def)

lemma every_game_ends_witness:
  "\<exists>r w' rest. game_state blank_kernel demo_world (replicate 60000 (hw_msg 1)) = Returned r w' rest"
proof -
  have l: "enemies (w_enemies demo_world) =
      map (\<lambda>i. \<lparr>e_x = home_x i, e_y = home_y i, e_active = True, e_type = int (i div 6)\<rparr>) [0..<18]"
    unfolding demo_world_def world.simps
    by (rule init_enemies_list) (simp add: enemies_init_st_def enemy_consts)
  have "\<forall>e \<in> set (enemies (w_enemies demo_world)). e_active e \<longrightarrow> e_y e + 34 \<le> uint (YResolution mode_14c)"
    unfolding l by (simp add: home_y_def mode_14c_def upt_rec)
  then show ?thesis
    using every_game_ends [OF blank_sprites_load [OF blank_kernel_load] demo_world_wf _ demo_world_many_ticks]
    by blast
qed

end
