(* ===== verification/Main_Loop.thy ===== *)
theory Main_Loop
  imports Game_End
begin

text \<open>
  \<open>main.c\<close> and \<open>score_state\<close> of \<open>game/scores/score.c\<close>: the start of the program, the menu loop with its
  pages, and the end. The menu loop is nested: the handler of a menu tick runs the loop of the game or
  of the scores page, which consume messages of their own. A handler of \<open>menu_handler\<close> therefore has an
  outcome: \<open>Exited\<close> stands for going on with the menu loop and the messages left.

  The lemmas show that the whole program keeps the invariant of \<open>Game_State\<close> from its start to its end,
  that every game started from the menu ends, what each page leaves behind, and two places where the
  program does not do what its screens say.
\<close>

subsection \<open>Start and end\<close>

definition FREQ :: u32 where "FREQ = 60"
definition TIMER :: u8 where "TIMER = 0"

text \<open>\<open>None\<close> is the panic of \<open>set_frame_buffer\<close>.\<close>

definition init_game :: "'h kernel \<Rightarrow> 'h world \<Rightarrow> (int \<times> 'h world) option" where
  "init_game K w =
     (case timer_set_frequency K TIMER FREQ (hw w) of (r, h) \<Rightarrow>
        if r \<noteq> 0 then Some (1, w\<lparr>hw := h\<rparr>)
        else case set_frame_buffer K MODE (w_gfx w) h of
          None \<Rightarrow> None
        | Some (r, g, h) \<Rightarrow>
            let w = w\<lparr>w_gfx := g\<rparr> in
            if r \<noteq> 0 then Some (1, w\<lparr>hw := h\<rparr>)
            else case set_graphical_mode K MODE h of (r, h) \<Rightarrow>
              if r \<noteq> 0 then Some (1, w\<lparr>hw := h\<rparr>)
              else case kb_subscribe_int K Addr (w_kb w) h of (r, line, k, h) \<Rightarrow>
                let w = w\<lparr>w_kb := k, irq_set_keyboard := (case line of None \<Rightarrow> irq_set_keyboard w | Some b \<Rightarrow> b)\<rparr> in
                if r \<noteq> 0 then Some (1, w\<lparr>hw := h\<rparr>)
                else case timer_subscribe_int K Addr (w_timer w) h of (r, line, t, h) \<Rightarrow>
                  let w = w\<lparr>w_timer := t, irq_set_timer := (case line of None \<Rightarrow> irq_set_timer w | Some b \<Rightarrow> b), hw := h\<rparr> in
                  if r \<noteq> 0 then Some (1, w)
                  else Some (0, w\<lparr>w_score := snd (load_highscores_from_csv (w_file w) (w_score w)),
                                  w_menu := menu_init (w_menu w)\<rparr>))"

definition close_game :: "'h kernel \<Rightarrow> 'h world \<Rightarrow> int \<times> 'h world" where
  "close_game K w =
     (case kb_unsubscribe_int K (w_kb w) (hw w) of (r, h) \<Rightarrow>
        if r \<noteq> 0 then (1, w\<lparr>hw := h\<rparr>)
        else case timer_unsubscribe_int K (w_timer w) h of (r, h) \<Rightarrow>
          if r \<noteq> 0 then (1, w\<lparr>hw := h\<rparr>)
          else case vg_exit K h of (r, h) \<Rightarrow> (if r \<noteq> 0 then 1 else 0, w\<lparr>hw := h\<rparr>))"


subsection \<open>The scores page\<close>

text \<open>\<open>if (state() != 0) return 1; f;\<close> for a nested loop \<open>state\<close>: the outcome of a page.\<close>

definition nested :: "('s \<Rightarrow> 's) \<Rightarrow> 's outcome \<Rightarrow> 's outcome" where
  "nested f oc =
     (case oc of
        Waiting s \<Rightarrow> Waiting s
      | Exited s rest \<Rightarrow> Exited s rest
      | Returned r s rest \<Rightarrow> if r \<noteq> 0 then Returned 1 s rest else Exited (f s) rest)"

lemma outcome_rest_nested [simp]: "outcome_rest (nested f oc) = outcome_rest oc"
  by (simp add: nested_def split: outcome.splits)

definition score_handler :: "'h kernel \<Rightarrow> u32 \<Rightarrow> 'h world \<Rightarrow> 'h world ctl" where
  "score_handler K irqs w =
     (if kb_pending w irqs then
        (let w1 = read_key K w in
         if scancode (w_kb w1) = KB_ENTER \<or> scancode (w_kb w1) = KB_BREAK_ESC
         then Return 0 w1 else Continue w1)
      else Continue w)"

definition score_state :: "'h kernel \<Rightarrow> 'h world \<Rightarrow> recv list \<Rightarrow> 'h world outcome" where
  "score_state K w ms =
     (case irq_loop not_esc (score_handler K) w ms of
        Waiting w' \<Rightarrow> Waiting w'
      | Exited w' rest \<Rightarrow> Returned 0 w' rest
      | Returned r w' rest \<Rightarrow> Returned r w' rest)"

text \<open>What is drawn the first time the page is entered: the scoreboard, or the result of the last game.\<close>

definition scores_frame :: "'h kernel \<Rightarrow> 'h world \<Rightarrow> gfx_st \<Rightarrow> int \<times> gfx_st" where
  "scores_frame K w g =
     (case vg_draw_rectangle 0 0 (XResolution (mode_info g)) (YResolution (mode_info g)) 0 g of (r, g) \<Rightarrow>
        if r \<noteq> 0 then (1, g)
        else if \<not> player_win w \<and> \<not> player_lost w then
          (0, swap_buffers (swap_buffers (draw_scoreboard_menu K (w_score w) g)))
        else if player_win w then
          (0, swap_buffers (draw_final_score_display K (current_score (w_score w)) g))
        else
          (case print_xpm K message4_xpm 400 200 g of (r, g) \<Rightarrow>
             if r \<noteq> 0 then (1, g)
             else case print_xpm K message1_xpm 300 500
                    (draw_final_score_display K (current_score (w_score w)) g) of (r, g) \<Rightarrow>
               if r \<noteq> 0 then (1, g) else (0, swap_buffers g)))"

definition leave_scores :: "'h world \<Rightarrow> 'h world" where
  "leave_scores w =
     w\<lparr>player_win := False, player_lost := False, show_scores_drawn := False,
       w_score := score_reset (w_score w), w_menu := menu_set_state MENU_MAIN (w_menu w)\<rparr>"

definition scores_page :: "'h kernel \<Rightarrow> 'h world \<Rightarrow> recv list \<Rightarrow> 'h world outcome" where
  "scores_page K w ms =
     (case (if show_scores_drawn w then (0, w_gfx w) else scores_frame K w (w_gfx w)) of (r, g) \<Rightarrow>
        if r \<noteq> 0 then Returned 1 (w\<lparr>w_gfx := g\<rparr>) ms
        else
          nested leave_scores (score_state K (w\<lparr>w_gfx := g, show_scores_drawn := True\<rparr>) ms))"


subsection \<open>The menu loop\<close>

definition new_game :: "'h world \<Rightarrow> 'h world" where
  "new_game w =
     w\<lparr>w_ship := init_shields (mode_info (w_gfx w)) (init_enemy_bullets (init_bullets (w_ship w))),
       w_enemies := snd (init_enemies (w_enemies w))\<rparr>"

definition start_page :: "'h kernel \<Rightarrow> 'h world \<Rightarrow> recv list \<Rightarrow> 'h world outcome" where
  "start_page K w ms =
     (case draw_ship K (ship_x (w_ship w)) (clear_back_buf 0 (w_gfx w)) of (r, g) \<Rightarrow>
        if r \<noteq> 0 then Returned 1 (w\<lparr>w_gfx := g\<rparr>) ms
        else
          nested (\<lambda>w. w) (game_state K (new_game (w\<lparr>w_gfx := g\<rparr>)) ms))"

definition menu_key :: "'h kernel \<Rightarrow> 'h world \<Rightarrow> 'h world" where
  "menu_key K w =
     (let w1 = read_key K w in w1\<lparr>w_menu := menu_handle_input (scancode (w_kb w1)) (w_menu w1)\<rparr>)"

definition menu_tick :: "'h kernel \<Rightarrow> 'h world \<Rightarrow> recv list \<Rightarrow> 'h world outcome" where
  "menu_tick K w ms =
     (let w1 = w\<lparr>w_timer := timer_int_handler (w_timer w)\<rparr> in
      case current_state (w_menu w1) of
        MENU_START \<Rightarrow> start_page K w1 ms
      | MENU_SCORES \<Rightarrow> scores_page K w1 ms
      | MENU_EXIT \<Rightarrow> Returned 0 w1 ms
      | _ \<Rightarrow> (case menu_render K (w_menu w1) (w_gfx w1) of (s, g) \<Rightarrow>
               Exited (w1\<lparr>w_menu := s, w_gfx := g\<rparr>) ms))"

definition menu_event :: "'h kernel \<Rightarrow> u32 \<Rightarrow> 'h world \<Rightarrow> recv list \<Rightarrow> 'h world outcome" where
  "menu_event K irqs w ms =
     (let w1 = (if kb_pending w irqs then menu_key K w else w)
      in if timer_pending w1 irqs then menu_tick K w1 ms else Exited w1 ms)"

lemma game_state_rest: "length (outcome_rest (game_state K w ms)) \<le> length ms"
  using irq_loop_rest_le [of not_esc "game_handler K" "game_start w" ms]
  by (auto simp: game_state_def split: outcome.splits)

lemma score_state_rest: "length (outcome_rest (score_state K w ms)) \<le> length ms"
  using irq_loop_rest_le [of not_esc "score_handler K" w ms]
  by (auto simp: score_state_def split: outcome.splits)

lemma menu_event_rest: "length (outcome_rest (menu_event K irqs w ms)) \<le> length ms"
proof -
  have start: "length (outcome_rest (start_page K w ms)) \<le> length ms" for w
    by (simp add: start_page_def game_state_rest split: prod.splits)
  have scores: "length (outcome_rest (scores_page K w ms)) \<le> length ms" for w
    by (simp add: scores_page_def score_state_rest split: prod.splits)
  show ?thesis
    using start scores
    by (auto simp: menu_event_def menu_tick_def Let_def split: MenuState.splits prod.splits)
qed

lemma menu_event_exited_rest: "menu_event K irqs w ms = Exited w' rest \<Longrightarrow> length rest \<le> length ms"
  using menu_event_rest [of K irqs w ms] by simp

function menu_handler :: "'h kernel \<Rightarrow> 'h world \<Rightarrow> recv list \<Rightarrow> 'h world outcome" where
  "menu_handler K w [] = (if not_esc w then Waiting w else Returned 0 w [])"
| "menu_handler K w (m # ms) =
     (if not_esc w then
        if irq_notification m then
          (case menu_event K (interrupts m) w ms of
             Waiting w' \<Rightarrow> Waiting w'
           | Exited w' rest \<Rightarrow> menu_handler K w' rest
           | Returned r w' rest \<Rightarrow> Returned r w' rest)
        else menu_handler K w ms
      else Returned 0 w (m # ms))"
  by pat_completeness auto
termination
  by (relation "measure (\<lambda>(K, w, ms). length ms)") (auto simp: less_Suc_eq_le dest: menu_event_exited_rest)

definition proj_main_loop :: "'h kernel \<Rightarrow> 'h world \<Rightarrow> recv list \<Rightarrow> 'h world outcome option" where
  "proj_main_loop K w ms =
     (case init_game K w of
        None \<Rightarrow> None
      | Some (r, w) \<Rightarrow>
          if r \<noteq> 0 then Some (Returned 1 w ms)
          else
            (case menu_handler K w ms of
               Waiting w' \<Rightarrow> Some (Waiting w')
             | Exited w' rest \<Rightarrow> Some (Exited w' rest)
             | Returned r w' rest \<Rightarrow>
                 if r \<noteq> 0 then Some (Returned 1 w' rest)
                 else case close_game K w' of (r, w'') \<Rightarrow> Some (Returned r w'' rest)))"

text \<open>The initial values of the global variables; the file system and the hardware are arbitrary.\<close>

definition boot_world :: "file_st \<Rightarrow> 'h \<Rightarrow> 'h world" where
  "boot_world f h =
     \<lparr>w_kb = kb_init_st, w_timer = timer_init_st, w_gfx = gfx_init_st, w_ship = ship_init_st,
      w_enemies = enemies_init_st, w_score = score_init_st, w_menu = menu_init_st,
      w_file = f, player_win = False, player_lost = False, show_scores_drawn = False,
      irq_set_keyboard = 0, irq_set_timer = 0, hw = h\<rparr>"


subsection \<open>The contract of the menu loop\<close>

text \<open>
  What an event of the menu loop promises: an invariant that holds as long as the loop goes on, what
  holds when a nested loop is left waiting, and a postcondition of a return.
\<close>

locale menu_session =
  fixes K :: "'h kernel"
    and inv :: "'h world \<Rightarrow> bool"
    and wait :: "'h world \<Rightarrow> bool"
    and post :: "int \<Rightarrow> 'h world \<Rightarrow> bool"
  assumes event_goes_on: "inv w \<Longrightarrow> not_esc w \<Longrightarrow> menu_event K irqs w ms = Exited w' rest \<Longrightarrow> inv w'"
    and event_waits: "inv w \<Longrightarrow> not_esc w \<Longrightarrow> menu_event K irqs w ms = Waiting w' \<Longrightarrow> wait w'"
    and event_returns: "inv w \<Longrightarrow> not_esc w \<Longrightarrow> menu_event K irqs w ms = Returned r w' rest \<Longrightarrow> post r w'"
begin

lemma menu_result:
  "inv w \<Longrightarrow>
     (case menu_handler K w ms of
        Waiting w' \<Rightarrow> (inv w' \<and> not_esc w') \<or> wait w'
      | Exited w' rest \<Rightarrow> False
      | Returned r w' rest \<Rightarrow> (r = 0 \<and> inv w' \<and> \<not> not_esc w') \<or> post r w')"
proof (induction ms arbitrary: w rule: length_induct)
  case (1 ms)
  show ?case
  proof (cases ms)
    case Nil
    with 1 show ?thesis by simp
  next
    case (Cons m ms')
    show ?thesis
    proof (cases "not_esc w \<and> irq_notification m")
      case True
      show ?thesis
      proof (cases "menu_event K (interrupts m) w ms'")
        case (Waiting w')
        with True event_waits [OF 1(2) _ Waiting] show ?thesis by (simp add: Cons)
      next
        case (Exited w' rest)
        then have "length rest < length ms" using menu_event_exited_rest [OF Exited] by (simp add: Cons)
        with 1(1) event_goes_on [OF 1(2) _ Exited] True Exited show ?thesis by (simp add: Cons)
      next
        case (Returned r w' rest)
        with True event_returns [OF 1(2) _ Returned] show ?thesis by (simp add: Cons)
      qed
    next
      case False
      with 1 show ?thesis by (auto simp: Cons)
    qed
  qed
qed

end


subsection \<open>The program keeps the invariant\<close>

lemma wf_world_gfx: "wf_world m w \<Longrightarrow> wf_gfx g \<Longrightarrow> mode_info g = m \<Longrightarrow> wf_world m (w\<lparr>w_gfx := g\<rparr>)"
  by (simp add: wf_world_def)

lemma wf_world_tick [keeps]: "wf_world m w \<Longrightarrow> wf_world m (w\<lparr>w_timer := timer_int_handler (w_timer w)\<rparr>)"
  by (simp add: wf_world_def timer_int_handler_def)

lemma menu_key_wf [keeps]: "wf_world m w \<Longrightarrow> wf_world m (menu_key K w)"
  using read_key_wf [of m w K] menu_keeps(3) [of "w_menu (read_key K w)" "scancode (w_kb (read_key K w))"]
  by (simp add: menu_key_def Let_def wf_world_def shape)

lemma leave_scores_wf [keeps]: "wf_world m w \<Longrightarrow> wf_world m (leave_scores w)"
  using score_reset_wf [of "w_score w"] menu_keeps(2) [of "w_menu w" MENU_MAIN]
  by (simp add: leave_scores_def wf_world_def score_reset_def)

interpretation scores: irq_handler not_esc "score_handler K" "wf_world m" for K m
  by unfold_locales (simp add: score_handler_def Let_def read_key_wf)

lemma score_state_wf [keeps]: "wf_world m w \<Longrightarrow> wf_world m (outcome_state (score_state K w ms))"
  using scores.loop_inv [of m w K ms] by (auto simp: score_state_def split: outcome.splits)

lemma draw_ship_safe_step:
  assumes "game_sprites_load K" and "wf_gfx g"
  shows "safe_step g (snd (draw_ship K x g))"
proof -
  have "loads K ship_xpm" by (rule game_sprites_loadD [OF assms(1)]) (simp add: game_sprites_def)
  from print_xpm_safe_draw [OF this] have "safe_draw (\<lambda>g. snd (draw_ship K x g))"
    by (simp add: draw_ship_def safe_draw_def case_prod_beta)
  from safe_stepI [OF this safe_step_refl [OF assms(2)]] show ?thesis .
qed

lemma scores_frame_wf:
  assumes "sprites_load K" and "wf_gfx g" and "scores_frame K w g = (r, g')"
  shows "wf_gfx g' \<and> mode_info g' = mode_info g"
proof -
  have l: "glyphs_load K" "loads K message1_xpm" "loads K message4_xpm"
    using assms(1) by (simp_all add: sprites_load_def)
  obtain r0 g0 where 0: "vg_draw_rectangle 0 0 (XResolution (mode_info g)) (YResolution (mode_info g)) 0 g = (r0, g0)"
    by fastforce
  have s0: "safe_step g g0"
    using rect.draw_wf [OF assms(2), of "(0, 0, XResolution (mode_info g), YResolution (mode_info g), 0)"]
      rect.draw_screen [OF assms(2), of "(0, 0, XResolution (mode_info g), YResolution (mode_info g), 0)"] 0
    by (simp add: safe_step_def)
  obtain r1 g1 where 1: "print_xpm K message4_xpm 400 200 g0 = (r1, g1)" by fastforce
  have s1: "safe_step g g1" using safe_stepI [OF print_xpm_safe_draw [OF l(3)] s0, of 400 200] by (simp add: 1)
  let ?f = "draw_final_score_display K (current_score (w_score w))"
  have s2: "safe_step g (?f g1)" by (rule safe_stepI [OF screens_safe(2) [OF l(1)] s1])
  obtain r3 g3 where 3: "print_xpm K message1_xpm 300 500 (?f g1) = (r3, g3)" by fastforce
  have s3: "safe_step g g3" using safe_stepI [OF print_xpm_safe_draw [OF l(2)] s2, of 300 500] by (simp add: 3)
  have board: "safe_step g (draw_scoreboard_menu K (w_score w) g0)"
    by (rule safe_stepI [OF screens_safe(4) [OF l(1)] s0])
  have won: "safe_step g (?f g0)" by (rule safe_stepI [OF screens_safe(2) [OF l(1)] s0])
  have shown: "wf_gfx (swap_buffers (draw_scoreboard_menu K (w_score w) g0))"
    using swap_new_frame [OF board] by (simp add: new_frame_def)
  show ?thesis
    using assms(3) safe_step_screen [OF s0] safe_step_screen [OF s1] safe_step_screen [OF s3]
      swap_new_frame [OF board] swap_new_frame [OF won] swap_new_frame [OF s3]
      swap_new_frame [OF safe_step_refl [OF shown]]
    by (auto simp: scores_frame_def 0 1 3 new_frame_def split: if_splits)
qed

lemma nested_inv:
  "(\<And>s. P s \<Longrightarrow> P (f s)) \<Longrightarrow> P (outcome_state oc) \<Longrightarrow> P (outcome_state (nested f oc))"
  by (cases oc) (simp_all add: nested_def)

lemma scores_page_wf:
  assumes "sprites_load K" and "wf_world m w"
  shows "wf_world m (outcome_state (scores_page K w ms))"
proof -
  obtain r g where d: "(if show_scores_drawn w then (0, w_gfx w) else scores_frame K w (w_gfx w)) = (r, g)"
    by fastforce
  have w: "wf_gfx (w_gfx w)" "mode_info (w_gfx w) = m" using assms(2) by (auto simp: wf_world_def)
  have "wf_gfx g \<and> mode_info g = m"
    using d w scores_frame_wf [OF assms(1) w(1), of w r g] by (auto split: if_splits)
  with assms(2) have g: "wf_world m (w\<lparr>w_gfx := g\<rparr>)" by (intro wf_world_gfx) simp_all
  then have "wf_world m (w\<lparr>w_gfx := g, show_scores_drawn := True\<rparr>)" by (simp add: wf_world_def)
  from nested_inv [where P = "wf_world m", OF leave_scores_wf score_state_wf [OF this]] g
  show ?thesis by (simp add: scores_page_def d)
qed

lemma new_game_wf:
  assumes "wf_world m w"
  shows "wf_game m (new_game w)"
    and "\<forall>e \<in> set (enemies (w_enemies (new_game w))). e_y e + 34 \<le> uint (YResolution m)"
proof -
  have big: "big_screen m" and len: "length (enemies (w_enemies w)) = 18" using assms by (auto simp: wf_world_def)
  have "wf_enemies (uint (XResolution m)) (snd (init_enemies (w_enemies w)))"
    by (rule init_enemies_wf) (use assms big in \<open>auto simp: wf_world_def big_screen_def\<close>)
  moreover have "length (enemies (snd (init_enemies (w_enemies w)))) = 18"
    by (simp add: init_enemies_list [OF len])
  moreover have "enemy_direction (snd (init_enemies f)) = enemy_direction f"
    "enemy_move_timer (snd (init_enemies f)) = enemy_move_timer f" for f
    by (simp_all add: init_enemies_def)
  ultimately show "wf_game m (new_game w)"
    using assms by (simp add: new_game_def wf_game_def wf_world_def ship_wf_keeps)
  show "\<forall>e \<in> set (enemies (w_enemies (new_game w))). e_y e + 34 \<le> uint (YResolution m)"
    using big by (auto simp: new_game_def init_enemies_list [OF len] home_y_def big_screen_def)
qed

lemma start_frame_wf:
  assumes "sprites_load K" and "wf_world m w"
    and "draw_ship K x (clear_back_buf 0 (w_gfx w)) = (r, g)"
  shows "wf_world m (w\<lparr>w_gfx := g\<rparr>)"
proof -
  have w: "wf_gfx (w_gfx w)" "mode_info (w_gfx w) = m" using assms(2) by (auto simp: wf_world_def)
  have k: "game_sprites_load K" using assms(1) by (simp add: sprites_load_def)
  have c: "wf_gfx (clear_back_buf 0 (w_gfx w))" "mode_info (clear_back_buf 0 (w_gfx w)) = m"
    using clear_back_buf_ok [OF w(1), of 0] same_screen_fields(1) [OF clear_back_buf_ok(2) [OF w(1)]] w(2) by simp_all
  show ?thesis
    using draw_ship_safe_step [OF k c(1), of x] safe_step_screen assms(3) c(2) assms(2)
    by (intro wf_world_gfx) force+
qed

lemma start_page_wf:
  assumes "sprites_load K" and "wf_world m w"
  shows "wf_world m (outcome_state (start_page K w ms))"
proof -
  obtain r g where d: "draw_ship K (ship_x (w_ship w)) (clear_back_buf 0 (w_gfx w)) = (r, g)" by fastforce
  note g = start_frame_wf [OF assms d]
  have "wf_game m (outcome_state (game_state K (new_game (w\<lparr>w_gfx := g\<rparr>)) ms))"
    by (rule game_state_wf [OF assms(1) new_game_wf(1) [OF g]])
  then have "wf_world m (outcome_state (game_state K (new_game (w\<lparr>w_gfx := g\<rparr>)) ms))"
    by (simp add: wf_game_def)
  from nested_inv [where P = "wf_world m" and f = "\<lambda>w. w", OF _ this] g
  show ?thesis by (simp add: start_page_def d)
qed

lemma menu_event_wf:
  assumes "sprites_load K" and "wf_world m w"
  shows "wf_world m (outcome_state (menu_event K irqs w ms))"
proof -
  have tick: "wf_world m (outcome_state (menu_tick K w ms))" if w: "wf_world m w" for w
  proof -
    let ?w = "w\<lparr>w_timer := timer_int_handler (w_timer w)\<rparr>"
    have w1: "wf_world m ?w" using wf_world_tick [OF w] .
    then have g: "wf_gfx (w_gfx ?w)" "mode_info (w_gfx ?w) = m" "wf_menu (w_menu ?w)" by (auto simp: wf_world_def)
    obtain s g' where r: "menu_render K (w_menu w) (w_gfx w) = (s, g')" by fastforce
    have "new_frame (w_gfx w) g'"
      using menu_render_frame [OF _ _ g(1), of K "w_menu w"] assms(1) r by (simp add: sprites_load_def)
    then have "wf_gfx g'" "mode_info g' = m" using g(2) by (simp_all add: new_frame_def)
    moreover have "wf_menu s" using menu_keeps(4) [OF g(3), of K "w_gfx w"] r by simp
    ultimately have "wf_world m (?w\<lparr>w_menu := s, w_gfx := g'\<rparr>)" using w1 by (simp add: wf_world_def)
    with w1 start_page_wf [OF assms(1) w1] scores_page_wf [OF assms(1) w1] r show ?thesis
      by (simp add: menu_tick_def Let_def split: MenuState.splits)
  qed
  from tick [of "menu_key K w"] tick [of w] assms(2) menu_key_wf [OF assms(2)] show ?thesis
    by (simp add: menu_event_def Let_def)
qed

interpretation safe_menu: menu_session K "\<lambda>w. sprites_load K \<and> wf_world m w" "wf_world m" "\<lambda>r. wf_world m"
  for K m
proof
  fix w :: "'a world" and irqs ms assume w: "sprites_load K \<and> wf_world m w"
  note wf = menu_event_wf [of K m w irqs ms]
  show "sprites_load K \<and> wf_world m w'" if "menu_event K irqs w ms = Exited w' rest" for w' rest
    using wf w that by simp
  show "wf_world m w'" if "menu_event K irqs w ms = Waiting w'" for w'
    using wf w that by simp
  show "wf_world m w'" if "menu_event K irqs w ms = Returned r w' rest" for r w' rest
    using wf w that by simp
qed

lemma menu_handler_wf:
  "sprites_load K \<Longrightarrow> wf_world m w \<Longrightarrow> wf_world m (outcome_state (menu_handler K w ms))"
  using safe_menu.menu_result [of K m w ms] by (auto split: outcome.splits)


subsection \<open>The start of the program\<close>

text \<open>What the calls that set the mode document: a mode of 1 to 4 bytes a pixel that is large enough for the
  fixed coordinates of the program, and blocks of the size asked for.\<close>

definition video_documented :: "'h kernel \<Rightarrow> bool" where
  "video_documented K \<longleftrightarrow>
     (\<forall>h m h1. vbe_get_mode_info K MODE h = (Some m, h1) \<longrightarrow>
        big_screen m \<and> 1 \<le> bytes_per_pixel m \<and> bytes_per_pixel m \<le> 4 \<and>
        unat (XResolution m) * unat (YResolution m) * bytes_per_pixel m < 2 ^ 32) \<and>
     (\<forall>base n h vm h'. vm_map_phys K base n h = (Some vm, h') \<longrightarrow> length vm = unat n) \<and>
     (\<forall>n h b h'. malloc K n h = (Some b, h') \<longrightarrow> length b = unat n)"

lemma set_frame_buffer_no_fault:
  "set_frame_buffer K mode g h = Some (r, g', h') \<Longrightarrow> gfx_fault g' = gfx_fault g"
  by (auto simp: set_frame_buffer_def Let_def split: option.splits prod.splits if_splits)

lemma set_frame_buffer_screen:
  assumes "video_documented K" and "set_frame_buffer K MODE g h = Some (0, g', h')" and "\<not> gfx_fault g"
  shows "wf_gfx g' \<and> big_screen (mode_info g')"
proof -
  from assms(2) obtain m h1 where m: "vbe_get_mode_info K MODE h = (Some m, h1)" "mode_info g' = m"
    by (rule set_frame_buffer_success) (metis gfx_st.select_convs(1) gfx_st.surjective gfx_st.update_convs)
  have "wf_gfx g'"
    by (rule set_frame_buffer_wf [OF assms(2,3)]; use assms(1) in \<open>unfold video_documented_def, blast\<close>)
  moreover have "big_screen m" using assms(1) m(1) unfolding video_documented_def by blast
  ultimately show ?thesis using m(2) by simp
qed

lemma boot_world_wf:
  assumes "wf_gfx g" and "big_screen (mode_info g)"
  shows "wf_world (mode_info g) ((boot_world f h)\<lparr>w_gfx := g\<rparr>)"
  using assms score_init_st_wf ship_init_st_wf [of "mode_info g"]
  by (simp add: wf_world_def boot_world_def big_screen_def wf_menu_def menu_init_st_def
      timer_init_st_def score_init_st_def enemies_init_st_def enemy_consts)

lemma load_lines_start: "game_start_time (load_lines str c) = game_start_time c"
proof (induction str c rule: load_lines.induct)
  case (1 str c)
  then show ?case
    by (subst load_lines.simps) (auto simp: shape split: option.splits)
qed

lemma load_keeps:
  assumes "wf_score c"
  shows "wf_score (snd (load_highscores_from_csv f c))"
    and "game_start_time (snd (load_highscores_from_csv f c)) = game_start_time c"
proof -
  let ?c = "c\<lparr>highscore_count := 0\<rparr>"
  have wf: "wf_score ?c" and fit: "names_fit ?c" using assms by (simp_all add: wf_score_def names_fit_def entries_def)
  have "wf_score (sort_highscores (load_lines r ?c))" for r
    using sort_highscores_entries(4) load_lines_fit [OF wf fit] by blast
  then show "wf_score (snd (load_highscores_from_csv f c))"
    using wf by (auto simp: load_highscores_from_csv_def Let_def split: option.splits)
  show "game_start_time (snd (load_highscores_from_csv f c)) = game_start_time c"
    by (auto simp: load_highscores_from_csv_def Let_def shape load_lines_start split: option.splits)
qed

lemma init_game_result:
  assumes "video_documented K" and "init_game K (boot_world f h) = Some (r, w)"
  shows "\<not> gfx_fault (w_gfx w) \<and> (r = 0 \<or> r = 1) \<and>
         (r = 0 \<longrightarrow> wf_world (mode_info (w_gfx w)) w \<and> not_esc w)"
proof -
  let ?w = "boot_world f h"
  have boot: "\<not> gfx_fault (w_gfx ?w)" by (simp add: boot_world_def gfx_init_st_def)
  obtain r1 h1 where 1: "timer_set_frequency K TIMER FREQ (hw ?w) = (r1, h1)" by fastforce
  show ?thesis
  proof (cases "r1 = 0")
    case False
    with assms(2) boot show ?thesis by (auto simp: init_game_def 1)
  next
    case r1: True
    with assms(2) obtain r2 g h2 where 2: "set_frame_buffer K MODE (w_gfx ?w) h1 = Some (r2, g, h2)"
      by (cases "set_frame_buffer K MODE (w_gfx ?w) h1") (auto simp: init_game_def 1)
    have g: "\<not> gfx_fault g" using set_frame_buffer_no_fault [OF 2] boot by simp
    show ?thesis
    proof (cases "r2 = 0")
      case False
      with assms(2) g show ?thesis by (auto simp: init_game_def 1 2 r1 Let_def)
    next
      case r2: True
      note screen = set_frame_buffer_screen [OF assms(1) 2 [unfolded r2] boot]
      obtain r3 h3 where 3: "set_graphical_mode K MODE h2 = (r3, h3)" by fastforce
      obtain r4 b4 k h4 where 4: "kb_subscribe_int K Addr (w_kb ?w) h3 = (r4, b4, k, h4)" by (metis prod_cases4)
      obtain r5 b5 t h5 where 5: "timer_subscribe_int K Addr (w_timer ?w) h4 = (r5, b5, t, h5)"
        by (metis prod_cases4)
      have k: "scancode k = 0" and t: "timer_counter t = 0"
        using 4 5 by (auto simp: kb_subscribe_int_def timer_subscribe_int_def boot_world_def kb_init_st_def
            timer_init_st_def split: prod.splits)
      note run = init_game_def 1 2 3 4 5 r1 r2 Let_def
      have gfx: "w_gfx w = g" and r: "r = 0 \<or> r = 1" using assms(2) by (auto simp: run split: if_splits)
      have "wf_world (mode_info g) w \<and> not_esc w" if "r = 0"
      proof -
        have w: "w_ship w = w_ship ?w" "w_enemies w = w_enemies ?w" "w_menu w = menu_init (w_menu ?w)"
          "w_score w = snd (load_highscores_from_csv (w_file ?w) (w_score ?w))" "w_kb w = k" "w_timer w = t"
          using assms(2) that by (auto simp: run split: if_splits)
        have "wf_score (w_score ?w)" using score_init_st_wf by (simp add: boot_world_def)
        from load_keeps [OF this, of "w_file ?w"] show ?thesis
          using boot_world_wf [of g f h] screen menu_keeps(1) [of "w_menu ?w"] k t
          by (simp add: wf_world_def w gfx not_esc_def KB_BREAK_ESC_def) (simp add: boot_world_def timer_init_st_def)
      qed
      with g gfx r show ?thesis by simp
    qed
  qed
qed


subsection \<open>Results\<close>

lemma nested_returns: "nested f oc = Returned r w rest \<Longrightarrow> r = 1"
  by (auto simp: nested_def split: outcome.splits if_splits)

lemma menu_event_returns: "menu_event K irqs w ms = Returned r w' rest \<Longrightarrow> r = 0 \<or> r = 1"
  by (auto simp: menu_event_def menu_tick_def start_page_def scores_page_def Let_def
      split: MenuState.splits prod.splits if_splits dest: nested_returns)

lemma nested_waits: "nested f oc = Waiting w \<Longrightarrow> oc = Waiting w"
  by (auto simp: nested_def split: outcome.splits if_splits)

lemma game_state_waits: "game_state K w ms = Waiting w' \<Longrightarrow> not_esc w'"
  by (auto simp: game_state_def split: outcome.splits dest: irq_loop_wait_guard)

lemma score_state_waits: "score_state K w ms = Waiting w' \<Longrightarrow> not_esc w'"
  by (auto simp: score_state_def split: outcome.splits dest: irq_loop_wait_guard)

lemma menu_event_waits: "menu_event K irqs w ms = Waiting w' \<Longrightarrow> not_esc w'"
  by (auto simp: menu_event_def menu_tick_def start_page_def scores_page_def Let_def
      split: MenuState.splits prod.splits if_splits
      dest!: nested_waits game_state_waits score_state_waits)

interpretation results: menu_session K "\<lambda>w. True" not_esc "\<lambda>r w. r = 0 \<or> r = 1" for K
  by unfold_locales (auto dest: menu_event_waits menu_event_returns)


text \<open>A sprite is drawn wherever it lies on the screen.\<close>

lemma message_fits:
  assumes "loads K xpm" and "xpm_size xpm = (a, b)" and "wf_gfx g"
    and "uint x + a \<le> uint (XResolution (mode_info g))" and "uint y + b \<le> uint (YResolution (mode_info g))"
  shows "fst (print_xpm K xpm x y g) = 0"
proof -
  from assms(1,2) obtain img where img: "xpm_load K xpm = Some img" "img_ok img"
    and sz: "uint (img_width img) = a" "uint (img_height img) = b"
    by (auto simp: loads_def split: option.splits)
  have "int (unat x) + int (unat (img_width img)) \<le> int (unat (XResolution (mode_info g)))"
    "int (unat y) + int (unat (img_height img)) \<le> int (unat (YResolution (mode_info g)))"
    using assms(4,5) by (simp_all add: sz [symmetric])
  then have "fits_img img x y (mode_info g)" unfolding fits_img_def fits_rect_def by linarith
  with print_xpm_result [OF img assms(3), of x y] show ?thesis by simp
qed


subsection \<open>Properties\<close>

text \<open>The start either fails with result 1, or establishes the invariant of the program: a screen with
  its buffers, ship, empty formation, a score table within its array and the main menu.\<close>

theorem init_game_establishes:
  assumes "video_documented K" and "init_game K (boot_world f h) = Some (r, w)"
  shows "\<not> gfx_fault (w_gfx w) \<and> (r = 0 \<or> r = 1) \<and>
         (r = 0 \<longrightarrow> wf_world (mode_info (w_gfx w)) w \<and> not_esc w)"
  by (rule init_game_result [OF assms])

lemma blank_kernel_video: "video_documented blank_kernel"
  by (simp add: video_documented_def blank_kernel_def log_kernel_def big_screen_def mode_14c_def bytes_per_pixel_def)

lemma blank_start: "\<exists>w. init_game blank_kernel (boot_world new_file []) = Some (0, w)"
proof -
  have timer: "\<exists>h. timer_set_frequency blank_kernel TIMER FREQ [] = (0, h)"
    by (simp add: timer_set_frequency_def timer_get_conf_def timer_select_def timer_write_divisor_def
        util_sys_inb_def util_get_LSB_def util_get_MSB_def blank_kernel_def log_kernel_def
        TIMER_def FREQ_def TIMER_FREQ_def Let_def)
  have video: "\<exists>g. set_frame_buffer blank_kernel MODE gfx_init_st h = Some (0, g, h)" for h
    by (simp add: set_frame_buffer_def blank_kernel_def log_kernel_def Let_def)
  have hooks: "set_graphical_mode blank_kernel MODE h = (0, h)"
    "\<exists>b k. kb_subscribe_int blank_kernel Addr kb_init_st h = (0, b, k, h)"
    "\<exists>b t. timer_subscribe_int blank_kernel Addr timer_init_st h = (0, b, t, h)" for h
    by (simp_all add: set_graphical_mode_def kb_subscribe_int_def timer_subscribe_int_def
        blank_kernel_def log_kernel_def)
  obtain h where 1: "timer_set_frequency blank_kernel TIMER FREQ [] = (0, h)" using timer by blast
  obtain g where 2: "set_frame_buffer blank_kernel MODE gfx_init_st h = Some (0, g, h)" using video by blast
  obtain b k where 3: "kb_subscribe_int blank_kernel Addr kb_init_st h = (0, b, k, h)" using hooks(2) by blast
  obtain b' t where 4: "timer_subscribe_int blank_kernel Addr timer_init_st h = (0, b', t, h)" using hooks(3) by blast
  show ?thesis by (simp add: init_game_def boot_world_def 1 2 hooks(1) 3 4)
qed

lemma init_game_establishes_witness:
  "\<exists>w. init_game blank_kernel (boot_world new_file []) = Some (0, w) \<and> wf_world (mode_info (w_gfx w)) w"
  using blank_start init_game_establishes [OF blank_kernel_video, of new_file "[]"] by blast

text \<open>C1. The whole program is safe. From the initial values of its variables, with any score file, any
  hardware, any interrupts and keys, through menus, games and scores pages to its end, no store or load
  is outside a buffer, an array or a sprite; it is either waiting for a message, with its invariant
  intact and the last scancode not the release of escape, or has returned 0 or 1.\<close>

theorem program_is_safe:
  assumes "sprites_load K" and "video_documented K" and "proj_main_loop K (boot_world f h) ms = Some oc"
  shows "\<not> gfx_fault (w_gfx (outcome_state oc)) \<and>
         (case oc of Waiting w \<Rightarrow> wf_world (mode_info (w_gfx w)) w \<and> not_esc w
          | Exited w rest \<Rightarrow> False
          | Returned r w rest \<Rightarrow> r = 0 \<or> r = 1)"
proof -
  obtain r w where i: "init_game K (boot_world f h) = Some (r, w)"
    using assms(3) by (auto simp: proj_main_loop_def split: option.splits)
  note start = init_game_result [OF assms(2) i]
  show ?thesis
  proof (cases "r = 0")
    case False
    with start assms(3) i show ?thesis by (auto simp: proj_main_loop_def)
  next
    case True
    let ?m = "mode_info (w_gfx w)"
    have w: "wf_world ?m w" using start True by simp
    have wf: "wf_world ?m (outcome_state (menu_handler K w ms))"
      by (rule menu_handler_wf [OF assms(1) w])
    then have fault: "\<not> gfx_fault (w_gfx (outcome_state (menu_handler K w ms)))"
      and mode: "mode_info (w_gfx (outcome_state (menu_handler K w ms))) = ?m"
      unfolding wf_world_def wf_gfx_def by blast+
    have close: "w_gfx (snd (close_game K v)) = w_gfx v" "fst (close_game K v) = 0 \<or> fst (close_game K v) = 1" for v
      by (auto simp: close_game_def split: prod.splits)
    show ?thesis
    proof (cases "menu_handler K w ms")
      case (Waiting v)
      with results.menu_result [of K w ms] wf mode fault assms(3) i True show ?thesis
        by (simp add: proj_main_loop_def) auto
    next
      case (Exited v rest)
      with results.menu_result [of K w ms] show ?thesis by simp
    next
      case (Returned q v rest)
      with fault close [of v] assms(3) i True show ?thesis
        by (auto simp: proj_main_loop_def case_prod_beta split: if_splits)
    qed
  qed
qed

lemma program_is_safe_witness:
  "\<exists>w. proj_main_loop blank_kernel (boot_world new_file []) [] = Some (Waiting w) \<and> \<not> gfx_fault (w_gfx w)"
proof -
  obtain w where i: "init_game blank_kernel (boot_world new_file []) = Some (0, w)" using blank_start by blast
  then have "not_esc w" using init_game_result [OF blank_kernel_video i] by simp
  with i have "proj_main_loop blank_kernel (boot_world new_file []) [] = Some (Waiting w)"
    by (simp add: proj_main_loop_def)
  with program_is_safe [OF blank_sprites_load [OF blank_kernel_load] blank_kernel_video this] show ?thesis
    by simp
qed

text \<open>C2. Every game started from the menu ends: the tick that starts it does not wait for ever, whatever
  messages follow, as soon as enough of them are timer interrupts.\<close>

theorem started_game_ends:
  assumes "sprites_load K" and "wf_world m w" and "current_state (w_menu w) = MENU_START"
    and "game_bound m < timer_irqs (irq_set_timer w) ms"
  shows "\<exists>w' rest. menu_tick K w ms = Exited w' rest \<or> menu_tick K w ms = Returned 1 w' rest"
proof -
  let ?w = "w\<lparr>w_timer := timer_int_handler (w_timer w)\<rparr>"
  have w1: "wf_world m ?w" using wf_world_tick [OF assms(2)] .
  then have w: "wf_gfx (w_gfx ?w)" "mode_info (w_gfx ?w) = m" by (auto simp: wf_world_def)
  have k: "game_sprites_load K" using assms(1) by (simp add: sprites_load_def)
  obtain r g where d: "draw_ship K (ship_x (w_ship w)) (clear_back_buf 0 (w_gfx w)) = (r, g)" by fastforce
  have c: "wf_gfx (clear_back_buf 0 (w_gfx w))" "mode_info (clear_back_buf 0 (w_gfx w)) = m"
    using clear_back_buf_ok [OF w(1), of 0] same_screen_fields(1) [OF clear_back_buf_ok(2) [OF w(1)]] w(2) by simp_all
  have g: "wf_world m (?w\<lparr>w_gfx := g\<rparr>)"
    using draw_ship_safe_step [OF k c(1), of "ship_x (w_ship w)"] safe_step_screen d c(2) w1
    by (intro wf_world_gfx) force+
  let ?n = "new_game (?w\<lparr>w_gfx := g\<rparr>)"
  have "irq_set_timer ?n = irq_set_timer w" by (simp add: new_game_def)
  then have "\<exists>w' rest. game_state K ?n ms = Returned 0 w' rest \<or> game_state K ?n ms = Returned 1 w' rest"
    using game_leaves [OF assms(1) new_game_wf(1) [OF g]] new_game_wf(2) [OF g] assms(4) by simp
  then show ?thesis
    using assms(3) d by (auto simp: menu_tick_def start_page_def nested_def Let_def)
qed

lemma started_game_ends_witness:
  "\<exists>w' rest. menu_tick blank_kernel (demo_world\<lparr>w_menu := menu_set_state MENU_START menu_init_st\<rparr>)
       (replicate 60000 (hw_msg 1)) = Exited w' rest
     \<or> menu_tick blank_kernel (demo_world\<lparr>w_menu := menu_set_state MENU_START menu_init_st\<rparr>)
       (replicate 60000 (hw_msg 1)) = Returned 1 w' rest"
proof -
  let ?w = "demo_world\<lparr>w_menu := menu_set_state MENU_START menu_init_st\<rparr>"
  have "wf_world mode_14c demo_world" using demo_world_wf by (simp add: wf_game_def)
  then have "wf_world mode_14c ?w" by (simp add: wf_world_def wf_menu_def menu_set_state_def menu_init_st_def)
  moreover have "current_state (w_menu ?w) = MENU_START" by (simp add: menu_set_state_def)
  moreover have "game_bound mode_14c < timer_irqs (irq_set_timer ?w) (replicate 60000 (hw_msg 1))"
    by (simp add: demo_world_many_ticks)
  ultimately show ?thesis by (rule started_game_ends [OF blank_sprites_load [OF blank_kernel_load]])
qed

text \<open>C13. What a new game starts from. All 18 aliens live, no shot is on its way and the four shields are
  whole. The march is not reset: direction, timer and a drop that was due when the last game was left
  carry over, so the first move of a new game can be a drop of the formation that was never earned.\<close>

theorem new_game_inherits_march:
  assumes "wf_world m w"
  shows "count_active_enemies (enemies (w_enemies (new_game w))) = 18 \<and>
         list_all (\<lambda>b. \<not> b_active b) (bullets (w_ship (new_game w))) \<and>
         list_all (\<lambda>b. \<not> eb_active b) (enemy_bullets (w_ship (new_game w))) \<and>
         map sh_state (shields (w_ship (new_game w))) =
           [SHIELD_FULL, SHIELD_FULL, SHIELD_FULL, SHIELD_FULL] \<and>
         enemy_direction (w_enemies (new_game w)) = enemy_direction (w_enemies w) \<and>
         enemy_move_timer (w_enemies (new_game w)) = enemy_move_timer (w_enemies w) \<and>
         (should_drop (w_enemies w) \<longrightarrow>
            (\<forall>i < 18. e_y (enemies (snd (move_enemies m (w_enemies (new_game w)))) ! i) = home_y i + 40))"
proof -
  let ?f = "snd (init_enemies (w_enemies w))"
  have len: "length (enemies (w_enemies w)) = 18" and big: "700 \<le> uint (XResolution m)"
    and dir: "enemy_direction (w_enemies w) = 1 \<or> enemy_direction (w_enemies w) = -1"
    using assms by (auto simp: wf_world_def big_screen_def)
  note es = init_enemies_list [OF len]
  have rest: "enemy_direction ?f = enemy_direction (w_enemies w)" "should_drop ?f = should_drop (w_enemies w)"
    "enemy_move_timer ?f = enemy_move_timer (w_enemies w)" by (simp_all add: init_enemies_def)
  have col: "i mod 6 \<le> 5" for i :: nat by (simp add: less_Suc_eq_le [symmetric])
  have "\<not> hits_edge m ?f"
    using big col dir by (fastforce simp: hits_edge_def es at_edge_def enemy_consts home_x_def)
  from move_enemies_go [OF this]
  have drop: "should_drop (w_enemies w) \<Longrightarrow> \<forall>i < 18. e_y (enemies (snd (move_enemies m ?f)) ! i) = home_y i + 40"
    by (simp add: es rest march_def)
  show ?thesis
    using drop by (simp add: new_game_def es rest count_active_enemies_def init_shields_def init_bullets_def
        init_enemy_bullets_def NUM_SHIELDS_def list_all_iff Let_def upt_rec comp_def)
qed

lemma new_game_inherits_march_witness:
  "e_y (enemies (snd (move_enemies mode_14c (w_enemies (new_game
     (demo_world\<lparr>w_enemies := (w_enemies demo_world)\<lparr>should_drop := True\<rparr>\<rparr>))))) ! 0) = 90"
proof -
  let ?w = "demo_world\<lparr>w_enemies := (w_enemies demo_world)\<lparr>should_drop := True\<rparr>\<rparr>"
  have "wf_world mode_14c demo_world" using demo_world_wf by (simp add: wf_game_def)
  then have "wf_world mode_14c ?w" by (simp add: wf_world_def)
  from new_game_inherits_march [OF this] show ?thesis by (simp add: home_y_def)
qed


lemma retry_settled: "f h = Settled r h' \<Longrightarrow> 0 < n \<Longrightarrow> retry n f h = (Some r, h')"
  by (cases n) simp_all


text \<open>Choosing quit ends the program: the next timer interrupt renders the page and turns quit into exit,
  the one after it leaves \<open>menu_handler\<close> with 0.\<close>

theorem quit_ends_the_program:
  assumes "not_esc w" and "current_state (w_menu w) = MENU_QUIT"
    and "\<not> kb_pending w a" and "timer_pending w a" and "\<not> kb_pending w b" and "timer_pending w b"
  shows "\<exists>w'. menu_handler K w (hw_msg a # hw_msg b # ms) = Returned 0 w' ms \<and>
     timer_counter (w_timer w') = timer_counter (w_timer w) + 2"
proof -
  let ?w1 = "w\<lparr>w_timer := timer_int_handler (w_timer w)\<rparr>"
  obtain g where g: "menu_render K (w_menu w) (w_gfx w) = ((w_menu w)\<lparr>current_state := MENU_EXIT\<rparr>, g)"
    using assms(2) by (simp add: menu_render_def Let_def)
  let ?w2 = "?w1\<lparr>w_menu := (w_menu w)\<lparr>current_state := MENU_EXIT\<rparr>, w_gfx := g\<rparr>"
  have 1: "menu_event K a w ms' = Exited ?w2 ms'" for ms'
    using assms(2-4) g by (simp add: menu_event_def menu_tick_def Let_def)
  have "menu_event K b ?w2 ms = Returned 0 (?w2\<lparr>w_timer := timer_int_handler (w_timer ?w2)\<rparr>) ms"
    using assms(5,6) by (simp add: menu_event_def menu_tick_def Let_def kb_pending_def timer_pending_def)
  moreover have "not_esc ?w2" using assms(1) by (simp add: not_esc_def)
  ultimately show ?thesis using assms(1) 1 by (simp add: timer_int_handler_def)
qed

lemma quit_ends_the_program_witness:
  "\<exists>w'. menu_handler blank_kernel (demo_world\<lparr>w_menu := menu_set_state MENU_QUIT menu_init_st\<rparr>)
     [hw_msg 1, hw_msg 1] = Returned 0 w' []"
proof -
  let ?w = "demo_world\<lparr>w_menu := menu_set_state MENU_QUIT menu_init_st\<rparr>"
  have "not_esc ?w" "current_state (w_menu ?w) = MENU_QUIT" "\<not> kb_pending ?w 1" "timer_pending ?w 1"
    by (simp_all add: not_esc_def demo_world_def kb_init_st_def key_codes menu_set_state_def
        kb_pending_def timer_pending_def BIT_def)
  from quit_ends_the_program [OF this this(3,4), of blank_kernel "[]"] show ?thesis by blast
qed

text \<open>C14. The scores page is left by enter or by the release of escape only, and leaves nothing behind: the
  win and loss flags and the current score are cleared, the menu is at its main page, and the score
  table is what it was.\<close>

theorem scores_page_leaves_clean:
  assumes "scores_page K w ms = Exited w' rest"
  shows "scancode (w_kb w') \<in> {KB_ENTER, KB_BREAK_ESC} \<and>
         \<not> player_win w' \<and> \<not> player_lost w' \<and> \<not> show_scores_drawn w' \<and>
         current_score (w_score w') = zero_score \<and> current_state (w_menu w') = MENU_MAIN \<and>
         entries (w_score w') = entries (w_score w) \<and> w_file w' = w_file w"
proof -
  obtain r g where d: "(if show_scores_drawn w then (0, w_gfx w) else scores_frame K w (w_gfx w)) = (r, g)"
    by fastforce
  let ?w = "w\<lparr>w_gfx := g, show_scores_drawn := True\<rparr>"
  from assms obtain v where v: "score_state K ?w ms = Returned 0 v rest" "w' = leave_scores v"
    by (auto simp: scores_page_def d nested_def score_state_def split: outcome.splits if_splits)
  let ?inv = "\<lambda>u. w_score u = w_score w \<and> w_file u = w_file w"
  let ?post = "\<lambda>r u. ?inv u \<and> scancode (w_kb u) \<in> {KB_ENTER, KB_BREAK_ESC}"
  have page: "irq_session not_esc (score_handler K) ?inv ?post"
    by unfold_locales (auto simp: score_handler_def Let_def shape split: if_splits)
  have "?post 0 v"
    using irq_session.loop_result [OF page, of ?w ms] v(1)
    by (auto simp: score_state_def not_esc_def split: outcome.splits)
  then show ?thesis
    by (auto simp: v(2) leave_scores_def score_reset_def menu_set_state_def entries_def)
qed

lemma scores_page_leaves_clean_witness:
  "\<exists>w'. scores_page blank_kernel (demo_world\<lparr>w_kb := kb_init_st\<lparr>scancode := KB_BREAK_ESC\<rparr>,
       show_scores_drawn := True, player_lost := True\<rparr>) [] = Exited w' [] \<and> \<not> player_lost w'"
proof -
  let ?w = "demo_world\<lparr>w_kb := kb_init_st\<lparr>scancode := KB_BREAK_ESC\<rparr>, show_scores_drawn := True, player_lost := True\<rparr>"
  obtain w' where "scores_page blank_kernel ?w [] = Exited w' []"
    by (simp add: scores_page_def score_state_def nested_def not_esc_def)
  with scores_page_leaves_clean [OF this] show ?thesis by blast
qed



end
