(* ===== verification/Pages.thy ===== *)
theory Pages
  imports Main_Loop
begin

text \<open>
  The pages of the program as an abstract state machine, and the proof that the menu loop of \<open>main.c\<close>
  implements it. An abstract state is the page, whether the last game was won or lost, and whether the
  last scancode was the release of escape; the step relation lists what a key and what a timer
  interrupt may do on each page. Invariants of the reachable pages are shown by rule induction and
  carried over to the program.
\<close>

subsection \<open>The state machine\<close>

datatype page = Page (pg: MenuState) (won: bool) (lost: bool) (stop: bool)

text \<open>What a key other than the release of escape may do.\<close>

inductive key_step :: "MenuState \<Rightarrow> MenuState \<Rightarrow> bool" where
  ignored: "key_step s s"
| start: "key_step MENU_MAIN MENU_START"
| scores: "key_step MENU_MAIN MENU_SCORES"
| quit: "key_step MENU_MAIN MENU_QUIT"
| onward: "key_step MENU_GAME_OVER MENU_MAIN"

inductive page_step :: "page \<Rightarrow> page \<Rightarrow> bool" where
  key: "key_step s s' \<Longrightarrow> page_step (Page s w l False) (Page s' w l False)"
| escape: "page_step (Page s w l False) (Page MENU_MAIN w l True)"
| refresh: "s \<in> {MENU_MAIN, MENU_GAME_OVER} \<Longrightarrow> page_step (Page s w l e) (Page s w l e)"
| quitting: "page_step (Page MENU_QUIT w l e) (Page MENU_EXIT w l e)"
| game_begins: "page_step (Page MENU_START w l e) (Page MENU_START False False False)"
| game_won: "page_step (Page MENU_START w l e) (Page MENU_SCORES True False e')"
| game_lost: "page_step (Page MENU_START w l e) (Page MENU_GAME_OVER False True e')"
| game_left: "page_step (Page MENU_START w l e) (Page MENU_MAIN False False True)"
| scores_wait: "page_step (Page MENU_SCORES w l e) (Page MENU_SCORES w l False)"
| scores_left: "page_step (Page MENU_SCORES w l e) (Page MENU_MAIN False False e')"

inductive_cases key_stepE: "key_step s s'"
inductive_cases page_stepE: "page_step p p'"
inductive_simps page_step_exit [simp]: "page_step (Page MENU_EXIT w l True) p"

code_pred key_step .

inductive reachable :: "page \<Rightarrow> bool" where
  begin_main: "reachable (Page MENU_MAIN False False False)"
| then_step: "reachable p \<Longrightarrow> page_step p p' \<Longrightarrow> reachable p'"

definition page_ok :: "page \<Rightarrow> bool" where
  "page_ok p \<longleftrightarrow> \<not> (won p \<and> lost p) \<and> (won p \<longrightarrow> pg p = MENU_SCORES \<or> stop p) \<and>
     (pg p \<in> {MENU_START, MENU_QUIT, MENU_EXIT} \<longrightarrow> \<not> stop p)"

lemma reachable_ok: "reachable p \<Longrightarrow> page_ok p"
proof (induction rule: reachable.induct)
  case begin_main
  then show ?case by (simp add: page_ok_def)
next
  case (then_step p p')
  from then_step(2,3) show ?case
    by (cases rule: page_step.cases) (auto simp: page_ok_def elim: key_stepE)
qed

lemma reachable_steps: "page_step\<^sup>*\<^sup>* p p' \<Longrightarrow> reachable p \<Longrightarrow> reachable p'"
  by (induction rule: rtranclp_induct) (auto intro: then_step)


subsection \<open>The program implements it\<close>

definition page_of :: "'h world \<Rightarrow> page" where
  "page_of w = Page (current_state (w_menu w)) (player_win w) (player_lost w) (\<not> not_esc w)"

lemma menu_input_step:
  assumes "wf_menu s" and "code \<noteq> KB_BREAK_ESC"
  shows "key_step (current_state s) (current_state (menu_handle_input code s))"
  using assms
  by (cases "current_option s") (auto simp: menu_handle_input_def Let_def wf_menu_def intro: key_step.intros)

lemma menu_input_escape: "current_state (menu_handle_input KB_BREAK_ESC s) = MENU_MAIN"
  by (simp add: menu_handle_input_def key_codes)

lemma menu_key_step:
  assumes "wf_menu (w_menu w)" and "not_esc w"
  shows "page_step (page_of w) (page_of (menu_key K w))"
proof -
  have w: "w_menu (menu_key K w) = menu_handle_input (scancode (w_kb (read_key K w))) (w_menu w)"
    "player_win (menu_key K w) = player_win w" "player_lost (menu_key K w) = player_lost w"
    "w_kb (menu_key K w) = w_kb (read_key K w)"
    by (simp_all add: menu_key_def Let_def shape)
  show ?thesis
  proof (cases "scancode (w_kb (read_key K w)) = KB_BREAK_ESC")
    case True
    with assms(2) show ?thesis
      by (auto simp: page_of_def w not_esc_def menu_input_escape intro: escape)
  next
    case False
    with assms(2) menu_input_step [OF assms(1) False] show ?thesis
      by (auto simp: page_of_def w not_esc_def intro: key)
  qed
qed

lemma game_state_step:
  assumes "sprites_load K" and "wf_game m w" and "game_state K w ms = Returned 0 w' rest"
    and "pg p = MENU_START"
  shows "page_step p (page_of w')"
proof -
  note res = session.loop_result [OF game_start_running [OF assms(1,2)], of ms]
  have p: "p = Page MENU_START (won p) (lost p) (stop p)" using assms(4) by (cases p) simp
  show ?thesis
  proof (cases "irq_loop not_esc (game_handler K) (game_start w) ms")
    case (Returned r v rest')
    with assms(3) have v: "r = 0" "v = w'" by (simp_all add: game_state_def)
    with res Returned have "ended K m 0 w'" by simp
    then show ?thesis
      by (subst p) (auto simp: ended_def page_of_def intro: game_won game_lost)
  next
    case (Exited v rest')
    with res have "running K m v" "\<not> not_esc v" by simp_all
    moreover from Exited assms(3)
    have "w' = v\<lparr>w_score := score_reset (w_score v), w_menu := menu_set_state MENU_MAIN (w_menu v)\<rparr>"
      by (simp add: game_state_def)
    ultimately show ?thesis
      by (subst p) (simp add: page_of_def running_def not_esc_def menu_set_state_def game_left)
  qed (use assms(3) in \<open>simp add: game_state_def\<close>)
qed

text \<open>A nested loop that ends without an error.\<close>

lemma game_state_never_exits: "game_state K w ms \<noteq> Exited w' rest"
  by (simp add: game_state_def split: outcome.splits)

lemma score_state_never_exits: "score_state K w ms \<noteq> Exited w' rest"
  by (simp add: score_state_def split: outcome.splits)

lemma nested_exited:
  assumes "nested f oc = Exited w' rest" and "\<And>v. oc \<noteq> Exited v rest"
  obtains v where "oc = Returned 0 v rest" and "w' = f v"
  using assms by (auto simp: nested_def split: outcome.splits if_splits)

lemma start_page_step:
  assumes "sprites_load K" and "wf_world m w" and "start_page K w ms = Exited w' rest"
    and "pg p = MENU_START"
  shows "page_step p (page_of w')"
proof -
  obtain r g where d: "draw_ship K (ship_x (w_ship w)) (clear_back_buf 0 (w_gfx w)) = (r, g)" by fastforce
  from assms(3) have "nested (\<lambda>w. w) (game_state K (new_game (w\<lparr>w_gfx := g\<rparr>)) ms) = Exited w' rest"
    by (simp add: start_page_def d split: if_splits)
  then obtain v where "game_state K (new_game (w\<lparr>w_gfx := g\<rparr>)) ms = Returned 0 v rest" "w' = v"
    by (rule nested_exited) (simp add: game_state_never_exits)
  with game_state_step [OF assms(1) new_game_wf(1) [OF start_frame_wf [OF assms(1,2) d]] _ assms(4)]
  show ?thesis by blast
qed

lemma scores_page_step:
  assumes "scores_page K w ms = Exited w' rest" and "pg p = MENU_SCORES"
  shows "page_step p (page_of w')"
proof -
  obtain r g where d: "(if show_scores_drawn w then (0, w_gfx w) else scores_frame K w (w_gfx w)) = (r, g)"
    by fastforce
  from assms(1)
  have "nested leave_scores (score_state K (w\<lparr>w_gfx := g, show_scores_drawn := True\<rparr>) ms) = Exited w' rest"
    by (simp add: scores_page_def d split: if_splits)
  then obtain v where "w' = leave_scores v"
    by (rule nested_exited) (simp add: score_state_never_exits)
  moreover have "p = Page MENU_SCORES (won p) (lost p) (stop p)" using assms(2) by (cases p) simp
  moreover have "page_of (leave_scores v) = Page MENU_MAIN False False (stop (page_of (leave_scores v)))"
    by (simp add: page_of_def leave_scores_def menu_set_state_def)
  ultimately show ?thesis using scores_left by metis
qed

lemma menu_tick_step:
  assumes "sprites_load K" and "wf_world m w" and "menu_tick K w ms = Exited w' rest"
  shows "page_step (page_of w) (page_of w')"
proof -
  let ?w = "w\<lparr>w_timer := timer_int_handler (w_timer w)\<rparr>"
  have drawn: "page_step (page_of w) (page_of w')"
    if "menu_render K (w_menu w) (w_gfx w) = (s, g)" and "w' = ?w\<lparr>w_menu := s, w_gfx := g\<rparr>"
      and "current_state (w_menu w) \<in> {MENU_MAIN, MENU_GAME_OVER, MENU_QUIT}" for s g
    using that refresh quitting
    by (cases "current_state (w_menu w)") (auto simp: menu_render_def Let_def page_of_def not_esc_def)
  obtain s g where r: "menu_render K (w_menu w) (w_gfx w) = (s, g)" by fastforce
  show ?thesis
  proof (cases "current_state (w_menu w)")
    case MENU_START
    with assms(3) have "start_page K ?w ms = Exited w' rest" by (simp add: menu_tick_def Let_def)
    from start_page_step [OF assms(1) wf_world_tick [OF assms(2)] this] MENU_START show ?thesis
      by (simp add: page_of_def)
  next
    case MENU_SCORES
    with assms(3) have "scores_page K ?w ms = Exited w' rest" by (simp add: menu_tick_def Let_def)
    from scores_page_step [OF this] MENU_SCORES show ?thesis by (simp add: page_of_def)
  qed (use assms(3) r drawn [OF r] in \<open>simp_all add: menu_tick_def Let_def\<close>)
qed

lemma menu_tick_returns:
  assumes "menu_tick K w ms = Returned 0 w' rest"
  shows "current_state (w_menu w) = MENU_EXIT \<and> page_of w' = page_of w"
  using assms nested_returns
  by (fastforce simp: menu_tick_def start_page_def scores_page_def Let_def page_of_def not_esc_def
      split: MenuState.splits prod.splits if_splits)

lemma menu_event_steps:
  assumes "sprites_load K" and "wf_world m w" and "not_esc w" and "menu_event K irqs w ms = Exited w' rest"
  shows "page_step\<^sup>*\<^sup>* (page_of w) (page_of w')"
proof -
  let ?w = "if kb_pending w irqs then menu_key K w else w"
  have "wf_menu (w_menu w)" using assms(2) by (simp add: wf_world_def)
  then have key: "page_step\<^sup>*\<^sup>* (page_of w) (page_of ?w)" using menu_key_step [OF _ assms(3)] by auto
  have "wf_world m ?w" using assms(2) menu_key_wf [OF assms(2)] by simp
  with menu_tick_step [OF assms(1) this] assms(4)
  have "page_step\<^sup>*\<^sup>* (page_of ?w) (page_of w')"
    by (auto simp: menu_event_def Let_def split: if_splits)
  with key show ?thesis by (rule rtranclp_trans)
qed

lemma menu_event_normal_end:
  assumes "wf_world m w" and "not_esc w" and "menu_event K irqs w ms = Returned 0 w' rest"
  shows "page_step\<^sup>*\<^sup>* (page_of w) (page_of w') \<and> pg (page_of w') = MENU_EXIT"
proof -
  let ?w = "if kb_pending w irqs then menu_key K w else w"
  have "wf_menu (w_menu w)" using assms(1) by (simp add: wf_world_def)
  then have key: "page_step\<^sup>*\<^sup>* (page_of w) (page_of ?w)" using menu_key_step [OF _ assms(2)] by auto
  from assms(3) have "menu_tick K ?w ms = Returned 0 w' rest"
    by (auto simp: menu_event_def Let_def split: if_splits)
  from menu_tick_returns [OF this] key show ?thesis by (simp add: page_of_def)
qed

text \<open>Where a nested loop waits, the menu is still on the page that started it.\<close>

lemma game_waits:
  assumes "sprites_load K" and "wf_game m w" and "game_state K w ms = Waiting w'"
    and "current_state (w_menu w) = MENU_START"
  shows "page_of w' = Page MENU_START False False False"
proof -
  have w: "irq_loop not_esc (game_handler K) (game_start w) ms = Waiting w'"
    using assms(3) by (simp add: game_state_def split: outcome.splits)
  with session.loop_result [OF game_start_running [OF assms(1,2)], of ms]
  have 1: "running K m w'" "not_esc w'" by simp_all
  have menu: "irq_session not_esc (game_handler K) (\<lambda>v. w_menu v = w_menu w) (\<lambda>r v. True)"
    by unfold_locales (auto simp: game_handler_def game_tick_def game_over_def Let_def shape
        split: if_splits prod.splits)
  from irq_session.loop_result [OF menu, of "game_start w" ms] w have "w_menu w' = w_menu w"
    by (simp add: game_start_def)
  with 1 assms(4) show ?thesis by (simp add: page_of_def running_def)
qed

lemma start_page_waits:
  assumes "sprites_load K" and "wf_world m w" and "start_page K w ms = Waiting w'"
    and "current_state (w_menu w) = MENU_START"
  shows "page_of w' = Page MENU_START False False False"
proof -
  obtain r g where d: "draw_ship K (ship_x (w_ship w)) (clear_back_buf 0 (w_gfx w)) = (r, g)" by fastforce
  from assms(3) have "nested (\<lambda>w. w) (game_state K (new_game (w\<lparr>w_gfx := g\<rparr>)) ms) = Waiting w'"
    by (simp add: start_page_def d split: if_splits)
  from game_waits [OF assms(1) new_game_wf(1) [OF start_frame_wf [OF assms(1,2) d]] nested_waits [OF this]]
  show ?thesis using assms(4) by (simp add: new_game_def)
qed

lemma scores_page_waits:
  assumes "scores_page K w ms = Waiting w'"
  shows "page_of w' = Page (current_state (w_menu w)) (player_win w) (player_lost w) False"
proof -
  obtain r g where d: "(if show_scores_drawn w then (0, w_gfx w) else scores_frame K w (w_gfx w)) = (r, g)"
    by fastforce
  let ?w = "w\<lparr>w_gfx := g, show_scores_drawn := True\<rparr>"
  from assms have "nested leave_scores (score_state K ?w ms) = Waiting w'"
    by (simp add: scores_page_def d split: if_splits)
  from nested_waits [OF this] have 1: "irq_loop not_esc (score_handler K) ?w ms = Waiting w'"
    by (simp add: score_state_def split: outcome.splits)
  have same: "irq_session not_esc (score_handler K)
      (\<lambda>v. w_menu v = w_menu w \<and> player_win v = player_win w \<and> player_lost v = player_lost w) (\<lambda>r v. True)"
    by unfold_locales (auto simp: score_handler_def Let_def shape split: if_splits)
  from irq_session.loop_result [OF same, of ?w ms] 1 show ?thesis by (simp add: page_of_def)
qed

lemma menu_event_wait_step:
  assumes "sprites_load K" and "wf_world m w" and "not_esc w" and "menu_event K irqs w ms = Waiting w'"
  shows "page_step\<^sup>*\<^sup>* (page_of w) (page_of w')"
proof -
  let ?w = "if kb_pending w irqs then menu_key K w else w"
  let ?v = "?w\<lparr>w_timer := timer_int_handler (w_timer ?w)\<rparr>"
  have "wf_menu (w_menu w)" using assms(2) by (simp add: wf_world_def)
  then have key: "page_step\<^sup>*\<^sup>* (page_of w) (page_of ?w)" using menu_key_step [OF _ assms(3)] by auto
  have "wf_world m ?w" using assms(2) menu_key_wf [OF assms(2)] by simp
  then have v: "wf_world m ?v" by (rule wf_world_tick)
  from assms(4) have "menu_tick K ?w ms = Waiting w'"
    by (auto simp: menu_event_def Let_def split: if_splits)
  then consider "start_page K ?v ms = Waiting w'" "current_state (w_menu ?w) = MENU_START"
    | "scores_page K ?v ms = Waiting w'" "current_state (w_menu ?w) = MENU_SCORES"
    by (auto simp: menu_tick_def Let_def split: MenuState.splits prod.splits)
  then have "page_step\<^sup>*\<^sup>* (page_of ?w) (page_of w')"
  proof cases
    case 1
    from start_page_waits [OF assms(1) v 1(1)] 1(2) show ?thesis
      by (auto simp: page_of_def intro: game_begins)
  next
    case 2
    from scores_page_waits [OF 2(1)] 2(2) show ?thesis
      by (auto simp: page_of_def intro: scores_wait)
  qed
  with key show ?thesis by (rule rtranclp_trans)
qed

text \<open>The menu loop is a run of the state machine, up to the point where it waits or ends.\<close>

interpretation pages: menu_session K
  "\<lambda>w. sprites_load K \<and> wf_world m w \<and> page_step\<^sup>*\<^sup>* p (page_of w)"
  "\<lambda>w. page_step\<^sup>*\<^sup>* p (page_of w)"
  "\<lambda>r w. r = 0 \<longrightarrow> page_step\<^sup>*\<^sup>* p (page_of w) \<and> pg (page_of w) = MENU_EXIT"
  for K m p
proof
  fix w :: "'a world" and irqs ms
  assume w: "sprites_load K \<and> wf_world m w \<and> page_step\<^sup>*\<^sup>* p (page_of w)" and k: "not_esc w"
  show "sprites_load K \<and> wf_world m w' \<and> page_step\<^sup>*\<^sup>* p (page_of w')"
    if "menu_event K irqs w ms = Exited w' rest" for w' rest
    using menu_event_wf [of K m w irqs ms] menu_event_steps [OF _ _ k that] w that
    by (auto intro: rtranclp_trans)
  show "page_step\<^sup>*\<^sup>* p (page_of w')" if "menu_event K irqs w ms = Waiting w'" for w'
    using menu_event_wait_step [OF _ _ k that] w by (auto intro: rtranclp_trans)
  show "r = 0 \<longrightarrow> page_step\<^sup>*\<^sup>* p (page_of w') \<and> pg (page_of w') = MENU_EXIT"
    if "menu_event K irqs w ms = Returned r w' rest" for r w' rest
    using menu_event_normal_end [OF _ k] w that by (auto intro: rtranclp_trans)
qed

lemma init_game_page:
  assumes "init_game K (boot_world f h) = Some (0, w)"
  shows "page_of w = Page MENU_MAIN False False False"
proof -
  have k: "scancode k = 0" if "kb_subscribe_int K a kb_init_st h' = (r, l, k, h'')" for a h' r l k h''
    using that by (auto simp: kb_subscribe_int_def kb_init_st_def split: prod.splits if_splits)
  have "KB_BREAK_ESC \<noteq> 0" by (simp add: key_codes)
  with assms show ?thesis
    by (auto simp: init_game_def boot_world_def page_of_def not_esc_def menu_init_def Let_def
        split: prod.splits option.splits if_splits dest!: k)
qed


subsection \<open>Properties\<close>

lemma menu_handler_pages:
  assumes "sprites_load K" and "wf_world m w"
  shows "case menu_handler K w ms of
           Waiting w' \<Rightarrow> page_step\<^sup>*\<^sup>* (page_of w) (page_of w') \<and> not_esc w'
         | Exited w' rest \<Rightarrow> False
         | Returned r w' rest \<Rightarrow>
             r = 0 \<longrightarrow> page_step\<^sup>*\<^sup>* (page_of w) (page_of w') \<and> (pg (page_of w') = MENU_EXIT \<or> \<not> not_esc w')"
proof -
  have "sprites_load K \<and> wf_world m w \<and> page_step\<^sup>*\<^sup>* (page_of w) (page_of w)" using assms by simp
  from pages.menu_result [OF this, of ms] results.menu_result [of K w ms] show ?thesis
    by (auto split: outcome.splits)
qed

text \<open>C11. The menu loop implements the page machine. Whatever keys and interrupts come, the pages the program
  goes through are a run of the machine, games and scores pages included, also where it waits inside
  one of them; the loop returns 0 only from the exit page or with the release of escape.\<close>

theorem menu_implements_pages:
  assumes "sprites_load K" and "wf_world m w"
  shows "case menu_handler K w ms of
           Waiting w' \<Rightarrow> page_step\<^sup>*\<^sup>* (page_of w) (page_of w') \<and> \<not> stop (page_of w')
         | Exited w' rest \<Rightarrow> False
         | Returned r w' rest \<Rightarrow>
             r = 0 \<longrightarrow> page_step\<^sup>*\<^sup>* (page_of w) (page_of w') \<and> (pg (page_of w') = MENU_EXIT \<or> stop (page_of w'))"
  using menu_handler_pages [OF assms, of ms] by (auto simp: page_of_def split: outcome.splits)

lemma menu_implements_pages_witness:
  "\<exists>w'. menu_handler blank_kernel (demo_world\<lparr>w_menu := menu_set_state MENU_QUIT menu_init_st\<rparr>) [hw_msg 1] =
     Waiting w' \<and> page_step\<^sup>*\<^sup>* (Page MENU_QUIT False False False) (page_of w')"
proof -
  let ?w = "demo_world\<lparr>w_menu := menu_set_state MENU_QUIT menu_init_st\<rparr>"
  have wf: "wf_world mode_14c ?w"
    using demo_world_wf menu_keeps(2) [of menu_init_st MENU_QUIT]
    by (simp add: wf_game_def wf_world_def demo_world_def)
  have w: "not_esc ?w" "current_state (w_menu ?w) = MENU_QUIT" "\<not> kb_pending ?w 1" "timer_pending ?w 1"
    "page_of ?w = Page MENU_QUIT False False False"
    by (simp_all add: not_esc_def demo_world_def kb_init_st_def key_codes menu_set_state_def
        kb_pending_def timer_pending_def BIT_def page_of_def)
  obtain s g where "menu_render blank_kernel (w_menu ?w) (w_gfx ?w) = (s, g)" by fastforce
  with w obtain w' where "menu_handler blank_kernel ?w [hw_msg 1] = Waiting w'"
    by (auto simp: menu_event_def menu_tick_def Let_def not_esc_def)
  with menu_implements_pages [OF blank_sprites_load [OF blank_kernel_load] wf, of "[hw_msg 1]"] w(5)
  show ?thesis by simp
qed

text \<open>C12. What the pages guarantee for the whole program. Whenever it waits, its page is a reachable one, the
  last game is not both won and lost, and a win is shown on the scores page only; when it returns 0,
  the player has chosen to quit or released escape.\<close>

theorem program_pages:
  assumes "sprites_load K" and "video_documented K" and "proj_main_loop K (boot_world f h) ms = Some oc"
  shows "case oc of
           Waiting w \<Rightarrow> reachable (page_of w) \<and> \<not> (player_win w \<and> player_lost w) \<and>
             (player_win w \<longrightarrow> current_state (w_menu w) = MENU_SCORES)
         | Exited w rest \<Rightarrow> False
         | Returned r w rest \<Rightarrow> r = 0 \<longrightarrow> current_state (w_menu w) = MENU_EXIT \<or> scancode (w_kb w) = KB_BREAK_ESC"
proof -
  obtain r w where i: "init_game K (boot_world f h) = Some (r, w)"
    using assms(3) by (auto simp: proj_main_loop_def split: option.splits)
  show ?thesis
  proof (cases "r = 0")
    case False
    with init_game_result [OF assms(2) i] assms(3) i show ?thesis by (auto simp: proj_main_loop_def)
  next
    case True
    then have wf: "wf_world (mode_info (w_gfx w)) w" using init_game_result [OF assms(2) i] by simp
    have "reachable (page_of w)" using init_game_page i True begin_main by metis
    note ok = reachable_steps [OF _ this]
    show ?thesis
    proof (cases "menu_handler K w ms")
      case (Waiting v)
      with menu_handler_pages [OF assms(1) wf, of ms] have "reachable (page_of v)" "not_esc v"
        by (auto intro: ok)
      moreover have "oc = Waiting v" using Waiting assms(3) i True by (simp add: proj_main_loop_def)
      ultimately show ?thesis using reachable_ok [of "page_of v"] by (auto simp: page_ok_def page_of_def)
    next
      case (Exited v rest)
      with menu_handler_pages [OF assms(1) wf, of ms] show ?thesis by simp
    next
      case (Returned q v rest)
      have close: "w_menu (snd (close_game K v)) = w_menu v" "w_kb (snd (close_game K v)) = w_kb v"
        by (auto simp: close_game_def split: prod.splits)
      from menu_handler_pages [OF assms(1) wf, of ms] Returned close assms(3) i True show ?thesis
        by (auto simp: proj_main_loop_def page_of_def not_esc_def case_prod_beta split: if_splits)
    qed
  qed
qed

lemma program_pages_witness:
  "\<exists>w. proj_main_loop blank_kernel (boot_world new_file []) [] = Some (Waiting w) \<and> reachable (page_of w)"
proof -
  obtain w where i: "init_game blank_kernel (boot_world new_file []) = Some (0, w)" using blank_start by blast
  then have "not_esc w" using init_game_result [OF blank_kernel_video i] by simp
  with i have "proj_main_loop blank_kernel (boot_world new_file []) [] = Some (Waiting w)"
    by (simp add: proj_main_loop_def)
  with program_pages [OF blank_sprites_load [OF blank_kernel_load] blank_kernel_video this] show ?thesis
    by simp
qed

end
