(* ===== verification/Int_Range.thy ===== *)
theory Int_Range
  imports Main_Loop
begin

text \<open>
  The types of the integers. The model lets \<open>int\<close> be unbounded; here it is shown that this is sound: in a
  run of up to \<open>run_limit\<close> messages (about 155 hours of timer interrupts at 60 Hz) every \<open>int\<close> variable
  of the program, and every \<open>int\<close> the score is computed from, keeps within 32 bits, so that no
  operation of the program overflows.

  The bounds grow with the run: \<open>counted k n\<close> says what the variables can have reached after \<open>k\<close> keys
  and \<open>n\<close> timer interrupts. A message adds at most one to each (\<open>irq_budget\<close>), in the menu and in the
  nested loops of its pages alike.
\<close>

subsection \<open>The integers of the program\<close>

definition run_limit :: nat where "run_limit = 2 ^ 25"

definition enemy_ints :: "Enemy \<Rightarrow> int list" where
  "enemy_ints e = [e_x e, e_y e, e_type e, e_x e + ENEMY_WIDTH, e_y e + ENEMY_HEIGHT]"

definition enemies_ints :: "enemies_st \<Rightarrow> int list" where
  "enemies_ints f = [enemy_direction f, enemy_move_timer f + 1, enemy_drop_timer f]
     @ concat (map enemy_ints (enemies f))"

definition ship_ints :: "ship_st \<Rightarrow> int list" where
  "ship_ints s = [fire_delay_counter s + 1]
     @ concat (map (\<lambda>b. [b_x b, b_y b, b_x b + BULLET_WIDTH, b_y b + BULLET_HEIGHT]) (bullets s))
     @ concat (map (\<lambda>b. [eb_x b, eb_y b, eb_x b + BULLET_WIDTH, eb_y b + BULLET_HEIGHT]) (enemy_bullets s))
     @ concat (map (\<lambda>h. [sh_x h, sh_y h, sh_x h + SHIELD_WIDTH, sh_y h + SHIELD_HEIGHT]) (shields s))"

definition game_score_ints :: "GameScore \<Rightarrow> int list" where
  "game_score_ints c = [bullets_fired c + 1, game_time_seconds c, final_score c, bullets_fired c * 50,
     game_time_seconds c * 10, 10000 - bullets_fired c * 50,
     10000 - bullets_fired c * 50 - game_time_seconds c * 10]"

definition entry_ints :: "HighScoreEntry \<Rightarrow> int list" where
  "entry_ints e = [hs_score e, hs_bullets_fired e, hs_game_time_seconds e]"

definition score_ints :: "score_st \<Rightarrow> int list" where
  "score_ints c = [game_start_time c, int (highscore_count c)] @ game_score_ints (current_score c)
     @ concat (map entry_ints (highscores c))"

definition world_ints :: "'h world \<Rightarrow> int list" where
  "world_ints w = [timer_counter (w_timer w) + 1, timer_counter (w_timer w) - game_start_time (w_score w)]
     @ enemies_ints (w_enemies w) @ ship_ints (w_ship w) @ score_ints (w_score w)"


subsection \<open>What they can have reached\<close>

definition enemies_in :: "nat \<Rightarrow> enemies_st \<Rightarrow> bool" where
  "enemies_in n f \<longleftrightarrow> length (enemies f) = 18 \<and> (enemy_direction f = 1 \<or> enemy_direction f = -1) \<and>
     0 \<le> enemy_move_timer f \<and> enemy_move_timer f < 30 \<and> enemy_drop_timer f = 0 \<and>
     (\<forall>e \<in> set (enemies f). \<bar>e_x e\<bar> \<le> 1000 + 20 * int n \<and> \<bar>e_y e\<bar> \<le> 1000 + 40 * int n \<and>
        0 \<le> e_type e \<and> e_type e \<le> 2)"

definition ship_in :: "nat \<Rightarrow> ship_st \<Rightarrow> bool" where
  "ship_in n s \<longleftrightarrow> 0 \<le> fire_delay_counter s \<and> fire_delay_counter s \<le> 150 + int n \<and>
     (\<forall>b \<in> set (bullets s). \<bar>b_x b\<bar> \<le> 70000 \<and> \<bar>b_y b\<bar> \<le> 1000 + 20 * int n) \<and>
     (\<forall>b \<in> set (enemy_bullets s). \<bar>eb_x b\<bar> \<le> 2000 + 20 * int n \<and> \<bar>eb_y b\<bar> \<le> 2000 + 40 * int n) \<and>
     (\<forall>h \<in> set (shields s). \<bar>sh_x h\<bar> \<le> 70000 \<and> \<bar>sh_y h\<bar> \<le> 70000)"

definition entry_fits :: "HighScoreEntry \<Rightarrow> bool" where
  "entry_fits e \<longleftrightarrow> list_all int32 (entry_ints e)"

definition score_in :: "nat \<Rightarrow> nat \<Rightarrow> score_st \<Rightarrow> bool" where
  "score_in k n c \<longleftrightarrow> wf_score c \<and> bullets_fired (current_score c) \<le> int k \<and>
     game_time_seconds (current_score c) \<le> int n \<and> 0 \<le> final_score (current_score c) \<and>
     final_score (current_score c) \<le> 10000 \<and> 0 \<le> game_start_time c \<and>
     (\<forall>e \<in> set (highscores c). entry_fits e)"

definition counted :: "nat \<Rightarrow> nat \<Rightarrow> 'h world \<Rightarrow> bool" where
  "counted k n w \<longleftrightarrow> game_start_time (w_score w) \<le> timer_counter (w_timer w) \<and>
     timer_counter (w_timer w) \<le> int n \<and> enemies_in n (w_enemies w) \<and> ship_in n (w_ship w) \<and>
     score_in k n (w_score w)"

lemmas in_defs = enemies_in_def ship_in_def score_in_def

lemma in_mono:
  "enemies_in n f \<Longrightarrow> enemies_in (Suc n) f" "ship_in n s \<Longrightarrow> ship_in (Suc n) s"
  "score_in k n c \<Longrightarrow> score_in (Suc k) n c" "score_in k n c \<Longrightarrow> score_in k (Suc n) c"
  by (fastforce simp: in_defs)+

lemma counted_mono: "counted k n w \<Longrightarrow> counted (Suc k) n w" "counted k n w \<Longrightarrow> counted k (Suc n) w"
  by (auto simp: counted_def in_mono)

lemma list_all_concat_map: "list_all P (concat (map f xs)) \<longleftrightarrow> (\<forall>x \<in> set xs. list_all P (f x))"
  by (induction xs) auto

lemma counted_fits:
  assumes "counted k n w" and "k \<le> run_limit" and "n \<le> run_limit"
  shows "list_all int32 (world_ints w)"
proof -
  have k: "int k \<le> 33554432" and n: "int n \<le> 33554432" using assms(2,3) by (simp_all add: run_limit_def)
  have time: "0 \<le> timer_counter (w_timer w)" "timer_counter (w_timer w) \<le> int n"
    "0 \<le> game_start_time (w_score w)" "game_start_time (w_score w) \<le> timer_counter (w_timer w)"
    using assms(1) by (auto simp: counted_def score_in_def)
  have e: "enemies_in n (w_enemies w)" and s: "ship_in n (w_ship w)" and c: "score_in k n (w_score w)"
    using assms(1) by (simp_all add: counted_def)
  have 1: "list_all int32 (enemies_ints (w_enemies w))"
    using e n unfolding enemies_ints_def enemies_in_def
    by (fastforce simp: list_all_concat_map enemy_ints_def int32_def enemy_consts)
  have 2: "list_all int32 (ship_ints (w_ship w))"
    using s n unfolding ship_ints_def ship_in_def
    by (fastforce simp: list_all_concat_map int32_def ship_consts)
  have 3: "list_all int32 (score_ints (w_score w))"
    using c k n time unfolding score_ints_def score_in_def
    by (auto simp: list_all_concat_map int32_def game_score_ints_def wf_score_def MAX_HIGHSCORES_def entry_fits_def)
  show ?thesis using 1 2 3 time n by (simp add: world_ints_def int32_def)
qed


subsection \<open>The operations\<close>

lemma enemies_moving_in:
  assumes "enemies_in n f"
  shows "enemies_in (Suc n) (enemies_moving m f)"
proof -
  have "\<bar>e_x (march d dir e)\<bar> \<le> 1000 + 20 * int (Suc n)" "\<bar>e_y (march d dir e)\<bar> \<le> 1000 + 40 * int (Suc n)"
    "e_type (march d dir e) = e_type e"
    if "\<bar>e_x e\<bar> \<le> 1000 + 20 * int n" "\<bar>e_y e\<bar> \<le> 1000 + 40 * int n" "dir = 1 \<or> dir = -1" for d dir e
    using that by (auto simp: march_def)
  with in_mono(1) [OF assms] assms show ?thesis
    by (auto simp: enemies_moving_def move_enemies_def enemies_in_def Let_def)
qed

lemma init_enemies_in:
  assumes "enemies_in n f"
  shows "enemies_in n (snd (init_enemies f))"
proof -
  have len: "length (enemies f) = 18" using assms by (simp add: enemies_in_def)
  have "i mod 6 \<le> 5" "i div 6 \<le> 2" if "i < 18" for i :: nat using that by auto
  then have "\<bar>home_x i\<bar> \<le> 1000" "\<bar>home_y i\<bar> \<le> 1000" "int (i div 6) \<le> 2" if "i < 18" for i
    using that by (fastforce simp: home_x_def home_y_def)+
  moreover have "enemy_direction (snd (init_enemies f)) = enemy_direction f"
    "enemy_move_timer (snd (init_enemies f)) = enemy_move_timer f"
    "enemy_drop_timer (snd (init_enemies f)) = enemy_drop_timer f"
    by (simp_all add: init_enemies_def)
  ultimately show ?thesis using assms by (fastforce simp: enemies_in_def init_enemies_list [OF len])
qed

lemma spawn_set: "spawn active b bs = Some bs' \<Longrightarrow> set bs' \<subseteq> insert b (set bs)"
  by (auto simp: spawn_def dest: set_update_subset_insert [THEN subsetD])

lemma ship_action_in:
  assumes "ship_in n s" and "score_in k n c" and "ship_action m code s c = (s', c')"
  shows "ship_in n s'" and "score_in (Suc k) n c'" and "game_start_time c' = game_start_time c"
proof -
  have "c' = c \<or> c' = score_add_bullet c"
    using ship_action_score [of m code s c] assms(3) by auto
  moreover have "score_in (Suc k) n (score_add_bullet c)"
    using assms(2) score_add_bullet_wf [of c] in_mono(3) [OF assms(2)]
    by (cases "game_active c") (auto simp: score_in_def score_add_bullet_def)
  ultimately show "score_in (Suc k) n c'" "game_start_time c' = game_start_time c"
    using in_mono(3) [OF assms(2)] by (auto simp: shape)
  have x: "uint (ship_x s) < 2 ^ 16" using uint_bounded [of "ship_x s"] by simp
  have spawned: "b \<in> set bs' \<Longrightarrow> b \<in> set bs \<or> b = b0" if "spawn active b0 bs = Some bs'" for active b0 b bs bs'
    using spawn_set [OF that] by blast
  have "fire_delay_counter s' = fire_delay_counter s \<or> fire_delay_counter s' = 0"
    "enemy_bullets s' = enemy_bullets s" "shields s' = shields s"
    "set (bullets s') \<subseteq> insert \<lparr>b_x = 23 + uint (ship_x s), b_y = 670, b_active = True\<rparr> (set (bullets s))"
    using assms(3) by (auto simp: ship_action_def Let_def ship_consts dest!: spawned
        split: if_splits option.splits)
  with assms(1) x show "ship_in n s'" by (fastforce simp: ship_in_def)
qed

lemma moved_ship_in:
  "ship_in n s \<Longrightarrow> ship_in (Suc n)
     (update_enemy_bullets m (update_bullets (s\<lparr>fire_delay_counter := fire_delay_counter s + 1\<rparr>)))"
  by (fastforce simp: ship_in_def update_enemy_bullets_def update_bullets_def
      move_bullet_def move_enemy_bullet_def Let_def)

lemma fire_enemy_bullet_in:
  assumes "ship_in n s" and "\<forall>e \<in> set es. \<bar>e_x e\<bar> \<le> 1000 + 20 * int n \<and> \<bar>e_y e\<bar> \<le> 1000 + 40 * int n"
  shows "ship_in n (fst (fire_enemy_bullet K es s h))"
proof -
  have "set bs \<subseteq> insert \<lparr>eb_x = e_x e + 20, eb_y = e_y e + 40, eb_active = True\<rparr> (set (enemy_bullets s)) \<Longrightarrow>
      e \<in> set es \<Longrightarrow> ship_in n (s\<lparr>enemy_bullets := bs\<rparr>)" for bs e
    using assms by (fastforce simp: ship_in_def)
  with assms(1) show ?thesis
    by (auto simp: fire_enemy_bullet_def Let_def enemy_consts dest!: spawn_set find_shooter_member
        split: prod.splits option.splits)
qed

lemma score_ops_in:
  assumes "score_in k n c"
  shows "score_in k n (snd (score_calculate_final c))" and "score_in k n (score_reset c)"
    and "0 \<le> t \<Longrightarrow> score_in k n (score_init t c)"
    and "game_start_time c \<le> t \<Longrightarrow> t \<le> int n \<Longrightarrow> score_in k n (score_update_time t c)"
proof -
  have wf: "wf_score c" using assms by (simp add: score_in_def)
  show "score_in k n (snd (score_calculate_final c))" "score_in k n (score_reset c)"
    "0 \<le> t \<Longrightarrow> score_in k n (score_init t c)"
    using assms score_calculate_final_wf [OF wf] score_reset_wf [OF wf] score_init_wf [OF wf]
    by (auto simp: score_in_def score_ops Let_def wf_score_def)
  show "score_in k n (score_update_time t c)" if t: "game_start_time c \<le> t" "t \<le> int n"
  proof -
    have "0 \<le> game_start_time c" using assms by (simp add: score_in_def)
    with t have "(t - game_start_time c) div 60 \<le> int n" by linarith
    with assms score_update_time_wf [OF wf t(1)] t show ?thesis
      by (auto simp: score_in_def score_update_time_def c_div_nonneg)
  qed
qed

lemma sort_highscores_set:
  assumes "wf_score c"
  shows "set (highscores (sort_highscores c)) = set (highscores c)"
proof -
  note e = sort_highscores_entries [OF assms]
  have split: "set (highscores c) = set (entries c) \<union> set (drop (highscore_count c) (highscores c))" for c
    unfolding entries_def set_append [symmetric] append_take_drop_id ..
  show ?thesis unfolding split [of "sort_highscores c"] split [of c] e(1,2,3) by simp
qed

lemma save_highscore_fits:
  assumes "wf_score c" and "\<forall>e \<in> set (highscores c). entry_fits e"
    and "save_highscore_to_csv name pts shots secs f c = (r, f', c')"
    and "int32 pts" "int32 shots" "int32 secs"
  shows "\<forall>e \<in> set (highscores c'). entry_fits e"
proof -
  let ?e = "\<lparr>hs_name = name, hs_score = pts, hs_bullets_fired = shots, hs_game_time_seconds = secs\<rparr>"
  have "c' = c \<or> highscore_count c < MAX_HIGHSCORES \<and> c' = sort_highscores (store_entry ?e c)"
    using assms(3) by (auto simp: save_highscore_to_csv_def Let_def split: option.splits prod.splits if_splits)
  then show ?thesis
  proof
    assume *: "highscore_count c < MAX_HIGHSCORES \<and> c' = sort_highscores (store_entry ?e c)"
    have "set (highscores c') = set (highscores (store_entry ?e c))"
      using sort_highscores_set [OF store_entry_entries(2) [OF assms(1), of ?e]] * by simp
    also have "\<dots> \<subseteq> insert ?e (set (highscores c))" by (simp add: store_entry_def set_update_subset_insert)
    finally show ?thesis using assms(2,4,5,6) by (auto simp: entry_fits_def entry_ints_def)
  qed (use assms(2) in simp)
qed

lemma save_win_in:
  assumes "score_in k n c" and "k \<le> run_limit" "n \<le> run_limit" and "save_win_highscore K f c h = (f', c', h')"
  shows "score_in k n c'" and "game_start_time c' = game_start_time c"
proof -
  have wf: "wf_score c" using assms(1) by (simp add: score_in_def)
  note keeps = save_win_keeps [OF wf assms(4)]
  show "game_start_time c' = game_start_time c" using keeps by simp
  have "\<forall>e \<in> set (highscores c'). entry_fits e"
  proof (cases "highscore_saved_this_game c")
    case False
    let ?c = "c\<lparr>seeded := True\<rparr>"
    have fit: "int32 (final_score (current_score c))" "int32 (bullets_fired (current_score c))"
      "int32 (game_time_seconds (current_score c))"
      using assms(1,2,3) by (auto simp: score_in_def int32_def wf_score_def run_limit_def)
    obtain name r f1 c1 where s: "save_highscore_to_csv name (final_score (current_score c))
        (bullets_fired (current_score c)) (game_time_seconds (current_score c)) f ?c = (r, f1, c1)"
      and c': "c' = c1\<lparr>highscore_saved_this_game := True\<rparr>"
      using assms(4) False
      by (auto simp: save_win_highscore_def get_random_anime_name_def Let_def split: prod.splits)
    have "wf_score ?c" "\<forall>e \<in> set (highscores ?c). entry_fits e"
      using assms(1) by (simp_all add: score_in_def wf_score_def)
    from save_highscore_fits [OF this s fit] show ?thesis by (simp add: c')
  qed (use assms(1,4) in \<open>simp add: save_win_highscore_def score_in_def\<close>)
  with keeps assms(1) show "score_in k n c'" by (simp add: score_in_def)
qed


subsection \<open>A frame, a message\<close>

lemma game_key_counted:
  assumes "counted k n w"
  shows "counted (Suc k) n (game_key K w)"
proof -
  let ?w = "read_key K w"
  obtain s c where a: "ship_action (mode_info (w_gfx ?w)) (scancode (w_kb ?w)) (w_ship ?w) (w_score ?w) = (s, c)"
    by fastforce
  have w: "ship_in n (w_ship ?w)" "score_in k n (w_score ?w)" using assms by (simp_all add: counted_def shape)
  from ship_action_in [OF w a] a assms counted_mono(1) [OF assms] show ?thesis
    by (auto simp: game_key_def Let_def counted_def shape)
qed

lemma game_move_counted:
  assumes "counted k n w"
  shows "counted k (Suc n) (game_move K w)"
proof -
  let ?t = "timer_int_handler (w_timer w)" and ?g = "clear_back_buf 0 (w_gfx w)"
  let ?s = "update_enemy_bullets (mode_info ?g) (update_bullets
      ((w_ship w)\<lparr>fire_delay_counter := fire_delay_counter (w_ship w) + 1\<rparr>))"
  let ?f = "enemies_moving (mode_info ?g) (w_enemies w)"
  let ?c = "score_update_time (timer_counter ?t) (w_score w)"
  have t: "timer_counter ?t = timer_counter (w_timer w) + 1" by (simp add: timer_int_handler_def)
  have f: "enemies_in (Suc n) ?f" and s: "ship_in (Suc n) ?s"
    using assms enemies_moving_in moved_ship_in by (auto simp: counted_def)
  have fire: "ship_in (Suc n) (fst (fire_enemy_bullet K (enemies ?f) ?s (hw w)))"
    by (rule fire_enemy_bullet_in [OF s]) (use f in \<open>simp add: enemies_in_def\<close>)
  have "score_in k (Suc n) (w_score w)" using assms in_mono(4) by (auto simp: counted_def)
  then have c: "score_in k (Suc n) ?c" using assms t by (intro score_ops_in) (auto simp: counted_def)
  show ?thesis
    using assms f s fire c t by (auto simp: game_move_def Let_def counted_def shape split: prod.splits)
qed

text \<open>A collision moves nothing: it only takes an alien, a shot or a piece of a shield away.\<close>

lemma ball_map_eq:
  assumes "map f xs = map f ys" and "\<forall>y \<in> set ys. P (f y)"
  shows "\<forall>x \<in> set xs. P (f x)"
proof
  fix x assume "x \<in> set xs"
  then have "f x \<in> set (map f ys)" unfolding assms(1) [symmetric] by simp
  with assms(2) show "P (f x)" by auto
qed

lemma map_update_same: "f y = f (xs ! i) \<Longrightarrow> map f (xs[i := y]) = map f xs"
  by (metis list_update_beyond list_update_id map_update not_le)

abbreviation enemy_place :: "Enemy \<Rightarrow> int \<times> int \<times> int" where
  "enemy_place e \<equiv> (e_x e, e_y e, e_type e)"

lemma collision_places:
  "check_enemy_bullet_collision x ebs lost = (ebs', lost') \<Longrightarrow>
     map (\<lambda>b. (eb_x b, eb_y b)) ebs' = map (\<lambda>b. (eb_x b, eb_y b)) ebs"
  "check_bullet_enemy_collision bs es = (r, bs', es') \<Longrightarrow>
     map (\<lambda>b. (b_x b, b_y b)) bs' = map (\<lambda>b. (b_x b, b_y b)) bs \<and> map enemy_place es' = map enemy_place es"
  "check_shield_collision shs ebs = (shs', ebs') \<Longrightarrow>
     map (\<lambda>h. (sh_x h, sh_y h)) shs' = map (\<lambda>h. (sh_x h, sh_y h)) shs \<and>
     map (\<lambda>b. (eb_x b, eb_y b)) ebs' = map (\<lambda>b. (eb_x b, eb_y b)) ebs"
proof -
  show "map (\<lambda>b. (eb_x b, eb_y b)) ebs' = map (\<lambda>b. (eb_x b, eb_y b)) ebs"
    if "check_enemy_bullet_collision x ebs lost = (ebs', lost')"
    using that by (force simp: check_enemy_bullet_collision_def)
  show "map (\<lambda>b. (b_x b, b_y b)) bs' = map (\<lambda>b. (b_x b, b_y b)) bs \<and> map enemy_place es' = map enemy_place es"
    if "check_bullet_enemy_collision bs es = (r, bs', es')"
    using that by (auto simp: check_bullet_enemy_collision_def map_update_same split: option.splits)
  show "map (\<lambda>h. (sh_x h, sh_y h)) shs' = map (\<lambda>h. (sh_x h, sh_y h)) shs \<and>
     map (\<lambda>b. (eb_x b, eb_y b)) ebs' = map (\<lambda>b. (eb_x b, eb_y b)) ebs"
    if "check_shield_collision shs ebs = (shs', ebs')"
    using check_shield_shots [of shs ebs] check_shield_shields [of shs ebs] that
    by (auto simp: stop_shots_def list_eq_iff_nth_eq)
qed

lemma game_collide_counted:
  assumes "counted k n w"
  shows "counted k n (game_collide w)"
proof -
  let ?s = "w_ship w" and ?f = "w_enemies w" and ?x = "uint (ship_x (w_ship w))"
  obtain ebs lost where 1: "check_enemy_bullet_collision ?x (enemy_bullets ?s) (player_lost w) = (ebs, lost)"
    by fastforce
  obtain r bs es where 2: "check_bullet_enemy_collision (bullets ?s) (enemies ?f) = (r, bs, es)"
    by (metis prod_cases3)
  obtain shs ebs' where 3: "check_shield_collision (shields ?s) ebs = (shs, ebs')" by fastforce
  note places = collision_places(1) [OF 1] collision_places(2) [OF 2] collision_places(3) [OF 3]
  have e: "enemies_in n ?f" and s: "ship_in n ?s" using assms by (simp_all add: counted_def)
  have "map (\<lambda>b. (eb_x b, eb_y b)) ebs' = map (\<lambda>b. (eb_x b, eb_y b)) (enemy_bullets ?s)" using places by simp
  then have "\<forall>b \<in> set ebs'. case (eb_x b, eb_y b) of (x, y) \<Rightarrow> \<bar>x\<bar> \<le> 2000 + 20 * int n \<and> \<bar>y\<bar> \<le> 2000 + 40 * int n"
    by (rule ball_map_eq) (use s in \<open>simp add: ship_in_def\<close>)
  moreover have "\<forall>b \<in> set bs. case (b_x b, b_y b) of (x, y) \<Rightarrow> \<bar>x\<bar> \<le> 70000 \<and> \<bar>y\<bar> \<le> 1000 + 20 * int n"
    by (rule ball_map_eq [OF places(2) [THEN conjunct1]]) (use s in \<open>simp add: ship_in_def\<close>)
  moreover have "\<forall>h \<in> set shs. case (sh_x h, sh_y h) of (x, y) \<Rightarrow> \<bar>x\<bar> \<le> 70000 \<and> \<bar>y\<bar> \<le> 70000"
    by (rule ball_map_eq [OF places(3) [THEN conjunct1]]) (use s in \<open>simp add: ship_in_def\<close>)
  ultimately have s': "ship_in n (?s\<lparr>enemy_bullets := ebs', bullets := bs, shields := shs\<rparr>)"
    using s by (simp add: ship_in_def)
  have "length es = 18" using e arg_cong [OF conjunct2 [OF places(2)], of length] by (simp add: enemies_in_def)
  moreover have "\<forall>e \<in> set es. case enemy_place e of (x, y, t) \<Rightarrow>
      \<bar>x\<bar> \<le> 1000 + 20 * int n \<and> \<bar>y\<bar> \<le> 1000 + 40 * int n \<and> 0 \<le> t \<and> t \<le> 2"
    by (rule ball_map_eq [OF places(2) [THEN conjunct2]]) (use e in \<open>simp add: enemies_in_def\<close>)
  ultimately have "enemies_in n (?f\<lparr>enemies := es\<rparr>)" using e by (simp add: enemies_in_def)
  with s' assms show ?thesis by (simp add: game_collide_def Let_def 1 2 3 counted_def)
qed

lemma counted_update [simp]:
  "counted k n (w\<lparr>w_gfx := g\<rparr>) = counted k n w" "counted k n (w\<lparr>w_menu := q\<rparr>) = counted k n w"
  "counted k n (w\<lparr>hw := h\<rparr>) = counted k n w" "counted k n (w\<lparr>w_kb := kb\<rparr>) = counted k n w"
  "counted k n (w\<lparr>player_win := a\<rparr>) = counted k n w" "counted k n (w\<lparr>player_lost := a\<rparr>) = counted k n w"
  "counted k n (w\<lparr>show_scores_drawn := a\<rparr>) = counted k n w"
  "counted k n (w\<lparr>irq_set_keyboard := b\<rparr>) = counted k n w" "counted k n (w\<lparr>irq_set_timer := b\<rparr>) = counted k n w"
  by (simp_all add: counted_def)

lemma game_over_counted:
  assumes "counted k n w" and "k \<le> run_limit" and "n \<le> run_limit"
  shows "counted k n (ctl_state (game_over K w))"
proof -
  let ?c = "snd (score_calculate_final (w_score w))"
  have c: "score_in k n ?c" "game_start_time ?c = game_start_time (w_score w)"
    using assms(1) score_ops_in(1) by (auto simp: counted_def shape)
  obtain f c' h where s: "save_win_highscore K (w_file w) ?c (hw w) = (f, c', h)" by (metis prod_cases3)
  show ?thesis using assms(1) c save_win_in [OF c(1) assms(2,3) s] by (auto simp: game_over_def s counted_def)
qed

lemma game_tick_counted:
  assumes "counted k n w" and "k \<le> run_limit" and "n < run_limit"
  shows "counted k (Suc n) (ctl_state (game_tick K w))"
proof -
  have "counted k (Suc n) (game_collide (game_move K w))"
    by (intro game_collide_counted game_move_counted assms(1))
  with assms(2,3) show ?thesis
    by (auto simp: game_tick_def Let_def split: prod.splits intro: game_over_counted)
qed

lemma game_handler_counted:
  assumes "counted n n w" and "n < run_limit"
  shows "counted (Suc n) (Suc n) (ctl_state (game_handler K irqs w))"
proof -
  let ?w = "if kb_pending w irqs then game_key K w else w"
  have w: "counted (Suc n) n ?w" using game_key_counted [OF assms(1)] counted_mono(1) [OF assms(1)] by simp
  with game_tick_counted [OF w] assms(2) counted_mono(2) [OF w] show ?thesis
    by (auto simp: game_handler_def Let_def)
qed


subsection \<open>A run\<close>

interpretation game_budget: irq_budget not_esc "game_handler K" "\<lambda>n. counted n n" run_limit for K
  by unfold_locales (rule game_handler_counted)

lemma read_key_counted: "counted k n w \<Longrightarrow> counted k n (read_key K w)"
  by (simp add: counted_def shape)

interpretation scores_budget: irq_budget not_esc "score_handler K" "\<lambda>n. counted n n" run_limit for K
proof
  fix n irqs and w :: "'a world" assume "counted n n w"
  from counted_mono(1) [OF counted_mono(2) [OF this]] read_key_counted
  show "counted (Suc n) (Suc n) (ctl_state (score_handler K irqs w))"
    by (auto simp: score_handler_def Let_def)
qed

text \<open>What an outcome has used up of the messages it was given.\<close>

definition within_budget :: "nat \<Rightarrow> 'h world outcome \<Rightarrow> bool" where
  "within_budget N oc \<longleftrightarrow> (\<exists>n. counted n n (outcome_state oc) \<and> n + length (outcome_rest oc) \<le> N)"

lemma within_budget_mono: "within_budget N oc \<Longrightarrow> N \<le> N' \<Longrightarrow> within_budget N' oc"
  by (auto simp: within_budget_def intro: order_trans)

lemma within_budgetI: "counted n n (outcome_state oc) \<Longrightarrow> n + length (outcome_rest oc) \<le> N \<Longrightarrow> within_budget N oc"
  by (auto simp: within_budget_def)

lemma within_budget_map:
  assumes "within_budget N oc" and "\<And>n. counted n n (outcome_state oc) \<Longrightarrow> counted n n (outcome_state oc')"
    and "outcome_rest oc' = outcome_rest oc"
  shows "within_budget N oc'"
  using assms by (auto simp: within_budget_def)

lemma counted_score:
  assumes "counted k n w"
  shows "counted k n (w\<lparr>w_score := score_reset (w_score w)\<rparr>)"
    and "counted k n (w\<lparr>w_score := score_init (timer_counter (w_timer w)) (w_score w)\<rparr>)"
proof -
  have "score_in k n (w_score w)" "0 \<le> timer_counter (w_timer w)"
    using assms by (auto simp: counted_def score_in_def)
  from score_ops_in(2,3) [OF this(1)] this assms
  show "counted k n (w\<lparr>w_score := score_reset (w_score w)\<rparr>)"
    "counted k n (w\<lparr>w_score := score_init (timer_counter (w_timer w)) (w_score w)\<rparr>)"
    by (auto simp: counted_def score_reset_def score_init_def)
qed

lemma game_state_budget:
  assumes "counted n n w" and "n + length ms \<le> run_limit"
  shows "within_budget (n + length ms) (game_state K w ms)"
proof -
  have "counted n n (game_start w)"
    using counted_score(2) [OF assms(1)] by (simp add: game_start_def counted_def)
  from game_budget.loop_budget [OF this assms(2), of K]
  have "within_budget (n + length ms) (irq_loop not_esc (game_handler K) (game_start w) ms)"
    by (auto simp: within_budget_def)
  then show ?thesis
    by (rule within_budget_map)
      (auto simp: game_state_def dest: counted_score(1) split: outcome.splits)
qed

lemma score_state_budget:
  assumes "counted n n w" and "n + length ms \<le> run_limit"
  shows "within_budget (n + length ms) (score_state K w ms)"
proof -
  from scores_budget.loop_budget [OF assms, of K]
  have "within_budget (n + length ms) (irq_loop not_esc (score_handler K) w ms)"
    by (auto simp: within_budget_def)
  then show ?thesis
    by (rule within_budget_map) (auto simp: score_state_def split: outcome.splits)
qed

lemma nested_budget:
  assumes "within_budget N oc" and "\<And>n w. counted n n w \<Longrightarrow> counted n n (f w)"
  shows "within_budget N (nested f oc)"
  using assms(1) by (rule within_budget_map) (auto simp: nested_def assms(2) split: outcome.splits)

lemma new_game_counted:
  assumes "counted k n w"
  shows "counted k n (new_game w)"
proof -
  have x: "uint (XResolution m) < 65536" "uint (YResolution m) < 65536"
    "0 \<le> uint (XResolution m)" "0 \<le> uint (YResolution m)" for m
    using uint_bounded [of "XResolution m"] uint_bounded [of "YResolution m"] by simp_all
  have "\<bar>c_div (uint (XResolution m) - 788) 2 + int i * 247\<bar> \<le> 70000" "\<bar>uint (YResolution m) - 250\<bar> \<le> 70000"
    if "i < 4" for m and i :: nat
  proof -
    have "int i * 247 \<le> 741" using that by linarith
    moreover have "\<bar>c_div d 2\<bar> \<le> \<bar>d\<bar>" for d
    proof -
      have "\<bar>c_div d 2\<bar> = \<bar>d\<bar> div 2" by (cases "d = 0") (simp_all add: c_div_def abs_mult)
      then show ?thesis by linarith
    qed
    from this [of "uint (XResolution m) - 788"] x [of m]
    have "\<bar>c_div (uint (XResolution m) - 788) 2\<bar> \<le> 66000" by linarith
    ultimately show "\<bar>c_div (uint (XResolution m) - 788) 2 + int i * 247\<bar> \<le> 70000" by linarith
    show "\<bar>uint (YResolution m) - 250\<bar> \<le> 70000" using x [of m] by linarith
  qed
  then have "ship_in n (init_shields m (init_enemy_bullets (init_bullets s)))" if "ship_in n s" for m s
    using that by (fastforce simp: ship_in_def init_shields_def init_bullets_def init_enemy_bullets_def ship_consts)
  with assms init_enemies_in show ?thesis by (auto simp: new_game_def counted_def)
qed

lemma start_page_budget:
  assumes "counted n n w" and "n + length ms \<le> run_limit"
  shows "within_budget (n + length ms) (start_page K w ms)"
proof -
  have "within_budget (n + length ms) (game_state K (new_game (w\<lparr>w_gfx := g\<rparr>)) ms)" for g
    by (rule game_state_budget [OF new_game_counted assms(2)]) (use assms(1) in simp)
  from nested_budget [OF this, of "\<lambda>w. w"] assms(1) show ?thesis
    by (auto simp: start_page_def intro: within_budgetI split: prod.splits)
qed

lemma leave_scores_counted: "counted k n w \<Longrightarrow> counted k n (leave_scores w)"
  using counted_score(1) [of k n "w\<lparr>player_win := False, player_lost := False, show_scores_drawn := False\<rparr>"]
  by (simp add: leave_scores_def)

lemma scores_page_budget:
  assumes "counted n n w" and "n + length ms \<le> run_limit"
  shows "within_budget (n + length ms) (scores_page K w ms)"
proof -
  have "within_budget (n + length ms) (nested leave_scores (score_state K v ms))" if "counted n n v" for v
    by (rule nested_budget [OF score_state_budget [OF that assms(2)] leave_scores_counted])
  with assms(1) show ?thesis by (auto simp: scores_page_def intro: within_budgetI split: prod.splits)
qed

lemma menu_event_budget:
  assumes "counted n n w" and "Suc n + length ms \<le> run_limit"
  shows "within_budget (Suc n + length ms) (menu_event K irqs w ms)"
proof -
  have tick: "within_budget (Suc n + length ms) (menu_tick K w ms)" if "counted n n w" for w
  proof -
    let ?w = "w\<lparr>w_timer := timer_int_handler (w_timer w)\<rparr>"
    have w: "counted (Suc n) (Suc n) ?w"
      using counted_mono(1) [OF counted_mono(2) [OF that]] that by (auto simp: counted_def timer_int_handler_def)
    show ?thesis
      using start_page_budget [OF w assms(2)] scores_page_budget [OF w assms(2)] w
      by (auto simp: menu_tick_def Let_def intro: within_budgetI split: MenuState.splits prod.splits)
  qed
  have key: "counted n n (menu_key K w)"
    using read_key_counted [OF assms(1)] by (simp add: menu_key_def Let_def)
  show ?thesis
    using tick [OF key] tick [OF assms(1)] key assms(1)
    by (auto simp: menu_event_def Let_def intro!: within_budgetI le_SucI)
qed

lemma menu_handler_budget:
  "counted n n w \<Longrightarrow> n + length ms \<le> run_limit \<Longrightarrow> within_budget (n + length ms) (menu_handler K w ms)"
proof (induction K w ms arbitrary: n rule: menu_handler.induct)
  case (1 K w)
  then show ?case by (auto intro: within_budgetI)
next
  case (2 K w m ms)
  show ?case
  proof (cases "not_esc w \<and> irq_notification m")
    case True
    have event: "within_budget (Suc n + length ms) (menu_event K (interrupts m) w ms)"
      using 2(3,4) by (intro menu_event_budget) simp_all
    show ?thesis
    proof (cases "menu_event K (interrupts m) w ms")
      case (Exited w' rest)
      with event obtain i where i: "counted i i w'" "i + length rest \<le> Suc n + length ms"
        by (auto simp: within_budget_def)
      with 2(1) True Exited 2(4) have "within_budget (i + length rest) (menu_handler K w' rest)" by simp
      from within_budget_mono [OF this i(2)] True Exited show ?thesis by simp
    qed (use event True in \<open>simp_all add: within_budget_def\<close>)
  next
    case False
    show ?thesis
    proof (cases "not_esc w")
      case other: True
      with False 2(2,3,4) have "within_budget (n + length ms) (menu_handler K w ms)" by simp
      from within_budget_mono [OF this] other False show ?thesis by simp
    qed (use 2(3) in \<open>auto intro: within_budgetI\<close>)
  qed
qed


subsection \<open>Property\<close>

lemma boot_counted: "counted 0 0 (boot_world f h)"
proof -
  have "entry_fits \<lparr>hs_name = [], hs_score = 0, hs_bullets_fired = 0, hs_game_time_seconds = 0\<rparr>"
    by (simp add: entry_fits_def entry_ints_def int32_def)
  then show ?thesis
    using score_init_st_wf
    by (simp add: counted_def in_defs boot_world_def timer_init_st_def enemies_init_st_def ship_init_st_def
        score_init_st_def zero_score_def enemy_consts ship_consts)
qed

lemma load_lines_score: "current_score (load_lines str c) = current_score c"
proof (induction str c rule: load_lines.induct)
  case (1 str c)
  then show ?case
    by (subst load_lines.simps) (auto simp: store_entry_def split: option.splits)
qed

lemma init_game_counted:
  assumes "init_game K (boot_world f h) = Some (r, w)"
    and "\<forall>e \<in> set (highscores (snd (load_highscores_from_csv f score_init_st))). entry_fits e"
  shows "counted 0 0 w"
proof -
  let ?w = "boot_world f h" and ?c = "snd (load_highscores_from_csv f score_init_st)"
  have same: "w_enemies w = w_enemies ?w" "w_ship w = w_ship ?w" "timer_counter (w_timer w) = timer_counter (w_timer ?w)"
    "w_score w = w_score ?w \<or> w_score w = ?c"
    using assms(1) by (auto simp: init_game_def boot_world_def timer_subscribe_int_def Let_def
        split: prod.splits option.splits if_splits)
  have "current_score ?c = zero_score"
    by (auto simp: load_highscores_from_csv_def Let_def load_lines_score score_init_st_def sort_highscores_def
        split: option.splits)
  then have "score_in 0 0 ?c" "game_start_time ?c = 0"
    using load_keeps [OF score_init_st_wf, of f] assms(2)
    by (simp_all add: score_in_def zero_score_def score_init_st_def)
  with same boot_counted [of f h] show ?thesis by (auto simp: counted_def boot_world_def timer_init_st_def)
qed

lemma started_runs: "init_game K w = Some (0, v) \<Longrightarrow> \<exists>oc. proj_main_loop K w ms = Some oc"
  by (cases "menu_handler K v ms") (simp_all add: proj_main_loop_def case_prod_beta)



end
