(* ===== verification/Ballistics.thy ===== *)
theory Ballistics
  imports Main_Loop
begin

text \<open>
  How fast the two sides shoot, and what follows from it. The ship reloads for 30 frames
  (\<open>fire_delay_counter\<close>), the aliens fire with every 60th timer interrupt, and a shot moves 20 pixels a
  frame. So shots of one side keep their distance (\<open>reload\<close>), only few of them are in flight, the arrays
  of ten slots never fill up, and the score of a game is bounded by the aliens it has cost.
\<close>

subsection \<open>Reloading\<close>

lemma length_filter_le_mono: "(\<And>x. x \<in> set xs \<Longrightarrow> p x \<Longrightarrow> q x) \<Longrightarrow> length (filter p xs) \<le> length (filter q xs)"
  by (induction xs) (auto intro: le_SucI)

lemma length_filter_update_le: "length (filter p (xs[i := y])) \<le> Suc (length (filter p xs))"
  by (induction xs arbitrary: i) (auto split: nat.splits intro: le_SucI)

lemma length_filter_update_out: "\<not> p y \<Longrightarrow> length (filter p (xs[i := y])) \<le> length (filter p xs)"
  by (induction xs arbitrary: i) (auto split: nat.splits intro: le_SucI)

text \<open>
  A pool whose shots come at least \<open>period\<close> pixels of flight after one another. \<open>prog\<close> is the way a shot
  has made; \<open>c\<close> frames after the last shot, the \<open>i\<close>-th youngest has made at least \<open>20 * c + i * period\<close>.
\<close>

locale reload = pool active move live ttl
  for active :: "'b \<Rightarrow> bool" and move :: "'b \<Rightarrow> 'b" and live :: "'b \<Rightarrow> bool" and ttl :: "'b \<Rightarrow> nat" +
  fixes prog :: "'b \<Rightarrow> int"
    and period :: int
  assumes move_prog: "active (move b) \<Longrightarrow> prog (move b) = prog b + 20"
begin

definition young :: "int \<Rightarrow> nat \<Rightarrow> 'b list \<Rightarrow> nat" where
  "young c i bs = length (filter (\<lambda>b. active b \<and> prog b < 20 * c + int i * period) bs)"

definition spaced :: "int \<Rightarrow> 'b list \<Rightarrow> bool" where
  "spaced c bs \<longleftrightarrow> (\<forall>i. young c i bs \<le> i)"

lemma young_move: "young (c + 1) i (map move bs) \<le> young c i bs"
proof (induction bs)
  case (Cons b bs)
  then show ?case using active_move [of b] move_prog [of b] by (auto simp: young_def)
qed (simp add: young_def)

lemma spaced_move: "spaced c bs \<Longrightarrow> spaced (c + 1) (map move bs)"
  unfolding spaced_def by (blast intro: order_trans [OF young_move])

lemma spaced_none: "shots bs = 0 \<Longrightarrow> spaced c bs"
  by (auto simp: spaced_def young_def shots_def filter_empty_conv)

lemma spaced_fewer:
  assumes "spaced c bs" and "\<And>i. young c i bs' \<le> young c i bs"
  shows "spaced c bs'"
  using assms(1) unfolding spaced_def by (blast intro: order_trans [OF assms(2)])

lemma spaced_fire:
  assumes "spaced c bs" and "period \<le> 20 * c" and "0 \<le> c" and "spawn active b bs = Some bs'"
    and "active b" and "0 \<le> prog b"
  shows "spaced 0 bs'"
  unfolding spaced_def
proof
  fix i
  obtain j where j: "j < length bs" "bs' = bs[j := b]"
    using assms(4) first_idx_SomeD by (auto simp: spawn_def)
  show "young 0 i bs' \<le> i"
  proof (cases i)
    case 0
    have "young c 0 bs \<le> 0" using assms(1) unfolding spaced_def by (rule spec)
    then have "\<forall>x \<in> set bs. active x \<longrightarrow> 0 \<le> prog x"
      using assms(3) by (fastforce simp: young_def filter_empty_conv)
    then have "\<forall>x \<in> set bs'. active x \<longrightarrow> 0 \<le> prog x"
      using assms(6) j(2) set_update_subset_insert by fastforce
    then show ?thesis by (auto simp: 0 young_def filter_empty_conv)
  next
    case (Suc k)
    have "young 0 i bs' \<le> Suc (length (filter (\<lambda>x. active x \<and> prog x < int i * period) bs))"
      unfolding young_def j(2) by (simp add: length_filter_update_le)
    also have "\<dots> \<le> Suc (young c k bs)"
      unfolding young_def Suc_le_mono
      by (rule length_filter_le_mono) (use assms(2) in \<open>auto simp: Suc algebra_simps\<close>)
    also have "\<dots> \<le> i" using assms(1) by (simp add: spaced_def Suc)
    finally show ?thesis .
  qed
qed

lemma few_in_flight:
  assumes "spaced c bs" and "\<And>b. b \<in> set bs \<Longrightarrow> active b \<Longrightarrow> prog b < 20 * c + int n * period"
  shows "shots bs \<le> n"
proof -
  have "filter (\<lambda>b. active b \<and> prog b < 20 * c + int n * period) bs = filter active bs"
    using assms(2) by (auto intro: filter_cong)
  with assms(1) show ?thesis by (auto simp: spaced_def young_def shots_def dest: spec [of _ n])
qed

end

interpretation own_reload: reload b_active move_bullet "bullet_live m" "\<lambda>b. nat (b_y b) div 20"
    "\<lambda>b. 670 - b_y b" 600 for m
  by unfold_locales (auto simp: move_bullet_def Let_def split: if_splits)

interpretation foe_reload: reload eb_active "move_enemy_bullet m" enemy_bullet_live
    "\<lambda>b. nat (uint (YResolution m) - eb_y b) div 20" "\<lambda>b. eb_y b - 90" 1200 for m
  by unfold_locales (auto simp: move_enemy_bullet_def Let_def split: if_splits)


subsection \<open>The ship and its shots\<close>

text \<open>\<open>t\<close> is the interrupt counter, on which the aliens' shots depend.\<close>

definition armed :: "int \<Rightarrow> ship_st \<Rightarrow> bool" where
  "armed t s \<longleftrightarrow> 0 \<le> fire_delay_counter s \<and>
     own_reload.spaced (fire_delay_counter s) (bullets s) \<and> own.shots (bullets s) \<le> 2 \<and>
     foe_reload.spaced (t mod 60) (enemy_bullets s) \<and> foe.shots (enemy_bullets s) \<le> 1"

lemma own_few:
  assumes "own_reload.spaced c bs" and "list_all (\<lambda>b. b_active b \<longrightarrow> bullet_live m b) bs" and "670 < 20 * c + int n * 600"
  shows "own.shots bs \<le> n"
  by (rule own_reload.few_in_flight [OF assms(1)]) (use assms(2,3) in \<open>auto simp: list_all_iff bullet_live_def\<close>)

lemma ship_action_armed:
  assumes "armed t s" and "wf_ship m s" and "ship_action m code s c = (s', c')"
  shows "armed t s'"
    and "bullets_fired (current_score c') - bullets_fired (current_score c) =
      (if game_active c then int (own.shots (bullets s')) - int (own.shots (bullets s)) else 0)"
    and "bullets_fired (current_score c') \<noteq> bullets_fired (current_score c) \<Longrightarrow>
      30 \<le> fire_delay_counter s \<and> fire_delay_counter s' = 0"
    and "fire_delay_counter s' \<le> fire_delay_counter s"
proof -
  have *: "armed t s' \<and> (bullets_fired (current_score c') - bullets_fired (current_score c) =
      (if game_active c then int (own.shots (bullets s')) - int (own.shots (bullets s)) else 0)) \<and>
    (bullets_fired (current_score c') \<noteq> bullets_fired (current_score c) \<longrightarrow>
      30 \<le> fire_delay_counter s \<and> fire_delay_counter s' = 0) \<and> fire_delay_counter s' \<le> fire_delay_counter s"
  proof (cases rule: ship_action_cases [of code s m c])
    case (shot bs)
    have one: "own.shots (bullets s) \<le> 1"
      by (rule own_few [where c = "fire_delay_counter s" and m = m])
        (use assms(1,2) shot(2) in \<open>auto simp: armed_def wf_ship_def\<close>)
    have b: "b_active (own_shot s)" "0 \<le> 670 - b_y (own_shot s)" by (simp_all add: own_shot_def)
    note spawned = own.spawn_Some(1) [OF shot(3) b(1)]
    have "own_reload.spaced 0 bs"
      by (rule own_reload.spaced_fire [OF _ _ _ shot(3) b]) (use assms(1) shot(2) in \<open>auto simp: armed_def\<close>)
    with one spawned shot assms(1,3) show ?thesis by (auto simp: armed_def score_add_bullet_def)
  next
    case full
    have "own.shots (bullets s) \<le> 2" using assms(1) by (simp add: armed_def)
    moreover have "own.shots (bullets s) = 10" using full(3) own.spawn_None assms(2) by (simp add: wf_ship_def)
    ultimately show ?thesis by simp
  qed (use assms in \<open>auto simp: armed_def\<close>)
  then show "armed t s'" "fire_delay_counter s' \<le> fire_delay_counter s"
    "bullets_fired (current_score c') - bullets_fired (current_score c) =
      (if game_active c then int (own.shots (bullets s')) - int (own.shots (bullets s)) else 0)"
    "bullets_fired (current_score c') \<noteq> bullets_fired (current_score c) \<Longrightarrow>
      30 \<le> fire_delay_counter s \<and> fire_delay_counter s' = 0" by auto
qed

text \<open>A frame: everything moves, and with every 60th interrupt an alien fires.\<close>

definition frame_ship :: "vbe_mode_info \<Rightarrow> ship_st \<Rightarrow> ship_st" where
  "frame_ship m s = update_enemy_bullets m (update_bullets (s\<lparr>fire_delay_counter := fire_delay_counter s + 1\<rparr>))"

lemma frame_ship_moves:
  assumes "armed t s"
  shows "fire_delay_counter (frame_ship m s) = fire_delay_counter s + 1"
    and "own_reload.spaced (fire_delay_counter s + 1) (bullets (frame_ship m s))"
    and "own.shots (bullets (frame_ship m s)) \<le> own.shots (bullets s)"
    and "foe_reload.spaced (t mod 60 + 1) (enemy_bullets (frame_ship m s))"
    and "foe.shots (enemy_bullets (frame_ship m s)) \<le> foe.shots (enemy_bullets s)"
    and "\<forall>b \<in> set (enemy_bullets (frame_ship m s)). eb_active b \<longrightarrow> eb_y b \<le> uint (YResolution m)"
  using assms own_reload.spaced_move own.shots_move foe_reload.spaced_move foe.shots_move
  by (auto simp: frame_ship_def update_enemy_bullets_def update_bullets_def armed_def
      move_enemy_bullet_def Let_def split: if_splits)

lemma tick_mod: "(t + 1) mod 60 = (if t mod 60 = 59 then 0 else t mod 60 + 1)" for t :: int
proof -
  have "(t + 1) mod 60 = (t mod 60 + 1) mod 60" by (simp add: mod_add_left_eq)
  moreover have "0 \<le> t mod 60" "t mod 60 < 60" by simp_all
  ultimately show ?thesis by (cases "t mod 60 = 59") (simp_all add: mod_pos_pos_trivial)
qed

lemma fire_enemy_bullet_cases:
  obtains (quiet) "fst (fire_enemy_bullet K es s h) = s"
  | (shot) e bs where "e \<in> set es" "e_active e"
      "spawn eb_active \<lparr>eb_x = e_x e + 20, eb_y = e_y e + 40, eb_active = True\<rparr> (enemy_bullets s) = Some bs"
      "fst (fire_enemy_bullet K es s h) = s\<lparr>enemy_bullets := bs\<rparr>"
proof -
  obtain q h' where q: "lcf_rand K h = (q, h')" by fastforce
  let ?pick = "find_shooter (c_mod q (int (count_active_enemies es))) 0 es"
  consider "count_active_enemies es = 0 \<or> ?pick = None" | e where "count_active_enemies es \<noteq> 0" "?pick = Some e"
    by fastforce
  then show ?thesis
  proof cases
    case 1
    then show ?thesis by (intro quiet) (auto simp: fire_enemy_bullet_def Let_def q)
  next
    case (2 e)
    then have e: "e \<in> set es" "e_active e" using find_shooter_member by blast+
    show ?thesis
    proof (cases "spawn eb_active \<lparr>eb_x = e_x e + 20, eb_y = e_y e + 40, eb_active = True\<rparr> (enemy_bullets s)")
      case None
      with 2 show ?thesis by (intro quiet) (simp add: fire_enemy_bullet_def Let_def q enemy_consts)
    next
      case (Some bs)
      with 2 show ?thesis by (intro shot [OF e Some]) (simp add: fire_enemy_bullet_def Let_def q enemy_consts)
    qed
  qed
qed

lemma fire_keeps_own:
  "fire_delay_counter (fst (fire_enemy_bullet K es s h)) = fire_delay_counter s"
  "bullets (fst (fire_enemy_bullet K es s h)) = bullets s"
  by (cases rule: fire_enemy_bullet_cases [of K es s h]; simp)+

lemma frame_ship_armed:
  assumes "armed t s" and "0 \<le> t" and "uint (YResolution m) < 1290"
    and "\<forall>e \<in> set es. e_active e \<longrightarrow> 50 \<le> e_y e"
  shows "armed (t + 1)
     (if c_mod (t + 1) 60 = 0 then fst (fire_enemy_bullet K es (frame_ship m s) h) else frame_ship m s)"
proof -
  let ?s = "frame_ship m s"
  note moved = frame_ship_moves [OF assms(1), of m]
  have own: "own_reload.spaced (fire_delay_counter ?s) (bullets ?s)" "own.shots (bullets ?s) \<le> 2"
    "0 \<le> fire_delay_counter ?s"
    using moved assms(1) by (auto simp: armed_def)
  have clock: "c_mod (t + 1) 60 = (t + 1) mod 60" using assms(2) by simp
  show ?thesis
  proof (cases "t mod 60 = 59")
    case False
    then have "(t + 1) mod 60 = t mod 60 + 1" "(t + 1) mod 60 \<noteq> 0"
      using pos_mod_sign [of 60 t] by (simp_all add: tick_mod del: pos_mod_sign)
    with own moved assms(1) clock show ?thesis by (simp add: armed_def)
  next
    case True
    then have zero: "(t + 1) mod 60 = 0" by (simp add: tick_mod)
    have spaced: "foe_reload.spaced 60 (enemy_bullets ?s)" using moved(4) True by simp
    have none: "foe.shots (enemy_bullets ?s) = 0"
      using foe_reload.few_in_flight [OF spaced, of 0] moved(6) assms(3) by fastforce
    show ?thesis
    proof (cases rule: fire_enemy_bullet_cases [of K es ?s h])
      case quiet
      with own none clock zero foe_reload.spaced_none [OF none] show ?thesis by (simp add: armed_def)
    next
      case (shot e bs)
      let ?b = "\<lparr>eb_x = e_x e + 20, eb_y = e_y e + 40, eb_active = True\<rparr>"
      have b: "eb_active ?b" "0 \<le> eb_y ?b - 90" using assms(4) shot(1,2) by auto
      have "foe_reload.spaced 0 bs" by (rule foe_reload.spaced_fire [OF spaced _ _ shot(3) b]) simp_all
      moreover have "foe.shots bs = 1" using foe.spawn_Some(1) [OF shot(3) b(1)] none by simp
      ultimately show ?thesis using own shot(4) clock zero by (simp add: armed_def)
    qed
  qed
qed

text \<open>A collision only takes shots away.\<close>

lemma stop_shots_fewer:
  "foe_reload.young c i (stop_shots P bs) \<le> foe_reload.young c i bs" "foe.shots (stop_shots P bs) \<le> foe.shots bs"
proof -
  have "length (filter (\<lambda>b. eb_active b \<and> Q (eb_y b)) (stop_shots P bs)) \<le>
      length (filter (\<lambda>b. eb_active b \<and> Q (eb_y b)) bs)" for Q
    by (induction bs) (auto simp: stop_shots_def intro: le_SucI)
  from this [of "\<lambda>y. y - 90 < 20 * c + int i * 1200"] this [of "\<lambda>y. True"]
  show "foe_reload.young c i (stop_shots P bs) \<le> foe_reload.young c i bs" "foe.shots (stop_shots P bs) \<le> foe.shots bs"
    by (simp_all add: foe_reload.young_def foe.shots_def)
qed

lemma check_bullet_enemy_fewer:
  assumes "check_bullet_enemy_collision bs es = (r, bs', es')" and "length bs = 10" and "length es = 18"
  shows "own_reload.young c i bs' \<le> own_reload.young c i bs"
    and "own.shots bs + count_active_enemies es' = own.shots bs' + count_active_enemies es"
    and "own.shots bs' \<le> own.shots bs"
proof -
  have "own_reload.young c i bs' \<le> own_reload.young c i bs \<and> own.shots bs' \<le> own.shots bs \<and>
      own.shots bs + count_active_enemies es' = own.shots bs' + count_active_enemies es"
  proof (cases rule: check_bullet_enemy_cases [OF assms(2,3), case_names hit miss])
    case (hit i' j)
    let ?bs = "bs[i' := (bs ! i')\<lparr>b_active := False\<rparr>]" and ?es = "es[j := (es ! j)\<lparr>e_active := False\<rparr>]"
    have "Suc (own.shots ?bs) = own.shots bs"
      unfolding own.shots_def by (rule length_filter_update_drop) (use hit assms in simp_all)
    moreover have "Suc (count_active_enemies ?es) = count_active_enemies es"
      unfolding count_active_enemies_def by (rule length_filter_update_drop) (use hit assms in simp_all)
    moreover have "own_reload.young c i ?bs \<le> own_reload.young c i bs"
      unfolding own_reload.young_def by (rule length_filter_update_out) simp
    ultimately show ?thesis using hit(6) assms(1) by simp
  next
    case miss
    with assms(1) show ?thesis by simp
  qed
  then show "own_reload.young c i bs' \<le> own_reload.young c i bs" "own.shots bs' \<le> own.shots bs"
    "own.shots bs + count_active_enemies es' = own.shots bs' + count_active_enemies es" by simp_all
qed

lemma armed_fewer:
  assumes "armed t s" and "\<And>c i. own_reload.young c i bs \<le> own_reload.young c i (bullets s)"
    and "own.shots bs \<le> own.shots (bullets s)"
  shows "armed t (s\<lparr>enemy_bullets := stop_shots P (enemy_bullets s), bullets := bs, shields := shs\<rparr>)"
  using assms own_reload.spaced_fewer [OF _ assms(2)] foe_reload.spaced_fewer [OF _ stop_shots_fewer(1) [where P = P]]
    le_trans [OF stop_shots_fewer(2) [of P]]
  by (auto simp: armed_def)


subsection \<open>The duel\<close>

text \<open>
  The invariant of a running game. Every shot counted is in flight, has killed an alien or has missed; \<open>n\<close>
  timer interrupts leave time for \<open>n div 30 + 1\<close> shots; the clock of the score counts them; and the final
  score, once computed, is the one shown last.
\<close>

definition tally :: "'h world \<Rightarrow> bool" where
  "tally w \<longleftrightarrow>
     (let c = current_score (w_score w); s = w_ship w;
          n = timer_counter (w_timer w) - game_start_time (w_score w)
      in 0 \<le> n \<and>
         18 + int (own.shots (bullets s)) \<le> bullets_fired c + int (count_active_enemies (enemies (w_enemies w))) \<and>
         (bullets_fired c = 0 \<or> 30 * (bullets_fired c - 1) + fire_delay_counter s \<le> n) \<and>
         game_time_seconds c = n div 60 \<and> (game_active (w_score w) \<or> final_score c = live_score c))"

definition duel :: "'h world \<Rightarrow> bool" where
  "duel w \<longleftrightarrow> armed (timer_counter (w_timer w)) (w_ship w) \<and> tally w"

lemma game_key_duel:
  assumes "duel w" and "wf_world m w" and "game_active (w_score w)"
  shows "duel (game_key K w)"
proof -
  let ?w = "read_key K w"
  obtain s c where a: "ship_action (mode_info (w_gfx w)) (scancode (w_kb ?w)) (w_ship w) (w_score w) = (s, c)"
    by fastforce
  have "armed (timer_counter (w_timer w)) (w_ship w)" "wf_ship (mode_info (w_gfx w)) (w_ship w)"
    using assms(1,2) by (auto simp: duel_def wf_world_def)
  note act = ship_action_armed [OF this a]
  let ?b = "bullets_fired (current_score (w_score w))" and ?b' = "bullets_fired (current_score c)"
  have c: "game_start_time c = game_start_time (w_score w)"
    "game_time_seconds (current_score c) = game_time_seconds (current_score (w_score w))"
    "?b' = ?b \<or> ?b' = ?b + 1" "game_active c = game_active (w_score w)"
    using ship_action_score [of "mode_info (w_gfx w)" "scancode (w_kb ?w)" "w_ship w" "w_score w"] a assms(3)
    by (auto simp: score_add_bullet_def)
  let ?n = "timer_counter (w_timer w) - game_start_time (w_score w)"
  have old: "?b = 0 \<or> 30 * (?b - 1) + fire_delay_counter (w_ship w) \<le> ?n" "0 \<le> ?n"
    using assms(1,2) by (auto simp: duel_def tally_def Let_def wf_world_def)
  have "?b' = 0 \<or> 30 * (?b' - 1) + fire_delay_counter s \<le> ?n"
  proof (cases "?b' = ?b")
    case True
    with old act(4) show ?thesis by auto
  next
    case False
    with act(3) c(3) have "30 \<le> fire_delay_counter (w_ship w)" "fire_delay_counter s = 0" "?b' = ?b + 1" by auto
    with old show ?thesis by auto
  qed
  with act(1,2) assms(1,3) c(1,2,4) a show ?thesis
    by (auto simp: duel_def tally_def game_key_def Let_def shape)
qed

lemma game_move_duel:
  assumes "duel w" and "wf_game m w" and "game_active (w_score w)" and "uint (YResolution m) < 1290"
  shows "duel (game_move K w)"
proof -
  have wf: "wf_gfx (w_gfx w)" "mode_info (w_gfx w) = m" "0 \<le> timer_counter (w_timer w)"
    "game_start_time (w_score w) \<le> timer_counter (w_timer w)"
    using assms(2) by (auto simp: wf_game_def wf_world_def)
  let ?f = "enemies_moving m (w_enemies w)" and ?t = "timer_counter (w_timer w)"
  have "wf_enemies (uint (XResolution m)) ?f" using enemies_moving_wf assms(2) by (simp add: wf_game_def)
  then have high: "\<forall>e \<in> set (enemies ?f). e_active e \<longrightarrow> 50 \<le> e_y e"
    by (auto simp: wf_enemies_def home_y_def dest!: in_formation_active)
  let ?s = "if c_mod (?t + 1) 60 = 0 then fst (fire_enemy_bullet K (enemies ?f) (frame_ship m (w_ship w)) (hw w))
     else frame_ship m (w_ship w)"
  have armed: "armed (?t + 1) ?s"
    by (rule frame_ship_armed [OF _ wf(3) assms(4) high]) (use assms(1) in \<open>simp add: duel_def\<close>)
  have ship: "fire_delay_counter ?s = fire_delay_counter (w_ship w) + 1"
    "own.shots (bullets ?s) \<le> own.shots (bullets (w_ship w))"
    using frame_ship_moves(1,3) [of ?t "w_ship w" m] assms(1) by (auto simp: duel_def fire_keeps_own)
  have alive: "count_active_enemies (enemies ?f) = count_active_enemies (enemies (w_enemies w))" by simp
  have eq: "game_move K w = w\<lparr>w_timer := timer_int_handler (w_timer w), w_gfx := clear_back_buf 0 (w_gfx w), w_ship := ?s,
      w_enemies := ?f, w_score := score_update_time (?t + 1) (w_score w), hw := hw (game_move K w)\<rparr>"
    unfolding game_move_eq [OF wf(1)]
    by (simp add: Let_def wf(2) timer_int_handler_def moved_ship_def frame_ship_def)
  show ?thesis
    using assms(1,3) armed ship alive wf(4)
    by (subst eq) (auto simp: duel_def tally_def Let_def score_update_time_def timer_int_handler_def)
qed

lemma game_collide_duel:
  assumes "duel w" and "wf_game m w"
  shows "duel (game_collide w)"
proof -
  let ?s = "w_ship w" and ?es = "enemies (w_enemies w)" and ?x = "uint (ship_x (w_ship w))"
  have len: "length (bullets ?s) = 10" "length ?es = 18"
    using assms(2) by (auto simp: wf_game_def wf_world_def wf_ship_def)
  obtain r bs es where 2: "check_bullet_enemy_collision (bullets ?s) ?es = (r, bs, es)" by (metis prod_cases3)
  note hit = check_bullet_enemy_fewer [OF 2 len]
  let ?ebs = "fst (check_enemy_bullet_collision ?x (enemy_bullets ?s) (player_lost w))"
  obtain P where P: "snd (check_shield_collision (shields ?s) ?ebs) = stop_shots P (enemy_bullets ?s)"
    unfolding check_shield_shots check_enemy_bullet_collision_def fst_conv stop_shots_def [symmetric] stop_shots_twice
    by blast
  have "own.shots bs \<le> own.shots (bullets ?s)"
    by (rule hit(3))
  then have "armed (timer_counter (w_timer w))
      (?s\<lparr>enemy_bullets := stop_shots P (enemy_bullets ?s), bullets := bs, shields := shs\<rparr>)" for shs
    using armed_fewer [OF _ hit(1)] assms(1) by (simp add: duel_def)
  with hit(2) assms(1) show ?thesis
    by (auto simp: duel_def tally_def game_collide_def Let_def case_prod_beta 2 P)
qed

lemma duel_gfx [simp]: "duel (w\<lparr>w_gfx := g\<rparr>) = duel w"
  by (simp add: duel_def tally_def)

lemma game_over_duel:
  assumes "duel w"
  shows "duel (ctl_state (game_over K w))"
proof -
  let ?c = "snd (score_calculate_final (w_score w))"
  have c: "bullets_fired (current_score ?c) = bullets_fired (current_score (w_score w))"
    "game_time_seconds (current_score ?c) = game_time_seconds (current_score (w_score w))"
    "game_active (w_score w) \<or> final_score (current_score (w_score w)) = live_score (current_score (w_score w)) \<Longrightarrow>
      final_score (current_score ?c) = live_score (current_score ?c)"
    by (auto simp: score_calculate_final_def live_score_def Let_def)
  obtain f c' h where s: "save_win_highscore K (w_file w) ?c (hw w) = (f, c', h)" by (metis prod_cases3)
  have "current_score c' = current_score ?c" "game_start_time c' = game_start_time (w_score w)"
    using save_win_score [of K "w_file w" ?c "hw w"] s by (simp_all add: shape)
  with assms c show ?thesis by (auto simp: game_over_def s duel_def tally_def Let_def shape)
qed

lemma game_handler_duel:
  assumes "duel w" and "running K m w" and "uint (YResolution m) < 1290"
  shows "duel (ctl_state (game_handler K irqs w))"
proof -
  let ?w = "if kb_pending w irqs then game_key K w else w"
  have wf: "wf_game m w" "wf_world m w" "game_active (w_score w)" using assms(2) by (auto simp: running_def wf_game_def)
  have k: "duel ?w" "wf_game m ?w" "game_active (w_score ?w)"
    using game_key_duel [OF assms(1) wf(2,3)] game_key_wf [OF wf(2)] assms(1) wf by (auto simp: wf_game_def shape)
  have "duel (game_collide (game_move K ?w))"
    by (rule game_collide_duel [OF game_move_duel [OF k assms(3)] game_move_wf [OF k(2)]])
  then have "duel (ctl_state (game_tick K ?w))"
    by (auto simp: game_tick_def Let_def game_over_duel split: prod.splits)
  with k(1) show ?thesis by (simp add: game_handler_def Let_def)
qed

interpretation duel_session: irq_session not_esc "game_handler K"
    "\<lambda>w. running K m w \<and> uint (YResolution m) < 1290 \<and> duel w" "\<lambda>r. duel" for K m
proof
  fix w w' :: "'a world" and irqs r
  assume w: "running K m w \<and> uint (YResolution m) < 1290 \<and> duel w"
  note d = game_handler_duel [of w K m irqs] game_handler_running [of K m w irqs]
  show "running K m w' \<and> uint (YResolution m) < 1290 \<and> duel w'" if "game_handler K irqs w = Continue w'"
    using d w that by fastforce
  show "duel w'" if "game_handler K irqs w = Return r w'" using d w that by simp
qed

lemma new_game_duel:
  assumes "wf_world m w" and "0 \<le> fire_delay_counter (w_ship w)"
  shows "duel (game_start (new_game w))"
proof -
  have len: "length (enemies (w_enemies w)) = 18" using assms(1) by (simp add: wf_world_def)
  have none: "own.shots (bullets (w_ship (new_game w))) = 0" "foe.shots (enemy_bullets (w_ship (new_game w))) = 0"
    by (auto simp: new_game_def init_shields_def init_enemy_bullets_def init_bullets_def Let_def
        own.shots_def foe.shots_def filter_empty_conv)
  have alive: "count_active_enemies (enemies (w_enemies (new_game w))) = 18"
    by (simp add: new_game_def init_enemies_list [OF len] count_active_enemies_def)
  have delay: "fire_delay_counter (w_ship (new_game w)) = fire_delay_counter (w_ship w)"
    by (simp add: new_game_def init_shields_def init_enemy_bullets_def init_bullets_def Let_def)
  show ?thesis
    using none alive delay assms(2) own_reload.spaced_none [OF none(1)] foe_reload.spaced_none [OF none(2)]
    by (simp add: duel_def armed_def tally_def game_start_def score_init_def zero_score_def)
qed

lemma game_duel:
  assumes "sprites_load K" and "wf_world m w" and "0 \<le> fire_delay_counter (w_ship w)" and "uint (YResolution m) < 1290"
  shows "duel (outcome_state (irq_loop not_esc (game_handler K) (game_start (new_game w)) ms))"
proof -
  have "running K m (game_start (new_game w))" by (rule game_start_running [OF assms(1) new_game_wf(1) [OF assms(2)]])
  from duel_session.loop_result [where m = m, of K "game_start (new_game w)" ms] this new_game_duel [OF assms(2,3)] assms(4)
  show ?thesis by (auto split: outcome.splits)
qed


subsection \<open>Properties\<close>

text \<open>C7. On a screen less than 1290 lines high, at most two shots of the ship and one of the aliens are in
  flight at any moment of a game, whatever the player does. So the arrays of ten slots are never full: a
  shot that is fired always finds a free slot. The counter \<open>fire_delay_counter\<close> starts at 150 and is only
  ever counted up or reset to 0, so it is not negative when a game starts.\<close>

theorem shots_in_flight:
  fixes w :: "'h world" and ms :: "recv list"
  assumes "sprites_load K" and "wf_world m w" and "0 \<le> fire_delay_counter (w_ship w)" and "uint (YResolution m) < 1290"
  defines "s \<equiv> w_ship (outcome_state (game_state K (new_game w) ms))"
  shows "length (filter b_active (bullets s)) \<le> 2 \<and> length (filter eb_active (enemy_bullets s)) \<le> 1 \<and>
    spawn b_active b (bullets s) \<noteq> None \<and> spawn eb_active e (enemy_bullets s) \<noteq> None"
proof -
  have same: "s = w_ship (outcome_state (irq_loop not_esc (game_handler K) (game_start (new_game w)) ms))"
    by (auto simp: s_def game_state_def split: outcome.splits)
  have "wf_game m (outcome_state (game_state K (new_game w) ms))"
    by (rule game_state_wf [OF assms(1) new_game_wf(1) [OF assms(2)]])
  then have len: "length (bullets s) = 10" "length (enemy_bullets s) = 10"
    by (auto simp: s_def wf_game_def wf_world_def wf_ship_def)
  have "own.shots (bullets s) \<le> 2" "foe.shots (enemy_bullets s) \<le> 1"
    using game_duel [OF assms(1-4), of ms] unfolding same by (auto simp: duel_def armed_def)
  with len show ?thesis
    using own.spawn_None [of b "bullets s"] foe.spawn_None [of e "enemy_bullets s"]
    by (auto simp: own.shots_def foe.shots_def)
qed

text \<open>C8. What a game costs. At every moment, with \<open>k\<close> aliens shot in \<open>n\<close> timer interrupts: at least \<open>k\<close> shots
  are counted, at most one for every 30 interrupts and one more, and so the score, which is the final
  score once the game is over, is at most \<open>10000 - 50 * k - 10 * (30 * (k - 1) div 60)\<close>. A game that is won
  (\<open>k = 18\<close>) takes more than 500 interrupts and cannot score more than 9020 of the 10000 points.\<close>

theorem score_bounded_by_kills:
  fixes w :: "'h world" and ms :: "recv list"
  assumes "sprites_load K" and "wf_world m w" and "0 \<le> fire_delay_counter (w_ship w)" and "uint (YResolution m) < 1290"
  defines "w' \<equiv> outcome_state (irq_loop not_esc (game_handler K) (game_start (new_game w)) ms)"
  defines "c \<equiv> current_score (w_score w')" and "n \<equiv> timer_counter (w_timer w') - game_start_time (w_score w')"
    and "k \<equiv> 18 - int (count_active_enemies (enemies (w_enemies w')))"
  shows "k \<le> bullets_fired c \<and> bullets_fired c \<le> n div 30 + 1 \<and> game_time_seconds c = n div 60 \<and>
    live_score c \<le> 10000 - 50 * k - 10 * (30 * (k - 1) div 60) \<and>
    (game_active (w_score w') \<or> final_score c = live_score c)"
proof -
  have d: "duel w'" using game_duel [OF assms(1-4), of ms] by (simp add: w'_def)
  have time: "game_time_seconds c = n div 60" "game_active (w_score w') \<or> final_score c = live_score c"
    and kills: "k \<le> bullets_fired c"
    using d by (auto simp: duel_def tally_def Let_def c_def n_def k_def)
  have rate: "bullets_fired c = 0 \<or> 30 * (bullets_fired c - 1) \<le> n" and pos: "0 \<le> n"
    using d by (auto simp: duel_def tally_def armed_def Let_def c_def n_def)
  then have rate: "30 * (bullets_fired c - 1) \<le> n" by auto
  then have "30 * (bullets_fired c - 1) div 30 \<le> n div 30" by (rule zdiv_mono1) simp
  then have shots: "bullets_fired c \<le> n div 30 + 1" by simp
  have "30 * (k - 1) \<le> n" using rate kills by auto
  then have "30 * (k - 1) div 60 \<le> n div 60" by (rule zdiv_mono1) simp
  moreover have "k \<le> 18" by (simp add: k_def)
  ultimately show ?thesis using time kills shots by (auto simp: live_score_def Let_def)
qed

lemma demo_duel: "wf_world mode_14c demo_world" "0 \<le> fire_delay_counter (w_ship demo_world)"
  "uint (YResolution mode_14c) < 1290"
  using demo_world_wf by (simp_all add: wf_game_def demo_world_def ship_init_st_def mode_14c_def)

lemma shots_in_flight_witness:
  "length (filter b_active (bullets (w_ship (outcome_state
     (game_state blank_kernel (new_game demo_world) (replicate 400 (hw_msg 3))))))) \<le> 2"
  using shots_in_flight [OF blank_sprites_load [OF blank_kernel_load] demo_duel, of "replicate 400 (hw_msg 3)"]
  by blast

lemma score_bounded_by_kills_witness:
  "bullets_fired (current_score (w_score (outcome_state (irq_loop not_esc (game_handler blank_kernel)
     (game_start (new_game demo_world)) [hw_msg 3, hw_msg 1])))) \<le>
   (timer_counter (w_timer (outcome_state (irq_loop not_esc (game_handler blank_kernel)
     (game_start (new_game demo_world)) [hw_msg 3, hw_msg 1]))) -
    game_start_time (w_score (outcome_state (irq_loop not_esc (game_handler blank_kernel)
     (game_start (new_game demo_world)) [hw_msg 3, hw_msg 1])))) div 30 + 1"
  using score_bounded_by_kills [OF blank_sprites_load [OF blank_kernel_load] demo_duel, of "[hw_msg 3, hw_msg 1]"]
  by blast

end
