(* ===== verification/Mouse.thy ===== *)
theory Mouse
  imports Machine
begin

text \<open>
  The PS/2 mouse driver of \<open>controllers/mouse\<close> (\<open>kb_controller.c\<close> and \<open>m_interrupts.c\<close>, with the
  constants of its \<open>i8042.h\<close>). The game does not link it; it is the driver of the fourth lab exercise.

  The lemmas show that the three writing loops give up after three busy attempts, when the command
  handler returns and when it never does, and that parsing inverts the packet format of the mouse.
\<close>

subsection \<open>Constants of i8042.h\<close>

definition MOUSE_IRQ :: int where "MOUSE_IRQ = 12"
definition OUT_BUF :: int where "OUT_BUF = 0x60"
definition CMD_ARGS_REG :: int where "CMD_ARGS_REG = 0x60"
definition STATUS_REG :: int where "STATUS_REG = 0x64"
definition CMD_REG :: int where "CMD_REG = 0x64"
definition DELAY_US :: int where "DELAY_US = 20000"
definition KBC_PARE :: u8 where "KBC_PARE = BIT 7"
definition KBC_TIMEO :: u8 where "KBC_TIMEO = BIT 6"
definition KBC_INPB :: u8 where "KBC_INPB = BIT 1"
definition KBC_OUTB :: u8 where "KBC_OUTB = BIT 0"
definition WRITE_CMD_B :: u32 where "WRITE_CMD_B = 0x60"
definition WRITE_B_MOUSE :: u32 where "WRITE_B_MOUSE = 0xD4"
definition MOUSE_ENABLE_REPORT :: u32 where "MOUSE_ENABLE_REPORT = 0xF4"
definition MOUSE_DISABLE_REPORT :: u32 where "MOUSE_DISABLE_REPORT = 0xF5"
definition ACK :: u8 where "ACK = 0xFA"
definition NACK :: u8 where "NACK = 0xFE"
definition ERROR :: u8 where "ERROR = 0xFC"
definition PK_LB :: u8 where "PK_LB = BIT 0"
definition PK_RB :: u8 where "PK_RB = BIT 1"
definition PK_MB :: u8 where "PK_MB = BIT 2"
definition PK_BIT3 :: u8 where "PK_BIT3 = BIT 3"
definition PK_XSIGN :: u8 where "PK_XSIGN = BIT 4"
definition PK_YSIGN :: u8 where "PK_YSIGN = BIT 5"
definition PK_XOVF :: u8 where "PK_XOVF = BIT 6"
definition PK_YOVF :: u8 where "PK_YOVF = BIT 7"

lemmas mouse_ports = OUT_BUF_def CMD_ARGS_REG_def STATUS_REG_def CMD_REG_def
lemmas status_bits = KBC_PARE_def KBC_TIMEO_def KBC_INPB_def KBC_OUTB_def
lemmas mouse_answers = ACK_def NACK_def ERROR_def
lemmas packet_bits = PK_LB_def PK_RB_def PK_MB_def PK_BIT3_def PK_XSIGN_def PK_YSIGN_def
  PK_XOVF_def PK_YOVF_def


subsection \<open>kb_controller.c\<close>

definition kbc_read_status :: "'h kernel \<Rightarrow> 'h \<Rightarrow> u8 option \<times> 'h" where
  "kbc_read_status K h =
     (case sys_inb K STATUS_REG h of (None, h') \<Rightarrow> (None, h') | (Some status, h') \<Rightarrow> (Some (ucast status), h'))"

definition kbc_read_buffer :: "'h kernel \<Rightarrow> 'h \<Rightarrow> u8 option \<times> 'h" where
  "kbc_read_buffer K h =
     (case sys_inb K OUT_BUF h of (None, h') \<Rightarrow> (None, h') | (Some v, h') \<Rightarrow> (Some (ucast v), h'))"

definition kbc_check_out_buf :: "'h kernel \<Rightarrow> 'h \<Rightarrow> bool \<times> 'h" where
  "kbc_check_out_buf K h =
     (case kbc_read_status K h of
        (None, h') \<Rightarrow> (False, h')
      | (Some status, h') \<Rightarrow>
          (if status AND KBC_OUTB \<noteq> 0 then status AND (KBC_PARE OR KBC_TIMEO) = 0 else False, h'))"

definition kbc_check_in_buf :: "'h kernel \<Rightarrow> 'h \<Rightarrow> bool \<times> 'h" where
  "kbc_check_in_buf K h =
     (case kbc_read_status K h of
        (None, h') \<Rightarrow> (False, h')
      | (Some status, h') \<Rightarrow> (status AND KBC_INPB = 0, h'))"

text \<open>One pass of the loops \<open>while (tries++ < 3)\<close>: with the input buffer empty, the write settles the
  call; otherwise the driver waits.\<close>

definition write_pass :: "'h kernel \<Rightarrow> ('h \<Rightarrow> 'r \<times> 'h) \<Rightarrow> 'h \<Rightarrow> ('r, 'h) attempt" where
  "write_pass K act h =
     (case kbc_check_in_buf K h of (free, h1) \<Rightarrow>
        if free then (case act h1 of (r, h2) \<Rightarrow> Settled r h2) else Busy (tickdelay_us K DELAY_US h1))"

definition write_reg :: "'h kernel \<Rightarrow> int \<Rightarrow> u32 \<Rightarrow> 'h \<Rightarrow> int \<times> 'h" where
  "write_reg K reg v h = (case sys_outb K reg v h of (r, h') \<Rightarrow> (if r \<noteq> 0 then 1 else 0, h'))"

definition kbc_write_command :: "'h kernel \<Rightarrow> u32 \<Rightarrow> 'h \<Rightarrow> int \<times> 'h" where
  "kbc_write_command K cmd h =
     (case retry 3 (write_pass K (write_reg K CMD_REG cmd)) h of
        (Some r, h') \<Rightarrow> (r, h') | (None, h') \<Rightarrow> (1, h'))"

definition kbc_write_argument :: "'h kernel \<Rightarrow> u32 \<Rightarrow> 'h \<Rightarrow> int \<times> 'h" where
  "kbc_write_argument K arg h =
     (case retry 3 (write_pass K (write_reg K CMD_ARGS_REG arg)) h of
        (Some r, h') \<Rightarrow> (r, h') | (None, h') \<Rightarrow> (1, h'))"

text \<open>The answer is \<open>None\<close> where \<open>*ans\<close> is not written; then the result is 1.\<close>

definition send_mouse_byte :: "'h kernel \<Rightarrow> u32 \<Rightarrow> 'h \<Rightarrow> u8 option \<times> 'h" where
  "send_mouse_byte K cmd h =
     (case sys_outb K CMD_ARGS_REG cmd h of (r, h1) \<Rightarrow>
        if r \<noteq> 0 then (None, h1)
        else (case sys_inb K OUT_BUF (tickdelay_us K DELAY_US h1) of
                (None, h2) \<Rightarrow> (None, h2) | (Some v, h2) \<Rightarrow> (Some (ucast v), h2)))"

definition mouse_write_command :: "'h kernel \<Rightarrow> u32 \<Rightarrow> 'h \<Rightarrow> u8 option \<times> 'h" where
  "mouse_write_command K cmd h =
     (case retry 3 (write_pass K (send_mouse_byte K cmd)) h of
        (Some ans, h') \<Rightarrow> (ans, h') | (None, h') \<Rightarrow> (None, h'))"

text \<open>
  The loop \<open>do ... while (tries < 3)\<close> of \<open>kbc_command_handler\<close>; \<open>tries\<close> only counts the NACKs, so the
  loop may run for ever (\<open>None\<close>).
\<close>

partial_function (option) command_loop ::
  "'h kernel \<Rightarrow> u32 \<Rightarrow> u32 \<Rightarrow> nat \<Rightarrow> 'h \<Rightarrow> (int \<times> 'h) option" where
  "command_loop K cmd arg tries h =
     (case kbc_write_command K cmd h of (r, h1) \<Rightarrow>
        if r \<noteq> 0 then Some (1, h1)
        else if cmd = WRITE_B_MOUSE then
          (case mouse_write_command K arg h1 of
             (None, h2) \<Rightarrow> Some (1, h2)
           | (Some ans, h2) \<Rightarrow>
               if ans = ACK then Some (0, h2)
               else if ans = NACK then
                 (if tries + 1 < 3 then command_loop K cmd arg (tries + 1) h2 else Some (1, h2))
               else if ans = ERROR then Some (1, h2)
               else if tries < 3 then command_loop K cmd arg tries h2 else Some (1, h2))
        else if cmd = WRITE_CMD_B then
          (case kbc_write_argument K arg h1 of (r, h2) \<Rightarrow> Some (if r \<noteq> 0 then 1 else 0, h2))
        else if tries < 3 then command_loop K cmd arg tries h1 else Some (1, h1))"

definition kbc_command_handler :: "'h kernel \<Rightarrow> u32 \<Rightarrow> u32 \<Rightarrow> 'h \<Rightarrow> (int \<times> 'h) option" where
  "kbc_command_handler K cmd arg h = command_loop K cmd arg 0 h"


subsection \<open>m_interrupts.c\<close>

record mouse_st =
  mouse_hookID :: int
  mouse_data :: u8

definition mouse_init_st :: mouse_st where
  "mouse_init_st = \<lparr>mouse_hookID = 2, mouse_data = 0\<rparr>"

text \<open>The mask is the bit of the hook number before the kernel call replaces it.\<close>

definition mouse_subscribe_int ::
  "'h kernel \<Rightarrow> ptr \<Rightarrow> mouse_st \<Rightarrow> 'h \<Rightarrow> int \<times> u8 option \<times> mouse_st \<times> 'h" where
  "mouse_subscribe_int K irq_mask s h =
     (if irq_mask = NULL then (1, None, s, h)
      else case sys_irqsetpolicy K MOUSE_IRQ (IRQ_REENABLE OR IRQ_EXCLUSIVE) (mouse_hookID s) h of
        (r, hook, h') \<Rightarrow>
          (if r \<noteq> 0 then 1 else 0, Some (BIT (nat (mouse_hookID s))), s\<lparr>mouse_hookID := hook\<rparr>, h'))"

definition mouse_unsubscribe_int :: "'h kernel \<Rightarrow> mouse_st \<Rightarrow> 'h \<Rightarrow> int \<times> 'h" where
  "mouse_unsubscribe_int K s h =
     (case sys_irqrmpolicy K (mouse_hookID s) h of (r, h') \<Rightarrow> (if r \<noteq> 0 then 1 else 0, h'))"


record packet =
  pk_bytes :: "u8 list"
  pk_rb :: bool
  pk_mb :: bool
  pk_lb :: bool
  delta_x :: i16
  delta_y :: i16
  x_ov :: bool
  y_ov :: bool

definition move16 :: "u8 \<Rightarrow> u8 \<Rightarrow> u8 \<Rightarrow> i16" where
  "move16 flags sign b =
     (let m = ucast b :: i16 in if flags AND sign \<noteq> 0 then m OR 0xFF00 else m)"

text \<open>The loop that copies \<open>len\<close> bytes into the array of three; \<open>None\<close> is an access outside.\<close>

fun copy_bytes :: "nat list \<Rightarrow> u8 list \<Rightarrow> u8 list \<Rightarrow> u8 list option" where
  "copy_bytes [] buf dst = Some dst"
| "copy_bytes (i # is) buf dst =
     (if i < length buf \<and> i < length dst then copy_bytes is buf (dst[i := buf ! i]) else None)"

text \<open>The arguments are \<open>None\<close> for \<open>NULL\<close>; the result is \<open>None\<close> for an access outside an array.\<close>

definition mouse_parse_packet :: "packet option \<Rightarrow> u8 list option \<Rightarrow> u8 \<Rightarrow> packet option option" where
  "mouse_parse_packet pkt buf len =
     (case (pkt, buf) of
        (Some p, Some b) \<Rightarrow>
          if length b < 3 then None
          else
            let flags = b ! 0;
                p1 = p\<lparr>pk_lb := flags AND PK_LB \<noteq> 0, pk_rb := flags AND PK_RB \<noteq> 0,
                       pk_mb := flags AND PK_MB \<noteq> 0,
                       delta_x := move16 flags PK_XSIGN (b ! 1), delta_y := move16 flags PK_YSIGN (b ! 2),
                       x_ov := flags AND PK_XOVF \<noteq> 0, y_ov := flags AND PK_YOVF \<noteq> 0\<rparr>
            in map_option (\<lambda>bs. Some (p1\<lparr>pk_bytes := bs\<rparr>)) (copy_bytes [0..<unat len] b (pk_bytes p))
      | _ \<Rightarrow> Some pkt)"

definition mouse_ih :: "'h kernel \<Rightarrow> mouse_st \<Rightarrow> 'h \<Rightarrow> mouse_st \<times> 'h" where
  "mouse_ih K s h =
     (case kbc_check_out_buf K h of (full, h1) \<Rightarrow>
        if full then
          (case kbc_read_buffer K h1 of (None, h2) \<Rightarrow> (s, h2) | (Some v, h2) \<Rightarrow> (s\<lparr>mouse_data := v\<rparr>, h2))
        else (s, h1))"


subsection \<open>Polling\<close>

definition input_free :: "'h kernel \<Rightarrow> 'h \<Rightarrow> bool" where
  "input_free K h \<longleftrightarrow> fst (kbc_check_in_buf K h)"

definition input_wait :: "'h kernel \<Rightarrow> 'h \<Rightarrow> 'h" where
  "input_wait K h = tickdelay_us K DELAY_US (snd (kbc_check_in_buf K h))"

interpretation mouse_write: polling "write_pass K act" "input_free K" "input_wait K"
    "\<lambda>h. act (snd (kbc_check_in_buf K h))" for K act
  by unfold_locales (simp_all add: write_pass_def input_free_def input_wait_def case_prod_beta)

text \<open>The answers of a mouse that keeps to its protocol.\<close>

definition mouse_answers_ok :: "'h kernel \<Rightarrow> u32 \<Rightarrow> bool" where
  "mouse_answers_ok K arg \<longleftrightarrow>
     (\<forall>h ans h'. mouse_write_command K arg h = (Some ans, h') \<longrightarrow> ans \<in> {ACK, NACK, ERROR})"

lemma command_loop_returns:
  assumes "cmd = WRITE_CMD_B \<or> cmd = WRITE_B_MOUSE \<and> mouse_answers_ok K arg"
  shows "\<exists>r h'. command_loop K cmd arg tries h = Some (r, h') \<and> (r = 0 \<or> r = 1)"
proof (induction "3 - tries" arbitrary: tries h rule: less_induct)
  case less
  obtain r1 h1 where 1: "kbc_write_command K cmd h = (r1, h1)" by fastforce
  show ?case
  proof (cases "r1 = 0 \<and> cmd = WRITE_B_MOUSE")
    case False
    with assms 1 show ?thesis by (subst command_loop.simps) (auto split: prod.splits)
  next
    case True
    obtain a h2 where 2: "mouse_write_command K arg h1 = (a, h2)" by fastforce
    have ne: "ACK \<noteq> NACK" "ACK \<noteq> ERROR" "NACK \<noteq> ERROR" by (simp_all add: mouse_answers)
    show ?thesis
    proof (cases "a = Some NACK \<and> tries + 1 < 3")
      case nack: True
      have "\<exists>r h'. command_loop K cmd arg (tries + 1) h2 = Some (r, h') \<and> (r = 0 \<or> r = 1)"
        using nack by (intro less) linarith
      with True 1 2 nack ne show ?thesis by (subst command_loop.simps) simp
    next
      case other: False
      have "a = None \<or> a = Some ACK \<or> a = Some NACK \<or> a = Some ERROR"
        using assms True 2 by (cases a) (auto simp: mouse_answers_ok_def WRITE_CMD_B_def WRITE_B_MOUSE_def)
      with True 1 2 other ne show ?thesis by (subst command_loop.simps) auto
    qed
  qed
qed

lemma command_loop_stuck:
  assumes "\<And>h. \<exists>h'. kbc_write_command K cmd h = (0, h')" and "cmd \<noteq> WRITE_CMD_B"
    and "cmd = WRITE_B_MOUSE \<Longrightarrow> (\<And>h. \<exists>ans h'. mouse_write_command K arg h = (Some ans, h') \<and> ans \<notin> {ACK, NACK, ERROR})"
    and "tries < 3"
  shows "command_loop K cmd arg tries h = None"
proof (rule ccontr)
  let ?P = "\<lambda>K' cmd' arg' tries h y. K' = K \<and> cmd' = cmd \<and> arg' = arg \<and> tries < 3 \<longrightarrow> False"
  assume "command_loop K cmd arg tries h \<noteq> None"
  then obtain y where "command_loop K cmd arg tries h = Some y" by blast
  then have "?P K cmd arg tries h y"
  proof (rule command_loop.raw_induct [where P = ?P, rotated])
    fix f K' cmd' arg' tries h y
    assume IH: "\<And>K' cmd' arg' tries h y. f K' cmd' arg' tries h = Some y \<Longrightarrow> ?P K' cmd' arg' tries h y"
      and body: "(case kbc_write_command K' cmd' h of (r, h1) \<Rightarrow>
        if r \<noteq> 0 then Some (1, h1)
        else if cmd' = WRITE_B_MOUSE then
          (case mouse_write_command K' arg' h1 of
             (None, h2) \<Rightarrow> Some (1, h2)
           | (Some ans, h2) \<Rightarrow>
               if ans = ACK then Some (0, h2)
               else if ans = NACK then
                 (if tries + 1 < 3 then f K' cmd' arg' (tries + 1) h2 else Some (1, h2))
               else if ans = ERROR then Some (1, h2)
               else if tries < 3 then f K' cmd' arg' tries h2 else Some (1, h2))
        else if cmd' = WRITE_CMD_B then
          (case kbc_write_argument K' arg' h1 of (r, h2) \<Rightarrow> Some (if r \<noteq> 0 then 1 else 0, h2))
        else if tries < 3 then f K' cmd' arg' tries h1 else Some (1, h1)) = Some y"
    show "?P K' cmd' arg' tries h y"
    proof
      assume *: "K' = K \<and> cmd' = cmd \<and> arg' = arg \<and> tries < 3"
      obtain h1 where 1: "kbc_write_command K cmd h = (0, h1)" using assms(1) by blast
      show False
      proof (cases "cmd = WRITE_B_MOUSE")
        case True
        obtain ans h2 where "mouse_write_command K arg h1 = (Some ans, h2)" "ans \<notin> {ACK, NACK, ERROR}"
          using assms(3) [OF True] by blast
        with body * 1 True IH [of K cmd arg tries h2] show ?thesis by simp
      next
        case False
        with body * 1 assms(2) IH [of K cmd arg tries h1] show ?thesis by simp
      qed
    qed
  qed
  with assms(4) show False by blast
qed


subsection \<open>Packets\<close>

text \<open>The format of the device: flags, and two movements in 9-bit two's complement.\<close>

definition flag :: "bool \<Rightarrow> nat \<Rightarrow> u8" where
  "flag b n = (if b then BIT n else 0)"

definition device_packet :: "bool \<Rightarrow> bool \<Rightarrow> bool \<Rightarrow> int \<Rightarrow> int \<Rightarrow> bool \<Rightarrow> bool \<Rightarrow> u8 list" where
  "device_packet lb rb mb dx dy xo yo =
     [flag lb 0 OR flag rb 1 OR flag mb 2 OR flag True 3 OR flag (dx < 0) 4 OR flag (dy < 0) 5 OR
        flag xo 6 OR flag yo 7, word_of_int dx, word_of_int dy]"

lemma bit_flag: "bit (flag b n) k \<longleftrightarrow> b \<and> k = n \<and> n < 8"
  by (auto simp: flag_def BIT_def bit_simps)

lemma ucast_or_sign: "(ucast (b :: u8) :: i16) OR 0xFF00 = ucast b + 0xFF00"
proof -
  have apart: "(ucast b :: i16) AND push_bit 8 x = 0" for x :: i16
    by (rule bit_word_eqI) (auto simp: bit_simps dest: bit_imp_le_length)
  have "(0xFF00 :: i16) = push_bit 8 0xFF" by simp
  with apart have "(ucast b :: i16) AND 0xFF00 = 0" by metis
  from disjunctive_add_eq_or [OF this] show ?thesis by simp
qed

lemma sint_i16: "- 32768 \<le> k \<Longrightarrow> k < 32768 \<Longrightarrow> sint (word_of_int k :: i16) = k"
proof -
  assume "- 32768 \<le> k" "k < 32768"
  then have "signed_take_bit 15 k = k" by (intro signed_take_bit_int_eq_self) simp_all
  then show ?thesis by (simp add: signed_of_int)
qed

lemma sint_move16:
  "sint (move16 flags sign b) = (if flags AND sign \<noteq> 0 then uint b - 256 else uint b)"
proof -
  have b: "0 \<le> uint b" "uint b < 256" using uint_bounded [of b] by simp_all
  have "(ucast b + 0xFF00 :: i16) = word_of_int (uint b) + word_of_int (- 256)" by simp
  also have "\<dots> = word_of_int (uint b - 256)" by (simp only: wi_hom_add) simp
  finally have high: "(ucast b + 0xFF00 :: i16) = word_of_int (uint b - 256)" .
  show ?thesis
    using sint_i16 [of "uint b"] sint_i16 [of "uint b - 256"] b
    by (simp add: move16_def ucast_or_sign high)
qed

lemma uint_byte: "- 256 \<le> k \<Longrightarrow> k < 256 \<Longrightarrow> uint (word_of_int k :: u8) = (if k < 0 then k + 256 else k)"
  by (simp add: uint_word_of_int) presburger


subsection \<open>Properties\<close>

text \<open>C28. The parser inverts the packet format of the mouse: for all buttons, overflow flags and all movements
  of the 9-bit range it gives back what the device encoded, sign included, and a copy of the three
  bytes.\<close>

theorem packet_roundtrip:
  assumes "- 256 \<le> dx" "dx < 256" "- 256 \<le> dy" "dy < 256" and "length (pk_bytes p) = 3"
  shows "\<exists>q. mouse_parse_packet (Some p) (Some (device_packet lb rb mb dx dy xo yo)) 3 = Some (Some q) \<and>
     pk_lb q = lb \<and> pk_rb q = rb \<and> pk_mb q = mb \<and> sint (delta_x q) = dx \<and> sint (delta_y q) = dy \<and>
     x_ov q = xo \<and> y_ov q = yo \<and> pk_bytes q = device_packet lb rb mb dx dy xo yo"
proof -
  let ?b = "device_packet lb rb mb dx dy xo yo"
  let ?f = "?b ! 0"
  have f: "bit ?f 0 = lb" "bit ?f 1 = rb" "bit ?f 2 = mb" "bit ?f 4 = (dx < 0)" "bit ?f 5 = (dy < 0)"
    "bit ?f 6 = xo" "bit ?f 7 = yo"
    by (auto simp: device_packet_def bit_or_iff bit_flag)
  have d: "sint (move16 ?f PK_XSIGN (?b ! 1)) = dx" "sint (move16 ?f PK_YSIGN (?b ! 2)) = dy"
    using assms(1-4) f uint_byte [of dx] uint_byte [of dy]
    by (simp_all add: sint_move16 packet_bits) (simp_all add: device_packet_def)
  have len: "length ?b = 3" by (simp add: device_packet_def)
  obtain c0 c1 c2 where p: "pk_bytes p = [c0, c1, c2]"
    using assms(5) by (auto simp: eval_nat_numeral length_Suc_conv)
  have c: "copy_bytes [0..<3] ?b (pk_bytes p) = Some ?b"
    by (simp add: p device_packet_def upt_rec)
  show ?thesis
    using d f by (simp add: mouse_parse_packet_def len Let_def c packet_bits)
qed

lemma packet_roundtrip_witness:
  "\<exists>q. mouse_parse_packet
       (Some \<lparr>pk_bytes = [0, 0, 0], pk_rb = False, pk_mb = False, pk_lb = False, delta_x = 0, delta_y = 0,
          x_ov = False, y_ov = False\<rparr>)
       (Some (device_packet True False False (- 5) 200 False False)) 3 = Some (Some q) \<and> sint (delta_x q) = - 5"
  using packet_roundtrip [of "- 5" 200 "\<lparr>pk_bytes = [0, 0, 0], pk_rb = False, pk_mb = False, pk_lb = False,
      delta_x = 0, delta_y = 0, x_ov = False, y_ov = False\<rparr>" True False False False False]
  by auto

text \<open>C29. When the command handler returns. A command that writes the command byte, or a mouse command to a
  mouse that answers with acknowledge, resend or error, always returns 0 or 1, whatever the ports do.
  But any other command the controller accepts, and any mouse command answered by another byte, makes
  it write the same command for ever: only the resend answers are counted.\<close>

theorem command_handler_termination:
  "(cmd = WRITE_CMD_B \<or> cmd = WRITE_B_MOUSE \<and> mouse_answers_ok K arg \<longrightarrow>
      (\<exists>r h'. kbc_command_handler K cmd arg h = Some (r, h') \<and> (r = 0 \<or> r = 1))) \<and>
   ((\<forall>h. \<exists>h'. kbc_write_command K cmd h = (0, h')) \<and> cmd \<noteq> WRITE_CMD_B \<and>
      (cmd = WRITE_B_MOUSE \<longrightarrow>
         (\<forall>h. \<exists>ans h'. mouse_write_command K arg h = (Some ans, h') \<and> ans \<notin> {ACK, NACK, ERROR})) \<longrightarrow>
      kbc_command_handler K cmd arg h = None)"
  using command_loop_returns [of cmd K arg 0 h] command_loop_stuck [of K cmd arg 0 h]
  by (simp add: kbc_command_handler_def)

lemma idle_kernel_writes:
  "kbc_write_command (demo_kernel 0) cmd l = (0, l @ [(CMD_REG, 0), (CMD_REG, cmd)])"
  "mouse_write_command (demo_kernel 0) cmd l = (Some 0, l @ [(STATUS_REG, 0), (CMD_ARGS_REG, cmd), (OUT_BUF, 0)])"
proof -
  have pass: "retry 3 (write_pass (demo_kernel 0) act) l = (Some (fst (act (l @ [(STATUS_REG, 0)]))), snd (act (l @ [(STATUS_REG, 0)])))"
    for act :: "port_log \<Rightarrow> 'r \<times> port_log"
    by (simp add: eval_nat_numeral write_pass_def kbc_check_in_buf_def kbc_read_status_def demo_kernel_def
        log_kernel_def case_prod_beta)
  have acts: "write_reg (demo_kernel 0) p v l = (0, l @ [(p, v)])"
    "send_mouse_byte (demo_kernel 0) v l = (Some 0, l @ [(CMD_ARGS_REG, v), (OUT_BUF, 0)])" for p v l
    by (simp_all add: write_reg_def send_mouse_byte_def demo_kernel_def log_kernel_def)
  show "kbc_write_command (demo_kernel 0) cmd l = (0, l @ [(CMD_REG, 0), (CMD_REG, cmd)])"
    by (simp add: kbc_write_command_def pass acts mouse_ports)
  show "mouse_write_command (demo_kernel 0) cmd l = (Some 0, l @ [(STATUS_REG, 0), (CMD_ARGS_REG, cmd), (OUT_BUF, 0)])"
    by (simp add: mouse_write_command_def pass acts)
qed

lemma command_handler_termination_witness:
  "kbc_command_handler (demo_kernel 0) 0xAA 0 [] = None \<and>
   kbc_command_handler (demo_kernel 0) WRITE_B_MOUSE MOUSE_ENABLE_REPORT [] = None \<and>
   (\<exists>r h. kbc_command_handler (demo_kernel 0) WRITE_CMD_B 0 [] = Some (r, h))"
  using command_handler_termination [of "0xAA" "demo_kernel 0" 0 "[]"]
    command_handler_termination [of WRITE_B_MOUSE "demo_kernel 0" MOUSE_ENABLE_REPORT "[]"]
    command_handler_termination [of WRITE_CMD_B "demo_kernel 0" 0 "[]"]
  by (auto simp: idle_kernel_writes mouse_answers WRITE_B_MOUSE_def WRITE_CMD_B_def)

text \<open>A controller whose input buffer stays full through three status reads gets nothing: each of the three
  writing functions fails, and all it did is to read the status and wait, three times.\<close>

theorem mouse_writes_give_up:
  assumes "\<forall>k < 3. \<not> input_free K ((input_wait K ^^ k) h)"
  shows "kbc_write_command K v h = (1, (input_wait K ^^ 3) h) \<and>
         kbc_write_argument K v h = (1, (input_wait K ^^ 3) h) \<and>
         mouse_write_command K v h = (None, (input_wait K ^^ 3) h)"
  by (simp add: kbc_write_command_def kbc_write_argument_def mouse_write_command_def
      mouse_write.retry_busy [OF assms])

lemma demo_input: "input_free (demo_kernel b) l = (\<not> bit b 1)" "input_wait (demo_kernel b) l = l @ [(STATUS_REG, b)]"
  by (simp_all add: input_free_def input_wait_def kbc_check_in_buf_def kbc_read_status_def demo_kernel_def
      log_kernel_def status_bits bit_simps)

lemma mouse_writes_give_up_witness:
  "kbc_write_command (demo_kernel 2) WRITE_B_MOUSE [] = (1, replicate 3 (0x64, 2))"
  using mouse_writes_give_up [of "demo_kernel 2" "[]" WRITE_B_MOUSE]
  by (simp add: demo_input mouse_ports eval_nat_numeral bit_simps)

end
