(* ===== verification/Mouse_Packets.thy ===== *)
theory Mouse_Packets
  imports Mouse
begin

text \<open>
  \<open>lab4/lab4.c\<close>: the packet test of the fourth lab, the client of the mouse driver. Its loop is the
  interrupt loop of \<open>Machine\<close>; the bytes it takes from the mouse are grouped into packets of three,
  each starting with a byte whose bit 3 is set.

  The lemmas show that the grouping is the evident one, that no byte is stored outside the array of
  three, and that the test ends after exactly the packets asked for.
\<close>

subsection \<open>State\<close>

text \<open>\<open>printed\<close> are the packets given to \<open>mouse_print_packet\<close>, which is part of the LCF.\<close>

record 'h packet_st =
  ps_mouse :: mouse_st
  ps_size :: u8
  ps_bytes :: "u8 list"
  sync_state :: int
  packet_count :: u32
  printed :: "packet list"
  ps_fault :: bool
  ps_hw :: 'h


subsection \<open>The loop\<close>

text \<open>\<open>junk\<close> is the uninitialised local \<open>pkt_data\<close>.\<close>

definition push_byte :: "packet \<Rightarrow> 'h packet_st \<Rightarrow> 'h packet_st" where
  "push_byte junk s =
     (if unat (ps_size s) < length (ps_bytes s) then
        let s1 = s\<lparr>ps_bytes := (ps_bytes s)[unat (ps_size s) := mouse_data (ps_mouse s)],
                   ps_size := ps_size s + 1\<rparr>
        in if ps_size s1 = 3 then
             (case mouse_parse_packet (Some junk) (Some (ps_bytes s1)) (ps_size s1) of
                Some (Some p) \<Rightarrow> s1\<lparr>printed := printed s1 @ [p], ps_size := 0, packet_count := packet_count s1 + 1\<rparr>
              | _ \<Rightarrow> s1\<lparr>ps_fault := True\<rparr>)
           else s1
      else s\<lparr>ps_fault := True\<rparr>)"

definition store_byte :: "packet \<Rightarrow> 'h packet_st \<Rightarrow> 'h packet_st" where
  "store_byte junk s =
     (if ps_size s = 0 then
        if mouse_data (ps_mouse s) AND PK_BIT3 = 0 then s\<lparr>sync_state := 0\<rparr>
        else push_byte junk (s\<lparr>sync_state := 1\<rparr>)
      else if sync_state s = 0 then s\<lparr>ps_size := 0\<rparr>
      else push_byte junk s)"

definition packet_handler :: "'h kernel \<Rightarrow> packet \<Rightarrow> u8 \<Rightarrow> u32 \<Rightarrow> 'h packet_st \<Rightarrow> 'h packet_st ctl" where
  "packet_handler K junk irq_bitmask irqs s =
     (if irqs AND ucast irq_bitmask = 0 then Continue s
      else case mouse_ih K (ps_mouse s) (ps_hw s) of
        (d, h) \<Rightarrow> Continue (store_byte junk (s\<lparr>ps_mouse := d, ps_hw := h\<rparr>)))"

definition more_packets :: "u32 \<Rightarrow> 'h packet_st \<Rightarrow> bool" where
  "more_packets cnt s \<longleftrightarrow> packet_count s < cnt"

text \<open>\<open>None\<close> is a command handler that never returns.\<close>

definition finish_test :: "'h kernel \<Rightarrow> 'h packet_st \<Rightarrow> recv list \<Rightarrow> 'h packet_st outcome option" where
  "finish_test K s rest =
     (case mouse_unsubscribe_int K (ps_mouse s) (ps_hw s) of (r, h) \<Rightarrow>
        if r \<noteq> 0 then Some (Returned 1 (s\<lparr>ps_hw := h\<rparr>) rest)
        else case kbc_command_handler K WRITE_B_MOUSE MOUSE_DISABLE_REPORT h of
          None \<Rightarrow> None
        | Some (r, h) \<Rightarrow> Some (Returned (if r \<noteq> 0 then 1 else 0) (s\<lparr>ps_hw := h\<rparr>) rest))"

definition mouse_test_packet ::
  "'h kernel \<Rightarrow> packet \<Rightarrow> u32 \<Rightarrow> 'h packet_st \<Rightarrow> recv list \<Rightarrow> 'h packet_st outcome option" where
  "mouse_test_packet K junk cnt s ms =
     (case kbc_command_handler K WRITE_B_MOUSE MOUSE_ENABLE_REPORT (ps_hw s) of
        None \<Rightarrow> None
      | Some (r, h) \<Rightarrow>
          if r \<noteq> 0 then Some (Returned 1 (s\<lparr>ps_hw := h\<rparr>) ms)
          else case mouse_subscribe_int K Addr (ps_mouse s) h of (r, irq_mask, d, h) \<Rightarrow>
            let s1 = s\<lparr>ps_mouse := d, ps_hw := h, packet_count := 0, sync_state := 0\<rparr> in
            if r \<noteq> 0 then Some (Returned 1 s1 ms)
            else (case irq_loop (more_packets cnt) (packet_handler K junk (the irq_mask)) s1 ms of
                    Waiting s2 \<Rightarrow> Some (Waiting s2)
                  | Returned r s2 rest \<Rightarrow> Some (Returned r s2 rest)
                  | Exited s2 rest \<Rightarrow> finish_test K s2 rest))"


subsection \<open>Invariant\<close>

definition wf_packets :: "'h packet_st \<Rightarrow> bool" where
  "wf_packets s \<longleftrightarrow> \<not> ps_fault s \<and> length (ps_bytes s) = 3 \<and> unat (ps_size s) < 3 \<and>
     (ps_size s \<noteq> 0 \<longrightarrow> bit (ps_bytes s ! 0) 3)"

lemma parse_three:
  assumes "length (pk_bytes p) = 3" and "length bs = 3"
  shows "\<exists>q. mouse_parse_packet (Some p) (Some bs) 3 = Some (Some q) \<and> pk_bytes q = bs"
proof -
  obtain a b c where bs: "bs = [a, b, c]" using assms(2) by (auto simp: eval_nat_numeral length_Suc_conv)
  obtain x y z where p: "pk_bytes p = [x, y, z]" using assms(1) by (auto simp: eval_nat_numeral length_Suc_conv)
  have "copy_bytes [0..<3] bs (pk_bytes p) = Some bs" by (simp add: bs p upt_rec)
  then show ?thesis by (simp add: mouse_parse_packet_def bs Let_def)
qed

text \<open>What one byte does, by the number of bytes already stored.\<close>

lemma push_byte_cases:
  assumes "length (ps_bytes s) = 3" and "length (pk_bytes junk) = 3" and "unat (ps_size s) < 3"
  defines "bs \<equiv> (ps_bytes s)[unat (ps_size s) := mouse_data (ps_mouse s)]"
  shows "if unat (ps_size s) = 2
    then \<exists>p. push_byte junk s = s\<lparr>ps_bytes := bs, printed := printed s @ [p], ps_size := 0,
               packet_count := packet_count s + 1\<rparr> \<and> pk_bytes p = bs
    else push_byte junk s = s\<lparr>ps_bytes := bs, ps_size := ps_size s + 1\<rparr>"
proof -
  have len: "length bs = 3" using assms(1) by (simp add: bs_def)
  have sz: "(ps_size s + 1 = 3) = (unat (ps_size s) = 2)"
    using assms(3) by (simp add: word_unat_eq_iff unat_word_ariths)
  from parse_three [OF assms(2) len] obtain q where
    q: "mouse_parse_packet (Some junk) (Some bs) 3 = Some (Some q)" "pk_bytes q = bs" by blast
  show ?thesis
  proof (cases "unat (ps_size s) = 2")
    case True
    then have "ps_size s + 1 = 3" "(ps_bytes s)[2 := mouse_data (ps_mouse s)] = bs" using sz by (simp_all add: bs_def)
    with True q(1) assms(1,3) have "push_byte junk s = s\<lparr>ps_bytes := bs, printed := printed s @ [q],
        ps_size := 0, packet_count := packet_count s + 1\<rparr>" by (simp add: push_byte_def Let_def)
    with True q(2) show ?thesis by auto
  next
    case False
    with sz assms(1,3) show ?thesis by (simp add: push_byte_def bs_def Let_def)
  qed
qed

lemma store_byte_wf:
  assumes "wf_packets s" and "length (pk_bytes junk) = 3"
  shows "wf_packets (store_byte junk s) \<and>
    (packet_count (store_byte junk s) = packet_count s \<and> printed (store_byte junk s) = printed s \<or>
     packet_count (store_byte junk s) = packet_count s + 1 \<and>
       (\<exists>p. printed (store_byte junk s) = printed s @ [p] \<and> bit (pk_bytes p ! 0) 3))"
proof -
  have len: "length (ps_bytes s) = 3" and sz: "unat (ps_size s) < 3" and ok: "\<not> ps_fault s"
    and first: "ps_size s \<noteq> 0 \<Longrightarrow> bit (ps_bytes s ! 0) 3" using assms(1) by (auto simp: wf_packets_def)
  let ?d = "mouse_data (ps_mouse s)"
  consider (idle) "ps_size s = 0" "\<not> bit ?d 3" | (first) "ps_size s = 0" "bit ?d 3"
    | (lost) "ps_size s \<noteq> 0" "sync_state s = 0" | (more) "ps_size s \<noteq> 0" "sync_state s \<noteq> 0" by blast
  then show ?thesis
  proof cases
    case idle
    with assms(1) show ?thesis by (simp add: store_byte_def packet_bits wf_packets_def)
  next
    case first
    with push_byte_cases [of "s\<lparr>sync_state := 1\<rparr>" junk] len ok assms(2) show ?thesis
      by (simp add: store_byte_def packet_bits wf_packets_def)
  next
    case lost
    with len ok show ?thesis by (simp add: store_byte_def wf_packets_def)
  next
    case more
    from first more(1) have b: "bit (ps_bytes s ! 0) 3" by blast
    have i: "0 < unat (ps_size s)" using more(1) by (simp add: unat_gt_0)
    have keep: "bit ((ps_bytes s)[unat (ps_size s) := ?d] ! 0) 3" using b i by simp
    have st: "store_byte junk s = push_byte junk s" using more by (simp add: store_byte_def)
    show ?thesis
    proof (cases "unat (ps_size s) = 2")
      case True
      with push_byte_cases [OF len assms(2) sz] obtain p where
        "push_byte junk s = s\<lparr>ps_bytes := (ps_bytes s)[unat (ps_size s) := ?d], printed := printed s @ [p],
           ps_size := 0, packet_count := packet_count s + 1\<rparr>"
        "pk_bytes p = (ps_bytes s)[unat (ps_size s) := ?d]" by auto
      with keep ok len show ?thesis by (simp add: st wf_packets_def)
    next
      case False
      with push_byte_cases [OF len assms(2) sz]
      have "push_byte junk s = s\<lparr>ps_bytes := (ps_bytes s)[unat (ps_size s) := ?d], ps_size := ps_size s + 1\<rparr>"
        by simp
      moreover have "unat (ps_size s + 1) < 3" using False sz by (simp add: unat_word_ariths)
      ultimately show ?thesis using keep ok len by (simp add: st wf_packets_def)
    qed
  qed
qed


subsection \<open>The grouping of bytes\<close>

text \<open>The reference: skip to a byte with bit 3 set, take three bytes, repeat.\<close>

fun frames :: "u8 list \<Rightarrow> u8 list list" where
  "frames (a # b # c # rest) = (if bit a 3 then [a, b, c] # frames rest else frames (b # c # rest))"
| "frames bs = []"

text \<open>One interrupt that delivers the byte \<open>b\<close>.\<close>

definition feed :: "packet \<Rightarrow> u8 \<Rightarrow> 'h packet_st \<Rightarrow> 'h packet_st" where
  "feed junk b s = store_byte junk (s\<lparr>ps_mouse := (ps_mouse s)\<lparr>mouse_data := b\<rparr>\<rparr>)"

lemma feed_wf: "wf_packets s \<Longrightarrow> length (pk_bytes junk) = 3 \<Longrightarrow> wf_packets (feed junk b s)"
  using store_byte_wf [of "s\<lparr>ps_mouse := (ps_mouse s)\<lparr>mouse_data := b\<rparr>\<rparr>" junk]
  by (simp add: feed_def wf_packets_def)

lemma fold_feed_wf: "wf_packets s \<Longrightarrow> length (pk_bytes junk) = 3 \<Longrightarrow> wf_packets (fold (feed junk) bs s)"
  by (induction bs arbitrary: s) (simp_all add: feed_wf)

lemma feed_idle:
  assumes "ps_size s = 0" and "\<not> bit b 3"
  shows "ps_size (feed junk b s) = 0" and "printed (feed junk b s) = printed s"
  using assms by (simp_all add: feed_def store_byte_def packet_bits)

lemma feed_first:
  assumes "wf_packets s" and "length (pk_bytes junk) = 3" and "ps_size s = 0" and "bit b 3"
  shows "ps_size (feed junk b s) = 1 \<and> sync_state (feed junk b s) = 1 \<and>
    ps_bytes (feed junk b s) = (ps_bytes s)[0 := b] \<and> printed (feed junk b s) = printed s"
  using push_byte_cases [of "s\<lparr>ps_mouse := (ps_mouse s)\<lparr>mouse_data := b\<rparr>, sync_state := 1\<rparr>" junk] assms
  by (simp add: feed_def store_byte_def packet_bits wf_packets_def)

lemma feed_second:
  assumes "wf_packets s" and "length (pk_bytes junk) = 3" and "ps_size s = 1" and "sync_state s = 1"
  shows "ps_size (feed junk b s) = 2 \<and> sync_state (feed junk b s) = 1 \<and>
    ps_bytes (feed junk b s) = (ps_bytes s)[1 := b] \<and> printed (feed junk b s) = printed s"
  using push_byte_cases [of "s\<lparr>ps_mouse := (ps_mouse s)\<lparr>mouse_data := b\<rparr>\<rparr>" junk] assms
  by (simp add: feed_def store_byte_def wf_packets_def)

lemma feed_third:
  assumes "wf_packets s" and "length (pk_bytes junk) = 3" and "ps_size s = 2" and "sync_state s = 1"
  shows "ps_size (feed junk b s) = 0 \<and>
    map pk_bytes (printed (feed junk b s)) = map pk_bytes (printed s) @ [(ps_bytes s)[2 := b]]"
  using push_byte_cases [of "s\<lparr>ps_mouse := (ps_mouse s)\<lparr>mouse_data := b\<rparr>\<rparr>" junk] assms
  by (auto simp: feed_def store_byte_def wf_packets_def)

lemma feed_frames:
  assumes "wf_packets s" and "length (pk_bytes junk) = 3" and "ps_size s = 0"
  shows "map pk_bytes (printed (fold (feed junk) bs s)) = map pk_bytes (printed s) @ frames bs"
  using assms
proof (induction bs arbitrary: s rule: frames.induct [case_names three none one two])
  case (three a b c rest)
  note wf = feed_wf [OF _ three(4)]
  show ?case
  proof (cases "bit a 3")
    case False
    with three(2) [OF False, of "feed junk a s"] feed_idle [OF three(5) False] wf [OF three(3)] three(4) show ?thesis by simp
  next
    case True
    let ?s1 = "feed junk a s" let ?s2 = "feed junk b ?s1" let ?s3 = "feed junk c ?s2"
    note f1 = feed_first [OF three(3,4,5) True]
    note f2 = feed_second [OF wf [OF three(3)] three(4), of a b] and wf2 = wf [OF wf [OF three(3)]]
    have f2: "ps_size ?s2 = 2" "sync_state ?s2 = 1" "ps_bytes ?s2 = (ps_bytes ?s1)[1 := b]" "printed ?s2 = printed ?s1"
      using feed_second [OF wf [OF three(3)] three(4)] f1 by auto
    note f3 = feed_third [OF wf2 three(4) f2(1,2), of c]
    obtain x y z where "ps_bytes s = [x, y, z]"
      using three(3) by (auto simp: wf_packets_def eval_nat_numeral length_Suc_conv)
    with f1 f2 f3 have "map pk_bytes (printed ?s3) = map pk_bytes (printed s) @ [[a, b, c]]" by simp
    with three(1) [OF True, of ?s3] f3 wf [OF wf2] three(4) True show ?thesis by simp
  qed
next
  case (one a)
  then show ?case using feed_idle [of s a] feed_first [of s junk a] by (cases "bit a 3") simp_all
next
  case (two a b)
  show ?case
  proof (cases "bit a 3")
    case True
    note f1 = feed_first [OF two(1,2,3) True]
    show ?thesis using f1 feed_second [OF feed_wf [OF two(1,2)] two(2)] by simp
  next
    case False
    have wf: "wf_packets (feed junk a s)" using feed_wf two(1,2) .
    show ?thesis
      using feed_idle [OF two(3) False] feed_idle [of "feed junk a s" b]
        feed_first [OF wf two(2), of b] by (cases "bit b 3") simp_all
  qed
qed simp


subsection \<open>The loop keeps count\<close>

definition grouped :: "packet \<Rightarrow> u32 \<Rightarrow> 'h packet_st \<Rightarrow> bool" where
  "grouped junk cnt s \<longleftrightarrow> length (pk_bytes junk) = 3 \<and> wf_packets s \<and> packet_count s \<le> cnt \<and>
     length (printed s) = unat (packet_count s) \<and> list_all (\<lambda>p. bit (pk_bytes p ! 0) 3) (printed s)"

lemma store_byte_grouped:
  assumes "grouped junk cnt s" and "more_packets cnt s"
  shows "grouped junk cnt (store_byte junk s)"
proof -
  have less: "packet_count s < cnt" using assms(2) by (simp add: more_packets_def)
  then have "unat (packet_count s) + 1 < 2 ^ 32"
    using unsigned_less [of cnt, where ?'a = nat] by (simp add: word_less_nat_alt)
  then have inc: "unat (packet_count s + 1) = unat (packet_count s) + 1" by (simp add: unat_word_ariths)
  then have le: "packet_count s + 1 \<le> cnt" using less by (simp add: word_le_nat_alt word_less_nat_alt)
  show ?thesis
    using store_byte_wf [of s junk] assms(1) inc le by (auto simp: grouped_def)
qed

interpretation packets: irq_session "more_packets cnt" "packet_handler K junk irq_bits" "grouped junk cnt"
    "\<lambda>r s. False" for K junk irq_bits cnt
proof
  fix s s' :: "'a packet_st" and irqs
  assume g: "grouped junk cnt s" and m: "more_packets cnt s" and h: "packet_handler K junk irq_bits irqs s = Continue s'"
  obtain d hw where ih: "mouse_ih K (ps_mouse s) (ps_hw s) = (d, hw)" by fastforce
  let ?s = "s\<lparr>ps_mouse := d, ps_hw := hw\<rparr>"
  have "grouped junk cnt ?s" using g by (simp add: grouped_def wf_packets_def)
  moreover have "more_packets cnt ?s" using m by (simp add: more_packets_def)
  ultimately show "grouped junk cnt s'"
    using store_byte_grouped [of junk cnt ?s] g h by (auto simp: packet_handler_def ih split: if_splits)
next
  fix s s' :: "'a packet_st" and irqs r
  assume "packet_handler K junk irq_bits irqs s = Return r s'"
  then show False by (simp add: packet_handler_def split: if_splits prod.splits)
qed


subsection \<open>Properties\<close>

text \<open>C30. The bytes of the mouse are grouped as the protocol asks, over every sequence of bytes: bytes are skipped
  until one has bit 3 set, that one and the next two are a packet, and so on; what is printed is exactly
  that, and no byte is stored outside the array.\<close>

theorem packets_are_aligned:
  assumes "wf_packets s" and "ps_size s = 0" and "length (pk_bytes junk) = 3"
  shows "map pk_bytes (printed (fold (feed junk) bs s)) = map pk_bytes (printed s) @ frames bs \<and>
         \<not> ps_fault (fold (feed junk) bs s)"
  using feed_frames [OF assms(1,3,2)] fold_feed_wf [OF assms(1,3), of bs] by (simp add: wf_packets_def)

definition blank_packet :: packet where
  "blank_packet = \<lparr>pk_bytes = [0, 0, 0], pk_rb = False, pk_mb = False, pk_lb = False, delta_x = 0, delta_y = 0,
     x_ov = False, y_ov = False\<rparr>"

definition packet_init_st :: "'h \<Rightarrow> 'h packet_st" where
  "packet_init_st h = \<lparr>ps_mouse = mouse_init_st, ps_size = 0, ps_bytes = [0, 0, 0], sync_state = 0,
     packet_count = 0, printed = [], ps_fault = False, ps_hw = h\<rparr>"

lemma packet_init_wf: "wf_packets (packet_init_st h)" "ps_size (packet_init_st h) = 0"
  "printed (packet_init_st h) = []" "length (pk_bytes blank_packet) = 3"
  by (simp_all add: wf_packets_def packet_init_st_def blank_packet_def)

lemma packets_are_aligned_witness:
  "map pk_bytes (printed (fold (feed blank_packet) [1, 2, 9, 5, 250, 0, 8, 1, 1, 8] (packet_init_st ()))) =
     [[9, 5, 250], [8, 1, 1]]"
  using packets_are_aligned [OF packet_init_wf(1,2,4), of "[1, 2, 9, 5, 250, 0, 8, 1, 1, 8]" "()"]
  by (simp add: packet_init_wf bit_simps)

text \<open>C31. A packet test that succeeds has printed exactly the packets asked for, each starting with a byte
  whose bit 3 is set, and has stored no byte outside the array, whatever the mouse sent.\<close>

theorem packet_test_counts:
  assumes "wf_packets s" and "printed s = []" and "length (pk_bytes junk) = 3"
    and "mouse_test_packet K junk cnt s ms = Some (Returned 0 s' rest)"
  shows "length (printed s') = unat cnt \<and> list_all (\<lambda>p. bit (pk_bytes p ! 0) 3) (printed s') \<and> \<not> ps_fault s'"
proof -
  from assms(4) obtain h where 1: "kbc_command_handler K WRITE_B_MOUSE MOUSE_ENABLE_REPORT (ps_hw s) = Some (0, h)"
    by (auto simp: mouse_test_packet_def split: option.splits prod.splits if_splits)
  obtain r m d h2 where 2: "mouse_subscribe_int K Addr (ps_mouse s) h = (r, m, d, h2)" by (metis prod_cases4)
  let ?s1 = "s\<lparr>ps_mouse := d, ps_hw := h2, packet_count := 0, sync_state := 0\<rparr>"
  have r: "r = 0" using assms(4) by (simp add: mouse_test_packet_def 1 2 Let_def split: if_splits)
  have "grouped junk cnt ?s1" using assms(1-3) by (simp add: grouped_def wf_packets_def)
  note res = packets.loop_result [OF this, of K "the m" ms]
  let ?o = "irq_loop (more_packets cnt) (packet_handler K junk (the m)) ?s1 ms"
  obtain s2 rest2 where ex: "?o = Exited s2 rest2" and fin: "finish_test K s2 rest2 = Some (Returned 0 s' rest)"
    using assms(4) res by (cases ?o) (auto simp: mouse_test_packet_def 1 2 r Let_def)
  have g: "grouped junk cnt s2" "\<not> more_packets cnt s2" using res ex by simp_all
  then have "packet_count s2 = cnt" by (auto simp: grouped_def more_packets_def)
  moreover have "printed s' = printed s2" "ps_fault s' = ps_fault s2"
    using fin by (auto simp: finish_test_def split: prod.splits option.splits if_splits)
  ultimately show ?thesis using g(1) by (simp add: grouped_def wf_packets_def)
qed

text \<open>A mouse that is always ready and acknowledges everything; read as a movement, its byte \<open>0xFA\<close> has bit 3
  set.\<close>

definition ack_kernel :: "port_log kernel" where
  "ack_kernel = log_kernel (\<lambda>p l. if p = STATUS_REG then 1 else 0xFA) mode_14c (\<lambda>x. None)"

lemma ack_kernel_calls:
  "kbc_check_in_buf ack_kernel l = (True, l @ [(STATUS_REG, 1)])"
  "mouse_ih ack_kernel d l = (d\<lparr>mouse_data := 0xFA\<rparr>, l @ [(STATUS_REG, 1), (OUT_BUF, 0xFA)])"
  "write_reg ack_kernel p v l = (0, l @ [(p, v)])"
  "send_mouse_byte ack_kernel v l = (Some ACK, l @ [(CMD_ARGS_REG, v), (OUT_BUF, 0xFA)])"
  "mouse_subscribe_int ack_kernel Addr d l = (0, Some (BIT (nat (mouse_hookID d))), d, l)"
  "mouse_unsubscribe_int ack_kernel d l = (0, l)"
  by (simp_all add: kbc_check_in_buf_def kbc_read_status_def mouse_ih_def kbc_check_out_buf_def kbc_read_buffer_def
      write_reg_def send_mouse_byte_def mouse_subscribe_int_def mouse_unsubscribe_int_def ack_kernel_def
      log_kernel_def mouse_ports status_bits mouse_answers BIT_def)

lemma ack_kernel_command: "\<exists>h. kbc_command_handler ack_kernel WRITE_B_MOUSE arg l = Some (0, h)"
proof -
  have retry: "retry 3 (write_pass ack_kernel act) l =
      (Some (fst (act (l @ [(STATUS_REG, 1)]))), snd (act (l @ [(STATUS_REG, 1)])))"
    for act :: "port_log \<Rightarrow> 'r \<times> port_log" and l
    by (simp add: eval_nat_numeral write_pass_def ack_kernel_calls case_prod_beta)
  show ?thesis
    by (simp add: kbc_command_handler_def command_loop.simps kbc_write_command_def mouse_write_command_def retry
        ack_kernel_calls)
qed

lemma packet_test_counts_witness:
  "\<exists>s. mouse_test_packet ack_kernel blank_packet 1 (packet_init_st []) [hw_msg 4, hw_msg 4, hw_msg 4] =
     Some (Returned 0 s []) \<and> length (printed s) = 1"
proof -
  obtain h where 1: "kbc_command_handler ack_kernel WRITE_B_MOUSE MOUSE_ENABLE_REPORT [] = Some (0, h)"
    using ack_kernel_command by blast
  have off: "\<exists>h. kbc_command_handler ack_kernel WRITE_B_MOUSE MOUSE_DISABLE_REPORT l = Some (0, h)" for l
    by (rule ack_kernel_command)
  let ?s = "(packet_init_st [])\<lparr>ps_hw := h\<rparr>"
  have "\<exists>s2. irq_loop (more_packets 1) (packet_handler ack_kernel blank_packet (BIT 2)) ?s
      [hw_msg 4, hw_msg 4, hw_msg 4] = Exited s2 []"
    by (simp add: more_packets_def packet_handler_def ack_kernel_calls packet_init_st_def mouse_init_st_def
        BIT_def store_byte_def push_byte_def packet_bits mouse_parse_packet_def Let_def blank_packet_def upt_rec)
  then obtain s2 where 2: "irq_loop (more_packets 1) (packet_handler ack_kernel blank_packet (BIT 2)) ?s
      [hw_msg 4, hw_msg 4, hw_msg 4] = Exited s2 []" by blast
  obtain h2 where "kbc_command_handler ack_kernel WRITE_B_MOUSE MOUSE_DISABLE_REPORT (ps_hw s2) = Some (0, h2)"
    using off by blast
  with 1 2 have "\<exists>s. mouse_test_packet ack_kernel blank_packet 1 (packet_init_st []) [hw_msg 4, hw_msg 4, hw_msg 4] =
      Some (Returned 0 s [])"
    by (simp add: mouse_test_packet_def finish_test_def ack_kernel_calls packet_init_st_def mouse_init_st_def Let_def
        del: irq_loop.simps)
  then show ?thesis using packet_test_counts [OF packet_init_wf(1,3,4)] by fastforce
qed

end
