(* ===== verification/Lab_Timer.thy ===== *)
theory Lab_Timer
  imports Timer
begin

text \<open>
  \<open>lab2/lab2.c\<close>: the three tests of the timer driver, whose source the second lab has a copy of (with
  the interrupt counter called \<open>counter\<close>). \<open>timer_print_config\<close> and \<open>timer_print_elapsed_time\<close> are
  part of the LCF: the first is an argument, the calls of the second are counted.

  The lemmas show that the interrupt test prints one line a second and how many interrupts it takes.
\<close>

subsection \<open>The tests\<close>

definition timer_test_read_config ::
  "'h kernel \<Rightarrow> (u8 \<Rightarrow> timer_status_field \<Rightarrow> timer_status_field_val \<Rightarrow> int) \<Rightarrow>
   u8 \<Rightarrow> timer_status_field \<Rightarrow> 'h \<Rightarrow> int \<times> 'h" where
  "timer_test_read_config K timer_print_config timer field h =
     (case timer_get_conf K timer Addr h of
        (None, h1) \<Rightarrow> (1, h1)
      | (Some status, h1) \<Rightarrow>
          (if timer_display_conf timer_print_config timer status field \<noteq> 0 then 1 else 0, h1))"

definition timer_test_time_base :: "'h kernel \<Rightarrow> u8 \<Rightarrow> u32 \<Rightarrow> 'h \<Rightarrow> int \<times> 'h" where
  "timer_test_time_base K timer freq h =
     (case timer_set_frequency K timer freq h of (r, h1) \<Rightarrow> (if r \<noteq> 0 then 1 else 0, h1))"

record 'h tick_st =
  tk_timer :: timer_st
  tk_time :: u8
  tk_lines :: nat
  tk_hw :: 'h

definition tick_handler :: "u8 \<Rightarrow> u32 \<Rightarrow> 'h tick_st \<Rightarrow> 'h tick_st ctl" where
  "tick_handler irq_set irqs s =
     (if irqs AND BIT (unat irq_set) \<noteq> 0 then
        (let s1 = s\<lparr>tk_timer := timer_int_handler (tk_timer s)\<rparr> in
         if c_mod (timer_counter (tk_timer s1)) 60 = 0
         then Continue (s1\<lparr>tk_lines := tk_lines s1 + 1, tk_time := tk_time s1 - 1\<rparr>)
         else Continue s1)
      else Continue s)"

definition timer_test_int ::
  "'h kernel \<Rightarrow> u8 \<Rightarrow> 'h tick_st \<Rightarrow> recv list \<Rightarrow> 'h tick_st outcome" where
  "timer_test_int K time s ms =
     (case timer_subscribe_int K Addr (tk_timer s) (tk_hw s) of (r, line, t, h) \<Rightarrow>
        let s1 = s\<lparr>tk_timer := t, tk_time := time, tk_hw := h\<rparr> in
        if r \<noteq> 0 then Returned 1 s1 ms
        else (case irq_loop (\<lambda>s. tk_time s > 0) (tick_handler (the line)) s1 ms of
                Waiting s2 \<Rightarrow> Waiting s2
              | Returned r s2 rest \<Rightarrow> Returned r s2 rest
              | Exited s2 rest \<Rightarrow>
                  (case timer_unsubscribe_int K (tk_timer s2) (tk_hw s2) of (r, h) \<Rightarrow>
                     Returned (if r \<noteq> 0 then 1 else 0) (s2\<lparr>tk_hw := h\<rparr>) rest)))"


subsection \<open>Seconds\<close>

text \<open>The interrupts until a counter \<open>c\<close> has passed \<open>n\<close> more multiples of 60.\<close>

definition ticks_left :: "nat \<Rightarrow> int \<Rightarrow> nat" where
  "ticks_left n c = 60 * n - nat (c mod 60)"

lemma ticks_left_pos: "0 < ticks_left n c \<longleftrightarrow> 0 < n"
proof -
  have "nat (c mod 60) < 60" by (simp add: nat_less_iff)
  then show ?thesis unfolding ticks_left_def by (cases n) auto
qed

lemma ticks_left_zero: "ticks_left n c = 0 \<longleftrightarrow> n = 0"
  using ticks_left_pos [of n c] by linarith

lemma next_second:
  fixes c :: int
  shows "(c + 1) mod 60 = (if c mod 60 = 59 then 0 else c mod 60 + 1)"
    and "(c + 1) div 60 = (if (c + 1) mod 60 = 0 then c div 60 + 1 else c div 60)"
proof -
  have r: "0 \<le> c mod 60" "c mod 60 < 60" by simp_all
  have "(c + 1) mod 60 = (c mod 60 + 1) mod 60" by (rule mod_add_left_eq [symmetric])
  with r show d: "(c + 1) mod 60 = (if c mod 60 = 59 then 0 else c mod 60 + 1)" by simp
  have "60 * ((c + 1) div 60) + (c + 1) mod 60 = 60 * (c div 60) + c mod 60 + 1"
    by (simp only: mult_div_mod_eq)
  with r d show "(c + 1) div 60 = (if (c + 1) mod 60 = 0 then c div 60 + 1 else c div 60)"
    by (cases "c mod 60 = 59") auto
qed

lemma ticks_left_step:
  assumes "0 < n"
  shows "ticks_left (if (c + 1) mod 60 = 0 then n - 1 else n) (c + 1) = ticks_left n c - 1"
proof -
  have r: "0 \<le> c mod 60" "c mod 60 < 60" by simp_all
  from assms r show ?thesis by (auto simp: ticks_left_def next_second(1) nat_add_distrib nat_less_iff)
qed

definition tick_need :: "'h tick_st \<Rightarrow> nat" where
  "tick_need s = ticks_left (unat (tk_time s)) (timer_counter (tk_timer s))"

text \<open>Lines printed, seconds left and the counter belong together.\<close>

definition tick_inv :: "nat \<Rightarrow> int \<Rightarrow> 'h tick_st \<Rightarrow> bool" where
  "tick_inv n q s \<longleftrightarrow> 0 \<le> timer_counter (tk_timer s) \<and> tk_lines s + unat (tk_time s) = n \<and>
     int (tk_lines s) = timer_counter (tk_timer s) div 60 - q"

lemma u8_dec: "0 < t \<Longrightarrow> unat (t - 1) = unat t - 1" for t :: u8
  by (metis unat_minus_one word_gt_0)

lemma tick_step:
  assumes "tick_inv n q s" and "0 < tk_time s" and "irqs AND BIT (unat line) \<noteq> 0"
  obtains s' where "tick_handler line irqs s = Continue s'" and "tick_inv n q s'"
    and "tick_need s' = tick_need s - 1"
proof -
  let ?c = "timer_counter (tk_timer s)"
  have pos: "0 < unat (tk_time s)" using assms(2) by (simp add: word_less_nat_alt)
  have c: "0 \<le> ?c" "tk_lines s + unat (tk_time s) = n" "int (tk_lines s) = ?c div 60 - q"
    using assms(1) by (simp_all add: tick_inv_def)
  note step = ticks_left_step [OF pos, of ?c]
  show ?thesis
  proof (cases "(?c + 1) mod 60 = 0")
    case True
    then have div: "(?c + 1) div 60 = ?c div 60 + 1" by (simp add: next_second(2))
    let ?s = "s\<lparr>tk_timer := timer_int_handler (tk_timer s), tk_lines := tk_lines s + 1, tk_time := tk_time s - 1\<rparr>"
    have "tick_handler line irqs s = Continue ?s"
      using assms(3) c(1) True by (simp add: tick_handler_def timer_int_handler_def Let_def)
    moreover have "tick_inv n q ?s"
      using c pos u8_dec [OF assms(2)] by (simp add: tick_inv_def timer_int_handler_def div)
    moreover have "tick_need ?s = tick_need s - 1"
      using step True u8_dec [OF assms(2)] by (simp add: tick_need_def timer_int_handler_def)
    ultimately show ?thesis by (rule that)
  next
    case False
    then have div: "(?c + 1) div 60 = ?c div 60" by (simp add: next_second(2))
    let ?s = "s\<lparr>tk_timer := timer_int_handler (tk_timer s)\<rparr>"
    have "tick_handler line irqs s = Continue ?s"
      using assms(3) c(1) False by (simp add: tick_handler_def timer_int_handler_def Let_def)
    moreover have "tick_inv n q ?s" using c by (simp add: tick_inv_def timer_int_handler_def div)
    moreover have "tick_need ?s = tick_need s - 1"
      using step False by (simp add: tick_need_def timer_int_handler_def)
    ultimately show ?thesis by (rule that)
  qed
qed

interpretation seconds: irq_countdown "\<lambda>s. tk_time s > 0" "tick_handler line" "tick_inv n q"
    "\<lambda>irqs. True" "\<lambda>irqs. irqs AND BIT (unat line) \<noteq> 0" tick_need
  for line n q
proof
  fix s :: "'a tick_st" and irqs :: u32
  assume inv: "tick_inv n q s"
  show "(tk_time s > 0) = (0 < tick_need s)"
    by (simp add: tick_need_def ticks_left_pos word_less_nat_alt)
  assume g: "tk_time s > 0"
  show "\<exists>s'. tick_handler line irqs s = Continue s' \<and> tick_inv n q s' \<and>
      tick_need s' = tick_need s - (if irqs AND BIT (unat line) \<noteq> 0 then 1 else 0)"
  proof (cases "irqs AND BIT (unat line) \<noteq> 0")
    case True
    obtain s' where "tick_handler line irqs s = Continue s'" "tick_inv n q s'" "tick_need s' = tick_need s - 1"
      by (rule tick_step [OF inv g True])
    with True show ?thesis by simp
  next
    case False
    with inv show ?thesis by (simp add: tick_handler_def)
  qed
qed


subsection \<open>Properties\<close>

text \<open>C37. The interrupt test keeps time: from a counter \<open>c\<close> it takes exactly 60 interrupts of the timer for
  every second asked for, less those already counted of the current second. With fewer it is still
  waiting and has printed a line for every full second; with that many it has ended, having printed
  exactly \<open>time\<close> lines, and the interrupts after the last one are left to others.\<close>

theorem timer_test_int_keeps_time:
  fixes time :: u8
  assumes "timer_subscribe_int K Addr (tk_timer s) (tk_hw s) = (0, Some line, t, h)"
    and "0 \<le> timer_counter t" and "tk_lines s = 0"
  defines "tick \<equiv> \<lambda>irqs. bit irqs (unat line)"
    and "N \<equiv> ticks_left (unat time) (timer_counter t)"
  shows "case timer_test_int K time s ms of
           Waiting s' \<Rightarrow> ticks tick ms < N \<and> tk_lines s' + unat (tk_time s') = unat time \<and>
             int (tk_lines s') = timer_counter (tk_timer s') div 60 - timer_counter t div 60
         | Exited s' rest \<Rightarrow> False
         | Returned r s' rest \<Rightarrow> ticks tick ms = N + ticks tick rest \<and> tk_lines s' = unat time"
proof -
  let ?s = "s\<lparr>tk_timer := t, tk_time := time, tk_hw := h\<rparr>"
  have inv: "tick_inv (unat time) (timer_counter t div 60) ?s"
    using assms(2,3) by (simp add: tick_inv_def)
  have "tick_need ?s = N" by (simp add: tick_need_def N_def)
  with seconds.loop_countdown [OF inv, of ms line] show ?thesis
    by (cases "irq_loop (\<lambda>s. tk_time s > 0) (tick_handler line) ?s ms")
      (auto simp: timer_test_int_def assms(1) tick_def tick_inv_def tick_need_def ticks_left_zero
        split: prod.splits)
qed

lemma ticks_replicate: "tick irqs \<Longrightarrow> ticks tick (replicate n (hw_msg irqs)) = n"
  by (induction n) (simp_all add: ticks_def)

lemma timer_test_int_keeps_time_witness:
  "\<exists>r s' rest. timer_test_int (demo_kernel 0) 1
     \<lparr>tk_timer = timer_init_st\<lparr>timer_counter := 7\<rparr>, tk_time = 0, tk_lines = 0, tk_hw = []\<rparr>
     (replicate 53 (hw_msg 1)) = Returned r s' rest \<and> tk_lines s' = 1"
proof -
  let ?K = "demo_kernel 0" and ?t = "timer_init_st\<lparr>timer_counter := 7\<rparr>"
  let ?s = "\<lparr>tk_timer = ?t, tk_time = 0, tk_lines = 0, tk_hw = []\<rparr> :: port_log tick_st"
  have sub: "timer_subscribe_int ?K Addr (tk_timer ?s) (tk_hw ?s) = (0, Some 0, ?t, [])"
    by (simp add: timer_subscribe_int_def demo_kernel_def log_kernel_def timer_init_st_def)
  obtain ms where ms: "ms = replicate 53 (hw_msg 1)" "ticks (\<lambda>irqs. bit irqs (unat (0 :: u8))) ms = 53"
    using ticks_replicate [of "\<lambda>irqs. bit irqs (unat (0 :: u8))" 1 53] by simp
  have need: "ticks_left (unat (1 :: u8)) (timer_counter ?t) = 53" by (simp add: ticks_left_def)
  have c: "0 \<le> timer_counter ?t" "tk_lines ?s = 0" by simp_all
  note run = timer_test_int_keeps_time [OF sub c, where time = 1 and ms = ms, unfolded ms(2) need]
  from run show ?thesis
    unfolding ms(1) [symmetric] by (cases "timer_test_int ?K 1 ?s ms") simp_all
qed

end
