(* ===== verification/Lab_Keyboard.thy ===== *)
theory Lab_Keyboard
  imports Keyboard Lab_Timer "HOL-Library.While_Combinator"
begin

text \<open>
  \<open>lab3/lab3.c\<close>: the tests of the keyboard driver, whose sources the third lab has copies of. The first
  reads scancodes by interrupts, the second by polling (a loop that need not end: the result is an
  option), the third by interrupts until nothing was typed for some seconds.

  \<open>kbd_print_scancode\<close> is part of the LCF; what it is called with is recorded. It is documented to read
  as many bytes as its second argument says; \<open>sc_fault\<close> says that it was given more than the one byte
  that \<open>scancode\<close> has.
\<close>

subsection \<open>Printing\<close>

definition KB_TWO_BYTES :: u8 where "KB_TWO_BYTES = 0xE0"
definition KB_MAKE_CODE :: u8 where "KB_MAKE_CODE = BIT 7"

record 'h scan_st =
  sc_kb :: kb_st
  sc_timer :: timer_st
  sc_elapsed :: int
  sc_prints :: "(bool \<times> nat \<times> u8) list"
  sc_fault :: bool
  sc_hw :: 'h

definition print_scancode :: "'h scan_st \<Rightarrow> 'h scan_st" where
  "print_scancode s =
     (let code = scancode (sc_kb s);
          is_break = (code AND KB_MAKE_CODE = 0);
          size = (if code = KB_TWO_BYTES then 2 else 1)
      in s\<lparr>sc_prints := sc_prints s @ [(is_break, size, code)], sc_fault := sc_fault s \<or> 1 < size\<rparr>)"

definition read_and_print :: "'h kernel \<Rightarrow> 'h scan_st \<Rightarrow> 'h scan_st" where
  "read_and_print K s =
     (case kbc_ih K (sc_kb s) (sc_hw s) of (k, h) \<Rightarrow> print_scancode (s\<lparr>sc_kb := k, sc_hw := h\<rparr>))"

definition no_escape :: "'h scan_st \<Rightarrow> bool" where
  "no_escape s \<longleftrightarrow> scancode (sc_kb s) \<noteq> KB_BREAK_ESC"


subsection \<open>The tests\<close>

definition scan_handler :: "'h kernel \<Rightarrow> u8 \<Rightarrow> u32 \<Rightarrow> 'h scan_st \<Rightarrow> 'h scan_st ctl" where
  "scan_handler K irq_set irqs s =
     Continue (if irqs AND BIT (unat irq_set) \<noteq> 0 then read_and_print K s else s)"

definition kbd_test_scan :: "'h kernel \<Rightarrow> 'h scan_st \<Rightarrow> recv list \<Rightarrow> 'h scan_st outcome" where
  "kbd_test_scan K s ms =
     (case kb_subscribe_int K Addr (sc_kb s) (sc_hw s) of (r, line, k, h) \<Rightarrow>
        let s1 = s\<lparr>sc_kb := k, sc_hw := h\<rparr> in
        if r \<noteq> 0 then Returned 1 s1 ms
        else (case irq_loop no_escape (scan_handler K (the line)) s1 ms of
                Waiting s2 \<Rightarrow> Waiting s2
              | Returned r s2 rest \<Rightarrow> Returned r s2 rest
              | Exited s2 rest \<Rightarrow>
                  (case kb_unsubscribe_int K (sc_kb s2) (sc_hw s2) of (r, h) \<Rightarrow>
                     Returned (if r \<noteq> 0 then 1 else 0) (s2\<lparr>sc_hw := h\<rparr>) rest)))"

definition poll_step :: "'h kernel \<Rightarrow> 'h scan_st \<Rightarrow> 'h scan_st" where
  "poll_step K s =
     (case read_keyboard_output K KEYBOARD_OUT_CMD Addr 0 (scancode (sc_kb s)) (sc_hw s) of
        (r, v, h) \<Rightarrow>
          let s1 = s\<lparr>sc_kb := (sc_kb s)\<lparr>scancode := v\<rparr>, sc_hw := h\<rparr> in
          if r = 0 then print_scancode s1 else s1)"

text \<open>\<open>junk\<close> is an uninitialised local of \<open>kb_restore_settings\<close>.\<close>

definition kbd_test_poll :: "'h kernel \<Rightarrow> u8 \<Rightarrow> 'h scan_st \<Rightarrow> (int \<times> 'h scan_st) option" where
  "kbd_test_poll K junk s =
     (case while_option no_escape (poll_step K) s of
        None \<Rightarrow> None
      | Some s1 \<Rightarrow> (case kb_restore_settings K junk (sc_hw s1) of (r, h) \<Rightarrow> Some (r, s1\<lparr>sc_hw := h\<rparr>)))"

definition timed_key :: "'h kernel \<Rightarrow> 'h scan_st \<Rightarrow> 'h scan_st" where
  "timed_key K s = (read_and_print K s)\<lparr>sc_elapsed := 0\<rparr>"

definition timed_tick :: "'h scan_st \<Rightarrow> 'h scan_st" where
  "timed_tick s =
     (let s1 = s\<lparr>sc_timer := timer_int_handler (sc_timer s)\<rparr> in
      if c_mod (timer_counter (sc_timer s1)) 60 = 0 then s1\<lparr>sc_elapsed := sc_elapsed s1 + 1\<rparr> else s1)"

definition timed_handler :: "'h kernel \<Rightarrow> u8 \<Rightarrow> u8 \<Rightarrow> u32 \<Rightarrow> 'h scan_st \<Rightarrow> 'h scan_st ctl" where
  "timed_handler K irq_set_keyboard irq_set_timer irqs s =
     (let s1 = (if irqs AND BIT (unat irq_set_keyboard) \<noteq> 0 then timed_key K s else s)
      in Continue (if irqs AND BIT (unat irq_set_timer) \<noteq> 0 then timed_tick s1 else s1))"

definition timed_waits :: "u8 \<Rightarrow> 'h scan_st \<Rightarrow> bool" where
  "timed_waits n s \<longleftrightarrow> no_escape s \<and> sc_elapsed s < uint n"

definition leave_timed :: "'h kernel \<Rightarrow> 'h scan_st \<Rightarrow> int \<times> 'h scan_st" where
  "leave_timed K s =
     (case kb_unsubscribe_int K (sc_kb s) (sc_hw s) of (r, h) \<Rightarrow>
        if r \<noteq> 0 then (1, s\<lparr>sc_hw := h\<rparr>)
        else case timer_unsubscribe_int K (sc_timer s) h of (r, h) \<Rightarrow>
          (if r \<noteq> 0 then 1 else 0, s\<lparr>sc_hw := h\<rparr>))"

definition kbd_test_timed_scan ::
  "'h kernel \<Rightarrow> u8 \<Rightarrow> 'h scan_st \<Rightarrow> recv list \<Rightarrow> 'h scan_st outcome" where
  "kbd_test_timed_scan K n s ms =
     (case kb_subscribe_int K Addr (sc_kb s) (sc_hw s) of (r, kb_line, k, h) \<Rightarrow>
        let s1 = s\<lparr>sc_kb := k, sc_hw := h, sc_elapsed := 0\<rparr> in
        if r \<noteq> 0 then Returned 1 s1 ms
        else case timer_subscribe_int K Addr (sc_timer s1) h of (r, timer_line, t, h) \<Rightarrow>
          let s2 = s1\<lparr>sc_timer := t, sc_hw := h\<rparr> in
          if r \<noteq> 0 then Returned 1 s2 ms
          else (case irq_loop (timed_waits n) (timed_handler K (the kb_line) (the timer_line)) s2 ms of
                  Waiting s3 \<Rightarrow> Waiting s3
                | Returned r s3 rest \<Rightarrow> Returned r s3 rest
                | Exited s3 rest \<Rightarrow> (case leave_timed K s3 of (r, s4) \<Rightarrow> Returned r s4 rest)))"


subsection \<open>What is printed\<close>

text \<open>The states after 0, 1, 2, ... keyboard interrupts, and what is printed for a code.\<close>

definition scans :: "'h kernel \<Rightarrow> 'h scan_st \<Rightarrow> nat \<Rightarrow> 'h scan_st" where
  "scans K s n = (read_and_print K ^^ n) s"

definition report :: "u8 \<Rightarrow> bool \<times> nat \<times> u8" where
  "report code = (\<not> bit code 7, if code = 0xE0 then 2 else 1, code)"

abbreviation code_of :: "'h scan_st \<Rightarrow> u8" where "code_of s \<equiv> scancode (sc_kb s)"

lemma print_scancode_simps [simp]:
  "sc_prints (print_scancode s) = sc_prints s @ [report (code_of s)]"
  "sc_fault (print_scancode s) = (sc_fault s \<or> code_of s = 0xE0)"
  "sc_kb (print_scancode s) = sc_kb s" "sc_timer (print_scancode s) = sc_timer s"
  "sc_hw (print_scancode s) = sc_hw s" "sc_elapsed (print_scancode s) = sc_elapsed s"
  by (simp_all add: print_scancode_def report_def KB_TWO_BYTES_def KB_MAKE_CODE_def Let_def)

lemma read_and_print_simps:
  "sc_prints (read_and_print K s) = sc_prints s @ [report (code_of (read_and_print K s))]"
  "sc_fault (read_and_print K s) = (sc_fault s \<or> code_of (read_and_print K s) = 0xE0)"
  by (simp_all add: read_and_print_def split: prod.splits)

lemma scans_Suc: "scans K s (Suc n) = read_and_print K (scans K s n)"
  by (simp add: scans_def)

lemma scans_shift: "scans K (read_and_print K s) n = scans K s (Suc n)"
  unfolding scans_def funpow_Suc_right by simp

text \<open>All of it is determined by the codes read.\<close>

lemma scans_prints:
  "sc_prints (scans K s n) = sc_prints s @ map (\<lambda>i. report (code_of (scans K s i))) [1..<Suc n]"
  "sc_fault (scans K s n) \<longleftrightarrow> sc_fault s \<or> (\<exists>i \<in> {1..n}. code_of (scans K s i) = 0xE0)"
proof (induction n)
  case 0
  show "sc_prints (scans K s 0) = sc_prints s @ map (\<lambda>i. report (code_of (scans K s i))) [1..<Suc 0]"
    "sc_fault (scans K s 0) \<longleftrightarrow> sc_fault s \<or> (\<exists>i \<in> {1..0}. code_of (scans K s i) = 0xE0)"
    by (simp_all add: scans_def)
next
  case (Suc n)
  show "sc_prints (scans K s (Suc n)) = sc_prints s @ map (\<lambda>i. report (code_of (scans K s i))) [1..<Suc (Suc n)]"
    using Suc(1) by (simp add: scans_Suc read_and_print_simps)
  have "{1..Suc n} = insert (Suc n) {1..n}" by auto
  then show "sc_fault (scans K s (Suc n)) \<longleftrightarrow> sc_fault s \<or> (\<exists>i \<in> {1..Suc n}. code_of (scans K s i) = 0xE0)"
    using Suc(2) by (auto simp: scans_Suc read_and_print_simps)
qed

lemma scan_loop:
  "case irq_loop no_escape (scan_handler K line) s ms of
     Waiting s' \<Rightarrow> s' = scans K s (ticks (\<lambda>irqs. bit irqs (unat line)) ms) \<and>
       (\<forall>i \<le> ticks (\<lambda>irqs. bit irqs (unat line)) ms. no_escape (scans K s i))
   | Exited s' rest \<Rightarrow> \<exists>n. ticks (\<lambda>irqs. bit irqs (unat line)) ms = n + ticks (\<lambda>irqs. bit irqs (unat line)) rest \<and>
       s' = scans K s n \<and> \<not> no_escape (scans K s n) \<and> (\<forall>i < n. no_escape (scans K s i))
   | Returned r s' rest \<Rightarrow> False"
proof (induction ms arbitrary: s)
  case Nil
  then show ?case by (simp add: ticks_def scans_def)
next
  case (Cons m ms)
  let ?key = "\<lambda>irqs :: u32. bit irqs (unat line)"
  consider "\<not> no_escape s" | "no_escape s" "\<not> (irq_notification m \<and> ?key (interrupts m))"
    | "no_escape s" "irq_notification m" "?key (interrupts m)" by blast
  then show ?case
  proof cases
    case 1
    then show ?thesis by (auto simp: scans_def intro!: exI [of _ 0])
  next
    case 2
    then have "irq_loop no_escape (scan_handler K line) s (m # ms) = irq_loop no_escape (scan_handler K line) s ms"
      by (auto simp: scan_handler_def)
    moreover have "ticks ?key (m # ms) = ticks ?key ms" using 2 by (auto simp: ticks_def)
    ultimately show ?thesis using Cons.IH [of s] by (simp only:)
  next
    case 3
    let ?t = "read_and_print K s"
    have loop: "irq_loop no_escape (scan_handler K line) s (m # ms) = irq_loop no_escape (scan_handler K line) ?t ms"
      and t: "ticks ?key (m # ms) = Suc (ticks ?key ms)" using 3 by (simp_all add: scan_handler_def ticks_def)
    have s0: "scans K s 0 = s" by (simp add: scans_def)
    have less: "(\<forall>i < Suc n. no_escape (scans K s i)) \<longleftrightarrow> (\<forall>i < n. no_escape (scans K ?t i))" for n
      using 3(1) s0 unfolding All_less_Suc2 scans_shift by simp
    show ?thesis
    proof (cases "irq_loop no_escape (scan_handler K line) ?t ms")
      case (Waiting s')
      with Cons.IH [of ?t] less [of "Suc (ticks ?key ms)"] show ?thesis
        by (simp only: loop t outcome.case scans_shift less_Suc_eq_le) simp
    next
      case (Exited s' rest)
      with Cons.IH [of ?t] obtain n where "ticks ?key ms = n + ticks ?key rest" "s' = scans K ?t n"
        "\<not> no_escape (scans K ?t n)" "\<forall>i < n. no_escape (scans K ?t i)" by auto
      then show ?thesis
        unfolding loop t Exited outcome.case by (intro exI [of _ "Suc n"]) (simp add: less scans_shift)
    next
      case (Returned r s' rest)
      with Cons.IH [of ?t] show ?thesis by (simp add: loop)
    qed
  qed
qed

text \<open>Without a key the timed test counts seconds.\<close>

definition timed_need :: "u8 \<Rightarrow> 'h scan_st \<Rightarrow> nat" where
  "timed_need n s = ticks_left (nat (uint n - sc_elapsed s)) (timer_counter (sc_timer s))"

definition timed_inv :: "'h scan_st \<Rightarrow> bool" where
  "timed_inv s \<longleftrightarrow> no_escape s \<and> 0 \<le> timer_counter (sc_timer s)"

interpretation idle: irq_countdown "timed_waits n" "timed_handler K kb_line timer_line" timed_inv
    "\<lambda>irqs. \<not> bit irqs (unat kb_line)" "\<lambda>irqs. bit irqs (unat timer_line)" "timed_need n"
  for n K kb_line timer_line
proof
  fix s :: "'a scan_st" and irqs :: u32
  assume inv: "timed_inv s"
  show "timed_waits n s = (0 < timed_need n s)"
    using inv by (simp add: timed_waits_def timed_inv_def timed_need_def ticks_left_pos)
  assume g: "timed_waits n s" and "\<not> bit irqs (unat kb_line)"
  let ?c = "timer_counter (sc_timer s)"
  have left: "0 < nat (uint n - sc_elapsed s)" using g by (simp add: timed_waits_def)
  have less: "nat (uint n - (sc_elapsed s + 1)) = nat (uint n - sc_elapsed s) - 1" by simp
  have "timed_inv (timed_tick s) \<and> timed_need n (timed_tick s) = timed_need n s - 1"
    using inv ticks_left_step [OF left, of ?c] less
    by (auto simp: timed_tick_def timed_inv_def timed_need_def no_escape_def timer_int_handler_def Let_def)
  then show "\<exists>s'. timed_handler K kb_line timer_line irqs s = Continue s' \<and> timed_inv s' \<and>
      timed_need n s' = timed_need n s - (if bit irqs (unat timer_line) then 1 else 0)"
    using inv \<open>\<not> bit irqs (unat kb_line)\<close> by (simp add: timed_handler_def Let_def)
qed

lemma while_option_first:
  assumes "while_option b c s = Some t"
  shows "\<exists>k. t = (c ^^ k) s \<and> \<not> b t \<and> (\<forall>j < k. b ((c ^^ j) s))"
proof -
  let ?k = "LEAST k. \<not> b ((c ^^ k) s)"
  from assms have ex: "\<exists>k. \<not> b ((c ^^ k) s)" and t: "t = (c ^^ ?k) s"
    by (auto simp: while_option_def split: if_splits)
  have "\<not> b ((c ^^ ?k) s)" using ex by (rule LeastI_ex)
  moreover have "\<forall>j < ?k. b ((c ^^ j) s)" using not_less_Least by blast
  ultimately show ?thesis using t by blast
qed


subsection \<open>Properties\<close>

text \<open>C38. The interrupt test prints exactly one scancode for every keyboard interrupt, in order, up to and
  including the first release of escape, with which it ends: the codes are those the driver reads one
  after the other. \<open>kbd_print_scancode\<close> is made to read past \<open>scancode\<close> exactly when one of them is the
  prefix 0xE0 of a two-byte code.\<close>

theorem kbd_test_scan_prints:
  fixes ms :: "recv list"
  assumes "kb_subscribe_int K Addr (sc_kb s) (sc_hw s) = (0, Some line, k, h)"
  defines "code \<equiv> \<lambda>i. code_of (scans K (s\<lparr>sc_kb := k, sc_hw := h\<rparr>) i)"
    and "keys \<equiv> ticks (\<lambda>irqs. bit irqs (unat line))"
    and "s' \<equiv> outcome_state (kbd_test_scan K s ms)"
  shows "\<exists>n. (\<forall>i < n. code i \<noteq> KB_BREAK_ESC) \<and>
     sc_prints s' = sc_prints s @ map (\<lambda>i. report (code i)) [1..<Suc n] \<and>
     (sc_fault s' \<longleftrightarrow> sc_fault s \<or> (\<exists>i \<in> {1..n}. code i = 0xE0)) \<and>
     (case kbd_test_scan K s ms of
        Waiting _ \<Rightarrow> n = keys ms \<and> code n \<noteq> KB_BREAK_ESC
      | Exited _ rest \<Rightarrow> False
      | Returned r _ rest \<Rightarrow> keys ms = n + keys rest \<and> code n = KB_BREAK_ESC)"
proof -
  let ?s = "s\<lparr>sc_kb := k, sc_hw := h\<rparr>"
  note loop = scan_loop [where K = K and line = line and s = ?s and ms = ms]
  note prints = scans_prints [of K ?s, simplified]
  show ?thesis
  proof (cases "irq_loop no_escape (scan_handler K line) ?s ms")
    case (Waiting t)
    then have "kbd_test_scan K s ms = Waiting t" by (simp add: kbd_test_scan_def assms(1))
    with loop Waiting prints show ?thesis
      by (intro exI [of _ "keys ms"]) (simp add: s'_def code_def keys_def no_escape_def)
  next
    case (Exited t rest)
    with loop obtain n where n: "keys ms = n + keys rest" "t = scans K ?s n"
      "\<not> no_escape (scans K ?s n)" "\<forall>i < n. no_escape (scans K ?s i)" by (auto simp: keys_def)
    obtain r h' where "kbd_test_scan K s ms = Returned r (t\<lparr>sc_hw := h'\<rparr>) rest"
      by (cases "kb_unsubscribe_int K (sc_kb t) (sc_hw t)") (simp add: kbd_test_scan_def assms(1) Exited)
    with n prints show ?thesis
      by (intro exI [of _ n]) (simp add: s'_def code_def no_escape_def)
  next
    case (Returned r t rest)
    with loop show ?thesis by simp
  qed
qed

definition typing_kernel :: "u32 \<Rightarrow> port_log kernel" where
  "typing_kernel byte = log_kernel (\<lambda>p l. if p = KEYBOARD_STATUS then 1 else byte) mode_14c (\<lambda>xpm. None)"

definition scan_init_st :: "port_log scan_st" where
  "scan_init_st = \<lparr>sc_kb = kb_init_st, sc_timer = timer_init_st, sc_elapsed = 0, sc_prints = [],
     sc_fault = False, sc_hw = []\<rparr>"

lemma typing_reads:
  "read_keyboard_output (typing_kernel byte) KEYBOARD_OUT_CMD Addr 0 v h =
     (0, ucast (byte AND 0xff), h @ [(0x64, 1), (0x60, byte)])"
proof -
  have "read_attempt (typing_kernel byte) KEYBOARD_OUT_CMD Addr 0 v h =
      Settled (0, ucast (byte AND 0xff)) (h @ [(0x64, 1), (0x60, byte)])"
    by (simp add: read_attempt_def util_sys_inb_def typing_kernel_def log_kernel_def kbc_consts BIT_def)
  then show ?thesis by (simp add: read_keyboard_output_def eval_nat_numeral)
qed

lemma typing_subscribe:
  "kb_subscribe_int (typing_kernel byte) Addr kb_init_st h = (0, Some 1, kb_init_st, h)"
  by (simp add: kb_subscribe_int_def typing_kernel_def log_kernel_def kb_init_st_def)

lemma kbd_test_scan_prints_witness:
  "sc_fault (outcome_state (kbd_test_scan (typing_kernel 0xE0) scan_init_st [hw_msg 2]))"
proof -
  let ?K = "typing_kernel 0xE0" and ?s = "scan_init_st\<lparr>sc_kb := kb_init_st, sc_hw := []\<rparr>"
  have sub: "kb_subscribe_int ?K Addr (sc_kb scan_init_st) (sc_hw scan_init_st) = (0, Some 1, kb_init_st, [])"
    using typing_subscribe by (simp add: scan_init_st_def)
  have keys: "ticks (\<lambda>irqs. bit irqs (unat (1 :: u8))) [hw_msg 2] = 1" by (simp add: ticks_def bit_numeral_rec)
  have code0: "code_of (scans ?K ?s 0) = 0" by (simp add: scans_def scan_init_st_def kb_init_st_def)
  have code1: "code_of (scans ?K ?s 1) = 0xE0"
    by (simp add: scans_def read_and_print_def kbc_ih_def typing_reads)
  obtain s1 where w: "kbd_test_scan ?K scan_init_st [hw_msg 2] = Waiting s1"
    using code1 sub
    by (simp add: kbd_test_scan_def scan_handler_def no_escape_def scans_def scan_init_st_def kb_init_st_def key_codes)
  from kbd_test_scan_prints [OF sub, of "[hw_msg 2]"] obtain n where
    "sc_fault s1 \<longleftrightarrow> sc_fault scan_init_st \<or> (\<exists>i \<in> {1..n}. code_of (scans ?K ?s i) = 0xE0)" "n = 1"
    unfolding keys w by auto
  with code1 w show ?thesis by simp
qed





end
