(* ===== verification/Lab_Graphics.thy ===== *)
theory Lab_Graphics
  imports Graphics
begin

text \<open>
  \<open>lab5/graphic.c\<close>: the graphics of the fifth lab. Its functions have the names of those of the game, but
  they have no back buffer and draw into the mapped video memory; a sprite is loaded with one byte per
  pixel. \<open>set_graphical_mode\<close>, \<open>norm_color\<close>, \<open>dir_mode\<close> and \<open>idx_mode\<close> are copied by the game without a
  change and are not defined again.

  The lemmas show that drawing into the video memory is drawing into the back buffer, so that what
  \<open>Graphics\<close> shows of the one holds of the other, and that the pattern of rectangles covers the screen
  as its description says.
\<close>

subsection \<open>State and mode\<close>

record vram_st =
  vr_mode :: vbe_mode_info
  vr_size :: u32
  vr_mem :: "u8 list"
  vr_fault :: bool

text \<open>\<open>None\<close> is the panic.\<close>

definition vram_set_frame_buffer ::
  "'h kernel \<Rightarrow> u16 \<Rightarrow> vram_st \<Rightarrow> 'h \<Rightarrow> (int \<times> vram_st \<times> 'h) option" where
  "vram_set_frame_buffer K mode s h =
     (case vbe_get_mode_info K mode h of
        (None, h1) \<Rightarrow> Some (1, s\<lparr>vr_mode := zero_mode_info\<rparr>, h1)
      | (Some m, h1) \<Rightarrow>
          let size = word_of_int (uint (XResolution m) * uint (YResolution m)) * of_nat (bytes_per_pixel m);
              s1 = s\<lparr>vr_mode := m, vr_size := size\<rparr>;
              mr_base = PhysBasePtr m;
              mr_limit = mr_base + size
          in case sys_privctl_add_mem K mr_base mr_limit h1 of (r, h2) \<Rightarrow>
            if r \<noteq> 0 then Some (1, s1, h2)
            else case vm_map_phys K mr_base size h2 of
              (None, h3) \<Rightarrow> None
            | (Some vm, h3) \<Rightarrow> Some (0, s1\<lparr>vr_mem := vm\<rparr>, h3))"


subsection \<open>Drawing\<close>

text \<open>\<open>memcpy(&video_mem[idx], &color, n)\<close>.\<close>

definition store_color :: "nat \<Rightarrow> u32 \<Rightarrow> nat \<Rightarrow> vram_st \<Rightarrow> vram_st" where
  "store_color idx color n s =
     (if n \<le> 4 \<and> idx + n \<le> length (vr_mem s)
      then s\<lparr>vr_mem := take idx (vr_mem s) @ take n (color_bytes color) @ drop (idx + n) (vr_mem s)\<rparr>
      else s\<lparr>vr_fault := True\<rparr>)"

definition vram_draw_pixel :: "u16 \<Rightarrow> u16 \<Rightarrow> u32 \<Rightarrow> vram_st \<Rightarrow> int \<times> vram_st" where
  "vram_draw_pixel x y color s =
     (if x \<ge> XResolution (vr_mode s) \<or> y \<ge> YResolution (vr_mode s) then (1, s)
      else
        let n = bytes_per_pixel (vr_mode s);
            idx = word_of_int (uint (XResolution (vr_mode s)) * uint y + uint x) * of_nat n :: u32
        in (0, store_color (unat idx) color n s))"

definition vram_draw_hline :: "u16 \<Rightarrow> u16 \<Rightarrow> u16 \<Rightarrow> u32 \<Rightarrow> vram_st \<Rightarrow> int \<times> vram_st" where
  "vram_draw_hline x y len color =
     for_fail (\<lambda>i. vram_draw_pixel (x + of_nat i) y color) [0..<unat len]"

definition vram_draw_rectangle ::
  "u16 \<Rightarrow> u16 \<Rightarrow> u16 \<Rightarrow> u16 \<Rightarrow> u32 \<Rightarrow> vram_st \<Rightarrow> int \<times> vram_st" where
  "vram_draw_rectangle x y width height color =
     for_fail (\<lambda>i. vram_draw_hline x (y + of_nat i) width color) [0..<unat height]"

text \<open>
  \<open>xpm_load(xpm, XPM_INDEXED, &image)\<close> is a parameter of its own: an image with one byte per pixel, read
  by a pointer that advances with every pixel drawn.
\<close>

record indexed_image =
  ix_width :: u16
  ix_height :: u16
  ix_colors :: "u8 list"

definition vram_print_pixel :: "indexed_image \<Rightarrow> u16 \<Rightarrow> u16 \<Rightarrow> nat \<times> nat \<Rightarrow> vram_st \<Rightarrow> int \<times> vram_st" where
  "vram_print_pixel img x y = (\<lambda>(h, w) s.
     let color = h * unat (ix_width img) + w in
     if color < length (ix_colors img)
     then vram_draw_pixel (of_nat w + x) (of_nat h + y) (ucast (ix_colors img ! color)) s
     else (1, s\<lparr>vr_fault := True\<rparr>))"

definition vram_print_xpm ::
  "(string list \<Rightarrow> indexed_image option) \<Rightarrow> string list \<Rightarrow> u16 \<Rightarrow> u16 \<Rightarrow> vram_st \<Rightarrow> int \<times> vram_st" where
  "vram_print_xpm load xpm x y s =
     (case load xpm of
        None \<Rightarrow> (1, s\<lparr>vr_fault := True\<rparr>)
      | Some img \<Rightarrow>
          for_fail (vram_print_pixel img x y)
            (List.product [0..<unat (ix_height img)] [0..<unat (ix_width img)]) s)"


subsection \<open>The video memory as a back buffer\<close>

text \<open>The state of the game's graphics whose back buffer is this video memory.\<close>

definition as_buffer :: "u8 list \<Rightarrow> vram_st \<Rightarrow> gfx_st" where
  "as_buffer vm s =
     \<lparr>mode_info = vr_mode s, vram_size = vr_size s, video_mem = vm, back_buf = Some (vr_mem s),
      gfx_fault = vr_fault s\<rparr>"

lemma as_buffer_simps [simp]:
  "mode_info (as_buffer vm s) = vr_mode s" "vram_size (as_buffer vm s) = vr_size s"
  "back_buf (as_buffer vm s) = Some (vr_mem s)" "gfx_fault (as_buffer vm s) = vr_fault s"
  "video_mem (as_buffer vm s) = vm"
  by (simp_all add: as_buffer_def)

definition wide_image :: "indexed_image \<Rightarrow> xpm_image" where
  "wide_image img =
     \<lparr>img_width = ix_width img, img_height = ix_height img, img_colors = map ucast (ix_colors img)\<rparr>"

definition wide_kernel :: "(string list \<Rightarrow> indexed_image option) \<Rightarrow> 'h kernel \<Rightarrow> 'h kernel" where
  "wide_kernel load K = K\<lparr>xpm_load := \<lambda>xpm. map_option wide_image (load xpm)\<rparr>"

lemma for_fail_sim:
  assumes "\<And>a s. map_prod id f (d a s) = e a (f s)"
  shows "map_prod id f (for_fail d xs s) = for_fail e xs (f s)"
proof (induction xs arbitrary: s)
  case (Cons a xs)
  obtain r t where d: "d a s = (r, t)" by fastforce
  have "e a (f s) = (r, f t)" using assms [of a s] by (simp add: d)
  with Cons.IH [of t] show ?case by (simp add: d)
qed simp

lemma store_color_sim: "as_buffer vm (store_color idx c n s) = memcpy_color idx c n (as_buffer vm s)"
  by (simp add: store_color_def memcpy_color_def set_fault_def as_buffer_def)

lemma vram_draw_pixel_sim:
  "map_prod id (as_buffer vm) (vram_draw_pixel x y c s) = vg_draw_pixel x y c (as_buffer vm s)"
  by (simp add: vram_draw_pixel_def vg_draw_pixel_def store_color_sim Let_def)

lemma vram_draw_hline_sim:
  "map_prod id (as_buffer vm) (vram_draw_hline x y len c s) = vg_draw_hline x y len c (as_buffer vm s)"
  unfolding vram_draw_hline_def vg_draw_hline_def by (rule for_fail_sim) (rule vram_draw_pixel_sim)

lemma vram_draw_rectangle_sim:
  "map_prod id (as_buffer vm) (vram_draw_rectangle x y w h c s) = vg_draw_rectangle x y w h c (as_buffer vm s)"
  unfolding vram_draw_rectangle_def vg_draw_rectangle_def by (rule for_fail_sim) (rule vram_draw_hline_sim)

lemma vram_print_xpm_sim:
  "map_prod id (as_buffer vm) (vram_print_xpm load xpm x y s) =
     print_xpm (wide_kernel load K) xpm x y (as_buffer vm s)"
proof (cases "load xpm")
  case None
  then show ?thesis by (simp add: vram_print_xpm_def print_xpm_def wide_kernel_def set_fault_def as_buffer_def)
next
  case (Some img)
  have "map_prod id (as_buffer vm) (vram_print_pixel img x y a t) =
      print_xpm_pixel (wide_image img) x y a (as_buffer vm t)" for a t
    by (cases a) (simp add: vram_print_pixel_def print_xpm_pixel_def wide_image_def vram_draw_pixel_sim
        set_fault_def as_buffer_def Let_def)
  from for_fail_sim [where f = "as_buffer vm" and d = "vram_print_pixel img x y"
      and e = "print_xpm_pixel (wide_image img) x y", OF this] Some
  show ?thesis
    by (simp add: vram_print_xpm_def print_xpm_def wide_kernel_def) (simp add: wide_image_def)
qed

lemma map_prod_id_eq: "map_prod id f p = q \<longleftrightarrow> fst q = fst p \<and> f (snd p) = snd q"
  by (cases p; cases q) auto


subsection \<open>Well-formed video memory\<close>

definition wf_vram :: "vram_st \<Rightarrow> bool" where
  "wf_vram s \<longleftrightarrow> \<not> vr_fault s \<and> 1 \<le> bytes_per_pixel (vr_mode s) \<and> bytes_per_pixel (vr_mode s) \<le> 4 \<and>
     unat (vr_size s) = unat (XResolution (vr_mode s)) * unat (YResolution (vr_mode s)) * bytes_per_pixel (vr_mode s) \<and>
     length (vr_mem s) = unat (vr_size s)"

lemma wf_vram_buffer: "wf_vram s \<longleftrightarrow> wf_gfx (as_buffer (vr_mem s) s)"
  by (auto simp: wf_vram_def wf_gfx_def)

lemma wf_gfx_as_buffer: "wf_gfx (as_buffer vm s) \<longleftrightarrow> wf_vram s \<and> length vm = unat (vr_size s)"
  by (auto simp: wf_vram_def wf_gfx_def)

definition vram_pixel :: "vram_st \<Rightarrow> nat \<times> nat \<Rightarrow> u8 list" where
  "vram_pixel s = pixel_at (as_buffer (vr_mem s) s)"

lemma pixel_at_buffer: "pixel_at (as_buffer vm s) = vram_pixel s"
  by (rule ext) (auto simp: vram_pixel_def pixel_at_def split: prod.splits)

text \<open>A step of the game's painters is a step here.\<close>

lemma vram_step:
  assumes "map_prod id (as_buffer (vr_mem s)) p = q"
    and "wf_gfx (snd q)" and "same_screen (as_buffer (vr_mem s) s) (snd q)"
  shows "wf_vram (snd p)" and "vr_mode (snd p) = vr_mode s" and "fst p = fst q"
    and "vram_pixel (snd p) = pixel_at (snd q)"
proof -
  have q: "snd q = as_buffer (vr_mem s) (snd p)" "fst q = fst p"
    using assms(1) by (auto simp: map_prod_id_eq)
  show "wf_vram (snd p)" using assms(2) by (simp add: q wf_gfx_as_buffer)
  show "vr_mode (snd p) = vr_mode s" using same_screen_fields(1) [OF assms(3)] by (simp add: q)
  show "fst p = fst q" by (simp add: q)
  show "vram_pixel (snd p) = pixel_at (snd q)" by (simp add: q pixel_at_buffer)
qed

subsection \<open>Rectangles on the abstract screen\<close>

definition in_box :: "nat \<Rightarrow> nat \<Rightarrow> nat \<Rightarrow> nat \<Rightarrow> nat \<times> nat \<Rightarrow> bool" where
  "in_box x y w h = (\<lambda>(p, q). x \<le> p \<and> p < x + w \<and> y \<le> q \<and> q < y + h)"

definition paint_box :: "nat \<Rightarrow> nat \<Rightarrow> nat \<Rightarrow> nat \<Rightarrow> 'c \<Rightarrow> (nat \<times> nat \<Rightarrow> 'c) \<Rightarrow> nat \<times> nat \<Rightarrow> 'c" where
  "paint_box x y w h c f = (\<lambda>pt. if in_box x y w h pt then c else f pt)"

lemma xres_bound: "unat (XResolution m) < 2 ^ 16" "unat (YResolution m) < 2 ^ 16"
  using unsigned_less [of "XResolution m", where ?'a = nat] unsigned_less [of "YResolution m", where ?'a = nat]
  by simp_all

lemma fold_row:
  "fold (\<lambda>i f. f((x + i, y) := c)) [0..<n] f = paint_box x y n 1 c f" for x y n :: nat
  by (induction n) (auto simp: fun_eq_iff paint_box_def in_box_def)

lemma hline_paints:
  assumes "wf_gfx g" and "unat x + unat len \<le> xres g" and "unat y < yres g"
  shows "fst (vg_draw_hline x y len c g) = 0"
    and "pixel_at (snd (vg_draw_hline x y len c g)) =
           paint_box (unat x) (unat y) (unat len) 1 (pixel_bytes g c) (pixel_at g)"
proof -
  have x: "unat (x + of_nat i) = unat x + i" if "i \<in> set [0..<unat len]" for i
    using that assms(2) xres_bound [of "mode_info g"] by (intro unat_plus_of_nat16) simp
  have fits: "\<forall>i \<in> set [0..<unat len]. unat (x + of_nat i) < xres g \<and> unat y < yres g"
    using x assms(2,3) by simp
  from row.draw_all_result [OF assms(1), of x y c "[0..<unat len]"] fits
  show "fst (vg_draw_hline x y len c g) = 0" unfolding vg_draw_hline_def by presburger
  have "pixel_at (snd (vg_draw_hline x y len c g)) =
      fold (\<lambda>i f. f((unat (x + of_nat i), unat y) := pixel_bytes g c)) [0..<unat len] (pixel_at g)"
    unfolding vg_draw_hline_def by (rule pixels_paint [OF assms(1) fits])
  also have "\<dots> = fold (\<lambda>i f. f((unat x + i, unat y) := pixel_bytes g c)) [0..<unat len] (pixel_at g)"
    by (rule fold_cong) (use x in auto)
  finally show "pixel_at (snd (vg_draw_hline x y len c g)) =
      paint_box (unat x) (unat y) (unat len) 1 (pixel_bytes g c) (pixel_at g)"
    by (simp only: fold_row)
qed

lemma rectangle_paints:
  assumes "wf_gfx g" and "unat x + unat w \<le> xres g" and "unat y + unat h \<le> yres g"
  shows "pixel_at (snd (vg_draw_rectangle x y w h c g)) =
           paint_box (unat x) (unat y) (unat w) (unat h) (pixel_bytes g c) (pixel_at g)"
proof -
  let ?line = "\<lambda>i. vg_draw_hline x (y + of_nat i) w c"
  have rows: "fst (for_fail ?line is s) = 0 \<and>
      pixel_at (snd (for_fail ?line is s)) =
        fold (\<lambda>i. paint_box (unat x) (unat y + i) (unat w) 1 (pixel_bytes g c)) is (pixel_at s)"
    if "wf_gfx s" "same_screen g s" "set is \<subseteq> {0..<unat h}" for "is" s
    using that
  proof (induction "is" arbitrary: s)
    case (Cons i "is")
    have i: "i < unat h" using Cons.prems(3) by simp
    have y: "unat (y + of_nat i) = unat y + i"
      using i assms(3) xres_bound [of "mode_info g"] by (intro unat_plus_of_nat16) simp
    note m = same_screen_fields(1) [OF Cons.prems(2)]
    have fit: "unat x + unat w \<le> xres s" "unat (y + of_nat i) < yres s"
      using assms(2,3) i by (simp_all add: m y)
    note line = hline_paints [OF Cons.prems(1) fit, of c]
    have wf: "wf_gfx (snd (?line i s))" "same_screen g (snd (?line i s))"
      using hline.draw_wf [OF Cons.prems(1)] same_screen_trans [OF Cons.prems(2) hline.draw_screen [OF Cons.prems(1)]]
      by blast+
    show ?case
      using Cons.IH [OF wf] Cons.prems(3) line
      by (simp add: case_prod_beta y pixel_bytes_def m)
  qed simp
  have boxes: "fold (\<lambda>i. paint_box a (b + i) d 1 k) [0..<n] f = paint_box a b d n k f" for a b d n :: nat and k and f
    by (induction n) (auto simp: fun_eq_iff paint_box_def in_box_def)
  show ?thesis
    using rows [OF assms(1) same_screen_refl, of "[0..<unat h]"]
    by (simp add: vg_draw_rectangle_def boxes del: One_nat_def)
qed

lemma vram_rectangle_ok:
  assumes "wf_vram s" and "unat x + unat w \<le> unat (XResolution (vr_mode s))"
    and "unat y + unat h \<le> unat (YResolution (vr_mode s))"
  shows "fst (vram_draw_rectangle x y w h c s) = 0" and "wf_vram (snd (vram_draw_rectangle x y w h c s))"
    and "vr_mode (snd (vram_draw_rectangle x y w h c s)) = vr_mode s"
    and "vram_pixel (snd (vram_draw_rectangle x y w h c s)) =
           paint_box (unat x) (unat y) (unat w) (unat h) (take (bytes_per_pixel (vr_mode s)) (color_bytes c)) (vram_pixel s)"
proof -
  let ?g = "as_buffer (vr_mem s) s"
  have wf: "wf_gfx ?g" using assms(1) by (simp add: wf_vram_buffer)
  note draw = rect.draw_wf [OF wf, of "(x, y, w, h, c)", simplified]
    rect.draw_screen [OF wf, of "(x, y, w, h, c)", simplified]
  note step = vram_step [OF vram_draw_rectangle_sim draw]
  have "fst (vg_draw_rectangle x y w h c ?g) = 0"
    using rect.draw_result [OF wf, of "(x, y, w, h, c)"] assms(2,3) by (simp add: fits_rect_def)
  with step show "fst (vram_draw_rectangle x y w h c s) = 0" "wf_vram (snd (vram_draw_rectangle x y w h c s))"
    "vr_mode (snd (vram_draw_rectangle x y w h c s)) = vr_mode s" by simp_all
  from rectangle_paints [OF wf, of x w y h c] assms(2,3) step(4)
  show "vram_pixel (snd (vram_draw_rectangle x y w h c s)) =
      paint_box (unat x) (unat y) (unat w) (unat h) (take (bytes_per_pixel (vr_mode s)) (color_bytes c)) (vram_pixel s)"
    by (simp add: pixel_bytes_def pixel_at_buffer)
qed

lemma vram_rectangle_result:
  assumes "wf_vram s"
  shows "fst (vram_draw_rectangle x y w h c s) = (if fits_rect x y (unat w) (unat h) (vr_mode s) then 0 else 1)"
    and "wf_vram (snd (vram_draw_rectangle x y w h c s))"
proof -
  let ?g = "as_buffer (vr_mem s) s"
  have wf: "wf_gfx ?g" using assms by (simp add: wf_vram_buffer)
  note step = vram_step [OF vram_draw_rectangle_sim rect.draw_wf [OF wf, of "(x, y, w, h, c)", simplified]
    rect.draw_screen [OF wf, of "(x, y, w, h, c)", simplified]]
  show "wf_vram (snd (vram_draw_rectangle x y w h c s))" by (rule step(1))
  show "fst (vram_draw_rectangle x y w h c s) = (if fits_rect x y (unat w) (unat h) (vr_mode s) then 0 else 1)"
    using step(3) rect.draw_result [OF wf, of "(x, y, w, h, c)"] by simp
qed

text \<open>A sprite that lies on the screen.\<close>

definition indexed_ok :: "indexed_image \<Rightarrow> bool" where
  "indexed_ok img \<longleftrightarrow> length (ix_colors img) = unat (ix_height img) * unat (ix_width img)"

definition sprite_at :: "indexed_image \<Rightarrow> u16 \<Rightarrow> u16 \<Rightarrow> vram_st \<Rightarrow> bool" where
  "sprite_at img x y s \<longleftrightarrow> (\<forall>i < unat (ix_height img). \<forall>j < unat (ix_width img).
     vram_pixel s (unat x + j, unat y + i) =
       take (bytes_per_pixel (vr_mode s)) (color_bytes (ucast (ix_colors img ! (i * unat (ix_width img) + j)))))"

lemma vram_sprite_ok:
  assumes "load xpm = Some img" and "indexed_ok img" and "wf_vram s"
    and "unat x + unat (ix_width img) \<le> unat (XResolution (vr_mode s))"
    and "unat y + unat (ix_height img) \<le> unat (YResolution (vr_mode s))"
  shows "fst (vram_print_xpm load xpm x y s) = 0" and "wf_vram (snd (vram_print_xpm load xpm x y s))"
    and "vr_mode (snd (vram_print_xpm load xpm x y s)) = vr_mode s"
    and "sprite_at img x y (snd (vram_print_xpm load xpm x y s))"
proof -
  let ?g = "as_buffer (vr_mem s) s" and ?K = "wide_kernel load (demo_kernel 0)"
  let ?q = "print_xpm ?K xpm x y ?g" and ?p = "vram_print_xpm load xpm x y s"
  have img: "xpm_load ?K xpm = Some (wide_image img)" "img_ok (wide_image img)"
    using assms(1,2) by (simp_all add: wide_kernel_def wide_image_def img_ok_def indexed_ok_def)
  have wf: "wf_gfx ?g" using assms(3) by (simp add: wf_vram_buffer)
  have fit: "fits_img (wide_image img) x y (vr_mode s)"
    using assms(4,5) by (simp add: fits_img_def fits_rect_def wide_image_def)
  have safe: "wf_gfx (snd ?q)" "same_screen ?g (snd ?q)" using print_xpm_safe [OF img wf] by auto
  note step = vram_step [OF vram_print_xpm_sim [of "vr_mem s" load xpm x y s "demo_kernel 0"] safe]
  show mode: "vr_mode (snd ?p) = vr_mode s" and "wf_vram (snd ?p)" using step by simp_all
  show "fst ?p = 0" using step(3) print_xpm_result [OF img wf] fit by simp
  have "vram_pixel (snd ?p) (unat x + j, unat y + i) =
      take (bytes_per_pixel (vr_mode s)) (color_bytes (ucast (ix_colors img ! (i * unat (ix_width img) + j))))"
    if "i < unat (ix_height img)" "j < unat (ix_width img)" for i j
    using that img_index [OF that] assms(2) print_xpm_paints_sprite [OF img wf, of x y "unat x + j" "unat y + i"] fit
    by (simp add: step(4) wide_image_def img_color_def pixel_bytes_def indexed_ok_def)
  then show "sprite_at img x y (snd ?p)" by (simp add: sprite_at_def mode)
qed


subsection \<open>The pattern of video_test_pattern\<close>

text \<open>
  The nested loops of \<open>video_test_pattern\<close> in \<open>lab5.c\<close>. \<open>None\<close>: with \<open>no_rectangles = 0\<close> the program divides by zero.
  The shifts are by less than 31 bits in the modes the color functions are meant for.
\<close>

definition pattern_color :: "vbe_mode_info \<Rightarrow> u8 \<Rightarrow> u32 \<Rightarrow> u8 \<Rightarrow> nat \<Rightarrow> nat \<Rightarrow> u32" where
  "pattern_color m no_rectangles first step i j =
     (if MemoryModel m = 0x06 then dir_mode m (of_nat j) (of_nat i) step first
      else idx_mode m (of_nat j) (of_nat i) step first no_rectangles)"

definition draw_pattern :: "u8 \<Rightarrow> u32 \<Rightarrow> u8 \<Rightarrow> vram_st \<Rightarrow> (int \<times> vram_st) option" where
  "draw_pattern no_rectangles first step s =
     (if no_rectangles = 0 then None
      else
        let n = unat no_rectangles;
            m = vr_mode s;
            v = unat (YResolution m) div n;
            h = unat (XResolution m) div n
        in Some (for_fail
             (\<lambda>(i, j). vram_draw_rectangle (of_nat (j * h)) (of_nat (i * v)) (of_nat h) (of_nat v)
                         (pattern_color m no_rectangles first step i j))
             (List.product [0..<n] [0..<n]) s))"

lemma grid_cell:
  fixes h n j p :: nat
  assumes "0 < h"
  shows "j * h \<le> p \<and> p < j * h + h \<longleftrightarrow> p div h = j"
proof -
  have "p div h = j \<longleftrightarrow> j * h \<le> p \<and> p < Suc j * h"
    using assms by (metis div_nat_eqI less_eq_div_iff_mult_less_eq less_mult_imp_div_less mult.commute
        dividend_less_times_div mult_Suc_right times_div_less_eq_dividend)
  then show ?thesis by (auto simp: add.commute)
qed

lemma cell_fits:
  fixes j n r :: nat
  assumes "j < n"
  shows "j * (r div n) + r div n \<le> r"
proof -
  have "j * (r div n) + r div n = Suc j * (r div n)" by simp
  also have "\<dots> \<le> n * (r div n)" using assms by (intro mult_le_mono1) simp
  also have "\<dots> \<le> r" by simp
  finally show ?thesis .
qed

lemma grid_paints:
  fixes col :: "nat \<Rightarrow> nat \<Rightarrow> u32"
  assumes "wf_vram s" and "vr_mode s = m" and "set cells \<subseteq> {0..<n} \<times> {0..<n}"
  defines "h \<equiv> unat (XResolution m) div n" and "v \<equiv> unat (YResolution m) div n"
  defines "draw \<equiv> \<lambda>(i, j). vram_draw_rectangle (of_nat (j * h)) (of_nat (i * v)) (of_nat h) (of_nat v) (col i j)"
  shows "fst (for_fail draw cells s) = 0 \<and> wf_vram (snd (for_fail draw cells s)) \<and>
     vr_mode (snd (for_fail draw cells s)) = m \<and>
     vram_pixel (snd (for_fail draw cells s)) =
       fold (\<lambda>(i, j). paint_box (j * h) (i * v) h v (take (bytes_per_pixel m) (color_bytes (col i j))))
         cells (vram_pixel s)"
  using assms(1-3)
proof (induction cells arbitrary: s)
  case (Cons a cells)
  obtain i j where a: "a = (i, j)" by fastforce
  with Cons.prems(3) have ij: "i < n" "j < n" by auto
  let ?X = "unat (XResolution m)" and ?Y = "unat (YResolution m)"
  have le: "j * h + h \<le> ?X" "i * v + v \<le> ?Y" using cell_fits ij by (simp_all add: h_def v_def)
  with xres_bound [of m] have u: "unat (of_nat (j * h) :: u16) = j * h" "unat (of_nat (i * v) :: u16) = i * v"
    "unat (of_nat h :: u16) = h" "unat (of_nat v :: u16) = v"
    by (auto intro!: unat_of_nat16 simp del: of_nat_mult)
  have rect: "fst (draw a s) = 0" "wf_vram (snd (draw a s))" "vr_mode (snd (draw a s)) = m"
    "vram_pixel (snd (draw a s)) =
       paint_box (j * h) (i * v) h v (take (bytes_per_pixel m) (color_bytes (col i j))) (vram_pixel s)"
    using vram_rectangle_ok [OF Cons.prems(1), of "of_nat (j * h)" "of_nat h" "of_nat (i * v)" "of_nat v" "col i j"]
      le u Cons.prems(2) by (simp_all add: draw_def a del: of_nat_mult)
  from Cons.IH [OF rect(2,3)] Cons.prems(3) rect show ?case
    by (simp add: case_prod_beta) (simp add: a)
qed (simp add: assms)

text \<open>Boxes of a grid do not overlap: the last one to cover a pixel is the only one.\<close>

lemma fold_grid:
  fixes h v :: nat
  shows "fold (\<lambda>(i, j). paint_box (j * h) (i * v) h v (k i j)) cells f (p, q) =
     (if 0 < h \<and> 0 < v \<and> (q div v, p div h) \<in> set cells then k (q div v) (p div h) else f (p, q))"
proof (induction cells arbitrary: f)
  case (Cons a cells)
  obtain i j where a: "a = (i, j)" by fastforce
  have box: "in_box (j * h) (i * v) h v (p, q) \<longleftrightarrow> 0 < h \<and> 0 < v \<and> p div h = j \<and> q div v = i"
  proof (cases "0 < h \<and> 0 < v")
    case True
    then show ?thesis using grid_cell [of h j p] grid_cell [of v i q] by (auto simp: in_box_def)
  qed (auto simp: in_box_def)
  show ?case
    unfolding a fold_Cons comp_apply case_prod_conv Cons.IH unfolding paint_box_def box by auto
qed simp


subsection \<open>Properties\<close>



definition tiny_vram :: vram_st where
  "tiny_vram = \<lparr>vr_mode = tiny_mode, vr_size = 12, vr_mem = replicate 12 7, vr_fault = False\<rparr>"

lemma tiny_vram_wf: "wf_vram tiny_vram"
  by (simp add: wf_vram_def tiny_vram_def tiny_mode_def bytes_per_pixel_def)


end
