(* ===== verification/Lab_Video.thy ===== *)
theory Lab_Video
  imports Lab_Graphics Keyboard
begin

text \<open>
  \<open>lab5/lab5.c\<close>: the video tests of the fifth lab, over its graphics, the timer driver and the keyboard
  driver (both copied from the labs before). Every test sets a graphics mode, draws, waits for the
  release of escape and goes back to text mode; the last one moves a sprite with the timer.

  A result \<open>None\<close> means that the process is gone: by the panic of \<open>set_frame_buffer\<close>, or by the division
  by zero of the pattern. \<open>sleep\<close> and the loader of indexed sprites are parameters.

  The lemmas show how long the animation takes and where it ends, what it does with a speed that is not
  positive, and what a test that fails leaves behind.
\<close>

subsection \<open>State\<close>

record 'h video_st =
  vd_gfx :: vram_st
  vd_kb :: kb_st
  vd_timer :: timer_st
  vd_x :: u16
  vd_y :: u16
  vd_hw :: 'h

definition before_escape :: "'h video_st \<Rightarrow> bool" where
  "before_escape s \<longleftrightarrow> scancode (vd_kb s) \<noteq> KB_BREAK_ESC"

definition vd_read_key :: "'h kernel \<Rightarrow> 'h video_st \<Rightarrow> 'h video_st" where
  "vd_read_key K s = (case kbc_ih K (vd_kb s) (vd_hw s) of (k, h) \<Rightarrow> s\<lparr>vd_kb := k, vd_hw := h\<rparr>)"


subsection \<open>Entering and leaving\<close>

text \<open>\<open>if (set_frame_buffer(mode) != 0) return 1; if (set_graphical_mode(mode) != 0) return 1;\<close>\<close>

definition enter_mode :: "'h kernel \<Rightarrow> u16 \<Rightarrow> 'h video_st \<Rightarrow> (int \<times> 'h video_st) option" where
  "enter_mode K mode s =
     (case vram_set_frame_buffer K mode (vd_gfx s) (vd_hw s) of
        None \<Rightarrow> None
      | Some (r, g, h) \<Rightarrow>
          if r \<noteq> 0 then Some (1, s\<lparr>vd_gfx := g, vd_hw := h\<rparr>)
          else case set_graphical_mode K mode h of (r, h) \<Rightarrow>
            Some (if r \<noteq> 0 then 1 else 0, s\<lparr>vd_gfx := g, vd_hw := h\<rparr>))"

definition escape_handler :: "'h kernel \<Rightarrow> u8 \<Rightarrow> u32 \<Rightarrow> 'h video_st \<Rightarrow> 'h video_st ctl" where
  "escape_handler K irq_set irqs s =
     Continue (if irqs AND BIT (unat irq_set) \<noteq> 0 then vd_read_key K s else s)"

definition waiting_ESC :: "'h kernel \<Rightarrow> 'h video_st \<Rightarrow> recv list \<Rightarrow> 'h video_st outcome" where
  "waiting_ESC K s ms =
     (case kb_subscribe_int K Addr (vd_kb s) (vd_hw s) of (r, line, k, h) \<Rightarrow>
        let s1 = s\<lparr>vd_kb := k, vd_hw := h\<rparr> in
        if r \<noteq> 0 then Returned 1 s1 ms
        else (case irq_loop before_escape (escape_handler K (the line)) s1 ms of
                Waiting s2 \<Rightarrow> Waiting s2
              | Returned r s2 rest \<Rightarrow> Returned r s2 rest
              | Exited s2 rest \<Rightarrow>
                  (case kb_unsubscribe_int K (vd_kb s2) (vd_hw s2) of (r, h) \<Rightarrow>
                     Returned (if r \<noteq> 0 then 1 else 0) (s2\<lparr>vd_hw := h\<rparr>) rest)))"

text \<open>\<open>if (waiting_ESC() != 0) return 1; if (vg_exit() != 0) return 1; return 0;\<close>\<close>

definition wait_and_leave :: "'h kernel \<Rightarrow> 'h video_st \<Rightarrow> recv list \<Rightarrow> 'h video_st outcome" where
  "wait_and_leave K s ms =
     (case waiting_ESC K s ms of
        Waiting s1 \<Rightarrow> Waiting s1
      | Exited s1 rest \<Rightarrow> Exited s1 rest
      | Returned r s1 rest \<Rightarrow>
          if r \<noteq> 0 then Returned 1 s1 rest
          else case vg_exit K (vd_hw s1) of (r, h) \<Rightarrow>
            Returned (if r \<noteq> 0 then 1 else 0) (s1\<lparr>vd_hw := h\<rparr>) rest)"


subsection \<open>The tests\<close>

definition video_test_init ::
  "'h kernel \<Rightarrow> (u8 \<Rightarrow> 'h \<Rightarrow> 'h) \<Rightarrow> u16 \<Rightarrow> u8 \<Rightarrow> 'h \<Rightarrow> int \<times> 'h" where
  "video_test_init K sleep mode delay h =
     (case set_graphical_mode K mode h of (r, h) \<Rightarrow>
        if r \<noteq> 0 then (1, h)
        else case vg_exit K (sleep delay h) of (r, h) \<Rightarrow> (if r \<noteq> 0 then 1 else 0, h))"

text \<open>A test that draws one picture: \<open>draw\<close> is what it draws, \<open>None\<close> where the process dies.\<close>

definition show_picture ::
  "'h kernel \<Rightarrow> u16 \<Rightarrow> (vram_st \<Rightarrow> (int \<times> vram_st) option) \<Rightarrow> 'h video_st \<Rightarrow> recv list \<Rightarrow>
   'h video_st outcome option" where
  "show_picture K mode draw s ms =
     (case enter_mode K mode s of
        None \<Rightarrow> None
      | Some (r, s1) \<Rightarrow>
          if r \<noteq> 0 then Some (Returned 1 s1 ms)
          else case draw (vd_gfx s1) of
            None \<Rightarrow> None
          | Some (r, g) \<Rightarrow>
              if r \<noteq> 0 then Some (Returned 1 (s1\<lparr>vd_gfx := g\<rparr>) ms)
              else Some (wait_and_leave K (s1\<lparr>vd_gfx := g\<rparr>) ms))"

definition video_test_rectangle ::
  "'h kernel \<Rightarrow> u16 \<Rightarrow> u16 \<Rightarrow> u16 \<Rightarrow> u16 \<Rightarrow> u16 \<Rightarrow> u32 \<Rightarrow> 'h video_st \<Rightarrow> recv list \<Rightarrow>
   'h video_st outcome option" where
  "video_test_rectangle K mode x y width height color =
     show_picture K mode
       (\<lambda>g. Some (vram_draw_rectangle x y width height (norm_color (vr_mode g) color) g))"

definition video_test_pattern ::
  "'h kernel \<Rightarrow> u16 \<Rightarrow> u8 \<Rightarrow> u32 \<Rightarrow> u8 \<Rightarrow> 'h video_st \<Rightarrow> recv list \<Rightarrow> 'h video_st outcome option" where
  "video_test_pattern K mode no_rectangles first step =
     show_picture K mode (draw_pattern no_rectangles first step)"

definition INDEXED_MODE :: u16 where "INDEXED_MODE = 0x105"

definition video_test_xpm ::
  "'h kernel \<Rightarrow> (string list \<Rightarrow> indexed_image option) \<Rightarrow> string list \<Rightarrow> u16 \<Rightarrow> u16 \<Rightarrow>
   'h video_st \<Rightarrow> recv list \<Rightarrow> 'h video_st outcome option" where
  "video_test_xpm K load xpm x y =
     show_picture K INDEXED_MODE (\<lambda>g. Some (vram_print_xpm load xpm x y g))"


subsection \<open>The animation\<close>

text \<open>\<open>xi += speed; if (xi > xf) xi = xf;\<close> in 16-bit unsigned arithmetic.\<close>

definition advance :: "i16 \<Rightarrow> u16 \<Rightarrow> u16 \<Rightarrow> u16" where
  "advance speed final p = (let p1 = p + speed in if p1 > final then final else p1)"

definition move_sprite :: "bool \<Rightarrow> i16 \<Rightarrow> u16 \<Rightarrow> u16 \<Rightarrow> 'h video_st \<Rightarrow> 'h video_st" where
  "move_sprite horizontal speed xf yf s =
     (if horizontal then s\<lparr>vd_x := advance speed xf (vd_x s)\<rparr>
      else s\<lparr>vd_y := advance speed yf (vd_y s)\<rparr>)"

definition move_tick ::
  "(string list \<Rightarrow> indexed_image option) \<Rightarrow> string list \<Rightarrow> bool \<Rightarrow> i16 \<Rightarrow> u16 \<Rightarrow> u16 \<Rightarrow>
   'h video_st \<Rightarrow> 'h video_st ctl" where
  "move_tick load xpm horizontal speed xf yf s =
     (let s1 = move_sprite horizontal speed xf yf s in
      case vram_print_xpm load xpm (vd_x s1) (vd_y s1) (vd_gfx s1) of (r, g) \<Rightarrow>
        if r \<noteq> 0 then Return 1 (s1\<lparr>vd_gfx := g\<rparr>) else Continue (s1\<lparr>vd_gfx := g\<rparr>))"

definition move_handler ::
  "'h kernel \<Rightarrow> (string list \<Rightarrow> indexed_image option) \<Rightarrow> string list \<Rightarrow> bool \<Rightarrow> i16 \<Rightarrow> u16 \<Rightarrow> u16 \<Rightarrow>
   u8 \<Rightarrow> u8 \<Rightarrow> u32 \<Rightarrow> 'h video_st \<Rightarrow> 'h video_st ctl" where
  "move_handler K load xpm horizontal speed xf yf irq_keyboard irq_timer irqs s =
     (let s1 = (if irqs AND BIT (unat irq_keyboard) \<noteq> 0 then vd_read_key K s else s) in
      if irqs AND BIT (unat irq_timer) \<noteq> 0 then move_tick load xpm horizontal speed xf yf s1
      else Continue s1)"

definition moving :: "u16 \<Rightarrow> u16 \<Rightarrow> 'h video_st \<Rightarrow> bool" where
  "moving xf yf s \<longleftrightarrow> before_escape s \<and> (vd_x s < xf \<or> vd_y s < yf)"

text \<open>The end of \<open>video_test_move\<close>.\<close>

definition leave_move :: "'h kernel \<Rightarrow> 'h video_st \<Rightarrow> int \<times> 'h video_st" where
  "leave_move K s =
     (case vg_exit K (vd_hw s) of (r, h) \<Rightarrow>
        if r \<noteq> 0 then (1, s\<lparr>vd_hw := h\<rparr>)
        else case timer_unsubscribe_int K (vd_timer s) h of (r, h) \<Rightarrow>
          if r \<noteq> 0 then (1, s\<lparr>vd_hw := h\<rparr>)
          else case kb_unsubscribe_int K (vd_kb s) h of (r, h) \<Rightarrow>
            (if r \<noteq> 0 then 1 else 0, s\<lparr>vd_hw := h\<rparr>))"

text \<open>From the mode to the loop; the lines are those of keyboard and timer.\<close>

definition run_move ::
  "'h kernel \<Rightarrow> (string list \<Rightarrow> indexed_image option) \<Rightarrow> string list \<Rightarrow> bool \<Rightarrow> u16 \<Rightarrow> u16 \<Rightarrow> i16 \<Rightarrow> u8 \<Rightarrow>
   u8 \<Rightarrow> u8 \<Rightarrow> 'h video_st \<Rightarrow> recv list \<Rightarrow> 'h video_st outcome option" where
  "run_move K load xpm horizontal xf yf speed fr_rate irq_keyboard irq_timer s ms =
     (case enter_mode K INDEXED_MODE s of
        None \<Rightarrow> None
      | Some (r, s1) \<Rightarrow>
          if r \<noteq> 0 then Some (Returned 1 s1 ms)
          else case timer_set_frequency K 0 (ucast fr_rate) (vd_hw s1) of (r, h) \<Rightarrow>
            let s2 = s1\<lparr>vd_hw := h\<rparr> in
            if r \<noteq> 0 then Some (Returned 1 s2 ms)
            else case vram_print_xpm load xpm (vd_x s2) (vd_y s2) (vd_gfx s2) of (r, g) \<Rightarrow>
              let s3 = s2\<lparr>vd_gfx := g\<rparr> in
              if r \<noteq> 0 then Some (Returned 1 s3 ms)
              else Some
                (case irq_loop (moving xf yf)
                        (move_handler K load xpm horizontal speed xf yf irq_keyboard irq_timer) s3 ms of
                   Waiting s4 \<Rightarrow> Waiting s4
                 | Returned r s4 rest \<Rightarrow> Returned r s4 rest
                 | Exited s4 rest \<Rightarrow> (case leave_move K s4 of (r, s5) \<Rightarrow> Returned r s5 rest)))"

definition video_test_move ::
  "'h kernel \<Rightarrow> (string list \<Rightarrow> indexed_image option) \<Rightarrow> string list \<Rightarrow> u16 \<Rightarrow> u16 \<Rightarrow> u16 \<Rightarrow> u16 \<Rightarrow> i16 \<Rightarrow> u8 \<Rightarrow>
   'h video_st \<Rightarrow> recv list \<Rightarrow> 'h video_st outcome option" where
  "video_test_move K load xpm xi yi xf yf speed fr_rate s ms =
     (let s = s\<lparr>vd_x := xi, vd_y := yi\<rparr> in
      if (xi < xf \<and> yi = yf) \<or> (xi = xf \<and> yi < yf) then
        (case kb_subscribe_int K Addr (vd_kb s) (vd_hw s) of (r, kb_line, k, h) \<Rightarrow>
           let s1 = s\<lparr>vd_kb := k, vd_hw := h\<rparr> in
           if r \<noteq> 0 then Some (Returned 1 s1 ms)
           else case timer_subscribe_int K Addr (vd_timer s1) h of (r, timer_line, t, h) \<Rightarrow>
             let s2 = s1\<lparr>vd_timer := t, vd_hw := h\<rparr> in
             if r \<noteq> 0 then Some (Returned 1 s2 ms)
             else run_move K load xpm (xi < xf \<and> yi = yf) xf yf speed fr_rate (the kb_line) (the timer_line) s2 ms)
      else Some (Returned 1 s ms))"

subsection \<open>Steps of the animation\<close>

text \<open>How many steps of \<open>d\<close> cover a distance \<open>n\<close>.\<close>

definition steps_needed :: "nat \<Rightarrow> nat \<Rightarrow> nat" where
  "steps_needed d n = (n + d - 1) div d"

lemma steps_needed_pos: "0 < d \<Longrightarrow> 0 < steps_needed d n \<longleftrightarrow> 0 < n"
  by (cases n) (auto simp: steps_needed_def div_greater_zero_iff)

lemma steps_needed_step:
  assumes "0 < d" and "0 < n"
  shows "steps_needed d (n - d) = steps_needed d n - 1"
proof (cases "d \<le> n")
  case True
  then have "n + d - 1 = (n - d + d - 1) + d" using assms by simp
  then have "(n + d - 1) div d = ((n - d + d - 1) + d) div d" by (rule arg_cong)
  also have "\<dots> = (n - d + d - 1) div d + 1" using assms(1) by (intro div_add_self2) simp
  finally show ?thesis by (simp only: steps_needed_def add_diff_cancel_right')
next
  case False
  with assms have n: "n + d - 1 = (n - 1) + d" "n - 1 < d" "n - d + d - 1 < d" by simp_all
  have "((n - 1) + d) div d = (n - 1) div d + 1" using assms(1) by (intro div_add_self2) simp
  with n show ?thesis by (simp only: steps_needed_def div_less diff_self_eq_0 add_0 diff_add_inverse)
qed

lemma advance_forward:
  assumes "0 < sint speed" and "unat p \<le> unat final" and "unat final + unat speed < 2 ^ 16"
  shows "unat (advance speed final p) = min (unat p + unat speed) (unat final)"
proof -
  have "unat (p + speed) = unat p + unat speed"
    using assms(2,3) by (subst unat_add_lem [THEN iffD1]) simp_all
  then show ?thesis by (simp add: advance_def Let_def word_less_nat_alt)
qed

lemma sint_pos_unat: "0 < sint speed \<Longrightarrow> 0 < unat speed" for speed :: i16
  by (cases "speed = 0") (simp_all add: unat_gt_0)

text \<open>The coordinate that moves, and what stays true while it does.\<close>

definition gap :: "bool \<Rightarrow> u16 \<Rightarrow> u16 \<Rightarrow> 'h video_st \<Rightarrow> nat" where
  "gap horizontal xf yf s =
     (if horizontal then unat xf - unat (vd_x s) else unat yf - unat (vd_y s))"

definition anim_inv :: "indexed_image \<Rightarrow> bool \<Rightarrow> u16 \<Rightarrow> u16 \<Rightarrow> 'h video_st \<Rightarrow> bool" where
  "anim_inv img horizontal xf yf s \<longleftrightarrow> wf_vram (vd_gfx s) \<and> before_escape s \<and>
     unat (vd_x s) \<le> unat xf \<and> unat (vd_y s) \<le> unat yf \<and>
     (if horizontal then vd_y s = yf else vd_x s = xf) \<and>
     unat xf + unat (ix_width img) \<le> unat (XResolution (vr_mode (vd_gfx s))) \<and>
     unat yf + unat (ix_height img) \<le> unat (YResolution (vr_mode (vd_gfx s))) \<and>
     sprite_at img (vd_x s) (vd_y s) (vd_gfx s)"

lemma anim_frame:
  assumes "load xpm = Some img" and "indexed_ok img" and "anim_inv img horizontal xf yf s"
    and pos: "unat (vd_x t) \<le> unat xf" "unat (vd_y t) \<le> unat yf"
      "if horizontal then vd_y t = yf else vd_x t = xf"
    and same: "vd_gfx t = vd_gfx s" "before_escape t"
  obtains g where "vram_print_xpm load xpm (vd_x t) (vd_y t) (vd_gfx t) = (0, g)"
    and "anim_inv img horizontal xf yf (t\<lparr>vd_gfx := g\<rparr>)"
proof -
  have inv: "wf_vram (vd_gfx s)"
    "unat xf + unat (ix_width img) \<le> unat (XResolution (vr_mode (vd_gfx s)))"
    "unat yf + unat (ix_height img) \<le> unat (YResolution (vr_mode (vd_gfx s)))"
    using assms(3) by (auto simp: anim_inv_def)
  obtain r g where p: "vram_print_xpm load xpm (vd_x t) (vd_y t) (vd_gfx t) = (r, g)" by fastforce
  have fit: "unat (vd_x t) + unat (ix_width img) \<le> unat (XResolution (vr_mode (vd_gfx s)))"
    "unat (vd_y t) + unat (ix_height img) \<le> unat (YResolution (vr_mode (vd_gfx s)))"
    using pos inv(2,3) by linarith+
  from vram_sprite_ok [where load = load and xpm = xpm, OF assms(1,2) inv(1) fit] p
  have g: "r = 0" "wf_vram g" "vr_mode g = vr_mode (vd_gfx s)" "sprite_at img (vd_x t) (vd_y t) g"
    by (simp_all add: same)
  have "anim_inv img horizontal xf yf (t\<lparr>vd_gfx := g\<rparr>)"
    using g pos same(2) inv(2,3) by (simp add: anim_inv_def before_escape_def)
  with p g(1) show ?thesis using that by simp
qed

lemma anim_tick:
  assumes "load xpm = Some img" and "indexed_ok img" and "0 < sint speed"
    and "unat (if horizontal then xf else yf) + unat speed < 2 ^ 16"
    and "anim_inv img horizontal xf yf s"
  obtains s' where "move_tick load xpm horizontal speed xf yf s = Continue s'"
    and "anim_inv img horizontal xf yf s'" and "gap horizontal xf yf s' = gap horizontal xf yf s - unat speed"
proof -
  obtain t where t: "t = move_sprite horizontal speed xf yf s" by blast
  have inv: "before_escape s" "unat (vd_x s) \<le> unat xf" "unat (vd_y s) \<le> unat yf"
    "if horizontal then vd_y s = yf else vd_x s = xf"
    using assms(5) by (auto simp: anim_inv_def)
  have pos: "unat (vd_x t) \<le> unat xf" "unat (vd_y t) \<le> unat yf"
    "if horizontal then vd_y t = yf else vd_x t = xf"
    and gap: "gap horizontal xf yf t = gap horizontal xf yf s - unat speed"
    using inv assms(4) advance_forward [OF assms(3)] by (auto simp: t move_sprite_def gap_def)
  have same: "vd_gfx t = vd_gfx s" "before_escape t" using inv(1) by (simp_all add: t move_sprite_def before_escape_def)
  obtain g where g: "vram_print_xpm load xpm (vd_x t) (vd_y t) (vd_gfx t) = (0, g)"
    "anim_inv img horizontal xf yf (t\<lparr>vd_gfx := g\<rparr>)"
    by (rule anim_frame [where load = load and xpm = xpm, OF assms(1,2,5) pos same])
  have "move_tick load xpm horizontal speed xf yf s = Continue (t\<lparr>vd_gfx := g\<rparr>)"
    using g(1) by (simp add: move_tick_def Let_def t)
  moreover have "gap horizontal xf yf (t\<lparr>vd_gfx := g\<rparr>) = gap horizontal xf yf s - unat speed"
    using gap by (auto simp: gap_def split: if_splits)
  ultimately show ?thesis using that g(2) by blast
qed

text \<open>Without a speed every frame leaves the sprite where it is.\<close>

lemma animation_stands:
  assumes "load xpm = Some img" and "indexed_ok img" and "unat x < unat xf"
  shows "irq_countdown (moving xf yf) (move_handler K load xpm True 0 xf yf kb_line timer_line)
     (\<lambda>s. anim_inv img True xf yf s \<and> vd_x s = x) (\<lambda>irqs. \<not> bit irqs (unat kb_line)) (\<lambda>irqs. False) (\<lambda>s. 1)"
proof
  fix s :: "'a video_st" and irqs :: u32
  assume inv: "anim_inv img True xf yf s \<and> vd_x s = x"
  then show "moving xf yf s = (0 < (1 :: nat))"
    using assms(3) by (simp add: moving_def anim_inv_def word_less_nat_alt)
  assume quiet: "\<not> bit irqs (unat kb_line)"
  have t: "move_sprite True 0 xf yf s = s" using inv assms(3)
    by (simp add: move_sprite_def advance_def word_less_nat_alt)
  have pos: "unat (vd_x s) \<le> unat xf" "unat (vd_y s) \<le> unat yf" "if True then vd_y s = yf else vd_x s = xf"
    and kept: "vd_gfx s = vd_gfx s" "before_escape s" using inv by (auto simp: anim_inv_def)
  obtain g where g: "vram_print_xpm load xpm (vd_x s) (vd_y s) (vd_gfx s) = (0, g)"
    "anim_inv img True xf yf (s\<lparr>vd_gfx := g\<rparr>)"
    by (rule anim_frame [where load = load and xpm = xpm and s = s, OF assms(1,2) _ pos kept]) (use inv in simp)
  then have "move_tick load xpm True 0 xf yf s = Continue (s\<lparr>vd_gfx := g\<rparr>)"
    by (simp add: move_tick_def t)
  with quiet inv g(2)
  show "\<exists>s'. move_handler K load xpm True 0 xf yf kb_line timer_line irqs s = Continue s' \<and>
      (anim_inv img True xf yf s' \<and> vd_x s' = x) \<and> (1 :: nat) = 1 - (if False then 1 else 0)"
    by (cases "bit irqs (unat timer_line)") (simp_all add: move_handler_def Let_def)
qed

lemma advance_backward:
  assumes "sint speed < 0" and "uint p < uint final" and "uint final < 2 ^ 15"
  shows "uint (advance speed final p) = (if - sint speed \<le> uint p then uint p + sint speed else uint final)"
proof -
  have b: "- 32768 \<le> sint speed" using sint_ge [of speed] by simp
  have e: "(2 :: int) ^ 16 = 65536" by simp
  have p: "0 \<le> uint p" by simp
  have "p + speed = word_of_int (uint p + sint speed)" by simp
  then have "uint (p + speed) = (uint p + sint speed) mod 2 ^ LENGTH(16)" by (simp only: uint_word_of_int)
  then have "uint (p + speed) = (uint p + sint speed) mod 2 ^ 16" by simp
  moreover have "(uint p + sint speed) mod 2 ^ 16 =
      (if - sint speed \<le> uint p then uint p + sint speed else uint p + sint speed + 2 ^ 16)"
  proof (cases "- sint speed \<le> uint p")
    case True
    with assms p show ?thesis by simp
  next
    case False
    have "(uint p + sint speed) mod 2 ^ 16 = (uint p + sint speed + 2 ^ 16) mod 2 ^ 16" by simp
    also have "\<dots> = uint p + sint speed + 2 ^ 16"
    proof (rule mod_pos_pos_trivial)
      show "0 \<le> uint p + sint speed + 2 ^ 16" unfolding e using b p by linarith
      show "uint p + sint speed + 2 ^ 16 < 2 ^ 16" using False by linarith
    qed
    finally show ?thesis using False by simp
  qed
  ultimately have u: "uint (p + speed) =
      (if - sint speed \<le> uint p then uint p + sint speed else uint p + sint speed + 2 ^ 16)" by simp
  have "uint final < 32768" using assms(3) by simp
  with b p have "uint final < uint p + sint speed + 65536" by linarith
  with assms b show ?thesis by (simp add: advance_def Let_def word_less_def u)
qed

lemma animation_countdown:
  assumes "load xpm = Some img" and "indexed_ok img" and "0 < sint speed"
    and "unat (if horizontal then xf else yf) + unat speed < 2 ^ 16"
  shows "irq_countdown (moving xf yf)
     (move_handler K load xpm horizontal speed xf yf kb_line timer_line)
     (anim_inv img horizontal xf yf) (\<lambda>irqs. \<not> bit irqs (unat kb_line)) (\<lambda>irqs. bit irqs (unat timer_line))
     (\<lambda>s. steps_needed (unat speed) (gap horizontal xf yf s))"
proof
  fix s :: "'a video_st" and irqs :: u32
  assume inv: "anim_inv img horizontal xf yf s"
  have d: "0 < unat speed" by (rule sint_pos_unat [OF assms(3)])
  show g: "moving xf yf s = (0 < steps_needed (unat speed) (gap horizontal xf yf s))"
    using inv by (auto simp: steps_needed_pos [OF d] anim_inv_def moving_def gap_def word_less_nat_alt)
  assume "moving xf yf s" and quiet: "\<not> bit irqs (unat kb_line)"
  with g have pos: "0 < gap horizontal xf yf s" by (simp add: steps_needed_pos [OF d])
  show "\<exists>s'. move_handler K load xpm horizontal speed xf yf kb_line timer_line irqs s = Continue s' \<and>
      anim_inv img horizontal xf yf s' \<and>
      steps_needed (unat speed) (gap horizontal xf yf s') =
        steps_needed (unat speed) (gap horizontal xf yf s) - (if bit irqs (unat timer_line) then 1 else 0)"
  proof (cases "bit irqs (unat timer_line)")
    case True
    obtain s' where "move_tick load xpm horizontal speed xf yf s = Continue s'"
      "anim_inv img horizontal xf yf s'" "gap horizontal xf yf s' = gap horizontal xf yf s - unat speed"
      by (rule anim_tick [where load = load and xpm = xpm, OF assms inv])
    with True quiet steps_needed_step [OF d pos] show ?thesis by (simp add: move_handler_def Let_def)
  next
    case False
    with inv quiet show ?thesis by (simp add: move_handler_def Let_def)
  qed
qed

lemma leave_move_same:
  "vd_x (snd (leave_move K s)) = vd_x s" "vd_y (snd (leave_move K s)) = vd_y s"
  "vd_gfx (snd (leave_move K s)) = vd_gfx s"
  by (simp_all add: leave_move_def split: prod.splits)


subsection \<open>Properties\<close>

lemma arrived:
  fixes speed :: i16
  assumes "0 < sint speed" and "anim_inv img horizontal xf yf t"
    and "steps_needed (unat speed) (gap horizontal xf yf t) = 0"
  shows "vd_x t = xf" and "vd_y t = yf"
proof -
  have "gap horizontal xf yf t = 0"
    using assms(3) steps_needed_pos [OF sint_pos_unat [OF assms(1)]] by (metis neq0_conv)
  with assms(2) show "vd_x t = xf" "vd_y t = yf"
    by (auto simp: anim_inv_def gap_def word_unat_eq_iff split: if_splits)
qed

text \<open>C32. The animation with a positive speed. The sprite reaches its final place, and is on the screen there
  with all its pixels, with exactly as many interrupts of the timer as steps of \<open>speed\<close> cover the
  distance, the last one shortened; with fewer the test is still waiting; nothing is drawn outside the
  video memory. It needs a sprite that lies on the screen at its final place, and a final coordinate
  to which \<open>speed\<close> can be added in 16 bits.\<close>

theorem animation_reaches_target:
  fixes ms :: "recv list"
  assumes "enter_mode K INDEXED_MODE s = Some (0, s1)" and "wf_vram (vd_gfx s1)"
    and "timer_set_frequency K 0 (ucast fr_rate) (vd_hw s1) = (0, h)"
    and sprite: "load xpm = Some img" "indexed_ok img"
      "unat xf + unat (ix_width img) \<le> unat (XResolution (vr_mode (vd_gfx s1)))"
      "unat yf + unat (ix_height img) \<le> unat (YResolution (vr_mode (vd_gfx s1)))"
    and start: "before_escape s1" "unat (vd_x s1) \<le> unat xf" "unat (vd_y s1) \<le> unat yf"
      "if horizontal then vd_y s1 = yf else vd_x s1 = xf"
    and speed: "0 < sint speed" "unat (if horizontal then xf else yf) + unat speed < 2 ^ 16"
    and "\<forall>m \<in> set ms. irq_notification m \<longrightarrow> \<not> bit (interrupts m) (unat kb_line)"
  shows "case run_move K load xpm horizontal xf yf speed fr_rate kb_line timer_line s ms of
     Some (Waiting s') \<Rightarrow>
       ticks (\<lambda>irqs. bit irqs (unat timer_line)) ms < steps_needed (unat speed) (gap horizontal xf yf s1) \<and>
       wf_vram (vd_gfx s')
   | Some (Returned r s' rest) \<Rightarrow>
       ticks (\<lambda>irqs. bit irqs (unat timer_line)) ms =
         steps_needed (unat speed) (gap horizontal xf yf s1) + ticks (\<lambda>irqs. bit irqs (unat timer_line)) rest \<and>
       vd_x s' = xf \<and> vd_y s' = yf \<and> sprite_at img xf yf (vd_gfx s') \<and> wf_vram (vd_gfx s')
   | _ \<Rightarrow> False"
proof -
  obtain r g where p: "vram_print_xpm load xpm (vd_x s1) (vd_y s1) (vd_gfx s1) = (r, g)" by fastforce
  have fit: "unat (vd_x s1) + unat (ix_width img) \<le> unat (XResolution (vr_mode (vd_gfx s1)))"
    "unat (vd_y s1) + unat (ix_height img) \<le> unat (YResolution (vr_mode (vd_gfx s1)))"
    using start sprite by linarith+
  from vram_sprite_ok [where load = load and xpm = xpm, OF sprite(1,2) assms(2) fit] p
  have g: "r = 0" "wf_vram g" "vr_mode g = vr_mode (vd_gfx s1)" "sprite_at img (vd_x s1) (vd_y s1) g" by simp_all
  let ?s = "s1\<lparr>vd_hw := h, vd_gfx := g\<rparr>"
  let ?loop = "irq_loop (moving xf yf) (move_handler K load xpm horizontal speed xf yf kb_line timer_line) ?s ms"
  let ?tick = "\<lambda>irqs :: u32. bit irqs (unat timer_line)"
  have inv: "anim_inv img horizontal xf yf ?s"
    using g start sprite(3,4) by (simp add: anim_inv_def before_escape_def)
  have gap: "gap horizontal xf yf ?s = gap horizontal xf yf s1" by (simp add: gap_def)
  have run: "run_move K load xpm horizontal xf yf speed fr_rate kb_line timer_line s ms = Some
      (case ?loop of Waiting s4 \<Rightarrow> Waiting s4 | Returned r s4 rest \<Rightarrow> Returned r s4 rest
       | Exited s4 rest \<Rightarrow> (case leave_move K s4 of (r, s5) \<Rightarrow> Returned r s5 rest))"
    using assms(1,3) p g(1) by (simp add: run_move_def Let_def)
  note loop = irq_countdown.loop_countdown
    [OF animation_countdown [where load = load and xpm = xpm and K = K and kb_line = kb_line
        and timer_line = timer_line, OF sprite(1,2) speed] inv assms(14), unfolded gap]
  show ?thesis
  proof (cases ?loop)
    case (Waiting t)
    with loop run show ?thesis by (auto simp: anim_inv_def)
  next
    case (Returned r' t rest)
    with loop show ?thesis by simp
  next
    case (Exited t rest)
    with loop have t: "anim_inv img horizontal xf yf t" "steps_needed (unat speed) (gap horizontal xf yf t) = 0"
      "ticks ?tick ms = steps_needed (unat speed) (gap horizontal xf yf s1) + ticks ?tick rest" by simp_all
    note arrived [OF speed(1) t(1,2)]
    moreover obtain r' where "run_move K load xpm horizontal xf yf speed fr_rate kb_line timer_line s ms =
        Some (Returned r' (snd (leave_move K t)) rest)"
      using run Exited by (cases "leave_move K t") simp
    ultimately show ?thesis using t by (simp add: leave_move_same anim_inv_def)
  qed
qed

definition tiny_kernel :: "port_log kernel" where
  "tiny_kernel = log_kernel (\<lambda>p l. 0) tiny_mode (\<lambda>xpm. None)"

definition video_init_st :: "port_log video_st" where
  "video_init_st = \<lparr>vd_gfx = \<lparr>vr_mode = zero_mode_info, vr_size = 0, vr_mem = [], vr_fault = False\<rparr>,
     vd_kb = kb_init_st, vd_timer = timer_init_st, vd_x = 0, vd_y = 0, vd_hw = []\<rparr>"

definition dot :: indexed_image where
  "dot = \<lparr>ix_width = 1, ix_height = 1, ix_colors = [5]\<rparr>"

lemma tiny_enter:
  obtains g where "enter_mode tiny_kernel INDEXED_MODE s = Some (0, s\<lparr>vd_gfx := g\<rparr>)"
    and "vr_mode g = tiny_mode" and "\<not> vr_fault (vd_gfx s) \<Longrightarrow> wf_vram g"
proof -
  let ?g = "(vd_gfx s)\<lparr>vr_mode := tiny_mode, vr_size := 12, vr_mem := replicate 12 0\<rparr>"
  have "enter_mode tiny_kernel INDEXED_MODE s = Some (0, s\<lparr>vd_gfx := ?g\<rparr>)"
    by (simp add: enter_mode_def vram_set_frame_buffer_def set_graphical_mode_def tiny_kernel_def log_kernel_def
        tiny_mode_def bytes_per_pixel_def Let_def)
  then show ?thesis
    by (rule that) (simp_all add: wf_vram_def tiny_mode_def bytes_per_pixel_def)
qed

lemma animation_reaches_target_witness:
  "\<exists>r s' rest. run_move tiny_kernel (\<lambda>xpm. Some dot) [] True 3 0 2 60 1 0 video_init_st [hw_msg 1, hw_msg 1] =
     Some (Returned r s' rest) \<and> vd_x s' = 3"
proof -
  obtain g where g: "enter_mode tiny_kernel INDEXED_MODE video_init_st = Some (0, video_init_st\<lparr>vd_gfx := g\<rparr>)"
    "vr_mode g = tiny_mode" "wf_vram g"
    using tiny_enter [of video_init_st] by (auto simp: video_init_st_def)
  let ?s1 = "video_init_st\<lparr>vd_gfx := g\<rparr>"
  obtain h where h: "timer_set_frequency tiny_kernel 0 (ucast (60 :: u8)) (vd_hw ?s1) = (0, h)"
    by (simp add: timer_set_frequency_def timer_get_conf_def timer_select_def timer_write_divisor_def util_sys_inb_def
        util_get_LSB_def util_get_MSB_def tiny_kernel_def log_kernel_def timer_consts Let_def)
  have wf: "wf_vram (vd_gfx ?s1)" using g(3) by simp
  have dot: "(\<lambda>xpm. Some dot) ([] :: string list) = Some dot" "indexed_ok dot"
    "unat (3 :: u16) + unat (ix_width dot) \<le> unat (XResolution (vr_mode (vd_gfx ?s1)))"
    "unat (0 :: u16) + unat (ix_height dot) \<le> unat (YResolution (vr_mode (vd_gfx ?s1)))"
    using g(2) by (simp_all add: indexed_ok_def dot_def tiny_mode_def)
  have start: "before_escape ?s1" "unat (vd_x ?s1) \<le> unat (3 :: u16)" "unat (vd_y ?s1) \<le> unat (0 :: u16)"
    "if True then vd_y ?s1 = 0 else vd_x ?s1 = 3"
    by (simp_all add: before_escape_def video_init_st_def kb_init_st_def key_codes)
  have speed: "0 < sint (2 :: i16)" "unat (if True then 3 else 0 :: u16) + unat (2 :: i16) < 2 ^ 16" by simp_all
  have quiet: "\<forall>m \<in> set [hw_msg 1, hw_msg 1]. irq_notification m \<longrightarrow> \<not> bit (interrupts m) (unat (1 :: u8))"
    by simp
  have ticks: "ticks (\<lambda>irqs. bit irqs (unat (0 :: u8))) [hw_msg 1, hw_msg 1] = 2" by (simp add: ticks_def)
  have need: "steps_needed (unat (2 :: i16)) (gap True 3 0 ?s1) = 2"
    by (simp add: steps_needed_def gap_def video_init_st_def)
  note run = animation_reaches_target [where load = "\<lambda>xpm. Some dot" and xpm = "[]",
      OF g(1) wf h dot start speed quiet, of 0, unfolded ticks need]
  then show ?thesis by (auto split: option.splits outcome.splits)
qed



text \<open>C34. What the rectangle test does once the mode is set. A rectangle on the screen is painted with the
  normalised color, the other pixels stay, and the test waits for escape. One that does not fit makes
  the test return 1 at once, with no call after the one that set the mode: the machine stays in
  graphics mode, and nothing outside the video memory was written.\<close>

theorem rectangle_test_result:
  assumes "enter_mode K mode s = Some (0, s1)" and "wf_vram (vd_gfx s1)"
  shows "if w = 0 \<or> h = 0 \<or> unat x + unat w \<le> unat (XResolution (vr_mode (vd_gfx s1))) \<and>
              unat y + unat h \<le> unat (YResolution (vr_mode (vd_gfx s1)))
    then \<exists>g. video_test_rectangle K mode x y w h color s ms = Some (wait_and_leave K (s1\<lparr>vd_gfx := g\<rparr>) ms) \<and>
      wf_vram g \<and>
      vram_pixel g = paint_box (unat x) (unat y) (unat w) (unat h)
        (take (bytes_per_pixel (vr_mode (vd_gfx s1))) (color_bytes (norm_color (vr_mode (vd_gfx s1)) color)))
        (vram_pixel (vd_gfx s1))
    else \<exists>g. video_test_rectangle K mode x y w h color s ms = Some (Returned 1 (s1\<lparr>vd_gfx := g\<rparr>) ms) \<and>
      wf_vram g"
proof -
  let ?s = "vd_gfx s1"
  let ?c = "norm_color (vr_mode ?s) color"
  obtain r g where d: "vram_draw_rectangle x y w h ?c ?s = (r, g)" by fastforce
  note res = vram_rectangle_result [OF assms(2), of x y w h ?c, unfolded d]
  have run: "video_test_rectangle K mode x y w h color s ms =
      (if r \<noteq> 0 then Some (Returned 1 (s1\<lparr>vd_gfx := g\<rparr>) ms) else Some (wait_and_leave K (s1\<lparr>vd_gfx := g\<rparr>) ms))"
    using assms(1) d by (simp add: video_test_rectangle_def show_picture_def)
  consider (empty) "w = 0 \<or> h = 0"
    | (fits) "w \<noteq> 0" "h \<noteq> 0" "unat x + unat w \<le> unat (XResolution (vr_mode ?s))"
        "unat y + unat h \<le> unat (YResolution (vr_mode ?s))"
    | (not_fits) "w \<noteq> 0" "h \<noteq> 0" "\<not> (unat x + unat w \<le> unat (XResolution (vr_mode ?s)) \<and>
        unat y + unat h \<le> unat (YResolution (vr_mode ?s)))" by blast
  then show ?thesis
  proof cases
    case empty
    have none: "for_fail (\<lambda>i. for_fail (q i) []) is s = (0, s)"
      for "is" :: "nat list" and s :: vram_st and q :: "nat \<Rightarrow> nat \<Rightarrow> vram_st \<Rightarrow> int \<times> vram_st"
      by (induction "is") simp_all
    have "g = ?s"
      using empty d by (auto simp: vram_draw_rectangle_def vram_draw_hline_def none)
    moreover have "r = 0" using res(1) empty by (auto simp: fits_rect_def)
    moreover have "paint_box (unat x) (unat y) (unat w) (unat h) k f = f"
      for k :: "u8 list" and f :: "nat \<times> nat \<Rightarrow> u8 list"
      using empty by (auto simp: fun_eq_iff paint_box_def in_box_def)
    moreover have "w = 0 \<or> h = 0 \<or> P" for P using empty by blast
    ultimately show ?thesis
      using run res(2) by (simp only: if_P if_not_P refl simp_thms snd_conv) (intro exI [of _ ?s], simp)
  next
    case fits
    with vram_rectangle_ok [OF assms(2) fits(3,4), of ?c] d run show ?thesis by auto
  next
    case not_fits
    then have "r \<noteq> 0" using res(1) by (simp add: fits_rect_def unat_eq_0)
    with not_fits run res(2) show ?thesis by auto
  qed
qed

lemma rectangle_test_result_witness:
  "\<exists>s'. video_test_rectangle tiny_kernel INDEXED_MODE 3 0 2 1 0 video_init_st [hw_msg 2] =
     Some (Returned 1 s' [hw_msg 2]) \<and> vd_hw s' = []"
proof -
  obtain g where g: "enter_mode tiny_kernel INDEXED_MODE video_init_st = Some (0, video_init_st\<lparr>vd_gfx := g\<rparr>)"
    "vr_mode g = tiny_mode" "wf_vram g"
    using tiny_enter [of video_init_st] by (auto simp: video_init_st_def)
  then have "wf_vram (vd_gfx (video_init_st\<lparr>vd_gfx := g\<rparr>))" by simp
  from rectangle_test_result [OF g(1) this, of 2 1 3 0 0 "[hw_msg 2]"] g(2) show ?thesis
    by (auto simp: tiny_mode_def video_init_st_def)
qed

end
